(* ===== verification/Prelude.thy ===== *)
theory Prelude
  imports Main "HOL-Library.Word" "HOL-Library.Char_ord" "HOL-Library.List_Lexorder"
begin

text \<open>
  What every component shares: the machine types, the results of fallible Go functions, the
  sequencing of such functions, and the keyed slices.

  A keyed slice is the idiom of \<open>apis/network/v1alpha1/device.go\<close>: a Go slice of pointers to
  structs that is searched linearly for a key, extended at its end with a fresh struct when the key is
  missing, and then put in order again by \<open>sort.SliceStable\<close>. The function returns the pointer,
  and the caller writes through it. The model passes that write as a function, so a chain
  \<open>d.GetOrCreateA(k).GetOrCreateB().F = v\<close> becomes
  \<open>GetOrCreateA k (GetOrCreateB (\<lambda>b. b\<lparr>F := v\<rparr>)) d\<close>.
  The locale \<open>keyed_slice\<close> states what such a slice needs of its key, its sort key and its fresh
  element, and shows that it then implements a finite map.
\<close>

section \<open>Machine types and results\<close>

type_synonym uint32 = "32 word"

text \<open>
  A Go call that can fail either returns a non-nil \<open>error\<close>, which the caller may inspect, or
  panics, which unwinds through every caller of this program (nothing here recovers).
\<close>

datatype failure = Err string | Panic string

type_synonym 'a res = "failure + 'a"

definition nilDereference :: failure where
  "nilDereference = Panic ''invalid memory address or nil pointer dereference''"

definition bindR :: "'a res \<Rightarrow> ('a \<Rightarrow> 'b res) \<Rightarrow> 'b res" where
  "bindR m f = (case m of Inl e \<Rightarrow> Inl e | Inr x \<Rightarrow> f x)"

lemma bindR_simps [simp]:
  "bindR (Inl e) f = Inl e"
  "bindR (Inr x) f = f x"
  by (simp_all add: bindR_def)

lemma bindR_Inr_iff: "bindR m f = Inr y \<longleftrightarrow> (\<exists>x. m = Inr x \<and> f x = Inr y)"
  by (cases m) simp_all

lemma bindR_Inl_iff: "bindR m f = Inl e \<longleftrightarrow> m = Inl e \<or> (\<exists>x. m = Inr x \<and> f x = Inl e)"
  by (cases m) auto

lemma bindR_cong [fundef_cong]:
  "m = m' \<Longrightarrow> (\<And>x. m' = Inr x \<Longrightarrow> f x = g x) \<Longrightarrow> bindR m f = bindR m' g"
  by (cases m') auto

text \<open>A \<open>for range\<close> loop over a slice whose body can return early with an error.\<close>

fun forE :: "'x list \<Rightarrow> ('x \<Rightarrow> 's \<Rightarrow> 's res) \<Rightarrow> 's \<Rightarrow> 's res" where
  "forE [] body s = Inr s"
| "forE (x # xs) body s = bindR (body x s) (forE xs body)"

lemma forE_append: "forE (xs @ ys) body s = bindR (forE xs body s) (forE ys body)"
proof (induction xs arbitrary: s)
  case Nil
  then show ?case by simp
next
  case (Cons x xs)
  then show ?case by (cases "body x s") simp_all
qed

lemma forE_invariant:
  assumes "forE xs body s = Inr s'"
    and "I s"
    and "\<And>x s s'. x \<in> set xs \<Longrightarrow> I s \<Longrightarrow> body x s = Inr s' \<Longrightarrow> I s'"
  shows "I s'"
  using assms
proof (induction xs arbitrary: s)
  case Nil
  then show ?case by simp
next
  case (Cons x xs)
  from Cons.prems(1) obtain t where "body x s = Inr t" and t: "forE xs body t = Inr s'"
    by (auto simp: bindR_Inr_iff)
  with Cons.prems(2,3) have "I t" by (meson list.set_intros(1))
  with t show ?case by (rule Cons.IH) (meson Cons.prems(3) list.set_intros(2))
qed

text \<open>An invariant that grows along the list: what the body establishes for an element is kept.\<close>

lemma forE_establishes:
  assumes "forE xs body s = Inr s'"
    and "\<And>x s s'. x \<in> set xs \<Longrightarrow> body x s = Inr s' \<Longrightarrow> Q x s'"
    and "\<And>x y s s'. y \<in> set xs \<Longrightarrow> Q x s \<Longrightarrow> body y s = Inr s' \<Longrightarrow> Q x s'"
  shows "\<forall>x \<in> set xs. Q x s'"
  using assms
proof (induction xs arbitrary: s)
  case Nil
  then show ?case by simp
next
  case (Cons x xs)
  from Cons.prems(1) obtain t where xt: "body x s = Inr t" and t: "forE xs body t = Inr s'"
    by (auto simp: bindR_Inr_iff)
  have "Q x s'"
  proof (rule forE_invariant [OF t, of "Q x"])
    show "Q x t" using Cons.prems(2) xt by (meson list.set_intros(1))
  qed (meson Cons.prems(3) list.set_intros(2))
  moreover have "\<forall>y \<in> set xs. Q y s'"
    by (rule Cons.IH [OF t]) (meson Cons.prems(2,3) list.set_intros(2))+
  ultimately show ?case by simp
qed

section \<open>Keyed slices\<close>

fun updFirst :: "('a \<Rightarrow> bool) \<Rightarrow> ('a \<Rightarrow> 'a) \<Rightarrow> 'a list \<Rightarrow> 'a list" where
  "updFirst P f [] = []"
| "updFirst P f (x # xs) = (if P x then f x # xs else x # updFirst P f xs)"

definition lookupBy :: "('a \<Rightarrow> 'k) \<Rightarrow> 'a list \<Rightarrow> 'k \<Rightarrow> 'a option" where
  "lookupBy key xs k = find (\<lambda>x. key x = k) xs"

text \<open>
  Search for the key; if it is missing, append the fresh element and sort stably; then write through
  the pointer to the element that was found or created.
\<close>

definition getOrCreate ::
  "('a \<Rightarrow> 'k) \<Rightarrow> ('a \<Rightarrow> 's::linorder) \<Rightarrow> ('k \<Rightarrow> 'a) \<Rightarrow> 'k \<Rightarrow> ('a \<Rightarrow> 'a) \<Rightarrow> 'a list \<Rightarrow> 'a list" where
  "getOrCreate key srt mk k f xs =
     updFirst (\<lambda>x. key x = k) f
       (if find (\<lambda>x. key x = k) xs = None then sort_key srt (xs @ [mk k]) else xs)"

lemma getOrCreate_write_cong:
  assumes "\<And>x. key x = k \<Longrightarrow> f x = g x"
  shows "getOrCreate key srt mk k f xs = getOrCreate key srt mk k g xs"
proof -
  have "updFirst (\<lambda>x. key x = k) f ys = updFirst (\<lambda>x. key x = k) g ys" for ys
    using assms by (induction ys) auto
  then show ?thesis by (simp only: getOrCreate_def)
qed

definition slice_wf :: "('a \<Rightarrow> 's::linorder) \<Rightarrow> 'a list \<Rightarrow> bool" where
  "slice_wf srt xs \<longleftrightarrow> sorted_wrt (<) (map srt xs)"

lemma slice_wf_Nil [simp]: "slice_wf srt []"
  by (simp add: slice_wf_def)

text \<open>The slice and every element of it are well formed.\<close>

definition slice_all :: "('a \<Rightarrow> 's::linorder) \<Rightarrow> ('a \<Rightarrow> bool) \<Rightarrow> 'a list \<Rightarrow> bool" where
  "slice_all srt P xs \<longleftrightarrow> slice_wf srt xs \<and> (\<forall>x \<in> set xs. P x)"

lemma slice_all_Nil [simp]: "slice_all srt P []"
  by (simp add: slice_all_def)

lemma find_eq_hd_filter:
  "find P xs = (case filter P xs of [] \<Rightarrow> None | x # _ \<Rightarrow> Some x)"
  by (induction xs) auto

lemma find_None_iff': "find P xs = None \<longleftrightarrow> (\<forall>x \<in> set xs. \<not> P x)"
  by (auto simp: find_None_iff)

lemma find_updFirst_same:
  assumes "\<And>x. P x \<Longrightarrow> P (f x)"
  shows "find P (updFirst P f xs) = map_option f (find P xs)"
  using assms by (induction xs) auto

lemma find_updFirst_other:
  assumes "\<And>x. P x \<Longrightarrow> \<not> Q x" and "\<And>x. P x \<Longrightarrow> \<not> Q (f x)"
  shows "find Q (updFirst P f xs) = find Q xs"
  using assms by (induction xs) auto

lemma set_updFirst: "set (updFirst P f xs) \<subseteq> set xs \<union> f ` {x \<in> set xs. P x}"
  by (induction xs) auto

lemma map_updFirst:
  assumes "\<And>x. P x \<Longrightarrow> g (f x) = g x"
  shows "map g (updFirst P f xs) = map g xs"
  using assms by (induction xs) auto

lemma length_updFirst [simp]: "length (updFirst P f xs) = length xs"
  by (induction xs) auto

lemma updFirst_fuse:
  assumes "\<And>x. P x \<Longrightarrow> P (f x)"
  shows "updFirst P g (updFirst P f xs) = updFirst P (g \<circ> f) xs"
  using assms by (induction xs) auto

lemma updFirst_ident:
  assumes "\<And>x. x \<in> set xs \<Longrightarrow> P x \<Longrightarrow> f x = x"
  shows "updFirst P f xs = xs"
  using assms by (induction xs) auto

text \<open>
  The interface of a keyed slice. \<open>srt_key\<close> says that two elements have the same position in
  the order only if they have the same key: without it two keys could share a position and the slice
  would not determine the map.
\<close>

locale keyed_slice =
  fixes key :: "'a \<Rightarrow> 'k"
    and srt :: "'a \<Rightarrow> 's::linorder"
    and mk :: "'k \<Rightarrow> 'a"
  assumes key_mk: "key (mk k) = k"
    and srt_key: "srt x = srt y \<longleftrightarrow> key x = key y"
begin

lemma find_sort_key: "find (\<lambda>x. key x = k) (sort_key srt xs) = find (\<lambda>x. key x = k) xs"
proof -
  have "filter (\<lambda>x. srt x = srt (mk k)) (sort_key srt xs) = filter (\<lambda>x. srt x = srt (mk k)) xs"
    by (rule sort_key_stable)
  then have "filter (\<lambda>x. key x = k) (sort_key srt xs) = filter (\<lambda>x. key x = k) xs"
    by (simp only: srt_key key_mk)
  then show ?thesis by (simp only: find_eq_hd_filter)
qed

lemma find_append_mk:
  "find (\<lambda>x. key x = k') (xs @ [mk k]) =
     (case find (\<lambda>x. key x = k') xs of Some x \<Rightarrow> Some x | None \<Rightarrow> if k' = k then Some (mk k) else None)"
  by (induction xs) (auto simp: key_mk)

text \<open>The refinement: the slice behaves as the map from keys to elements.\<close>

lemma lookup_getOrCreate:
  assumes "\<And>x. key (f x) = key x"
  shows "lookupBy key (getOrCreate key srt mk k f xs) =
    (lookupBy key xs)(k \<mapsto> f (case lookupBy key xs k of Some x \<Rightarrow> x | None \<Rightarrow> mk k))"
proof
  fix k'
  let ?ys = "if find (\<lambda>x. key x = k) xs = None then sort_key srt (xs @ [mk k]) else xs"
  have ys: "find (\<lambda>x. key x = k') ?ys =
      (case find (\<lambda>x. key x = k') xs of Some x \<Rightarrow> Some x | None \<Rightarrow> if k' = k then Some (mk k) else None)"
    for k' by (auto simp: find_sort_key find_append_mk simp del: sort_key_simps split: option.splits)
  show "lookupBy key (getOrCreate key srt mk k f xs) k' =
    ((lookupBy key xs)(k \<mapsto> f (case lookupBy key xs k of Some x \<Rightarrow> x | None \<Rightarrow> mk k))) k'"
  proof (cases "k' = k")
    case True
    have "find (\<lambda>x. key x = k) (updFirst (\<lambda>x. key x = k) f ?ys) = map_option f (find (\<lambda>x. key x = k) ?ys)"
      by (rule find_updFirst_same) (simp add: assms)
    then show ?thesis
      unfolding True lookupBy_def getOrCreate_def ys by (simp split: option.splits)
  next
    case False
    then have "find (\<lambda>x. key x = k') (updFirst (\<lambda>x. key x = k) f ?ys) = find (\<lambda>x. key x = k') ?ys"
      by (intro find_updFirst_other) (auto simp: assms)
    with False show ?thesis
      unfolding lookupBy_def getOrCreate_def ys by (simp split: option.splits)
  qed
qed

lemma lookup_same:
  assumes "\<And>x. key (f x) = key x"
  shows "lookupBy key (getOrCreate key srt mk k f xs) k =
    Some (f (case lookupBy key xs k of Some x \<Rightarrow> x | None \<Rightarrow> mk k))"
  by (simp add: lookup_getOrCreate [OF assms])

lemma lookup_other:
  assumes "\<And>x. key (f x) = key x" and "k' \<noteq> k"
  shows "lookupBy key (getOrCreate key srt mk k f xs) k' = lookupBy key xs k'"
  using assms(2) by (simp add: lookup_getOrCreate [OF assms(1)])

text \<open>Every call keeps the slice in strict order, so without duplicate keys.\<close>

lemma wf_getOrCreate:
  assumes wf: "slice_wf srt xs" and f: "\<And>x. key (f x) = key x"
  shows "slice_wf srt (getOrCreate key srt mk k f xs)"
proof -
  have srt_f: "srt (f x) = srt x" for x by (simp add: srt_key f)
  have "sorted_wrt (<) (map srt (if find (\<lambda>x. key x = k) xs = None then sort_key srt (xs @ [mk k]) else xs))"
  proof (cases "find (\<lambda>x. key x = k) xs = None")
    case True
    then have "srt (mk k) \<notin> srt ` set xs"
      by (auto simp: find_None_iff' srt_key key_mk image_iff)
    moreover have "distinct (map srt xs)"
      using wf by (simp add: slice_wf_def strict_sorted_iff)
    ultimately have "distinct (map srt (xs @ [mk k]))" by simp
    then have "distinct (map srt (sort_key srt (xs @ [mk k])))"
      by (auto simp: distinct_map simp del: sort_key_simps)
    with True show ?thesis
      by (simp add: strict_sorted_iff del: sort_key_simps)
  next
    case False
    with wf show ?thesis by (simp only: slice_wf_def if_False)
  qed
  then show ?thesis
    by (simp add: slice_wf_def getOrCreate_def map_updFirst srt_f del: sort_key_simps)
qed

lemma set_getOrCreate:
  assumes "x \<in> set (getOrCreate key srt mk k f xs)"
  shows "x \<in> set xs \<or> x = mk k \<or> (\<exists>y \<in> insert (mk k) (set xs). x = f y)"
proof -
  let ?ys = "if find (\<lambda>x. key x = k) xs = None then sort_key srt (xs @ [mk k]) else xs"
  have "set ?ys \<subseteq> insert (mk k) (set xs)" by auto
  moreover have "x \<in> set ?ys \<union> f ` {y \<in> set ?ys. key y = k}"
    using assms set_updFirst unfolding getOrCreate_def by fast
  ultimately show ?thesis by blast
qed

lemma all_getOrCreate:
  assumes "\<forall>x \<in> set xs. P x" and "P (mk k)" and "\<And>x. P x \<Longrightarrow> P (f x)"
  shows "\<forall>x \<in> set (getOrCreate key srt mk k f xs). P x"
  using assms set_getOrCreate by blast

lemma slice_all_getOrCreate:
  assumes xs: "slice_all srt P xs" and mk: "P (mk k)"
    and f: "\<And>x. P x \<Longrightarrow> P (f x)" and key: "\<And>x. key (f x) = key x"
  shows "slice_all srt P (getOrCreate key srt mk k f xs)"
  unfolding slice_all_def
proof
  show "slice_wf srt (getOrCreate key srt mk k f xs)"
    using xs by (intro wf_getOrCreate key) (simp add: slice_all_def)
  show "\<forall>x \<in> set (getOrCreate key srt mk k f xs). P x"
    using xs by (intro all_getOrCreate mk f) (simp_all add: slice_all_def)
qed

lemma keys_getOrCreate:
  assumes f: "\<And>x. key (f x) = key x"
  shows "key ` set (getOrCreate key srt mk k f xs) = insert k (key ` set xs)"
proof -
  have dom: "k' \<in> key ` set ys \<longleftrightarrow> lookupBy key ys k' \<noteq> None" for k' ys
    by (auto simp: lookupBy_def find_None_iff')
  show ?thesis
    by (auto simp only: set_eq_iff insert_iff dom lookup_getOrCreate [OF f]) auto
qed

text \<open>Writing twice through the same pointer is writing once.\<close>

lemma getOrCreate_fuse:
  assumes f: "\<And>x. key (f x) = key x"
  shows "getOrCreate key srt mk k g (getOrCreate key srt mk k f xs) = getOrCreate key srt mk k (g \<circ> f) xs"
proof -
  have "lookupBy key (getOrCreate key srt mk k f xs) k \<noteq> None"
    by (simp add: lookup_same f)
  then have "find (\<lambda>x. key x = k) (getOrCreate key srt mk k f xs) \<noteq> None"
    by (simp add: lookupBy_def)
  then have "getOrCreate key srt mk k g (getOrCreate key srt mk k f xs) =
      updFirst (\<lambda>x. key x = k) g (getOrCreate key srt mk k f xs)"
    by (simp only: getOrCreate_def if_False)
  also have "\<dots> = getOrCreate key srt mk k (g \<circ> f) xs"
    unfolding getOrCreate_def by (rule updFirst_fuse) (simp add: f)
  finally show ?thesis .
qed

text \<open>A well-formed slice is determined by the map it implements.\<close>

lemma lookup_mem:
  assumes "slice_wf srt xs"
  shows "lookupBy key xs k = Some x \<longleftrightarrow> x \<in> set xs \<and> key x = k"
proof
  assume "lookupBy key xs k = Some x"
  then show "x \<in> set xs \<and> key x = k"
    by (auto simp: lookupBy_def find_Some_iff)
next
  assume x: "x \<in> set xs \<and> key x = k"
  then obtain y where y: "lookupBy key xs k = Some y"
    by (cases "lookupBy key xs k") (auto simp: lookupBy_def find_None_iff')
  then have "y \<in> set xs" and "key y = k"
    by (auto simp: lookupBy_def find_Some_iff)
  moreover have "inj_on srt (set xs)"
    using assms by (simp add: slice_wf_def strict_sorted_iff distinct_map)
  ultimately have "y = x" using x by (auto simp: srt_key inj_on_def)
  with y show "lookupBy key xs k = Some x" by simp
qed

lemma slice_ext:
  assumes xs: "slice_wf srt xs" and ys: "slice_wf srt ys" and eq: "lookupBy key xs = lookupBy key ys"
  shows "xs = ys"
proof -
  have set: "set xs = set ys"
    using lookup_mem [OF xs] lookup_mem [OF ys] eq by (metis subsetI subset_antisym)
  have inj: "inj_on srt (set xs \<union> set ys)"
    using xs set by (simp add: slice_wf_def strict_sorted_iff distinct_map)
  have "map srt xs = map srt ys"
    using xs ys set by (intro sorted_distinct_set_unique) (simp_all add: slice_wf_def strict_sorted_iff)
  with inj show ?thesis by (rule map_inj_on [rotated])
qed

lemma getOrCreate_commute:
  assumes "slice_wf srt xs" and "k \<noteq> l"
    and f: "\<And>x. key (f x) = key x" and g: "\<And>x. key (g x) = key x"
  shows "getOrCreate key srt mk k f (getOrCreate key srt mk l g xs) =
    getOrCreate key srt mk l g (getOrCreate key srt mk k f xs)"
proof (rule slice_ext)
  show "lookupBy key (getOrCreate key srt mk k f (getOrCreate key srt mk l g xs)) =
    lookupBy key (getOrCreate key srt mk l g (getOrCreate key srt mk k f xs))"
    using assms(2) by (auto simp: lookup_getOrCreate f g fun_eq_iff)
qed (intro wf_getOrCreate assms f g)+

end

text \<open>Most slices are sorted by the key itself.\<close>

locale name_slice =
  fixes name :: "'a \<Rightarrow> 's::linorder" and fresh :: "'s \<Rightarrow> 'a"
  assumes name_fresh: "name (fresh k) = k"

sublocale name_slice \<subseteq> keyed_slice name name fresh
  by unfold_locales (simp_all add: name_fresh)

text \<open>
  A slice that is not sorted: replace the first element with the key where it stands, else append
  (\<open>Devices.AddNetworkInstanceSubInterface\<close>).
\<close>

definition replaceOrAppend :: "('a \<Rightarrow> bool) \<Rightarrow> 'a \<Rightarrow> 'a list \<Rightarrow> 'a list" where
  "replaceOrAppend P x xs = (if find P xs = None then xs @ [x] else updFirst P (\<lambda>_. x) xs)"

lemma set_replaceOrAppend:
  "x \<in> set (replaceOrAppend P x xs)"
  "set (replaceOrAppend P x xs) \<subseteq> insert x (set xs)"
proof -
  have "find P xs \<noteq> None \<Longrightarrow> x \<in> set (updFirst P (\<lambda>_. x) xs)"
    by (induction xs) auto
  then show "x \<in> set (replaceOrAppend P x xs)" by (simp add: replaceOrAppend_def)
  have "set (updFirst P (\<lambda>_. x) xs) \<subseteq> insert x (set xs)"
    using set_updFirst [of P "\<lambda>_. x" xs] by auto
  then show "set (replaceOrAppend P x xs) \<subseteq> insert x (set xs)"
    by (auto simp: replaceOrAppend_def)
qed

lemma replaceOrAppend_same:
  assumes "\<And>y. P y \<longleftrightarrow> y = x"
  shows "replaceOrAppend P x xs = (if x \<in> set xs then xs else xs @ [x])"
proof -
  have "updFirst P (\<lambda>_. x) xs = xs" by (rule updFirst_ident) (simp add: assms)
  then show ?thesis by (simp add: replaceOrAppend_def find_None_iff' assms) metis
qed

section \<open>Optional structs created on demand\<close>

text \<open>
  \<open>if r.F == nil { r.F = &T{} }; return r.F\<close>: the write goes to the struct that is there or to a
  fresh one.
\<close>

definition orNew :: "'a \<Rightarrow> ('a \<Rightarrow> 'a) \<Rightarrow> 'a option \<Rightarrow> 'a option" where
  "orNew z w x = Some (w (case x of None \<Rightarrow> z | Some y \<Rightarrow> y))"

lemma orNew_simps [simp]: "orNew z w None = Some (w z)" "orNew z w (Some y) = Some (w y)"
  by (simp_all add: orNew_def)

lemma orNew_not_None [simp]: "orNew z w x \<noteq> None"
  by (simp add: orNew_def)

lemma orNew_fuse: "orNew z g (orNew z f x) = orNew z (g \<circ> f) x"
  by (cases x) simp_all

definition optAll :: "('a \<Rightarrow> bool) \<Rightarrow> 'a option \<Rightarrow> bool" where
  "optAll P x = (case x of None \<Rightarrow> True | Some y \<Rightarrow> P y)"

lemma optAll_simps [simp]: "optAll P None" "optAll P (Some y) = P y"
  by (simp_all add: optAll_def)

lemma optAll_orNew:
  assumes "optAll P x" and "P z" and "\<And>y. P y \<Longrightarrow> P (w y)"
  shows "optAll P (orNew z w x)"
  using assms by (cases x) simp_all

end
