(* ===== verification/GoStrings.thy ===== *)
theory GoStrings
  imports Prelude
begin

text \<open>
  The functions of Go's \<open>strings\<close> and \<open>fmt\<close> packages that the program calls, with the
  laws the components rely on: splitting and joining are inverse, decimal printing is injective, and
  a dotted name can be taken apart again when its last part has no dot.
\<close>

section \<open>Splitting at a separator\<close>

text \<open>\<open>strings.Split(s, sep)\<close> for a separator of one byte: never the empty slice.\<close>

fun strings_Split :: "char \<Rightarrow> string \<Rightarrow> string list" where
  "strings_Split c [] = [[]]"
| "strings_Split c (x # xs) =
     (if x = c then [] # strings_Split c xs
      else (case strings_Split c xs of [] \<Rightarrow> [[x]] | p # ps \<Rightarrow> (x # p) # ps))"

fun strings_Join :: "char \<Rightarrow> string list \<Rightarrow> string" where
  "strings_Join c [] = []"
| "strings_Join c [p] = p"
| "strings_Join c (p # q # ps) = p @ c # strings_Join c (q # ps)"

lemma Split_not_Nil [simp]: "strings_Split c s \<noteq> []"
  by (induction s) (auto split: list.splits)

lemma Join_Split: "strings_Join c (strings_Split c s) = s"
proof (induction s)
  case Nil
  then show ?case by simp
next
  case (Cons x s)
  obtain p ps where p: "strings_Split c s = p # ps"
    using Split_not_Nil by (meson neq_Nil_conv)
  with Cons.IH show ?case by (cases ps) auto
qed

lemma Split_no_sep: "c \<notin> set s \<Longrightarrow> strings_Split c s = [s]"
  by (induction s) auto

lemma Split_append: "strings_Split c (a @ c # b) = strings_Split c a @ strings_Split c b"
proof (induction a)
  case Nil
  then show ?case by simp
next
  case (Cons x a)
  obtain p ps where p: "strings_Split c a = p # ps"
    using Split_not_Nil by (meson neq_Nil_conv)
  with Cons.IH show ?case by auto
qed

lemma Split_parts: "p \<in> set (strings_Split c s) \<Longrightarrow> c \<notin> set p"
proof (induction s arbitrary: p)
  case Nil
  then show ?case by simp
next
  case (Cons x s)
  obtain q ps where q: "strings_Split c s = q # ps"
    using Split_not_Nil by (meson neq_Nil_conv)
  with Cons show ?case by (auto split: if_splits)
qed

lemma last_Split_append: "last (strings_Split c (a @ c # b)) = last (strings_Split c b)"
  by (simp add: Split_append)

lemma hd_Split_append: "c \<notin> set a \<Longrightarrow> hd (strings_Split c (a @ c # b)) = a"
  by (simp add: Split_append Split_no_sep)

section \<open>The last separator\<close>

text \<open>
  \<open>strings.LastIndex(s, sep)\<close>; Go's -1 for no occurrence is \<open>None\<close>.
\<close>

fun strings_LastIndex :: "char \<Rightarrow> string \<Rightarrow> nat option" where
  "strings_LastIndex c [] = None"
| "strings_LastIndex c (x # xs) =
     (case strings_LastIndex c xs of
        Some i \<Rightarrow> Some (Suc i)
      | None \<Rightarrow> if x = c then Some 0 else None)"

lemma LastIndex_None_iff: "strings_LastIndex c s = None \<longleftrightarrow> c \<notin> set s"
  by (induction s) (auto split: option.splits)

lemma LastIndex_Some:
  "strings_LastIndex c s = Some i \<Longrightarrow> i < length s \<and> s ! i = c \<and> c \<notin> set (drop (Suc i) s)"
  by (induction s arbitrary: i) (auto split: option.splits if_splits simp: LastIndex_None_iff)

lemma drop_LastIndex:
  assumes "strings_LastIndex c s = Some i"
  shows "drop (Suc i) s = last (strings_Split c s)"
proof -
  from LastIndex_Some [OF assms] have i: "i < length s" "s ! i = c" "c \<notin> set (drop (Suc i) s)"
    by blast+
  then have "s = take i s @ c # drop (Suc i) s"
    by (metis id_take_nth_drop)
  then have "last (strings_Split c s) = last (strings_Split c (drop (Suc i) s))"
    by (metis last_Split_append)
  with i(3) show ?thesis by (simp add: Split_no_sep)
qed

section \<open>Prefixes and replacement\<close>

fun strings_HasPrefix :: "string \<Rightarrow> string \<Rightarrow> bool" where
  "strings_HasPrefix s [] = True"
| "strings_HasPrefix [] (p # ps) = False"
| "strings_HasPrefix (x # xs) (p # ps) = (x = p \<and> strings_HasPrefix xs ps)"

lemma HasPrefix_iff: "strings_HasPrefix s p \<longleftrightarrow> (\<exists>t. s = p @ t)"
  by (induction s p rule: strings_HasPrefix.induct) auto

text \<open>\<open>strings.ReplaceAll\<close> of one byte by one byte.\<close>

definition strings_ReplaceAll1 :: "char \<Rightarrow> char \<Rightarrow> string \<Rightarrow> string" where
  "strings_ReplaceAll1 a b s = map (\<lambda>x. if x = a then b else x) s"

section \<open>Decimal numbers\<close>

text \<open>The verb \<open>%d\<close> of \<open>fmt.Sprintf\<close> on an unsigned number.\<close>

definition digitChar :: "nat \<Rightarrow> char" where
  "digitChar d = char_of (48 + d)"

fun itoa :: "nat \<Rightarrow> string" where
  "itoa n = (if n < 10 then [digitChar n] else itoa (n div 10) @ [digitChar (n mod 10)])"

declare itoa.simps [simp del]

definition atoi :: "string \<Rightarrow> nat" where
  "atoi s = foldl (\<lambda>a c. 10 * a + (of_char c - 48)) 0 s"

lemma of_digitChar: "d < 10 \<Longrightarrow> (of_char (digitChar d) :: nat) = 48 + d"
  by (simp add: digitChar_def of_char_of)

lemma atoi_itoa: "atoi (itoa n) = n"
proof (induction n rule: itoa.induct)
  case (1 n)
  show ?case
  proof (cases "n < 10")
    case True
    then show ?thesis by (simp add: itoa.simps [of n] atoi_def of_digitChar)
  next
    case False
    with 1 have "foldl (\<lambda>a c. 10 * a + (of_char c - 48)) 0 (itoa (n div 10)) = n div 10"
      by (simp add: atoi_def)
    with False show ?thesis by (simp add: itoa.simps [of n] atoi_def of_digitChar)
  qed
qed

lemma itoa_inject [simp]: "itoa m = itoa n \<longleftrightarrow> m = n"
  by (metis atoi_itoa)

lemma digitChar_not_sep:
  assumes "d < 10"
  shows "digitChar d \<noteq> CHR ''.''" and "digitChar d \<noteq> CHR '':''"
proof -
  show "digitChar d \<noteq> CHR ''.''"
  proof
    assume "digitChar d = CHR ''.''"
    then have "(of_char (digitChar d) :: nat) = 46" by simp
    with of_digitChar [OF assms] show False by simp
  qed
  show "digitChar d \<noteq> CHR '':''"
  proof
    assume "digitChar d = CHR '':''"
    then have "(of_char (digitChar d) :: nat) = 58" by simp
    with of_digitChar [OF assms] assms show False by simp
  qed
qed

lemma itoa_no_sep: "CHR ''.'' \<notin> set (itoa n)" "CHR '':'' \<notin> set (itoa n)"
proof (induction n rule: itoa.induct)
  case (1 n)
  { case 1 with "1.IH" show ?case
      using digitChar_not_sep(1) [of "n mod 10"] digitChar_not_sep(1) [of n]
      by (cases "n < 10") (auto simp: itoa.simps [of n]) }
  { case 2 with "1.IH" show ?case
      using digitChar_not_sep(2) [of "n mod 10"] digitChar_not_sep(2) [of n]
      by (cases "n < 10") (auto simp: itoa.simps [of n]) }
qed

definition itoa32 :: "uint32 \<Rightarrow> string" where
  "itoa32 w = itoa (unat w)"

lemma itoa32_inject [simp]: "itoa32 v = itoa32 w \<longleftrightarrow> v = w"
  by (simp add: itoa32_def word_unat_eq_iff)

section \<open>Dotted names\<close>

text \<open>\<open>fmt.Sprintf("%s.%s", a, b)\<close>, the form of every name the program builds.\<close>

definition dot :: "string \<Rightarrow> string \<Rightarrow> string" where
  "dot a b = a @ CHR ''.'' # b"

lemma dot_inject_last:
  assumes "dot a b = dot a' b'" and "CHR ''.'' \<notin> set b" and "CHR ''.'' \<notin> set b'"
  shows "a = a' \<and> b = b'"
proof -
  have "b = b'"
    using arg_cong [OF assms(1), of "\<lambda>s. last (strings_Split CHR ''.'' s)"] assms(2,3)
    by (simp add: dot_def last_Split_append Split_no_sep)
  with assms(1) show ?thesis by (simp add: dot_def)
qed

lemma dot_left_cancel [simp]: "dot a b = dot a b' \<longleftrightarrow> b = b'"
  by (simp add: dot_def)

lemma dot_right_cancel [simp]: "dot a b = dot a' b \<longleftrightarrow> a = a'"
  by (simp add: dot_def)

lemma dot_assoc: "dot (dot a b) c = dot a (dot b c)"
  by (simp add: dot_def)

lemma last_Split_dot: "CHR ''.'' \<notin> set b \<Longrightarrow> last (strings_Split CHR ''.'' (dot a b)) = b"
  by (simp add: dot_def last_Split_append Split_no_sep)

lemma hd_Split_dot: "CHR ''.'' \<notin> set a \<Longrightarrow> hd (strings_Split CHR ''.'' (dot a b)) = a"
  by (simp add: dot_def hd_Split_append)

lemma Split_Join:
  "\<forall>p \<in> set ps. c \<notin> set p \<Longrightarrow> ps \<noteq> [] \<Longrightarrow> strings_Split c (strings_Join c ps) = ps"
  by (induction ps rule: induct_list012) (auto simp: Split_no_sep Split_append)

end
