(* ===== verification/External.thy ===== *)
theory External
  imports GoStrings
begin

text \<open>
  The objects of other packages that the program reads, and the functions of other packages that it
  calls. Nothing here is defined: a record carries the fields the program reads of an object of the
  \<open>kuid\<close> backend, and where the program calls a method of such an object (\<open>GetISISLevel\<close>
  of a link, \<open>GetCondition\<close> of a claim) the record carries the value the method returns, so
  every theorem holds whatever that method does. The API server and the address parser are the records
  \<open>client\<close> and \<open>env\<close> of functions, parameters of every definition that calls them.
\<close>

section \<open>Identifiers\<close>

record NamespacedName =
  nsn_Namespace :: string
  nsn_Name :: string

record NodeID =
  nid_Region :: string
  nid_Site :: string
  nid_Node :: string

record EndpointID =
  epid_Endpoint :: string
  epid_NodeID :: NodeID

record NodeGroupEndpointID =
  ngep_NodeGroup :: string
  ngep_EndpointID :: EndpointID

section \<open>Enumerations of the backend\<close>

text \<open>
  Go string types of which the program names the constants listed first; any other value of the type
  is the last constructor.
\<close>

datatype ISISLevel =
  ISISLevelUnknown | ISISLevelL1 | ISISLevelL2 | ISISLevelL1L2 | ISISLevelOther string

datatype ISISMetricStyle = ISISMetricStyleNarrow | ISISMetricStyleOther string

datatype NetworkType = NetworkTypeUnknown | NetworkTypeP2P | NetworkTypeOther string

datatype OSPFVersion = OSPFVersionUnknown | OSPFVersionOther string

datatype ConditionStatus = ConditionTrue | ConditionFalse | ConditionUnknown

section \<open>Inventory objects\<close>

text \<open>
  The BFD parameters hold pointers to numbers. The type of a pointer is a parameter: \<open>uint32\<close>
  where nothing writes through it (the parameters of a link), an address of the heap where the
  program does (the parameters of the network design).
\<close>

type_synonym addr = nat

record 'p BFDLinkParameters =
  bfd_Enabled :: "bool option"
  bfd_MinEchoRx :: "'p option"
  bfd_MinRx :: "'p option"
  bfd_MinTx :: "'p option"
  bfd_Multiplier :: "'p option"
  bfd_TTL :: "'p option"

record OSPFLinkParameters =
  olp_Area :: "string option"
  olp_Passive :: "bool option"
  olp_NetworkType :: "NetworkType option"
  olp_BFD :: "bool option"

record InfraLink =
  il_Name :: string
  il_Namespace :: string
  il_Labels :: "string \<rightharpoonup> string"
  il_Endpoints :: "NodeGroupEndpointID list"
  il_BFD :: "uint32 BFDLinkParameters option"
  il_OSPF :: "OSPFLinkParameters option"
  il_ISIS_BFD :: "bool option option"  \<comment> \<open>\<open>Spec.ISIS\<close>, of which only \<open>BFD\<close> is read\<close>
  il_BGP_BFD :: "bool option option"   \<comment> \<open>\<open>Spec.BGP\<close>, of which only \<open>BFD\<close> is read\<close>
  il_GetISISPassive :: bool
  il_GetISISNetworkType :: NetworkType
  il_GetISISLevel :: ISISLevel
  il_GetISISMetric :: uint32

record InfraNode =
  in_Name :: string
  in_Namespace :: string
  in_NodeGroup :: string
  in_Provider :: string
  in_SystemID :: "string option"
  in_Labels :: "string \<rightharpoonup> string"

record InfraEndpoint =
  ie_Provider :: string
  ie_Endpoint :: string

text \<open>The metadata a constructor is given; what its object has no field for is not read.\<close>

record ObjectMeta =
  om_Namespace :: string
  om_Name :: string
  om_UID :: string
  om_ResourceVersion :: string
  om_Annotations :: "string \<rightharpoonup> string"
  om_Deleting :: bool

text \<open>
  A condition of a resource's status (\<open>metav1.Condition\<close>); the transition time is not read by the
  program and is left out.
\<close>

record Condition =
  cond_Type :: string
  cond_Status :: ConditionStatus
  cond_Reason :: string
  cond_Message :: string

text \<open>
  The condition package: the conditions it constructs, the strings it names, and how a condition is set on
  a status. \<open>conditions_lawful\<close> is what the program relies on: a condition that is set is the one read
  under its type, and the other types keep theirs.
\<close>

record conditions =
  cnd_Ready :: Condition
  cnd_Failed :: "string \<Rightarrow> Condition"
  cnd_Processing :: "string \<Rightarrow> Condition"
  cnd_SetConditions :: "Condition list \<Rightarrow> (string \<Rightarrow> Condition) \<Rightarrow> string \<Rightarrow> Condition"
  cnd_ConditionTypeReady :: string
  cnd_ReasonProcessing :: string
  cnd_ReasonFailed :: string

definition conditions_lawful :: "conditions \<Rightarrow> bool" where
  "conditions_lawful c \<longleftrightarrow>
     (\<forall>g. cnd_SetConditions c [] g = g) \<and>
     (\<forall>x xs g. cnd_SetConditions c (x # xs) g = cnd_SetConditions c xs (g(cond_Type x := x))) \<and>
     cond_Type (cnd_Ready c) = cnd_ConditionTypeReady c \<and> cond_Status (cnd_Ready c) = ConditionTrue \<and>
     (\<forall>m. cond_Type (cnd_Failed c m) = cnd_ConditionTypeReady c \<and> cond_Status (cnd_Failed c m) = ConditionFalse \<and>
        cond_Message (cnd_Failed c m) = m) \<and>
     (\<forall>m. cond_Type (cnd_Processing c m) = cnd_ConditionTypeReady c \<and>
        cond_Status (cnd_Processing c m) = ConditionFalse) \<and>
     cnd_ReasonProcessing c \<noteq> cnd_ReasonFailed c"

text \<open>A claim as the builder reads it: the status of its Ready condition and what was allocated.\<close>

record IPClaimStatus =
  ipc_Ready :: ConditionStatus
  ipc_Address :: "string option"

record ASClaimStatus =
  asc_Ready :: ConditionStatus
  asc_ID :: "uint32 option"

section \<open>The API client and the address parser\<close>

text \<open>
  The reads of one build or reconcile see one state of the API server: a function per kind, which
  answers a key with the object or with the client's error.
\<close>

record client =
  cl_ListNodes :: "string \<Rightarrow> string + InfraNode list"
  cl_ListLinks :: "string \<Rightarrow> string + InfraLink list"
  cl_GetNode :: "NamespacedName \<Rightarrow> string + InfraNode"
  cl_GetEndpoint :: "NamespacedName \<Rightarrow> string + InfraEndpoint"
  cl_GetIPClaim :: "NamespacedName \<Rightarrow> string + IPClaimStatus"
  cl_GetASClaim :: "NamespacedName \<Rightarrow> string + ASClaimStatus"

definition apiCall :: "string + 'a \<Rightarrow> 'a res" where
  "apiCall r = (case r of Inl msg \<Rightarrow> Inl (Err msg) | Inr x \<Rightarrow> Inr x)"

lemma apiCall_simps [simp]: "apiCall (Inl msg) = Inl (Err msg)" "apiCall (Inr x) = Inr x"
  by (simp_all add: apiCall_def)

lemma apiCall_Inr_iff: "apiCall r = Inr x \<longleftrightarrow> r = Inr x"
  by (cases r) auto

record IPInfo =
  ipi_Address :: string  \<comment> \<open>\<open>GetIPAddress().String()\<close>\<close>
  ipi_IsIpv4 :: bool

text \<open>
  The address parser, the printed form of the backend's identifiers, and the label keys of the
  \<open>backend\<close> package, whose values the program never inspects.
\<close>

record env =
  env_iputil_New :: "string \<Rightarrow> IPInfo option"
  env_NodeID_KuidString :: "NodeID \<Rightarrow> string"
  env_EndpointID_KuidString :: "EndpointID \<Rightarrow> string"
  env_NamespacedName_String :: "NamespacedName \<Rightarrow> string"
  env_KuidINVNetworkDeviceType :: string
  env_KuidINVLinkTypeKey :: string

text \<open>
  \<open>pi, _ := iputil.New(s)\<close> drops the error; the method call on the nil result that follows
  dereferences it.
\<close>

definition parsedIP :: "env \<Rightarrow> string \<Rightarrow> IPInfo res" where
  "parsedIP e s = (case env_iputil_New e s of None \<Rightarrow> Inl nilDereference | Some pi \<Rightarrow> Inr pi)"

definition ipString :: "env \<Rightarrow> string \<Rightarrow> string res" where
  "ipString e s = bindR (parsedIP e s) (\<lambda>pi. Inr (ipi_Address pi))"

lemma parsedIP_Inr_iff: "parsedIP e s = Inr pi \<longleftrightarrow> env_iputil_New e s = Some pi"
  by (auto simp: parsedIP_def split: option.splits)

lemma ipString_Inr_iff: "ipString e s = Inr a \<longleftrightarrow> (\<exists>pi. env_iputil_New e s = Some pi \<and> a = ipi_Address pi)"
  by (auto simp: ipString_def bindR_Inr_iff parsedIP_Inr_iff)

end
