(* ===== verification/DeviceTypes.thy ===== *)
theory DeviceTypes
  imports External
begin

text \<open>
  The structs of a network device configuration (\<open>apis/network/v1alpha1/networkdevice_type.go\<close>)
  and the constants of \<open>net_types.go\<close>. A field keeps its Go name after a prefix for its struct.
  A nil slice and an empty slice are one empty list: the program only appends to slices, ranges over
  them and takes their length. A fresh struct (\<open>&T{}\<close>) is \<open>zero_T\<close>, with the zero value of each
  field.
\<close>

section \<open>String-valued types\<close>

type_synonym NetworkInstanceType = string

definition NetworkInstanceType_MACVRF :: NetworkInstanceType where
  "NetworkInstanceType_MACVRF = ''mac-vrf''"
definition NetworkInstanceType_IPVRF :: NetworkInstanceType where
  "NetworkInstanceType_IPVRF = ''ip-vrf''"
definition NetworkInstanceType_DEFAULT :: NetworkInstanceType where
  "NetworkInstanceType_DEFAULT = ''default''"

type_synonym SubInterfaceType = string

definition SubInterfaceType_Routed :: SubInterfaceType where
  "SubInterfaceType_Routed = ''routed''"
definition SubInterfaceType_Bridged :: SubInterfaceType where
  "SubInterfaceType_Bridged = ''bridged''"

definition DefaultNetwork :: string where
  "DefaultNetwork = ''default''"

section \<open>Interfaces\<close>

record NetworkDeviceNetworkInstanceInterface =
  nii_Name :: string
  nii_ID :: uint32

record NetworkDeviceBFDInterface =
  bfdi_SubInterfaceName :: NetworkDeviceNetworkInstanceInterface
  bfdi_BFDLinkParameters :: "addr BFDLinkParameters"

record NetworkDeviceBFD =
  bfd_Interfaces :: "NetworkDeviceBFDInterface list"

record NetworkDeviceRoutingPolicy =
  rp_Name :: string
  rp_IPv4Prefixes :: "string list"
  rp_IPv6Prefixes :: "string list"

record NetworkDeviceInterfaceSubInterfaceIPv4 =
  si4_Addresses :: "string list"

record NetworkDeviceInterfaceSubInterfaceIPv6 =
  si6_Addresses :: "string list"

record NetworkDeviceInterfaceSubInterface =
  si_PeerName :: string
  si_ID :: uint32
  si_Type :: SubInterfaceType
  si_VLAN :: "uint32 option"
  si_IPv4 :: "NetworkDeviceInterfaceSubInterfaceIPv4 option"
  si_IPv6 :: "NetworkDeviceInterfaceSubInterfaceIPv6 option"

record NetworkDeviceInterface =
  if_Name :: string
  if_SubInterfaces :: "NetworkDeviceInterfaceSubInterface list"
  if_VLANTagging :: bool
  if_Speed :: string
  if_LAGMember :: bool

record NetworkDeviceTunnelInterfaceSubInterface =
  tsi_ID :: uint32
  tsi_Type :: SubInterfaceType

record NetworkDeviceTunnelInterface =
  tun_Name :: string
  tun_SubInterfaces :: "NetworkDeviceTunnelInterfaceSubInterface list"

section \<open>Routing protocols of a network instance\<close>

record NetworkDeviceNetworkInstanceProtocolOSPFInstanceAreaInterface =
  oai_SubInterfaceName :: NetworkDeviceNetworkInstanceInterface
  oai_NetworkType :: NetworkType
  oai_Passive :: bool
  oai_BFD :: bool

record NetworkDeviceNetworkInstanceProtocolOSPFInstanceArea =
  oa_Name :: string
  oa_Interfaces :: "NetworkDeviceNetworkInstanceProtocolOSPFInstanceAreaInterface list"
  oa_NSSA :: "unit option"
  oa_Stub :: "unit option"

record NetworkDeviceNetworkInstanceProtocolOSPFInstance =
  oi_Name :: string
  oi_Version :: OSPFVersion
  oi_RouterID :: string
  oi_Areas :: "NetworkDeviceNetworkInstanceProtocolOSPFInstanceArea list"
  oi_MaxECMPPaths :: uint32
  oi_ASBR :: bool

record NetworkDeviceNetworkInstanceProtocolOSPF =
  ospf_Instances :: "NetworkDeviceNetworkInstanceProtocolOSPFInstance list"

record NetworkDeviceNetworkInstanceProtocolISISInstanceInterfaceLevel =
  iil_Metric :: uint32
  iil_MetricIPv6Unicast :: uint32
  iil_Disable :: bool

record NetworkDeviceNetworkInstanceProtocolISISInstanceInterfaceIPv4 =
  ii4_BFD :: bool

record NetworkDeviceNetworkInstanceProtocolISISInstanceInterfaceIPv6 =
  ii6_BFD :: bool

record NetworkDeviceNetworkInstanceProtocolISISInstanceInterface =
  iii_SubInterfaceName :: NetworkDeviceNetworkInstanceInterface
  iii_NetworkType :: NetworkType
  iii_Level1 :: "NetworkDeviceNetworkInstanceProtocolISISInstanceInterfaceLevel option"
  iii_Level2 :: "NetworkDeviceNetworkInstanceProtocolISISInstanceInterfaceLevel option"
  iii_IPv4 :: "NetworkDeviceNetworkInstanceProtocolISISInstanceInterfaceIPv4 option"
  iii_IPv6 :: "NetworkDeviceNetworkInstanceProtocolISISInstanceInterfaceIPv6 option"
  iii_Passive :: bool

record NetworkDeviceNetworkInstanceProtocolISISInstanceLevel =
  iln_MetricStyle :: ISISMetricStyle

record NetworkDeviceNetworkInstanceProtocolISISInstance =
  ii_Name :: string
  ii_Net :: "string list"
  ii_LevelCapability :: ISISLevel
  ii_Level1 :: "NetworkDeviceNetworkInstanceProtocolISISInstanceLevel option"
  ii_Level2 :: "NetworkDeviceNetworkInstanceProtocolISISInstanceLevel option"
  ii_Interfaces :: "NetworkDeviceNetworkInstanceProtocolISISInstanceInterface list"
  ii_MaxECMPPaths :: uint32
  ii_AddressFamilies :: "string list"

record NetworkDeviceNetworkInstanceProtocolISIS =
  isis_Instances :: "NetworkDeviceNetworkInstanceProtocolISISInstance list"

record NetworkDeviceNetworkInstanceProtocolBGPAddressFamily =
  af_Name :: string
  af_RFC5549 :: bool

record NetworkDeviceNetworkInstanceProtocolBGPPeerGroupRouteReflector =
  rr_ClusterID :: string

record NetworkDeviceNetworkInstanceProtocolBGPPeerGroup =
  pg_Name :: string
  pg_AddressFamilies :: "NetworkDeviceNetworkInstanceProtocolBGPAddressFamily list"
  pg_RouteReflector :: "NetworkDeviceNetworkInstanceProtocolBGPPeerGroupRouteReflector option"
  pg_BFD :: bool

record NetworkDeviceNetworkInstanceProtocolBGPNeighbor =
  nb_PeerAddress :: string
  nb_PeerAS :: uint32
  nb_PeerGroup :: string
  nb_LocalAS :: uint32
  nb_LocalAddress :: string
  nb_BFD :: bool

record NetworkDeviceNetworkInstanceProtocolBGPDynamicNeighborsInterface =
  dni_SubInterfaceName :: NetworkDeviceNetworkInstanceInterface
  dni_PeerAS :: uint32
  dni_PeerGroup :: string

record NetworkDeviceNetworkInstanceProtocolBGPDynamicNeighbors =
  dn_Prefixes :: "string list"
  dn_Interfaces :: "NetworkDeviceNetworkInstanceProtocolBGPDynamicNeighborsInterface list"

record NetworkDeviceNetworkInstanceProtocolBGP =
  bgp_AS :: uint32
  bgp_RouterID :: string
  bgp_PeerGroups :: "NetworkDeviceNetworkInstanceProtocolBGPPeerGroup list"
  bgp_Neighbors :: "NetworkDeviceNetworkInstanceProtocolBGPNeighbor list"
  bgp_DynamicNeighbors :: "NetworkDeviceNetworkInstanceProtocolBGPDynamicNeighbors option"
  bgp_AddressFamilies :: "NetworkDeviceNetworkInstanceProtocolBGPAddressFamily list"

record NetworkDeviceNetworkInstanceProtocolBGPEVPN =
  evpn_EVI :: uint32
  evpn_ECMP :: uint32
  evpn_VXLANInterface :: string

record NetworkDeviceNetworkInstanceProtocolBGPVPN =
  vpn_ImportRouteTarget :: string
  vpn_ExportRouteTarget :: string

record NetworkDeviceNetworkInstanceProtocols =
  p_BGP :: "NetworkDeviceNetworkInstanceProtocolBGP option"
  p_BGPEVPN :: "NetworkDeviceNetworkInstanceProtocolBGPEVPN option"
  p_BGPVPN :: "NetworkDeviceNetworkInstanceProtocolBGPVPN option"
  p_ISIS :: "NetworkDeviceNetworkInstanceProtocolISIS option"
  p_OSPF :: "NetworkDeviceNetworkInstanceProtocolOSPF option"

record NetworkDeviceNetworkInstance =
  ni_Name :: string
  ni_Type :: NetworkInstanceType
  ni_Protocols :: "NetworkDeviceNetworkInstanceProtocols option"
  ni_Interfaces :: "NetworkDeviceNetworkInstanceInterface list"
  ni_VXLANInterface :: "NetworkDeviceNetworkInstanceInterface option"

section \<open>The device\<close>

record NetworkDeviceSystemProtocols =
  sysp_BGPVPN :: "unit option"
  sysp_BGPEVPN :: "unit option"

record NetworkDeviceSystem =
  sys_Protocols :: "NetworkDeviceSystemProtocols option"

record NetworkDeviceSpec =
  spec_Topology :: string
  spec_Provider :: string
  spec_Interfaces :: "NetworkDeviceInterface list"
  spec_NetworkInstances :: "NetworkDeviceNetworkInstance list"
  spec_TunnelInterfaces :: "NetworkDeviceTunnelInterface list"
  spec_RoutingPolicies :: "NetworkDeviceRoutingPolicy list"
  spec_System :: "NetworkDeviceSystem option"
  spec_BFD :: "NetworkDeviceBFD option"

record NetworkDeviceStatus =
  dst_Conditions :: "Condition list"
  dst_ProviderConfig :: "string option"

record NetworkDevice =
  dev_Name :: string
  dev_Namespace :: string
  dev_Spec :: NetworkDeviceSpec
  dev_Status :: NetworkDeviceStatus

section \<open>Fresh structs\<close>

text \<open>The struct literals of \<open>device.go\<close>: the key is set, every other field has its zero value.\<close>

definition zero_NetworkType :: NetworkType where "zero_NetworkType = NetworkTypeOther ''''"

definition fresh_BFDInterface :: "NetworkDeviceNetworkInstanceInterface \<Rightarrow> NetworkDeviceBFDInterface" where
  "fresh_BFDInterface siName = \<lparr>bfdi_SubInterfaceName = siName,
     bfdi_BFDLinkParameters = \<lparr>bfd_Enabled = None, bfd_MinEchoRx = None, bfd_MinRx = None,
       bfd_MinTx = None, bfd_Multiplier = None, bfd_TTL = None\<rparr>\<rparr>"

definition fresh_Interface :: "string \<Rightarrow> NetworkDeviceInterface" where
  "fresh_Interface name = \<lparr>if_Name = name, if_SubInterfaces = [], if_VLANTagging = False,
     if_Speed = '''', if_LAGMember = False\<rparr>"

definition fresh_SubInterface :: "uint32 \<Rightarrow> NetworkDeviceInterfaceSubInterface" where
  "fresh_SubInterface i = \<lparr>si_PeerName = '''', si_ID = i, si_Type = '''', si_VLAN = None,
     si_IPv4 = None, si_IPv6 = None\<rparr>"

definition fresh_TunnelInterface :: "string \<Rightarrow> NetworkDeviceTunnelInterface" where
  "fresh_TunnelInterface name = \<lparr>tun_Name = name, tun_SubInterfaces = []\<rparr>"

definition fresh_TunnelSubInterface :: "uint32 \<Rightarrow> NetworkDeviceTunnelInterfaceSubInterface" where
  "fresh_TunnelSubInterface i = \<lparr>tsi_ID = i, tsi_Type = ''''\<rparr>"

definition fresh_NetworkInstance :: "string \<Rightarrow> NetworkDeviceNetworkInstance" where
  "fresh_NetworkInstance name = \<lparr>ni_Name = name, ni_Type = '''', ni_Protocols = None,
     ni_Interfaces = [], ni_VXLANInterface = None\<rparr>"

definition fresh_RoutingPolicy :: "string \<Rightarrow> NetworkDeviceRoutingPolicy" where
  "fresh_RoutingPolicy name = \<lparr>rp_Name = name, rp_IPv4Prefixes = [], rp_IPv6Prefixes = []\<rparr>"

definition fresh_ISISInstance :: "string \<Rightarrow> NetworkDeviceNetworkInstanceProtocolISISInstance" where
  "fresh_ISISInstance name = \<lparr>ii_Name = name, ii_Net = [], ii_LevelCapability = ISISLevelOther '''',
     ii_Level1 = None, ii_Level2 = None, ii_Interfaces = [], ii_MaxECMPPaths = 0,
     ii_AddressFamilies = []\<rparr>"

definition fresh_ISISInterface ::
  "NetworkDeviceNetworkInstanceInterface \<Rightarrow> NetworkDeviceNetworkInstanceProtocolISISInstanceInterface" where
  "fresh_ISISInterface siName = \<lparr>iii_SubInterfaceName = siName, iii_NetworkType = zero_NetworkType,
     iii_Level1 = None, iii_Level2 = None, iii_IPv4 = None, iii_IPv6 = None, iii_Passive = False\<rparr>"

definition fresh_OSPFInstance :: "string \<Rightarrow> NetworkDeviceNetworkInstanceProtocolOSPFInstance" where
  "fresh_OSPFInstance name = \<lparr>oi_Name = name, oi_Version = OSPFVersionOther '''', oi_RouterID = '''',
     oi_Areas = [], oi_MaxECMPPaths = 0, oi_ASBR = False\<rparr>"

definition fresh_OSPFArea :: "string \<Rightarrow> NetworkDeviceNetworkInstanceProtocolOSPFInstanceArea" where
  "fresh_OSPFArea name = \<lparr>oa_Name = name, oa_Interfaces = [], oa_NSSA = None, oa_Stub = None\<rparr>"

definition fresh_OSPFAreaInterface ::
  "NetworkDeviceNetworkInstanceInterface \<Rightarrow> NetworkDeviceNetworkInstanceProtocolOSPFInstanceAreaInterface" where
  "fresh_OSPFAreaInterface siName = \<lparr>oai_SubInterfaceName = siName,
     oai_NetworkType = zero_NetworkType, oai_Passive = False, oai_BFD = False\<rparr>"

definition fresh_BGPPeerGroup :: "string \<Rightarrow> NetworkDeviceNetworkInstanceProtocolBGPPeerGroup" where
  "fresh_BGPPeerGroup name = \<lparr>pg_Name = name, pg_AddressFamilies = [], pg_RouteReflector = None,
     pg_BFD = False\<rparr>"

definition fresh_BGPNeighbor :: "string \<Rightarrow> NetworkDeviceNetworkInstanceProtocolBGPNeighbor" where
  "fresh_BGPNeighbor peerAddress = \<lparr>nb_PeerAddress = peerAddress, nb_PeerAS = 0, nb_PeerGroup = '''',
     nb_LocalAS = 0, nb_LocalAddress = '''', nb_BFD = False\<rparr>"

definition fresh_BGPDynamicNeighborsInterface ::
  "NetworkDeviceNetworkInstanceInterface \<Rightarrow> NetworkDeviceNetworkInstanceProtocolBGPDynamicNeighborsInterface" where
  "fresh_BGPDynamicNeighborsInterface siName = \<lparr>dni_SubInterfaceName = siName, dni_PeerAS = 0,
     dni_PeerGroup = ''''\<rparr>"

definition zero_BGP :: NetworkDeviceNetworkInstanceProtocolBGP where
  "zero_BGP = \<lparr>bgp_AS = 0, bgp_RouterID = '''', bgp_PeerGroups = [], bgp_Neighbors = [],
     bgp_DynamicNeighbors = None, bgp_AddressFamilies = []\<rparr>"

definition zero_BGPEVPN :: NetworkDeviceNetworkInstanceProtocolBGPEVPN where
  "zero_BGPEVPN = \<lparr>evpn_EVI = 0, evpn_ECMP = 0, evpn_VXLANInterface = ''''\<rparr>"

definition zero_BGPVPN :: NetworkDeviceNetworkInstanceProtocolBGPVPN where
  "zero_BGPVPN = \<lparr>vpn_ImportRouteTarget = '''', vpn_ExportRouteTarget = ''''\<rparr>"

definition zero_Protocols :: NetworkDeviceNetworkInstanceProtocols where
  "zero_Protocols = \<lparr>p_BGP = None, p_BGPEVPN = None, p_BGPVPN = None, p_ISIS = None, p_OSPF = None\<rparr>"

definition zero_SystemProtocols :: NetworkDeviceSystemProtocols where
  "zero_SystemProtocols = \<lparr>sysp_BGPVPN = None, sysp_BGPEVPN = None\<rparr>"

definition zero_DeviceSpec :: NetworkDeviceSpec where
  "zero_DeviceSpec = \<lparr>spec_Topology = '''', spec_Provider = '''', spec_Interfaces = [],
     spec_NetworkInstances = [], spec_TunnelInterfaces = [], spec_RoutingPolicies = [],
     spec_System = None, spec_BFD = None\<rparr>"

definition zero_DeviceStatus :: NetworkDeviceStatus where
  "zero_DeviceStatus = \<lparr>dst_Conditions = [], dst_ProviderConfig = None\<rparr>"

end
