(* ===== verification/NetworkDesign.thy ===== *)
theory NetworkDesign
  imports DeviceTypes
begin

text \<open>
  The network design (\<open>apis/network/v1alpha1/networkdesign_types.go\<close> and
  \<open>networkdesign_interfaces.go\<close>): the structs, the questions the device builder asks of a design,
  and what the answers mean together.

  Optional structs are \<open>option\<close>; an empty marker struct such as \<open>BGPEVPN\<close> is present or
  absent, a value of \<open>unit option\<close>. The BFD parameters of the underlay hold addresses of number
  cells, because the device builder writes through these pointers.
\<close>

section \<open>The structs\<close>

type_synonym Addressing = string

definition Addressing_DualStack :: Addressing where
  "Addressing_DualStack = ''dualstack''"
definition Addressing_IPv4Numbered :: Addressing where
  "Addressing_IPv4Numbered = ''ipv4numbered''"
definition Addressing_IPv6Numbered :: Addressing where
  "Addressing_IPv6Numbered = ''ipv6numbered''"
definition Addressing_IPv6Unnumbered :: Addressing where
  "Addressing_IPv6Unnumbered = ''ipv6unnumbered''"
definition Addressing_IPv4Unnumbered :: Addressing where
  "Addressing_IPv4Unnumbered = ''ipv4unnumbered''"

text \<open>What the schema of the resource accepts (the validation marker of the field).\<close>

definition Addressing_Enum :: "Addressing list" where
  "Addressing_Enum = [''dualstack'', ''ipv4only'', ''ipv6only'', ''ipv4unnumbered'', ''ipv6unnumbered'']"

lemmas Addressing_defs = Addressing_DualStack_def Addressing_IPv4Numbered_def
  Addressing_IPv6Numbered_def Addressing_IPv6Unnumbered_def Addressing_IPv4Unnumbered_def

text \<open>The labels of a prefix are a map in Go; its entries in any order are the same labels.\<close>

record Prefix =
  pfx_Prefix :: string
  pfx_Labels :: "(string \<times> string) list"

record NetworkDesignInterfaceParameters =
  ndip_Prefixes :: "Prefix list"
  ndip_Addressing :: Addressing

type_synonym NetworkDesignInterfacesLoopback = NetworkDesignInterfaceParameters

record NetworkDesignInterfacesUnderlay = NetworkDesignInterfaceParameters +
  ndiu_VLANTagging :: bool
  ndiu_BFD :: "addr BFDLinkParameters option"

record NetworkDesignInterfaces =
  ndi_Loopback :: "NetworkDesignInterfacesLoopback option"
  ndi_Underlay :: "NetworkDesignInterfacesUnderlay option"

record NetworkDesignEncapsulationMPLS =
  mpls_LDP :: "unit option"
  mpls_SR :: "unit option"
  mpls_RSVP :: "unit option"

record NetworkDesignEncapsulationSRv6 =
  srv6_MicroSID :: "unit option"

record NetworkDesignEncapsulation =
  nde_VXLAN :: "unit option"
  nde_MPLS :: "NetworkDesignEncapsulationMPLS option"
  nde_SRV6 :: "NetworkDesignEncapsulationSRv6 option"

record NetworkDesignProtocolsOSPF =
  ndo_Instance :: "string option"
  ndo_Version :: OSPFVersion
  ndo_Area :: string
  ndo_MaxECMPPaths :: "uint32 option"
  ndo_BFD :: bool

record NetworkDesignProtocolsISIS =
  ndis_Instance :: "string option"
  ndis_Level :: ISISLevel
  ndis_Areas :: "string list"
  ndis_MaxECMPPaths :: "uint32 option"
  ndis_BFD :: bool

record NetworkDesignProtocolsIBGP =
  ndib_AS :: "uint32 option"
  ndib_LocalAS :: bool
  ndib_RouteReflectors :: "string list"

record NetworkDesignProtocolsEBGP =
  ndeb_ASPool :: "string option"
  ndeb_BFD :: bool

record NetworkDesignProtocols =
  ndp_OSPF :: "NetworkDesignProtocolsOSPF option"
  ndp_ISIS :: "NetworkDesignProtocolsISIS option"
  ndp_IBGP :: "NetworkDesignProtocolsIBGP option"
  ndp_EBGP :: "NetworkDesignProtocolsEBGP option"
  ndp_BGPEVPN :: "unit option"
  ndp_BGPVPNv4 :: "unit option"
  ndp_BGPVPNv6 :: "unit option"
  ndp_BGPRouteTarget :: "unit option"
  ndp_BGPLabeledUnicastv4 :: "unit option"
  ndp_BGPLabeledUnicastv6 :: "unit option"

record NetworkDesignSpec =
  nds_Topology :: string
  nds_Interfaces :: "NetworkDesignInterfaces option"
  nds_Protocols :: "NetworkDesignProtocols option"
  nds_Encapsultation :: "NetworkDesignEncapsulation option"

record NetworkDesign =
  nd_Namespace :: string
  nd_Name :: string
  nd_ResourceVersion :: string
  nd_Deleting :: bool
  nd_Spec :: NetworkDesignSpec
  nd_Status_GetCondition :: "string \<Rightarrow> Condition"

definition zero_DesignSpec :: NetworkDesignSpec where
  "zero_DesignSpec = \<lparr>nds_Topology = [], nds_Interfaces = None, nds_Protocols = None, nds_Encapsultation = None\<rparr>"

text \<open>A status is its conditions; \<open>none\<close> stands for those of the empty one.\<close>

definition BuildNetworkDesign ::
  "(string \<Rightarrow> Condition) \<Rightarrow> ObjectMeta \<Rightarrow> NetworkDesignSpec option \<Rightarrow> (string \<Rightarrow> Condition) option \<Rightarrow> NetworkDesign" where
  "BuildNetworkDesign none meta spec status =
     (let aspec = (case spec of None \<Rightarrow> zero_DesignSpec | Some s \<Rightarrow> s);
          astatus = (case status of None \<Rightarrow> none | Some s \<Rightarrow> s)
      in \<lparr>nd_Namespace = om_Namespace meta, nd_Name = om_Name meta, nd_ResourceVersion = om_ResourceVersion meta,
          nd_Deleting = om_Deleting meta, nd_Spec = aspec, nd_Status_GetCondition = astatus\<rparr>)"

definition Design_GetCondition :: "NetworkDesign \<Rightarrow> string \<Rightarrow> Condition" where
  "Design_GetCondition r t = nd_Status_GetCondition r t"

definition Design_SetConditions :: "conditions \<Rightarrow> Condition list \<Rightarrow> NetworkDesign \<Rightarrow> NetworkDesign" where
  "Design_SetConditions cs c = nd_Status_GetCondition_update (cnd_SetConditions cs c)"

section \<open>Names of the underlay\<close>

definition VXLANInterfaceName :: string where "VXLANInterfaceName = ''vxlan0''"
definition IRBInterfaceName :: string where "IRBInterfaceName = ''irb0''"
definition SystemInterfaceName :: string where "SystemInterfaceName = ''system0''"
definition UnderlaySubInterfaceID :: uint32 where "UnderlaySubInterfaceID = 0"
definition BGPUnderlayPeerGroupName :: string where "BGPUnderlayPeerGroupName = ''underlay''"
definition UnderlayPolicyName :: string where "UnderlayPolicyName = BGPUnderlayPeerGroupName"
definition BGPOverlayPeerGroupName :: string where "BGPOverlayPeerGroupName = ''overlay''"
definition OverlayPolicyName :: string where "OverlayPolicyName = BGPOverlayPeerGroupName"
definition DefaultIGPInstance :: string where "DefaultIGPInstance = ''i1''"

lemmas interface_names = VXLANInterfaceName_def IRBInterfaceName_def SystemInterfaceName_def

section \<open>Reading nested optional structs\<close>

text \<open>
  \<open>r.Spec.Interfaces != nil && r.Spec.Interfaces.Loopback != nil && ...\<close> asks whether the inner
  struct is reachable through non-nil pointers.
\<close>

definition Loopback :: "NetworkDesign \<Rightarrow> NetworkDesignInterfacesLoopback option" where
  "Loopback r = Option.bind (nds_Interfaces (nd_Spec r)) ndi_Loopback"

definition Underlay :: "NetworkDesign \<Rightarrow> NetworkDesignInterfacesUnderlay option" where
  "Underlay r = Option.bind (nds_Interfaces (nd_Spec r)) ndi_Underlay"

definition OSPF :: "NetworkDesign \<Rightarrow> NetworkDesignProtocolsOSPF option" where
  "OSPF r = Option.bind (nds_Protocols (nd_Spec r)) ndp_OSPF"

definition ISIS :: "NetworkDesign \<Rightarrow> NetworkDesignProtocolsISIS option" where
  "ISIS r = Option.bind (nds_Protocols (nd_Spec r)) ndp_ISIS"

definition IBGP :: "NetworkDesign \<Rightarrow> NetworkDesignProtocolsIBGP option" where
  "IBGP r = Option.bind (nds_Protocols (nd_Spec r)) ndp_IBGP"

definition EBGP :: "NetworkDesign \<Rightarrow> NetworkDesignProtocolsEBGP option" where
  "EBGP r = Option.bind (nds_Protocols (nd_Spec r)) ndp_EBGP"

definition present :: "'a option \<Rightarrow> bool" where
  "present x = (case x of None \<Rightarrow> False | Some _ \<Rightarrow> True)"

lemma present_iff: "present x \<longleftrightarrow> x \<noteq> None"
  by (simp add: present_def split: option.splits)

definition protocolPresent :: "(NetworkDesignProtocols \<Rightarrow> unit option) \<Rightarrow> NetworkDesign \<Rightarrow> bool" where
  "protocolPresent sel r = present (Option.bind (nds_Protocols (nd_Spec r)) sel)"

definition encapPresent :: "(NetworkDesignEncapsulation \<Rightarrow> 'a option) \<Rightarrow> NetworkDesign \<Rightarrow> bool" where
  "encapPresent sel r = present (Option.bind (nds_Encapsultation (nd_Spec r)) sel)"

section \<open>Addressing\<close>

definition loopbackIn :: "Addressing list \<Rightarrow> NetworkDesign \<Rightarrow> bool" where
  "loopbackIn as r = (case Loopback r of None \<Rightarrow> False | Some l \<Rightarrow> List.member as (ndip_Addressing l))"

definition underlayIn :: "Addressing list \<Rightarrow> NetworkDesign \<Rightarrow> bool" where
  "underlayIn as r = (case Underlay r of None \<Rightarrow> False | Some u \<Rightarrow> List.member as (ndip_Addressing u))"

definition IsLoopbackIPv4Enabled :: "NetworkDesign \<Rightarrow> bool" where
  "IsLoopbackIPv4Enabled = loopbackIn [Addressing_DualStack, Addressing_IPv4Numbered]"

definition IsLoopbackIPv6Enabled :: "NetworkDesign \<Rightarrow> bool" where
  "IsLoopbackIPv6Enabled = loopbackIn [Addressing_DualStack, Addressing_IPv6Numbered]"

definition IsUnderlayIPv6Only :: "NetworkDesign \<Rightarrow> bool" where
  "IsUnderlayIPv6Only = underlayIn [Addressing_IPv6Numbered, Addressing_IPv6Unnumbered]"

definition IsUnderlayIPv4Only :: "NetworkDesign \<Rightarrow> bool" where
  "IsUnderlayIPv4Only = underlayIn [Addressing_IPv4Numbered, Addressing_IPv4Unnumbered]"

definition IsUnderlayIPv4Enabled :: "NetworkDesign \<Rightarrow> bool" where
  "IsUnderlayIPv4Enabled =
     underlayIn [Addressing_DualStack, Addressing_IPv4Numbered, Addressing_IPv4Unnumbered]"

definition IsUnderlayIPv4Numbered :: "NetworkDesign \<Rightarrow> bool" where
  "IsUnderlayIPv4Numbered = underlayIn [Addressing_DualStack, Addressing_IPv4Numbered]"

definition IsUnderlayIPv4UnNumbered :: "NetworkDesign \<Rightarrow> bool" where
  "IsUnderlayIPv4UnNumbered = underlayIn [Addressing_IPv4Unnumbered]"

definition IsUnderlayIPv6Enabled :: "NetworkDesign \<Rightarrow> bool" where
  "IsUnderlayIPv6Enabled =
     underlayIn [Addressing_DualStack, Addressing_IPv6Numbered, Addressing_IPv6Unnumbered]"

definition IsUnderlayIPv6Numbered :: "NetworkDesign \<Rightarrow> bool" where
  "IsUnderlayIPv6Numbered = underlayIn [Addressing_DualStack, Addressing_IPv6Numbered]"

definition IsUnderlayIPv6UnNumbered :: "NetworkDesign \<Rightarrow> bool" where
  "IsUnderlayIPv6UnNumbered = underlayIn [Addressing_IPv6Unnumbered]"

lemmas addressing_predicates =
  IsLoopbackIPv4Enabled_def IsLoopbackIPv6Enabled_def IsUnderlayIPv6Only_def IsUnderlayIPv4Only_def
  IsUnderlayIPv4Enabled_def IsUnderlayIPv4Numbered_def IsUnderlayIPv4UnNumbered_def
  IsUnderlayIPv6Enabled_def IsUnderlayIPv6Numbered_def IsUnderlayIPv6UnNumbered_def
  loopbackIn_def underlayIn_def

lemma underlay_IPv4_cases:
  "IsUnderlayIPv4Enabled r \<longleftrightarrow> IsUnderlayIPv4Numbered r \<or> IsUnderlayIPv4UnNumbered r"
  "\<not> (IsUnderlayIPv4Numbered r \<and> IsUnderlayIPv4UnNumbered r)"
  by (auto simp: addressing_predicates Addressing_defs split: option.splits)

lemma underlay_IPv6_cases:
  "IsUnderlayIPv6Enabled r \<longleftrightarrow> IsUnderlayIPv6Numbered r \<or> IsUnderlayIPv6UnNumbered r"
  "\<not> (IsUnderlayIPv6Numbered r \<and> IsUnderlayIPv6UnNumbered r)"
  by (auto simp: addressing_predicates Addressing_defs split: option.splits)

lemma underlay_only_iff:
  "IsUnderlayIPv4Only r \<longleftrightarrow> IsUnderlayIPv4Enabled r \<and> \<not> IsUnderlayIPv6Enabled r"
  "IsUnderlayIPv6Only r \<longleftrightarrow> IsUnderlayIPv6Enabled r \<and> \<not> IsUnderlayIPv4Enabled r"
  by (auto simp: addressing_predicates Addressing_defs split: option.splits)

section \<open>Protocols and encapsulation\<close>

definition IsISISEnabled :: "NetworkDesign \<Rightarrow> bool" where "IsISISEnabled r = present (ISIS r)"
definition IsOSPFEnabled :: "NetworkDesign \<Rightarrow> bool" where "IsOSPFEnabled r = present (OSPF r)"
definition IsEBGPEnabled :: "NetworkDesign \<Rightarrow> bool" where "IsEBGPEnabled r = present (EBGP r)"
definition IsIBGPEnabled :: "NetworkDesign \<Rightarrow> bool" where "IsIBGPEnabled r = present (IBGP r)"

definition GetIBGPAS :: "NetworkDesign \<Rightarrow> uint32" where
  "GetIBGPAS r = (case Option.bind (IBGP r) ndib_AS of None \<Rightarrow> 0 | Some as \<Rightarrow> as)"

text \<open>Prefixes the parser refuses are skipped.\<close>

definition GetLoopbackPrefixesPerAF :: "env \<Rightarrow> NetworkDesign \<Rightarrow> string list \<times> string list" where
  "GetLoopbackPrefixesPerAF e r =
     (case Loopback r of
        None \<Rightarrow> ([], [])
      | Some l \<Rightarrow>
          foldl (\<lambda>(v4, v6) prefix.
              case env_iputil_New e (pfx_Prefix prefix) of
                None \<Rightarrow> (v4, v6)
              | Some pi \<Rightarrow>
                  if ipi_IsIpv4 pi then (v4 @ [pfx_Prefix prefix], v6) else (v4, v6 @ [pfx_Prefix prefix]))
            ([], []) (ndip_Prefixes l))"

definition GetLoopbackPrefixes :: "NetworkDesign \<Rightarrow> string list" where
  "GetLoopbackPrefixes r = (case Loopback r of None \<Rightarrow> [] | Some l \<Rightarrow> map pfx_Prefix (ndip_Prefixes l))"

definition IsVXLANEnabled :: "NetworkDesign \<Rightarrow> bool" where "IsVXLANEnabled = encapPresent nde_VXLAN"

definition IsMPLSLDPEnabled :: "NetworkDesign \<Rightarrow> bool" where
  "IsMPLSLDPEnabled = encapPresent (\<lambda>en. Option.bind (nde_MPLS en) mpls_LDP)"
definition IsMPLSSREnabled :: "NetworkDesign \<Rightarrow> bool" where
  "IsMPLSSREnabled = encapPresent (\<lambda>en. Option.bind (nde_MPLS en) mpls_SR)"
definition IsMPLSRSVPEnabled :: "NetworkDesign \<Rightarrow> bool" where
  "IsMPLSRSVPEnabled = encapPresent (\<lambda>en. Option.bind (nde_MPLS en) mpls_RSVP)"
definition IsSRv6Enabled :: "NetworkDesign \<Rightarrow> bool" where
  "IsSRv6Enabled = encapPresent nde_SRV6"
definition IsSRv6USIDEnabled :: "NetworkDesign \<Rightarrow> bool" where
  "IsSRv6USIDEnabled = encapPresent (\<lambda>en. Option.bind (nde_SRV6 en) srv6_MicroSID)"

definition IsBGPEVPNEnabled :: "NetworkDesign \<Rightarrow> bool" where
  "IsBGPEVPNEnabled = protocolPresent ndp_BGPEVPN"
definition IsBGPIPVPNv4Enabled :: "NetworkDesign \<Rightarrow> bool" where
  "IsBGPIPVPNv4Enabled = protocolPresent ndp_BGPVPNv4"
definition IsBGPIPVPNv6Enabled :: "NetworkDesign \<Rightarrow> bool" where
  "IsBGPIPVPNv6Enabled = protocolPresent ndp_BGPVPNv6"
definition IsBGPRouteTargetEnabled :: "NetworkDesign \<Rightarrow> bool" where
  "IsBGPRouteTargetEnabled = protocolPresent ndp_BGPRouteTarget"
definition IsBGPLabelUnicastv4Enabled :: "NetworkDesign \<Rightarrow> bool" where
  "IsBGPLabelUnicastv4Enabled = protocolPresent ndp_BGPLabeledUnicastv4"
definition IsBGPLabelUnicastv6Enabled :: "NetworkDesign \<Rightarrow> bool" where
  "IsBGPLabelUnicastv6Enabled = protocolPresent ndp_BGPLabeledUnicastv6"

section \<open>Address families\<close>

type_synonym AddressFamily = NetworkDeviceNetworkInstanceProtocolBGPAddressFamily

definition AF :: "string \<Rightarrow> AddressFamily" where
  "AF name = \<lparr>af_Name = name, af_RFC5549 = False\<rparr>"

text \<open>\<open>if c { afs = append(afs, af) }\<close>\<close>

definition appendIf :: "bool \<Rightarrow> 'a \<Rightarrow> 'a list \<Rightarrow> 'a list" where
  "appendIf c x xs = (if c then xs @ [x] else xs)"

lemma set_appendIf [simp]: "set (appendIf c x xs) = (if c then {x} else {}) \<union> set xs"
  by (auto simp: appendIf_def)

lemma map_appendIf: "map f (appendIf c x xs) = appendIf c (f x) (map f xs)"
  by (simp add: appendIf_def)

lemma distinct_appendIf [simp]: "distinct (appendIf c x xs) \<longleftrightarrow> distinct xs \<and> (c \<longrightarrow> x \<notin> set xs)"
  by (auto simp: appendIf_def)

lemma appendIf_simps [simp]: "appendIf True x xs = xs @ [x]" "appendIf False x xs = xs"
  by (simp_all add: appendIf_def)

text \<open>The service address families, in the order in which each of the two functions appends them.\<close>

definition appendServiceAFs :: "NetworkDesign \<Rightarrow> AddressFamily list \<Rightarrow> AddressFamily list" where
  "appendServiceAFs r afs0 =
     (let afs1 = appendIf (IsBGPEVPNEnabled r) (AF ''evpn'') afs0;
          afs2 = appendIf (IsBGPIPVPNv4Enabled r) (AF ''l3vpn-ipv4-unicast'') afs1;
          afs3 = appendIf (IsBGPIPVPNv6Enabled r) (AF ''l3vpn-ipv6-unicast'') afs2;
          afs4 = appendIf (IsBGPRouteTargetEnabled r) (AF ''route-target'') afs3;
          afs5 = appendIf (IsBGPLabelUnicastv4Enabled r) (AF ''ipv4-labeled-unicast'') afs4
      in appendIf (IsBGPLabelUnicastv6Enabled r) (AF ''ipv6-labeled-unicast'') afs5)"

definition GetUnderlayAddressFamiliesToBeDisabled :: "NetworkDesign \<Rightarrow> AddressFamily list" where
  "GetUnderlayAddressFamiliesToBeDisabled r =
     (let igp = IsISISEnabled r \<or> IsOSPFEnabled r;
          afs1 = appendIf (\<not> igp \<and> \<not> (IsUnderlayIPv4Enabled r \<or> IsLoopbackIPv4Enabled r))
                   (AF ''ipv4-unicast'') [];
          afs2 = appendIf (\<not> igp \<and> \<not> (IsUnderlayIPv6Enabled r \<or> \<not> IsLoopbackIPv6Enabled r))
                   (AF ''ipv6-unicast'') afs1
      in appendServiceAFs r afs2)"

definition GetOverlayAddressFamiliesToBeDisabled :: "NetworkDesign \<Rightarrow> AddressFamily list" where
  "GetOverlayAddressFamiliesToBeDisabled r =
     (let igp = IsISISEnabled r \<or> IsOSPFEnabled r;
          afs1 = appendIf (\<not> igp \<and> (IsUnderlayIPv4Enabled r \<or> IsLoopbackIPv4Enabled r))
                   (AF ''ipv4-unicast'') []
      in appendIf (\<not> igp \<and> (IsUnderlayIPv6Enabled r \<or> IsLoopbackIPv6Enabled r))
           (AF ''ipv6-unicast'') afs1)"

definition GetAllEnabledAddressFamilies :: "NetworkDesign \<Rightarrow> AddressFamily list" where
  "GetAllEnabledAddressFamilies r =
     (let igp = IsISISEnabled r \<or> IsOSPFEnabled r;
          afs1 = appendIf (\<not> igp \<and> (IsUnderlayIPv4Enabled r \<or> IsLoopbackIPv4Enabled r))
                   \<lparr>af_Name = ''ipv4-unicast'', af_RFC5549 = IsUnderlayIPv6Only r\<rparr> [];
          afs2 = appendIf (\<not> igp \<and> (IsUnderlayIPv6Enabled r \<or> IsLoopbackIPv6Enabled r))
                   (AF ''ipv6-unicast'') afs1
      in appendServiceAFs r afs2)"

definition GetIGPAddressFamilies :: "NetworkDesign \<Rightarrow> string list" where
  "GetIGPAddressFamilies r =
     (let afs1 = appendIf (IsUnderlayIPv4Enabled r \<or> IsLoopbackIPv4Enabled r) ''ipv4-unicast'' []
      in appendIf (IsUnderlayIPv6Enabled r \<or> IsLoopbackIPv6Enabled r) ''ipv6-unicast'' afs1)"

lemmas address_family_defs = GetUnderlayAddressFamiliesToBeDisabled_def
  GetOverlayAddressFamiliesToBeDisabled_def GetAllEnabledAddressFamilies_def appendServiceAFs_def
  AF_def Let_def

abbreviation afNames :: "AddressFamily list \<Rightarrow> string list" where
  "afNames \<equiv> map af_Name"

text \<open>No function names an address family twice.\<close>

lemma distinct_afNames:
  "distinct (afNames (GetUnderlayAddressFamiliesToBeDisabled r))"
  "distinct (afNames (GetOverlayAddressFamiliesToBeDisabled r))"
  "distinct (afNames (GetAllEnabledAddressFamilies r))"
  by (simp_all add: address_family_defs map_appendIf)

section \<open>BFD and the IGP parameters\<close>

definition IsISISBFDEnabled :: "NetworkDesign \<Rightarrow> bool" where
  "IsISISBFDEnabled r = (case ISIS r of None \<Rightarrow> False | Some p \<Rightarrow> ndis_BFD p)"

definition IsOSPFBFDEnabled :: "NetworkDesign \<Rightarrow> bool" where
  "IsOSPFBFDEnabled r = (case OSPF r of None \<Rightarrow> False | Some p \<Rightarrow> ndo_BFD p)"

definition IsEBGPBFDEnabled :: "NetworkDesign \<Rightarrow> bool" where
  "IsEBGPBFDEnabled r = (case EBGP r of None \<Rightarrow> False | Some p \<Rightarrow> ndeb_BFD p)"

definition IsBFDEnabled :: "NetworkDesign \<Rightarrow> bool" where
  "IsBFDEnabled r = (if IsISISBFDEnabled r then True
     else if IsOSPFBFDEnabled r then True
     else if IsEBGPBFDEnabled r then True
     else False)"

text \<open>
  The result is a pointer: \<open>Some\<close> when it is the design's own object, which the caller then shares,
  \<open>None\<close> when it is a fresh struct of nil pointers.
\<close>

definition GetUnderlayBFDParameters :: "NetworkDesign \<Rightarrow> addr BFDLinkParameters option" where
  "GetUnderlayBFDParameters r = Option.bind (Underlay r) ndiu_BFD"

text \<open>
  The two instance names are read through \<open>r.Spec.Protocols.ISIS\<close> without a test for nil.
\<close>

definition GetISISInstanceName :: "NetworkDesign \<Rightarrow> string res" where
  "GetISISInstanceName r = (case ISIS r of
      None \<Rightarrow> Inl nilDereference
    | Some p \<Rightarrow> Inr (case ndis_Instance p of None \<Rightarrow> DefaultIGPInstance | Some n \<Rightarrow> n))"

definition GetOSPFInstanceName :: "NetworkDesign \<Rightarrow> string res" where
  "GetOSPFInstanceName r = (case OSPF r of
      None \<Rightarrow> Inl nilDereference
    | Some p \<Rightarrow> Inr (case ndo_Instance p of None \<Rightarrow> DefaultIGPInstance | Some n \<Rightarrow> n))"

definition GetOSPFVersion :: "NetworkDesign \<Rightarrow> OSPFVersion" where
  "GetOSPFVersion r = (case OSPF r of None \<Rightarrow> OSPFVersionUnknown | Some p \<Rightarrow> ndo_Version p)"

definition GetOSPFGetMaxECMPLPaths :: "NetworkDesign \<Rightarrow> uint32" where
  "GetOSPFGetMaxECMPLPaths r =
     (case Option.bind (OSPF r) ndo_MaxECMPPaths of None \<Rightarrow> 1 | Some n \<Rightarrow> n)"

definition GetOSPFArea :: "NetworkDesign \<Rightarrow> string" where
  "GetOSPFArea r = (case OSPF r of None \<Rightarrow> '''' | Some p \<Rightarrow> ndo_Area p)"

definition GetISISLevel :: "NetworkDesign \<Rightarrow> ISISLevel" where
  "GetISISLevel r = (case ISIS r of None \<Rightarrow> ISISLevelUnknown | Some p \<Rightarrow> ndis_Level p)"

definition GetISISAreas :: "NetworkDesign \<Rightarrow> string list" where
  "GetISISAreas r = (case ISIS r of None \<Rightarrow> [] | Some p \<Rightarrow> ndis_Areas p)"

definition GetISISGetMaxECMPLPaths :: "NetworkDesign \<Rightarrow> uint32" where
  "GetISISGetMaxECMPLPaths r =
     (case Option.bind (ISIS r) ndis_MaxECMPPaths of None \<Rightarrow> 1 | Some n \<Rightarrow> n)"

lemma instance_names_defined:
  "IsISISEnabled r \<Longrightarrow> \<exists>n. GetISISInstanceName r = Inr n"
  "IsOSPFEnabled r \<Longrightarrow> \<exists>n. GetOSPFInstanceName r = Inr n"
  by (auto simp: IsISISEnabled_def IsOSPFEnabled_def present_iff GetISISInstanceName_def
      GetOSPFInstanceName_def)

lemma BFD_needs_protocol:
  "IsBFDEnabled r \<Longrightarrow> IsISISEnabled r \<or> IsOSPFEnabled r \<or> IsEBGPEnabled r"
  by (auto simp: IsBFDEnabled_def IsISISBFDEnabled_def IsOSPFBFDEnabled_def IsEBGPBFDEnabled_def
      IsISISEnabled_def IsOSPFEnabled_def IsEBGPEnabled_def present_iff split: option.splits if_splits)

section \<open>Properties\<close>

text \<open>
  C39. The three lists of address families name no family twice; IPv6 is disabled on the underlay
  sessions exactly when there is no IGP and it is on the loopbacks but not on the links; a family
  disabled on the overlay sessions is one the nodes carry.
\<close>

theorem address_families:
  "distinct (afNames (GetUnderlayAddressFamiliesToBeDisabled r)) \<and>
   distinct (afNames (GetOverlayAddressFamiliesToBeDisabled r)) \<and>
   distinct (afNames (GetAllEnabledAddressFamilies r)) \<and>
   (''ipv6-unicast'' \<in> set (afNames (GetUnderlayAddressFamiliesToBeDisabled r)) \<longleftrightarrow>
      \<not> IsISISEnabled r \<and> \<not> IsOSPFEnabled r \<and> IsLoopbackIPv6Enabled r \<and> \<not> IsUnderlayIPv6Enabled r) \<and>
   (''evpn'' \<in> set (afNames (GetAllEnabledAddressFamilies r)) \<longleftrightarrow> IsBGPEVPNEnabled r) \<and>
   set (afNames (GetOverlayAddressFamiliesToBeDisabled r)) \<subseteq> set (afNames (GetAllEnabledAddressFamilies r))"
  by (simp_all add: distinct_afNames) (auto simp: address_family_defs)

end
