(* ===== verification/Network.thy ===== *)
theory Network
  imports NetworkDesign
begin

text \<open>
  The network resource (\<open>apis/network/v1alpha1/network_types.go\<close>, \<open>network_interfaces.go\<close>) and the
  conditions of its status (\<open>condition.go\<close>).

  The condition list of a status is a type of the \<open>kuid\<close> backend with its own search and update; it
  appears as the function \<open>nst_GetCondition\<close> that \<open>Status.GetCondition\<close> computes. Of a label selector
  the program tests only the presence. \<open>NetworkID\<close> is a Go \<open>int\<close>, a word of 64 bits.
\<close>

section \<open>The structs\<close>

record NetworkInterfaceAddress =
  nia_Address :: string
  nia_Attribute :: "string option"

record NetworkConfigProtocolsBGP =
  ncb_LocalAS :: uint32
  ncb_PeerAS :: uint32

record NetworkInterfaceProtocols =
  nip_BGP :: "NetworkConfigProtocolsBGP option"

record NetworkInterface =
  nif_Bridge :: "string option"
  nif_EndPoint :: "string option"
  nif_NodeID :: "NodeID option"
  nif_Addresses :: "NetworkInterfaceAddress list"
  nif_VLANID :: "uint32 option"
  nif_Selector :: "unit option"
  nif_VLANTagging :: bool
  nif_Protocols :: "NetworkInterfaceProtocols option"

record NetworkBridge =
  nbr_Name :: string
  nbr_NetworkID :: "64 word"
  nbr_Interfaces :: "NetworkInterface list"

record NetworkRouter =
  nrt_Name :: string
  nrt_NetworkID :: "64 word"
  nrt_Interfaces :: "NetworkInterface list"

record NetworkSpec =
  ns_Topology :: string
  ns_Bridges :: "NetworkBridge list"
  ns_Routers :: "NetworkRouter list"

record NetworkStatusDeviceStatus =
  nsds_Node :: string
  nsds_Ready :: bool
  nsds_Reason :: "string option"

record NetworkStatusUsedReferences =
  nsur_NetworkSpecHash :: string
  nsur_NetworkDesignResourceVersion :: string

record NetworkStatus =
  nst_GetCondition :: "string \<Rightarrow> Condition"
  nst_DevicesConfigStatus :: "NetworkStatusDeviceStatus list"
  nst_DevicesDeployStatus :: "NetworkStatusDeviceStatus list"
  nst_UsedReferences :: "NetworkStatusUsedReferences option"

text \<open>Of the metadata the program reads the names, the UID, the annotations and whether a deletion is pending.\<close>

record Network =
  net_Namespace :: string
  net_Name :: string
  net_UID :: string
  net_Annotations :: "string \<rightharpoonup> string"
  net_Deleting :: bool
  net_Spec :: NetworkSpec
  net_Status :: NetworkStatus

definition zero_NetworkSpec :: NetworkSpec where
  "zero_NetworkSpec = \<lparr>ns_Topology = [], ns_Bridges = [], ns_Routers = []\<rparr>"

definition zero_NetworkStatus :: "(string \<Rightarrow> Condition) \<Rightarrow> NetworkStatus" where
  "zero_NetworkStatus none = \<lparr>nst_GetCondition = none, nst_DevicesConfigStatus = [], nst_DevicesDeployStatus = [],
     nst_UsedReferences = None\<rparr>"

definition BuildNetwork ::
  "(string \<Rightarrow> Condition) \<Rightarrow> ObjectMeta \<Rightarrow> NetworkSpec option \<Rightarrow> NetworkStatus option \<Rightarrow> Network" where
  "BuildNetwork none meta spec status =
     (let aspec = (case spec of None \<Rightarrow> zero_NetworkSpec | Some s \<Rightarrow> s);
          astatus = (case status of None \<Rightarrow> zero_NetworkStatus none | Some s \<Rightarrow> s)
      in \<lparr>net_Namespace = om_Namespace meta, net_Name = om_Name meta, net_UID = om_UID meta,
          net_Annotations = om_Annotations meta, net_Deleting = om_Deleting meta, net_Spec = aspec, net_Status = astatus\<rparr>)"

section \<open>Names and lookups\<close>

definition GetNamespacedName :: "Network \<Rightarrow> NamespacedName" where
  "GetNamespacedName r = \<lparr>nsn_Namespace = net_Namespace r, nsn_Name = net_Name r\<rparr>"

definition GetNetworkName :: "Network \<Rightarrow> string" where
  "GetNetworkName r =
     (let parts = strings_Split CHR ''.'' (net_Name r)
      in if length parts > 0 then parts ! (length parts - 1) else '''')"

definition IsDefaultNetwork :: "Network \<Rightarrow> bool" where
  "IsDefaultNetwork r \<longleftrightarrow> GetNetworkName r = DefaultNetwork"

definition IsDynamic :: "NetworkInterface \<Rightarrow> bool" where
  "IsDynamic r \<longleftrightarrow> present (nif_Selector r)"

definition IsBridgePresent :: "string \<Rightarrow> Network \<Rightarrow> bool" where
  "IsBridgePresent name r \<longleftrightarrow> list_ex (\<lambda>bd. nbr_Name bd = name) (ns_Bridges (net_Spec r))"

lemma GetNetworkName_last: "GetNetworkName r = last (strings_Split CHR ''.'' (net_Name r))"
  by (simp add: GetNetworkName_def Let_def last_conv_nth)

lemma GetNetworkName_dot:
  "CHR ''.'' \<notin> set n \<Longrightarrow> net_Name r = dot t n \<Longrightarrow> GetNetworkName r = n"
  by (simp add: GetNetworkName_last last_Split_dot)

lemma GetNetworkName_no_dot: "CHR ''.'' \<notin> set (GetNetworkName r)"
  unfolding GetNetworkName_last by (rule Split_parts [OF last_in_set]) simp

section \<open>Conditions\<close>

definition ConditionTypeNetworkParamReady :: string where
  "ConditionTypeNetworkParamReady = ''NetworkPararmReady''"
definition ConditionTypeNetworkDeviceReady :: string where
  "ConditionTypeNetworkDeviceReady = ''NetworkDeviceReady''"

definition ChildConditions :: "string list" where
  "ChildConditions = [ConditionTypeNetworkParamReady, ConditionTypeNetworkDeviceReady]"

definition ConditionReasonReady :: string where "ConditionReasonReady = ''Ready''"
definition ConditionReasonFailed :: string where "ConditionReasonFailed = ''Failed''"

text \<open>The reason of a condition that is still processing is a constant of the backend.\<close>

definition NetworkParamReady :: Condition where
  "NetworkParamReady = \<lparr>cond_Type = ConditionTypeNetworkParamReady, cond_Status = ConditionTrue,
     cond_Reason = ConditionReasonReady, cond_Message = ''''\<rparr>"

definition NetworkParamFailed :: "string \<Rightarrow> Condition" where
  "NetworkParamFailed msg = \<lparr>cond_Type = ConditionTypeNetworkParamReady, cond_Status = ConditionFalse,
     cond_Reason = ConditionReasonFailed, cond_Message = msg\<rparr>"

definition NetworkParamProcessing :: "string \<Rightarrow> string \<Rightarrow> Condition" where
  "NetworkParamProcessing reasonProcessing msg =
     \<lparr>cond_Type = ConditionTypeNetworkParamReady, cond_Status = ConditionFalse,
      cond_Reason = reasonProcessing, cond_Message = msg\<rparr>"

definition NetworkDeviceReady :: Condition where
  "NetworkDeviceReady = \<lparr>cond_Type = ConditionTypeNetworkDeviceReady, cond_Status = ConditionTrue,
     cond_Reason = ConditionReasonReady, cond_Message = ''''\<rparr>"

definition NetworkDeviceProcessing :: "string \<Rightarrow> string \<Rightarrow> Condition" where
  "NetworkDeviceProcessing reasonProcessing msg =
     \<lparr>cond_Type = ConditionTypeNetworkDeviceReady, cond_Status = ConditionFalse,
      cond_Reason = reasonProcessing, cond_Message = msg\<rparr>"

text \<open>The type is the one of the parameters (\<open>condition.go:114\<close>).\<close>

definition NetworkDeviceFailed :: "string \<Rightarrow> Condition" where
  "NetworkDeviceFailed msg = \<lparr>cond_Type = ConditionTypeNetworkParamReady, cond_Status = ConditionFalse,
     cond_Reason = ConditionReasonFailed, cond_Message = msg\<rparr>"

definition GetCondition :: "Network \<Rightarrow> string \<Rightarrow> Condition" where
  "GetCondition r t = nst_GetCondition (net_Status r) t"

definition SetConditions :: "conditions \<Rightarrow> Condition list \<Rightarrow> Network \<Rightarrow> Network" where
  "SetConditions cs c = net_Status_update (nst_GetCondition_update (cnd_SetConditions cs c))"

definition SetOverallStatus :: "conditions \<Rightarrow> Network \<Rightarrow> Network" where
  "SetOverallStatus cs r =
     (let condition = GetCondition r ConditionTypeNetworkParamReady;
          (ready1, msg1) =
            (if cond_Status condition = ConditionFalse
             then (False, ''network parameters not ready: '' @ cond_Message condition) else (True, ''''));
          condition2 = GetCondition r ConditionTypeNetworkDeviceReady;
          (ready2, msg2) =
            (if ready1 \<and> cond_Status condition2 = ConditionFalse
             then (False, ''device configs for network not ready: '' @ cond_Message condition2)
             else (ready1, msg1))
      in if ready2 then SetConditions cs [cnd_Ready cs] r else SetConditions cs [cnd_Failed cs msg2] r)"

text \<open>Both ways out of the loop return true (\<open>network_interfaces.go:119,122\<close>).\<close>

definition DidAChildConditionFail :: "Network \<Rightarrow> bool" where
  "DidAChildConditionFail r =
     (if list_ex (\<lambda>c. cond_Reason (GetCondition r c) = ConditionReasonFailed) ChildConditions
      then True else True)"

text \<open>The separator is written before the first entry only (\<open>network_interfaces.go:131\<close>).\<close>

definition GetFailedMessage :: "Network \<Rightarrow> string" where
  "GetFailedMessage r = fst (foldl
     (\<lambda>(sb, first) childCondition.
        let condition = GetCondition r childCondition
        in if cond_Reason condition = ConditionReasonFailed
           then ((if first then sb @ '';'' else sb) @
                   ''condition: '' @ childCondition @ '' failed, msg '' @ cond_Message condition, False)
           else (sb, first))
     ('''', True) ChildConditions)"

definition GetProcessingMessage :: "Network \<Rightarrow> string" where
  "GetProcessingMessage r = fst (foldl
     (\<lambda>(sb, first) childCondition.
        let condition = GetCondition r childCondition
        in if cond_Status condition = ConditionFalse
           then ((if first then sb @ '';'' else sb) @
                   ''condition: '' @ childCondition @ '' still processing'', False)
           else (sb, first))
     ('''', True) ChildConditions)"

definition AreChildConditionsReady :: "Network \<Rightarrow> bool" where
  "AreChildConditionsReady r \<longleftrightarrow>
     list_all (\<lambda>c. cond_Status (GetCondition r c) \<noteq> ConditionFalse) ChildConditions"

lemma overallStatus_cases:
  "SetOverallStatus cs r = SetConditions cs
     [if AreChildConditionsReady r then cnd_Ready cs
      else cnd_Failed cs (if cond_Status (GetCondition r ConditionTypeNetworkParamReady) = ConditionFalse
        then ''network parameters not ready: '' @ cond_Message (GetCondition r ConditionTypeNetworkParamReady)
        else ''device configs for network not ready: '' @
          cond_Message (GetCondition r ConditionTypeNetworkDeviceReady))] r"
  by (simp add: SetOverallStatus_def AreChildConditionsReady_def ChildConditions_def Let_def)

section \<open>Lawful conditions\<close>

lemma GetCondition_SetConditions [simp]:
  assumes "conditions_lawful cs"
  shows "GetCondition (SetConditions cs [] r) t = GetCondition r t"
    and "GetCondition (SetConditions cs [c] r) t = (if t = cond_Type c then c else GetCondition r t)"
    and "GetCondition (SetConditions cs [c, d] r) t =
      (if t = cond_Type d then d else if t = cond_Type c then c else GetCondition r t)"
  using assms by (simp_all add: GetCondition_def SetConditions_def conditions_lawful_def)

lemma child_conditions_fields [simp]:
  "cond_Type NetworkParamReady = ConditionTypeNetworkParamReady" "cond_Status NetworkParamReady = ConditionTrue"
  "cond_Type (NetworkParamFailed m) = ConditionTypeNetworkParamReady" "cond_Status (NetworkParamFailed m) = ConditionFalse"
  "cond_Type (NetworkParamProcessing r m) = ConditionTypeNetworkParamReady"
  "cond_Status (NetworkParamProcessing r m) = ConditionFalse"
  "cond_Type NetworkDeviceReady = ConditionTypeNetworkDeviceReady" "cond_Status NetworkDeviceReady = ConditionTrue"
  "cond_Type (NetworkDeviceProcessing r m) = ConditionTypeNetworkDeviceReady"
  "cond_Status (NetworkDeviceProcessing r m) = ConditionFalse"
  "cond_Type (NetworkDeviceFailed m) = ConditionTypeNetworkParamReady" "cond_Status (NetworkDeviceFailed m) = ConditionFalse"
  by (simp_all add: NetworkParamReady_def NetworkParamFailed_def NetworkParamProcessing_def NetworkDeviceReady_def
      NetworkDeviceProcessing_def NetworkDeviceFailed_def)

lemma child_conditions_distinct [simp]: "ConditionTypeNetworkParamReady \<noteq> ConditionTypeNetworkDeviceReady"
  "ConditionTypeNetworkDeviceReady \<noteq> ConditionTypeNetworkParamReady"
  by (simp_all add: ConditionTypeNetworkParamReady_def ConditionTypeNetworkDeviceReady_def)

lemma SetConditions_fields [simp]:
  "net_Namespace (SetConditions cs c r) = net_Namespace r" "net_Name (SetConditions cs c r) = net_Name r"
  "net_UID (SetConditions cs c r) = net_UID r" "net_Spec (SetConditions cs c r) = net_Spec r"
  "net_Annotations (SetConditions cs c r) = net_Annotations r" "net_Deleting (SetConditions cs c r) = net_Deleting r"
  "nst_DevicesConfigStatus (net_Status (SetConditions cs c r)) = nst_DevicesConfigStatus (net_Status r)"
  "nst_DevicesDeployStatus (net_Status (SetConditions cs c r)) = nst_DevicesDeployStatus (net_Status r)"
  "nst_UsedReferences (net_Status (SetConditions cs c r)) = nst_UsedReferences (net_Status r)"
  by (simp_all add: SetConditions_def)

section \<open>Properties\<close>

text \<open>
  The network is set ready exactly when no child condition is false; otherwise the failure names
  the parameters if their condition is false, and the devices when only theirs is.
\<close>

theorem overall_status:
  "SetOverallStatus cs r = SetConditions cs
     [if AreChildConditionsReady r then cnd_Ready cs
      else cnd_Failed cs (if cond_Status (GetCondition r ConditionTypeNetworkParamReady) = ConditionFalse
        then ''network parameters not ready: '' @ cond_Message (GetCondition r ConditionTypeNetworkParamReady)
        else ''device configs for network not ready: '' @
          cond_Message (GetCondition r ConditionTypeNetworkDeviceReady))] r"
  by (simp add: overallStatus_cases)

text \<open>
  The network name is the part after the last dot of the resource name, whatever the topology name
  before it contains.
\<close>

theorem network_name_of_dotted:
  assumes "CHR ''.'' \<notin> set n"
  shows "GetNetworkName (r\<lparr>net_Name := dot t n\<rparr>) = n \<and>
    (IsDefaultNetwork (r\<lparr>net_Name := dot t n\<rparr>) \<longleftrightarrow> n = ''default'')"
  using GetNetworkName_dot [OF assms, of "r\<lparr>net_Name := dot t n\<rparr>" t]
  by (simp add: IsDefaultNetwork_def DefaultNetwork_def)

theorem network_name_of_dotted_witness:
  "\<forall>st. GetNetworkName (\<lparr>net_Namespace = '''', net_Name = '''', net_UID = '''',
     net_Annotations = Map.empty, net_Deleting = False, net_Spec = \<lparr>ns_Topology = '''', ns_Bridges = [], ns_Routers = []\<rparr>,
     net_Status = st\<rparr>\<lparr>net_Name := dot ''a.b'' ''default''\<rparr>) = ''default''"
  by (rule allI, rule network_name_of_dotted [THEN conjunct1]) simp

end
