(* ===== verification/Device.thy ===== *)
theory Device
  imports DeviceTypes
begin

text \<open>
  The operations of \<open>apis/network/v1alpha1/device.go\<close> on one device configuration: find or create
  an element of a nested structure and write to it.

  A Go method \<open>GetOrCreateX(k) *X\<close> is the function \<open>GetOrCreateX k w\<close>, where \<open>w\<close> is what the
  caller writes through the returned pointer (the identity when it writes nothing). A parameter that
  Go tests for nil is an \<open>option\<close>. Every slice is an instance of the keyed slices of the prelude.
\<close>

section \<open>Creating a device\<close>

definition BuildNetworkDevice ::
  "string \<Rightarrow> string \<Rightarrow> NetworkDeviceSpec option \<Rightarrow> NetworkDeviceStatus option \<Rightarrow> NetworkDevice" where
  "BuildNetworkDevice namespace name spec status =
     \<lparr>dev_Name = name, dev_Namespace = namespace,
      dev_Spec = (case spec of None \<Rightarrow> zero_DeviceSpec | Some s \<Rightarrow> s),
      dev_Status = (case status of None \<Rightarrow> zero_DeviceStatus | Some s \<Rightarrow> s)\<rparr>"

text \<open>\<open>parts[0]\<close> exists because \<open>strings.Split\<close> never returns the empty slice.\<close>

definition NewDevice :: "NamespacedName \<Rightarrow> string \<Rightarrow> NetworkDevice" where
  "NewDevice nsn nodeName =
     (let parts = strings_Split CHR ''.'' (nsn_Name nsn)
      in BuildNetworkDevice (nsn_Namespace nsn) (dot (nsn_Name nsn) nodeName)
           (Some (zero_DeviceSpec\<lparr>spec_Topology := parts ! 0\<rparr>)) None)"

definition Device_AddProvider :: "string \<Rightarrow> NetworkDevice \<Rightarrow> NetworkDevice" where
  "Device_AddProvider provider r = r\<lparr>dev_Spec := (dev_Spec r)\<lparr>spec_Provider := provider\<rparr>\<rparr>"

section \<open>The order of sub interface names\<close>

text \<open>\<open>fmt.Sprintf("%s.%d", name, id)\<close>, compared as a string.\<close>

definition siSortKey :: "NetworkDeviceNetworkInstanceInterface \<Rightarrow> string" where
  "siSortKey s = dot (nii_Name s) (itoa32 (nii_ID s))"

lemma siSortKey_inject [simp]: "siSortKey s = siSortKey t \<longleftrightarrow> s = t"
proof
  assume eq: "siSortKey s = siSortKey t"
  have "CHR ''.'' \<notin> set (itoa32 (nii_ID s))" "CHR ''.'' \<notin> set (itoa32 (nii_ID t))"
    by (simp_all add: itoa32_def itoa_no_sep)
  with eq have "nii_Name s = nii_Name t \<and> itoa32 (nii_ID s) = itoa32 (nii_ID t)"
    unfolding siSortKey_def by (rule dot_inject_last)
  then show "s = t" by simp
qed simp

section \<open>BFD\<close>

definition GetOrCreateBFD :: "(NetworkDeviceBFD \<Rightarrow> NetworkDeviceBFD) \<Rightarrow> NetworkDevice \<Rightarrow> NetworkDevice" where
  "GetOrCreateBFD w = dev_Spec_update (spec_BFD_update (orNew \<lparr>bfd_Interfaces = []\<rparr> w))"

definition GetOrCreateBFDInterface ::
  "NetworkDeviceNetworkInstanceInterface \<Rightarrow> (NetworkDeviceBFDInterface \<Rightarrow> NetworkDeviceBFDInterface)
     \<Rightarrow> NetworkDeviceBFD \<Rightarrow> NetworkDeviceBFD" where
  "GetOrCreateBFDInterface siName w = bfd_Interfaces_update
     (getOrCreate bfdi_SubInterfaceName (siSortKey \<circ> bfdi_SubInterfaceName) fresh_BFDInterface siName w)"

definition AddOrUpdateBFDInterface ::
  "NetworkDeviceBFDInterface option \<Rightarrow> NetworkDeviceBFD \<Rightarrow> NetworkDeviceBFD" where
  "AddOrUpdateBFDInterface new r = (case new of
      None \<Rightarrow> r
    | Some n \<Rightarrow>
        if nii_Name (bfdi_SubInterfaceName n) = '''' then r
        else GetOrCreateBFDInterface (bfdi_SubInterfaceName n)
          (\<lambda>x. x\<lparr>bfdi_BFDLinkParameters := bfdi_BFDLinkParameters n\<rparr>) r)"

interpretation bfdis: keyed_slice bfdi_SubInterfaceName "siSortKey \<circ> bfdi_SubInterfaceName" fresh_BFDInterface
  by unfold_locales (simp_all add: fresh_BFDInterface_def)

section \<open>Interfaces and sub interfaces\<close>

definition GetOrCreateInterface ::
  "string \<Rightarrow> (NetworkDeviceInterface \<Rightarrow> NetworkDeviceInterface) \<Rightarrow> NetworkDevice \<Rightarrow> NetworkDevice" where
  "GetOrCreateInterface name w = dev_Spec_update (spec_Interfaces_update
     (getOrCreate if_Name if_Name fresh_Interface name w))"

definition AddOrUpdateInterface :: "NetworkDeviceInterface option \<Rightarrow> NetworkDevice \<Rightarrow> NetworkDevice" where
  "AddOrUpdateInterface new r = (case new of
      None \<Rightarrow> r
    | Some n \<Rightarrow>
        if if_Name n = '''' then r
        else GetOrCreateInterface (if_Name n)
          (\<lambda>x. x\<lparr>if_LAGMember := if_LAGMember n, if_Speed := if_Speed n,
                 if_VLANTagging := if_VLANTagging n\<rparr>) r)"

definition GetOrCreateTunnelInterface ::
  "string \<Rightarrow> (NetworkDeviceTunnelInterface \<Rightarrow> NetworkDeviceTunnelInterface) \<Rightarrow> NetworkDevice \<Rightarrow> NetworkDevice" where
  "GetOrCreateTunnelInterface name w = dev_Spec_update (spec_TunnelInterfaces_update
     (getOrCreate tun_Name tun_Name fresh_TunnelInterface name w))"

definition AddOrUpdateTunnelInterface ::
  "NetworkDeviceTunnelInterface option \<Rightarrow> NetworkDevice \<Rightarrow> NetworkDevice" where
  "AddOrUpdateTunnelInterface new r = (case new of
      None \<Rightarrow> r
    | Some n \<Rightarrow> if tun_Name n = '''' then r else GetOrCreateTunnelInterface (tun_Name n) (\<lambda>x. x) r)"

definition GetOrCreateInterfaceSubInterface ::
  "uint32 \<Rightarrow> (NetworkDeviceInterfaceSubInterface \<Rightarrow> NetworkDeviceInterfaceSubInterface)
     \<Rightarrow> NetworkDeviceInterface \<Rightarrow> NetworkDeviceInterface" where
  "GetOrCreateInterfaceSubInterface i w = if_SubInterfaces_update
     (getOrCreate si_ID si_ID fresh_SubInterface i w)"

definition AddOrUpdateInterfaceSubInterface ::
  "NetworkDeviceInterfaceSubInterface \<Rightarrow> NetworkDeviceInterface \<Rightarrow> NetworkDeviceInterface" where
  "AddOrUpdateInterfaceSubInterface new = GetOrCreateInterfaceSubInterface (si_ID new)
     (\<lambda>x. x\<lparr>si_PeerName := si_PeerName new, si_VLAN := si_VLAN new, si_Type := si_Type new\<rparr>)"

definition GetOrCreateTunnelInterfaceSubInterface ::
  "uint32 \<Rightarrow> (NetworkDeviceTunnelInterfaceSubInterface \<Rightarrow> NetworkDeviceTunnelInterfaceSubInterface)
     \<Rightarrow> NetworkDeviceTunnelInterface \<Rightarrow> NetworkDeviceTunnelInterface" where
  "GetOrCreateTunnelInterfaceSubInterface i w = tun_SubInterfaces_update
     (getOrCreate tsi_ID tsi_ID fresh_TunnelSubInterface i w)"

definition AddOrUpdateTunnelInterfaceSubInterface ::
  "NetworkDeviceTunnelInterfaceSubInterface \<Rightarrow> NetworkDeviceTunnelInterface \<Rightarrow> NetworkDeviceTunnelInterface" where
  "AddOrUpdateTunnelInterfaceSubInterface new = GetOrCreateTunnelInterfaceSubInterface (tsi_ID new)
     (\<lambda>x. x\<lparr>tsi_Type := tsi_Type new\<rparr>)"

definition GetOrCreateIPv4 ::
  "(NetworkDeviceInterfaceSubInterfaceIPv4 \<Rightarrow> NetworkDeviceInterfaceSubInterfaceIPv4)
     \<Rightarrow> NetworkDeviceInterfaceSubInterface \<Rightarrow> NetworkDeviceInterfaceSubInterface" where
  "GetOrCreateIPv4 w = si_IPv4_update (orNew \<lparr>si4_Addresses = []\<rparr> w)"

definition GetOrCreateIPv6 ::
  "(NetworkDeviceInterfaceSubInterfaceIPv6 \<Rightarrow> NetworkDeviceInterfaceSubInterfaceIPv6)
     \<Rightarrow> NetworkDeviceInterfaceSubInterface \<Rightarrow> NetworkDeviceInterfaceSubInterface" where
  "GetOrCreateIPv6 w = si_IPv6_update (orNew \<lparr>si6_Addresses = []\<rparr> w)"

interpretation ifs: name_slice if_Name fresh_Interface
  by unfold_locales (simp add: fresh_Interface_def)

interpretation tuns: name_slice tun_Name fresh_TunnelInterface
  by unfold_locales (simp add: fresh_TunnelInterface_def)

interpretation subifs: name_slice si_ID fresh_SubInterface
  by unfold_locales (simp add: fresh_SubInterface_def)

interpretation tsubifs: name_slice tsi_ID fresh_TunnelSubInterface
  by unfold_locales (simp add: fresh_TunnelSubInterface_def)

section \<open>Network instances and their protocols\<close>

definition GetOrCreateNetworkInstance ::
  "string \<Rightarrow> (NetworkDeviceNetworkInstance \<Rightarrow> NetworkDeviceNetworkInstance) \<Rightarrow> NetworkDevice \<Rightarrow> NetworkDevice" where
  "GetOrCreateNetworkInstance name w = dev_Spec_update (spec_NetworkInstances_update
     (getOrCreate ni_Name ni_Name fresh_NetworkInstance name w))"

definition Device_AddNetworkInstance ::
  "string \<Rightarrow> NetworkInstanceType \<Rightarrow> NetworkDeviceNetworkInstanceInterface list
     \<Rightarrow> NetworkDeviceNetworkInstanceInterface option \<Rightarrow> NetworkDevice \<Rightarrow> NetworkDevice" where
  "Device_AddNetworkInstance name niType interfaces vxlanItfce = GetOrCreateNetworkInstance name
     (\<lambda>ni. ni\<lparr>ni_Type := niType, ni_VXLANInterface := vxlanItfce, ni_Interfaces := interfaces\<rparr>)"

definition GetOrCreateNetworkInstanceProtocols ::
  "(NetworkDeviceNetworkInstanceProtocols \<Rightarrow> NetworkDeviceNetworkInstanceProtocols)
     \<Rightarrow> NetworkDeviceNetworkInstance \<Rightarrow> NetworkDeviceNetworkInstance" where
  "GetOrCreateNetworkInstanceProtocols w = ni_Protocols_update (orNew zero_Protocols w)"

definition GetOrCreateNetworkInstanceProtocolsBGP ::
  "(NetworkDeviceNetworkInstanceProtocolBGP \<Rightarrow> NetworkDeviceNetworkInstanceProtocolBGP)
     \<Rightarrow> NetworkDeviceNetworkInstanceProtocols \<Rightarrow> NetworkDeviceNetworkInstanceProtocols" where
  "GetOrCreateNetworkInstanceProtocolsBGP w = p_BGP_update (orNew zero_BGP w)"

definition GetOrCreateNetworkInstanceProtocolsBGPEVPN ::
  "(NetworkDeviceNetworkInstanceProtocolBGPEVPN \<Rightarrow> NetworkDeviceNetworkInstanceProtocolBGPEVPN)
     \<Rightarrow> NetworkDeviceNetworkInstanceProtocols \<Rightarrow> NetworkDeviceNetworkInstanceProtocols" where
  "GetOrCreateNetworkInstanceProtocolsBGPEVPN w = p_BGPEVPN_update (orNew zero_BGPEVPN w)"

definition GetOrCreateNetworkInstanceProtocolsBGPVPN ::
  "(NetworkDeviceNetworkInstanceProtocolBGPVPN \<Rightarrow> NetworkDeviceNetworkInstanceProtocolBGPVPN)
     \<Rightarrow> NetworkDeviceNetworkInstanceProtocols \<Rightarrow> NetworkDeviceNetworkInstanceProtocols" where
  "GetOrCreateNetworkInstanceProtocolsBGPVPN w = p_BGPVPN_update (orNew zero_BGPVPN w)"

definition GetOrCreateNetworkInstanceProtocolsISIS ::
  "(NetworkDeviceNetworkInstanceProtocolISIS \<Rightarrow> NetworkDeviceNetworkInstanceProtocolISIS)
     \<Rightarrow> NetworkDeviceNetworkInstanceProtocols \<Rightarrow> NetworkDeviceNetworkInstanceProtocols" where
  "GetOrCreateNetworkInstanceProtocolsISIS w = p_ISIS_update (orNew \<lparr>isis_Instances = []\<rparr> w)"

definition GetOrCreateNetworkInstanceProtocolsOSPF ::
  "(NetworkDeviceNetworkInstanceProtocolOSPF \<Rightarrow> NetworkDeviceNetworkInstanceProtocolOSPF)
     \<Rightarrow> NetworkDeviceNetworkInstanceProtocols \<Rightarrow> NetworkDeviceNetworkInstanceProtocols" where
  "GetOrCreateNetworkInstanceProtocolsOSPF w = p_OSPF_update (orNew \<lparr>ospf_Instances = []\<rparr> w)"

interpretation nis: name_slice ni_Name fresh_NetworkInstance
  by unfold_locales (simp add: fresh_NetworkInstance_def)

section \<open>Properties\<close>

text \<open>
  Two sub interface names print to the same sort key only if they are the same name and the same
  number, even when names contain dots: ordering by the printed key never merges two of them.
\<close>

theorem sort_key_identifies:
  "siSortKey s = siSortKey t \<longleftrightarrow> nii_Name s = nii_Name t \<and> nii_ID s = nii_ID t"
  by (cases s; cases t) simp

end
