(* ===== verification/DeviceProtocols.thy ===== *)
theory DeviceProtocols
  imports Device
begin

text \<open>
  The second half of \<open>device.go\<close>: the ISIS, OSPF and BGP structs of a network instance, the routing
  policies and the system protocols of a device, in the style of theory \<open>Device\<close>.
\<close>

section \<open>ISIS\<close>

definition GetOrCreateNetworkInstanceProtocolISISInstance ::
  "string \<Rightarrow> (NetworkDeviceNetworkInstanceProtocolISISInstance \<Rightarrow> NetworkDeviceNetworkInstanceProtocolISISInstance)
     \<Rightarrow> NetworkDeviceNetworkInstanceProtocolISIS \<Rightarrow> NetworkDeviceNetworkInstanceProtocolISIS" where
  "GetOrCreateNetworkInstanceProtocolISISInstance name w = isis_Instances_update
     (getOrCreate ii_Name ii_Name fresh_ISISInstance name w)"

definition AddOrUpdateNetworkInstanceProtocolISISInstances ::
  "NetworkDeviceNetworkInstanceProtocolISISInstance
     \<Rightarrow> NetworkDeviceNetworkInstanceProtocolISIS \<Rightarrow> NetworkDeviceNetworkInstanceProtocolISIS" where
  "AddOrUpdateNetworkInstanceProtocolISISInstances new =
     GetOrCreateNetworkInstanceProtocolISISInstance (ii_Name new)
       (\<lambda>x. x\<lparr>ii_AddressFamilies := ii_AddressFamilies new, ii_LevelCapability := ii_LevelCapability new,
              ii_Net := ii_Net new, ii_MaxECMPPaths := ii_MaxECMPPaths new\<rparr>)"

definition GetOrCreateNetworkInstanceProtocolISISInstanceLevel1 ::
  "(NetworkDeviceNetworkInstanceProtocolISISInstanceLevel \<Rightarrow> NetworkDeviceNetworkInstanceProtocolISISInstanceLevel)
     \<Rightarrow> NetworkDeviceNetworkInstanceProtocolISISInstance \<Rightarrow> NetworkDeviceNetworkInstanceProtocolISISInstance" where
  "GetOrCreateNetworkInstanceProtocolISISInstanceLevel1 w = ii_Level1_update
     (orNew \<lparr>iln_MetricStyle = ISISMetricStyleOther ''''\<rparr> w)"

definition AddOrUpdateNetworkInstanceProtocolISISInstanceLevel1 ::
  "NetworkDeviceNetworkInstanceProtocolISISInstanceLevel
     \<Rightarrow> NetworkDeviceNetworkInstanceProtocolISISInstance \<Rightarrow> NetworkDeviceNetworkInstanceProtocolISISInstance" where
  "AddOrUpdateNetworkInstanceProtocolISISInstanceLevel1 new =
     GetOrCreateNetworkInstanceProtocolISISInstanceLevel1
       (\<lambda>l. l\<lparr>iln_MetricStyle := iln_MetricStyle new\<rparr>)"

definition GetOrCreateNetworkInstanceProtocolISISInstanceLevel2 ::
  "(NetworkDeviceNetworkInstanceProtocolISISInstanceLevel \<Rightarrow> NetworkDeviceNetworkInstanceProtocolISISInstanceLevel)
     \<Rightarrow> NetworkDeviceNetworkInstanceProtocolISISInstance \<Rightarrow> NetworkDeviceNetworkInstanceProtocolISISInstance" where
  "GetOrCreateNetworkInstanceProtocolISISInstanceLevel2 w = ii_Level2_update
     (orNew \<lparr>iln_MetricStyle = ISISMetricStyleOther ''''\<rparr> w)"

text \<open>
  The function takes the pointer of level 1 (\<open>device.go:328\<close>): after it both levels are that one
  struct, written with the new metric style.
\<close>

definition AddOrUpdateNetworkInstanceProtocolISISInstanceLevel2 ::
  "NetworkDeviceNetworkInstanceProtocolISISInstanceLevel
     \<Rightarrow> NetworkDeviceNetworkInstanceProtocolISISInstance \<Rightarrow> NetworkDeviceNetworkInstanceProtocolISISInstance" where
  "AddOrUpdateNetworkInstanceProtocolISISInstanceLevel2 new r =
     (let r' = GetOrCreateNetworkInstanceProtocolISISInstanceLevel1
                 (\<lambda>l. l\<lparr>iln_MetricStyle := iln_MetricStyle new\<rparr>) r
      in r'\<lparr>ii_Level2 := ii_Level1 r'\<rparr>)"

definition GetOrCreateNetworkInstanceProtocolISISInstanceInterface ::
  "NetworkDeviceNetworkInstanceInterface
     \<Rightarrow> (NetworkDeviceNetworkInstanceProtocolISISInstanceInterface
           \<Rightarrow> NetworkDeviceNetworkInstanceProtocolISISInstanceInterface)
     \<Rightarrow> NetworkDeviceNetworkInstanceProtocolISISInstance \<Rightarrow> NetworkDeviceNetworkInstanceProtocolISISInstance" where
  "GetOrCreateNetworkInstanceProtocolISISInstanceInterface siName w = ii_Interfaces_update
     (getOrCreate iii_SubInterfaceName (siSortKey \<circ> iii_SubInterfaceName) fresh_ISISInterface siName w)"

definition AddOrUpdateNetworkInstanceProtocolISISInstanceInterface ::
  "NetworkDeviceNetworkInstanceProtocolISISInstanceInterface
     \<Rightarrow> NetworkDeviceNetworkInstanceProtocolISISInstance \<Rightarrow> NetworkDeviceNetworkInstanceProtocolISISInstance" where
  "AddOrUpdateNetworkInstanceProtocolISISInstanceInterface new =
     GetOrCreateNetworkInstanceProtocolISISInstanceInterface (iii_SubInterfaceName new)
       (\<lambda>x. x\<lparr>iii_IPv4 := iii_IPv4 new, iii_IPv6 := iii_IPv6 new,
              iii_Passive := iii_Passive new, iii_NetworkType := iii_NetworkType new\<rparr>)"

definition GetOrCreateNetworkInstanceProtocolISISInstanceInterfaceIPv4 ::
  "(NetworkDeviceNetworkInstanceProtocolISISInstanceInterfaceIPv4
      \<Rightarrow> NetworkDeviceNetworkInstanceProtocolISISInstanceInterfaceIPv4)
     \<Rightarrow> NetworkDeviceNetworkInstanceProtocolISISInstanceInterface
     \<Rightarrow> NetworkDeviceNetworkInstanceProtocolISISInstanceInterface" where
  "GetOrCreateNetworkInstanceProtocolISISInstanceInterfaceIPv4 w =
     iii_IPv4_update (orNew \<lparr>ii4_BFD = False\<rparr> w)"

definition GetOrCreateNetworkInstanceProtocolISISInstanceInterfaceIPv6 ::
  "(NetworkDeviceNetworkInstanceProtocolISISInstanceInterfaceIPv6
      \<Rightarrow> NetworkDeviceNetworkInstanceProtocolISISInstanceInterfaceIPv6)
     \<Rightarrow> NetworkDeviceNetworkInstanceProtocolISISInstanceInterface
     \<Rightarrow> NetworkDeviceNetworkInstanceProtocolISISInstanceInterface" where
  "GetOrCreateNetworkInstanceProtocolISISInstanceInterfaceIPv6 w =
     iii_IPv6_update (orNew \<lparr>ii6_BFD = False\<rparr> w)"

definition GetOrCreateNetworkInstanceProtocolISISInstanceInterfaceLevel1 ::
  "(NetworkDeviceNetworkInstanceProtocolISISInstanceInterfaceLevel
      \<Rightarrow> NetworkDeviceNetworkInstanceProtocolISISInstanceInterfaceLevel)
     \<Rightarrow> NetworkDeviceNetworkInstanceProtocolISISInstanceInterface
     \<Rightarrow> NetworkDeviceNetworkInstanceProtocolISISInstanceInterface" where
  "GetOrCreateNetworkInstanceProtocolISISInstanceInterfaceLevel1 w =
     iii_Level1_update (orNew \<lparr>iil_Metric = 0, iil_MetricIPv6Unicast = 0, iil_Disable = False\<rparr> w)"

definition GetOrCreateNetworkInstanceProtocolISISInstanceInterfaceLevel2 ::
  "(NetworkDeviceNetworkInstanceProtocolISISInstanceInterfaceLevel
      \<Rightarrow> NetworkDeviceNetworkInstanceProtocolISISInstanceInterfaceLevel)
     \<Rightarrow> NetworkDeviceNetworkInstanceProtocolISISInstanceInterface
     \<Rightarrow> NetworkDeviceNetworkInstanceProtocolISISInstanceInterface" where
  "GetOrCreateNetworkInstanceProtocolISISInstanceInterfaceLevel2 w =
     iii_Level2_update (orNew \<lparr>iil_Metric = 0, iil_MetricIPv6Unicast = 0, iil_Disable = False\<rparr> w)"

interpretation isisinsts: name_slice ii_Name fresh_ISISInstance
  by unfold_locales (simp add: fresh_ISISInstance_def)

interpretation isisifs: keyed_slice iii_SubInterfaceName "siSortKey \<circ> iii_SubInterfaceName" fresh_ISISInterface
  by unfold_locales (simp_all add: fresh_ISISInterface_def)

section \<open>OSPF\<close>

definition GetOrCreateNetworkInstanceProtocolOSPFInstance ::
  "string \<Rightarrow> (NetworkDeviceNetworkInstanceProtocolOSPFInstance \<Rightarrow> NetworkDeviceNetworkInstanceProtocolOSPFInstance)
     \<Rightarrow> NetworkDeviceNetworkInstanceProtocolOSPF \<Rightarrow> NetworkDeviceNetworkInstanceProtocolOSPF" where
  "GetOrCreateNetworkInstanceProtocolOSPFInstance name w = ospf_Instances_update
     (getOrCreate oi_Name oi_Name fresh_OSPFInstance name w)"

definition AddOrUpdateNetworkInstanceProtocolOSPFInstances ::
  "NetworkDeviceNetworkInstanceProtocolOSPFInstance
     \<Rightarrow> NetworkDeviceNetworkInstanceProtocolOSPF \<Rightarrow> NetworkDeviceNetworkInstanceProtocolOSPF" where
  "AddOrUpdateNetworkInstanceProtocolOSPFInstances new =
     GetOrCreateNetworkInstanceProtocolOSPFInstance (oi_Name new)
       (\<lambda>x. x\<lparr>oi_ASBR := oi_ASBR new, oi_MaxECMPPaths := oi_MaxECMPPaths new,
              oi_RouterID := oi_RouterID new, oi_Version := oi_Version new\<rparr>)"

definition GetOrCreateNetworkInstanceProtocolOSPFInstanceArea ::
  "string \<Rightarrow> (NetworkDeviceNetworkInstanceProtocolOSPFInstanceArea \<Rightarrow> NetworkDeviceNetworkInstanceProtocolOSPFInstanceArea)
     \<Rightarrow> NetworkDeviceNetworkInstanceProtocolOSPFInstance \<Rightarrow> NetworkDeviceNetworkInstanceProtocolOSPFInstance" where
  "GetOrCreateNetworkInstanceProtocolOSPFInstanceArea name w = oi_Areas_update
     (getOrCreate oa_Name oa_Name fresh_OSPFArea name w)"

definition AddOrUpdateNetworkInstanceProtocolOSPFInstanceArea ::
  "NetworkDeviceNetworkInstanceProtocolOSPFInstanceArea
     \<Rightarrow> NetworkDeviceNetworkInstanceProtocolOSPFInstance \<Rightarrow> NetworkDeviceNetworkInstanceProtocolOSPFInstance" where
  "AddOrUpdateNetworkInstanceProtocolOSPFInstanceArea new =
     GetOrCreateNetworkInstanceProtocolOSPFInstanceArea (oa_Name new)
       (\<lambda>x. x\<lparr>oa_NSSA := oa_NSSA new, oa_Stub := oa_Stub new\<rparr>)"

definition GetOrCreateNetworkInstanceProtocolOSPFInstanceAreaStub ::
  "(unit \<Rightarrow> unit) \<Rightarrow> NetworkDeviceNetworkInstanceProtocolOSPFInstanceArea
     \<Rightarrow> NetworkDeviceNetworkInstanceProtocolOSPFInstanceArea" where
  "GetOrCreateNetworkInstanceProtocolOSPFInstanceAreaStub w = oa_Stub_update (orNew () w)"

definition GetOrCreateNetworkInstanceProtocolOSPFInstanceAreaNSSA ::
  "(unit \<Rightarrow> unit) \<Rightarrow> NetworkDeviceNetworkInstanceProtocolOSPFInstanceArea
     \<Rightarrow> NetworkDeviceNetworkInstanceProtocolOSPFInstanceArea" where
  "GetOrCreateNetworkInstanceProtocolOSPFInstanceAreaNSSA w = oa_NSSA_update (orNew () w)"

definition GetOrCreateNetworkInstanceProtocolOSPFInstanceAreaInterface ::
  "NetworkDeviceNetworkInstanceInterface
     \<Rightarrow> (NetworkDeviceNetworkInstanceProtocolOSPFInstanceAreaInterface
           \<Rightarrow> NetworkDeviceNetworkInstanceProtocolOSPFInstanceAreaInterface)
     \<Rightarrow> NetworkDeviceNetworkInstanceProtocolOSPFInstanceArea
     \<Rightarrow> NetworkDeviceNetworkInstanceProtocolOSPFInstanceArea" where
  "GetOrCreateNetworkInstanceProtocolOSPFInstanceAreaInterface siName w = oa_Interfaces_update
     (getOrCreate oai_SubInterfaceName (siSortKey \<circ> oai_SubInterfaceName) fresh_OSPFAreaInterface siName w)"

definition AddOrUpdateNetworkInstanceProtocolOSPFInstanceAreaInterface ::
  "NetworkDeviceNetworkInstanceProtocolOSPFInstanceAreaInterface
     \<Rightarrow> NetworkDeviceNetworkInstanceProtocolOSPFInstanceArea
     \<Rightarrow> NetworkDeviceNetworkInstanceProtocolOSPFInstanceArea" where
  "AddOrUpdateNetworkInstanceProtocolOSPFInstanceAreaInterface new =
     GetOrCreateNetworkInstanceProtocolOSPFInstanceAreaInterface (oai_SubInterfaceName new)
       (\<lambda>x. x\<lparr>oai_NetworkType := oai_NetworkType new, oai_Passive := oai_Passive new,
              oai_BFD := oai_BFD new\<rparr>)"

interpretation ospfinsts: name_slice oi_Name fresh_OSPFInstance
  by unfold_locales (simp add: fresh_OSPFInstance_def)

interpretation areas: name_slice oa_Name fresh_OSPFArea
  by unfold_locales (simp add: fresh_OSPFArea_def)

interpretation areaifs:
  keyed_slice oai_SubInterfaceName "siSortKey \<circ> oai_SubInterfaceName" fresh_OSPFAreaInterface
  by unfold_locales (simp_all add: fresh_OSPFAreaInterface_def)

section \<open>BGP\<close>

definition GetOrCreateNetworkInstanceProtocolBGPPeerGroup ::
  "string \<Rightarrow> (NetworkDeviceNetworkInstanceProtocolBGPPeerGroup \<Rightarrow> NetworkDeviceNetworkInstanceProtocolBGPPeerGroup)
     \<Rightarrow> NetworkDeviceNetworkInstanceProtocolBGP \<Rightarrow> NetworkDeviceNetworkInstanceProtocolBGP" where
  "GetOrCreateNetworkInstanceProtocolBGPPeerGroup name w = bgp_PeerGroups_update
     (getOrCreate pg_Name pg_Name fresh_BGPPeerGroup name w)"

definition AddOrUpdateNetworkInstanceProtocolBGPPeerGroup ::
  "NetworkDeviceNetworkInstanceProtocolBGPPeerGroup option
     \<Rightarrow> NetworkDeviceNetworkInstanceProtocolBGP \<Rightarrow> NetworkDeviceNetworkInstanceProtocolBGP" where
  "AddOrUpdateNetworkInstanceProtocolBGPPeerGroup new r = (case new of
      None \<Rightarrow> r
    | Some n \<Rightarrow>
        if pg_Name n = '''' then r
        else GetOrCreateNetworkInstanceProtocolBGPPeerGroup (pg_Name n)
          (\<lambda>x. x\<lparr>pg_AddressFamilies := pg_AddressFamilies n, pg_RouteReflector := pg_RouteReflector n,
                 pg_BFD := pg_BFD n\<rparr>) r)"

definition GetOrCreateNetworkInstanceProtocolBGPNeighbor ::
  "string \<Rightarrow> (NetworkDeviceNetworkInstanceProtocolBGPNeighbor \<Rightarrow> NetworkDeviceNetworkInstanceProtocolBGPNeighbor)
     \<Rightarrow> NetworkDeviceNetworkInstanceProtocolBGP \<Rightarrow> NetworkDeviceNetworkInstanceProtocolBGP" where
  "GetOrCreateNetworkInstanceProtocolBGPNeighbor peerAddress w = bgp_Neighbors_update
     (getOrCreate nb_PeerAddress nb_PeerAddress fresh_BGPNeighbor peerAddress w)"

definition AddOrUpdateNetworkInstanceProtocolBGNeighbor ::
  "NetworkDeviceNetworkInstanceProtocolBGPNeighbor option
     \<Rightarrow> NetworkDeviceNetworkInstanceProtocolBGP \<Rightarrow> NetworkDeviceNetworkInstanceProtocolBGP" where
  "AddOrUpdateNetworkInstanceProtocolBGNeighbor new r = (case new of
      None \<Rightarrow> r
    | Some n \<Rightarrow>
        if nb_PeerAddress n = '''' then r
        else GetOrCreateNetworkInstanceProtocolBGPNeighbor (nb_PeerAddress n)
          (\<lambda>x. x\<lparr>nb_LocalAS := nb_LocalAS n, nb_LocalAddress := nb_LocalAddress n,
                 nb_PeerAS := nb_PeerAS n, nb_PeerAddress := nb_PeerAddress n,
                 nb_PeerGroup := nb_PeerGroup n, nb_BFD := nb_BFD n\<rparr>) r)"

text \<open>Writing the key again changes nothing, so the write keeps the keys of the slice.\<close>

lemma AddOrUpdateBGNeighbor_Some:
  "AddOrUpdateNetworkInstanceProtocolBGNeighbor (Some n) r =
    (if nb_PeerAddress n = '''' then r
     else GetOrCreateNetworkInstanceProtocolBGPNeighbor (nb_PeerAddress n)
       (\<lambda>x. x\<lparr>nb_LocalAS := nb_LocalAS n, nb_LocalAddress := nb_LocalAddress n,
              nb_PeerAS := nb_PeerAS n, nb_PeerGroup := nb_PeerGroup n, nb_BFD := nb_BFD n\<rparr>) r)"
  unfolding AddOrUpdateNetworkInstanceProtocolBGNeighbor_def
    GetOrCreateNetworkInstanceProtocolBGPNeighbor_def
  by (auto intro!: NetworkDeviceNetworkInstanceProtocolBGP.fold_congs getOrCreate_write_cong)

definition GetOrCreateNetworkInstanceProtocolBGPDynamicNeighbors ::
  "(NetworkDeviceNetworkInstanceProtocolBGPDynamicNeighbors \<Rightarrow> NetworkDeviceNetworkInstanceProtocolBGPDynamicNeighbors)
     \<Rightarrow> NetworkDeviceNetworkInstanceProtocolBGP \<Rightarrow> NetworkDeviceNetworkInstanceProtocolBGP" where
  "GetOrCreateNetworkInstanceProtocolBGPDynamicNeighbors w = bgp_DynamicNeighbors_update
     (orNew \<lparr>dn_Prefixes = [], dn_Interfaces = []\<rparr> w)"

definition GetOrCreateNetworkInstanceProtocolBGPDynamicNeighborsInterface ::
  "NetworkDeviceNetworkInstanceInterface
     \<Rightarrow> (NetworkDeviceNetworkInstanceProtocolBGPDynamicNeighborsInterface
           \<Rightarrow> NetworkDeviceNetworkInstanceProtocolBGPDynamicNeighborsInterface)
     \<Rightarrow> NetworkDeviceNetworkInstanceProtocolBGPDynamicNeighbors
     \<Rightarrow> NetworkDeviceNetworkInstanceProtocolBGPDynamicNeighbors" where
  "GetOrCreateNetworkInstanceProtocolBGPDynamicNeighborsInterface siName w = dn_Interfaces_update
     (getOrCreate dni_SubInterfaceName (siSortKey \<circ> dni_SubInterfaceName)
        fresh_BGPDynamicNeighborsInterface siName w)"

definition AddOrUpdateetworkInstanceProtocolBGPDynamicNeighborsInterface ::
  "NetworkDeviceNetworkInstanceProtocolBGPDynamicNeighborsInterface option
     \<Rightarrow> NetworkDeviceNetworkInstanceProtocolBGPDynamicNeighbors
     \<Rightarrow> NetworkDeviceNetworkInstanceProtocolBGPDynamicNeighbors" where
  "AddOrUpdateetworkInstanceProtocolBGPDynamicNeighborsInterface new r = (case new of
      None \<Rightarrow> r
    | Some n \<Rightarrow>
        if nii_Name (dni_SubInterfaceName n) = '''' then r
        else GetOrCreateNetworkInstanceProtocolBGPDynamicNeighborsInterface (dni_SubInterfaceName n)
          (\<lambda>x. x\<lparr>dni_PeerAS := dni_PeerAS n, dni_PeerGroup := dni_PeerGroup n\<rparr>) r)"

interpretation pgs: name_slice pg_Name fresh_BGPPeerGroup
  by unfold_locales (simp add: fresh_BGPPeerGroup_def)

interpretation nbs: name_slice nb_PeerAddress fresh_BGPNeighbor
  by unfold_locales (simp add: fresh_BGPNeighbor_def)

interpretation dnis: keyed_slice dni_SubInterfaceName "siSortKey \<circ> dni_SubInterfaceName"
  fresh_BGPDynamicNeighborsInterface
  by unfold_locales (simp_all add: fresh_BGPDynamicNeighborsInterface_def)

section \<open>Routing policies and system protocols\<close>

definition GetOrCreateRoutingPolicy ::
  "string \<Rightarrow> (NetworkDeviceRoutingPolicy \<Rightarrow> NetworkDeviceRoutingPolicy) \<Rightarrow> NetworkDevice \<Rightarrow> NetworkDevice" where
  "GetOrCreateRoutingPolicy name w = dev_Spec_update (spec_RoutingPolicies_update
     (getOrCreate rp_Name rp_Name fresh_RoutingPolicy name w))"

definition AddOrUpdateRoutingPolicy :: "NetworkDeviceRoutingPolicy option \<Rightarrow> NetworkDevice \<Rightarrow> NetworkDevice" where
  "AddOrUpdateRoutingPolicy new r = (case new of
      None \<Rightarrow> r
    | Some n \<Rightarrow>
        if rp_Name n = '''' then r
        else GetOrCreateRoutingPolicy (rp_Name n)
          (\<lambda>x. x\<lparr>rp_IPv4Prefixes := rp_IPv4Prefixes n, rp_IPv6Prefixes := rp_IPv6Prefixes n\<rparr>) r)"

definition GetOrCreateSystem ::
  "(NetworkDeviceSystem \<Rightarrow> NetworkDeviceSystem) \<Rightarrow> NetworkDevice \<Rightarrow> NetworkDevice" where
  "GetOrCreateSystem w = dev_Spec_update (spec_System_update (orNew \<lparr>sys_Protocols = None\<rparr> w))"

definition GetOrCreateSystemProtocols ::
  "(NetworkDeviceSystemProtocols \<Rightarrow> NetworkDeviceSystemProtocols) \<Rightarrow> NetworkDeviceSystem \<Rightarrow> NetworkDeviceSystem" where
  "GetOrCreateSystemProtocols w = sys_Protocols_update (orNew zero_SystemProtocols w)"

definition GetOrCreateSystemProtocolsBGPEVPN ::
  "(unit \<Rightarrow> unit) \<Rightarrow> NetworkDeviceSystemProtocols \<Rightarrow> NetworkDeviceSystemProtocols" where
  "GetOrCreateSystemProtocolsBGPEVPN w = sysp_BGPEVPN_update (orNew () w)"

definition GetOrCreateSystemProtocolsBGPVPN ::
  "(unit \<Rightarrow> unit) \<Rightarrow> NetworkDeviceSystemProtocols \<Rightarrow> NetworkDeviceSystemProtocols" where
  "GetOrCreateSystemProtocolsBGPVPN w = sysp_BGPVPN_update (orNew () w)"

interpretation rps: name_slice rp_Name fresh_RoutingPolicy
  by unfold_locales (simp add: fresh_RoutingPolicy_def)

end
