(* ===== verification/DeviceInvariant.thy ===== *)
theory DeviceInvariant
  imports DeviceProtocols
begin

text \<open>
  The well-formedness of a device configuration: every slice of it, at every depth, is in strict order
  of its sort key, so without duplicates. Every operation of \<open>device.go\<close> keeps it; the rules are
  collected in \<open>wf_pres\<close>, one per find-or-create function, and compose along the nesting of the
  structs.
\<close>

named_theorems wf_pres
named_theorems wf_fresh

section \<open>The invariant\<close>

definition interface_wf :: "NetworkDeviceInterface \<Rightarrow> bool" where
  "interface_wf i \<longleftrightarrow> slice_wf si_ID (if_SubInterfaces i)"

definition tunnel_wf :: "NetworkDeviceTunnelInterface \<Rightarrow> bool" where
  "tunnel_wf t \<longleftrightarrow> slice_wf tsi_ID (tun_SubInterfaces t)"

definition bfd_wf :: "NetworkDeviceBFD \<Rightarrow> bool" where
  "bfd_wf b \<longleftrightarrow> slice_wf (siSortKey \<circ> bfdi_SubInterfaceName) (bfd_Interfaces b)"

definition isis_instance_wf :: "NetworkDeviceNetworkInstanceProtocolISISInstance \<Rightarrow> bool" where
  "isis_instance_wf i \<longleftrightarrow> slice_wf (siSortKey \<circ> iii_SubInterfaceName) (ii_Interfaces i)"

definition isis_wf :: "NetworkDeviceNetworkInstanceProtocolISIS \<Rightarrow> bool" where
  "isis_wf p \<longleftrightarrow> slice_all ii_Name isis_instance_wf (isis_Instances p)"

definition ospf_area_wf :: "NetworkDeviceNetworkInstanceProtocolOSPFInstanceArea \<Rightarrow> bool" where
  "ospf_area_wf a \<longleftrightarrow> slice_wf (siSortKey \<circ> oai_SubInterfaceName) (oa_Interfaces a)"

definition ospf_instance_wf :: "NetworkDeviceNetworkInstanceProtocolOSPFInstance \<Rightarrow> bool" where
  "ospf_instance_wf i \<longleftrightarrow> slice_all oa_Name ospf_area_wf (oi_Areas i)"

definition ospf_wf :: "NetworkDeviceNetworkInstanceProtocolOSPF \<Rightarrow> bool" where
  "ospf_wf p \<longleftrightarrow> slice_all oi_Name ospf_instance_wf (ospf_Instances p)"

definition dynamic_neighbors_wf :: "NetworkDeviceNetworkInstanceProtocolBGPDynamicNeighbors \<Rightarrow> bool" where
  "dynamic_neighbors_wf n \<longleftrightarrow> slice_wf (siSortKey \<circ> dni_SubInterfaceName) (dn_Interfaces n)"

definition bgp_wf :: "NetworkDeviceNetworkInstanceProtocolBGP \<Rightarrow> bool" where
  "bgp_wf b \<longleftrightarrow> slice_wf pg_Name (bgp_PeerGroups b) \<and> slice_wf nb_PeerAddress (bgp_Neighbors b) \<and>
     optAll dynamic_neighbors_wf (bgp_DynamicNeighbors b)"

definition protocols_wf :: "NetworkDeviceNetworkInstanceProtocols \<Rightarrow> bool" where
  "protocols_wf p \<longleftrightarrow> optAll bgp_wf (p_BGP p) \<and> optAll isis_wf (p_ISIS p) \<and> optAll ospf_wf (p_OSPF p)"

definition network_instance_wf :: "NetworkDeviceNetworkInstance \<Rightarrow> bool" where
  "network_instance_wf n \<longleftrightarrow> optAll protocols_wf (ni_Protocols n)"

definition device_wf :: "NetworkDevice \<Rightarrow> bool" where
  "device_wf d \<longleftrightarrow>
     slice_all if_Name interface_wf (spec_Interfaces (dev_Spec d)) \<and>
     slice_all tun_Name tunnel_wf (spec_TunnelInterfaces (dev_Spec d)) \<and>
     slice_all ni_Name network_instance_wf (spec_NetworkInstances (dev_Spec d)) \<and>
     slice_wf rp_Name (spec_RoutingPolicies (dev_Spec d)) \<and>
     optAll bfd_wf (spec_BFD (dev_Spec d))"

section \<open>Fresh structs are well formed\<close>

lemma fresh_wf [wf_fresh]:
  "interface_wf (fresh_Interface n)" "tunnel_wf (fresh_TunnelInterface n)"
  "isis_instance_wf (fresh_ISISInstance n)" "ospf_instance_wf (fresh_OSPFInstance n)"
  "ospf_area_wf (fresh_OSPFArea n)" "network_instance_wf (fresh_NetworkInstance n)"
  "bgp_wf zero_BGP" "protocols_wf zero_Protocols"
  by (simp_all add: interface_wf_def fresh_Interface_def tunnel_wf_def fresh_TunnelInterface_def
      isis_instance_wf_def fresh_ISISInstance_def ospf_instance_wf_def fresh_OSPFInstance_def
      ospf_area_wf_def fresh_OSPFArea_def network_instance_wf_def fresh_NetworkInstance_def
      bgp_wf_def zero_BGP_def protocols_wf_def zero_Protocols_def)

lemma empty_wf [wf_fresh]:
  "bfd_wf \<lparr>bfd_Interfaces = []\<rparr>" "isis_wf \<lparr>isis_Instances = []\<rparr>" "ospf_wf \<lparr>ospf_Instances = []\<rparr>"
  "dynamic_neighbors_wf \<lparr>dn_Prefixes = ps, dn_Interfaces = []\<rparr>"
  by (simp_all add: bfd_wf_def isis_wf_def ospf_wf_def dynamic_neighbors_wf_def)

lemma device_wf_NewDevice [wf_fresh]: "device_wf (NewDevice nsn nodeName)"
  by (simp add: device_wf_def NewDevice_def BuildNetworkDevice_def Let_def zero_DeviceSpec_def)

section \<open>Every find-or-create function keeps it\<close>

lemma wf_Device_AddProvider [wf_pres]: "device_wf d \<Longrightarrow> device_wf (Device_AddProvider p d)"
  by (simp add: device_wf_def Device_AddProvider_def)

lemma wf_GetOrCreateInterface [wf_pres]:
  assumes "device_wf d" "\<And>i. interface_wf i \<Longrightarrow> interface_wf (w i)" "\<And>i. if_Name (w i) = if_Name i"
  shows "device_wf (GetOrCreateInterface n w d)"
  using assms unfolding device_wf_def GetOrCreateInterface_def
  by (auto intro!: ifs.slice_all_getOrCreate wf_fresh)

lemma wf_GetOrCreateTunnelInterface [wf_pres]:
  assumes "device_wf d" "\<And>t. tunnel_wf t \<Longrightarrow> tunnel_wf (w t)" "\<And>t. tun_Name (w t) = tun_Name t"
  shows "device_wf (GetOrCreateTunnelInterface n w d)"
  using assms unfolding device_wf_def GetOrCreateTunnelInterface_def
  by (auto intro!: tuns.slice_all_getOrCreate wf_fresh)

lemma wf_GetOrCreateNetworkInstance [wf_pres]:
  assumes "device_wf d" "\<And>n. network_instance_wf n \<Longrightarrow> network_instance_wf (w n)"
    "\<And>n. ni_Name (w n) = ni_Name n"
  shows "device_wf (GetOrCreateNetworkInstance name w d)"
  using assms unfolding device_wf_def GetOrCreateNetworkInstance_def
  by (auto intro!: nis.slice_all_getOrCreate wf_fresh)

lemma wf_GetOrCreateRoutingPolicy [wf_pres]:
  assumes "device_wf d" "\<And>p. rp_Name (w p) = rp_Name p"
  shows "device_wf (GetOrCreateRoutingPolicy name w d)"
  using assms unfolding device_wf_def GetOrCreateRoutingPolicy_def
  by (auto intro!: rps.wf_getOrCreate)

lemma wf_GetOrCreateBFD [wf_pres]:
  assumes "device_wf d" "\<And>b. bfd_wf b \<Longrightarrow> bfd_wf (w b)"
  shows "device_wf (GetOrCreateBFD w d)"
  using assms unfolding device_wf_def GetOrCreateBFD_def by (auto intro!: optAll_orNew wf_fresh)

lemma wf_GetOrCreateSystem [wf_pres]:
  assumes "device_wf d"
  shows "device_wf (GetOrCreateSystem w d)"
  using assms unfolding device_wf_def GetOrCreateSystem_def by simp

lemma wf_GetOrCreateInterfaceSubInterface [wf_pres]:
  assumes "interface_wf i" "\<And>s. si_ID (w s) = si_ID s"
  shows "interface_wf (GetOrCreateInterfaceSubInterface k w i)"
  using assms unfolding interface_wf_def GetOrCreateInterfaceSubInterface_def
  by (auto intro!: subifs.wf_getOrCreate)

lemma wf_GetOrCreateTunnelInterfaceSubInterface [wf_pres]:
  assumes "tunnel_wf i" "\<And>s. tsi_ID (w s) = tsi_ID s"
  shows "tunnel_wf (GetOrCreateTunnelInterfaceSubInterface k w i)"
  using assms unfolding tunnel_wf_def GetOrCreateTunnelInterfaceSubInterface_def
  by (auto intro!: tsubifs.wf_getOrCreate)

lemma wf_GetOrCreateBFDInterface [wf_pres]:
  assumes "bfd_wf b" "\<And>i. bfdi_SubInterfaceName (w i) = bfdi_SubInterfaceName i"
  shows "bfd_wf (GetOrCreateBFDInterface n w b)"
  using assms unfolding bfd_wf_def GetOrCreateBFDInterface_def
  by (auto intro!: bfdis.wf_getOrCreate)

lemma wf_GetOrCreateNetworkInstanceProtocols [wf_pres]:
  assumes "network_instance_wf n" "\<And>p. protocols_wf p \<Longrightarrow> protocols_wf (w p)"
  shows "network_instance_wf (GetOrCreateNetworkInstanceProtocols w n)"
  using assms unfolding network_instance_wf_def GetOrCreateNetworkInstanceProtocols_def
  by (auto intro!: optAll_orNew wf_fresh)

lemma wf_GetOrCreateNetworkInstanceProtocolsBGP [wf_pres]:
  assumes "protocols_wf p" "\<And>b. bgp_wf b \<Longrightarrow> bgp_wf (w b)"
  shows "protocols_wf (GetOrCreateNetworkInstanceProtocolsBGP w p)"
  using assms unfolding protocols_wf_def GetOrCreateNetworkInstanceProtocolsBGP_def
  by (auto intro!: optAll_orNew wf_fresh)

lemma wf_GetOrCreateNetworkInstanceProtocolsISIS [wf_pres]:
  assumes "protocols_wf p" "\<And>b. isis_wf b \<Longrightarrow> isis_wf (w b)"
  shows "protocols_wf (GetOrCreateNetworkInstanceProtocolsISIS w p)"
  using assms unfolding protocols_wf_def GetOrCreateNetworkInstanceProtocolsISIS_def
  by (auto intro!: optAll_orNew wf_fresh)

lemma wf_GetOrCreateNetworkInstanceProtocolsOSPF [wf_pres]:
  assumes "protocols_wf p" "\<And>b. ospf_wf b \<Longrightarrow> ospf_wf (w b)"
  shows "protocols_wf (GetOrCreateNetworkInstanceProtocolsOSPF w p)"
  using assms unfolding protocols_wf_def GetOrCreateNetworkInstanceProtocolsOSPF_def
  by (auto intro!: optAll_orNew wf_fresh)

lemma wf_GetOrCreateProtocolsVPN [wf_pres]:
  "protocols_wf p \<Longrightarrow> protocols_wf (GetOrCreateNetworkInstanceProtocolsBGPEVPN u p)"
  "protocols_wf p \<Longrightarrow> protocols_wf (GetOrCreateNetworkInstanceProtocolsBGPVPN v p)"
  by (simp_all add: protocols_wf_def GetOrCreateNetworkInstanceProtocolsBGPEVPN_def
      GetOrCreateNetworkInstanceProtocolsBGPVPN_def)

lemma wf_GetOrCreateISISInstance [wf_pres]:
  assumes "isis_wf p" "\<And>i. isis_instance_wf i \<Longrightarrow> isis_instance_wf (w i)" "\<And>i. ii_Name (w i) = ii_Name i"
  shows "isis_wf (GetOrCreateNetworkInstanceProtocolISISInstance n w p)"
  using assms unfolding isis_wf_def GetOrCreateNetworkInstanceProtocolISISInstance_def
  by (auto intro!: isisinsts.slice_all_getOrCreate wf_fresh)

lemma wf_GetOrCreateISISInstanceInterface [wf_pres]:
  assumes "isis_instance_wf p" "\<And>i. iii_SubInterfaceName (w i) = iii_SubInterfaceName i"
  shows "isis_instance_wf (GetOrCreateNetworkInstanceProtocolISISInstanceInterface n w p)"
  using assms unfolding isis_instance_wf_def GetOrCreateNetworkInstanceProtocolISISInstanceInterface_def
  by (auto intro!: isisifs.wf_getOrCreate)

lemma wf_GetOrCreateOSPFInstance [wf_pres]:
  assumes "ospf_wf p" "\<And>i. ospf_instance_wf i \<Longrightarrow> ospf_instance_wf (w i)" "\<And>i. oi_Name (w i) = oi_Name i"
  shows "ospf_wf (GetOrCreateNetworkInstanceProtocolOSPFInstance n w p)"
  using assms unfolding ospf_wf_def GetOrCreateNetworkInstanceProtocolOSPFInstance_def
  by (auto intro!: ospfinsts.slice_all_getOrCreate wf_fresh)

lemma wf_GetOrCreateOSPFInstanceArea [wf_pres]:
  assumes "ospf_instance_wf p" "\<And>a. ospf_area_wf a \<Longrightarrow> ospf_area_wf (w a)" "\<And>a. oa_Name (w a) = oa_Name a"
  shows "ospf_instance_wf (GetOrCreateNetworkInstanceProtocolOSPFInstanceArea n w p)"
  using assms unfolding ospf_instance_wf_def GetOrCreateNetworkInstanceProtocolOSPFInstanceArea_def
  by (auto intro!: areas.slice_all_getOrCreate wf_fresh)

lemma wf_GetOrCreateOSPFAreaInterface [wf_pres]:
  assumes "ospf_area_wf a" "\<And>i. oai_SubInterfaceName (w i) = oai_SubInterfaceName i"
  shows "ospf_area_wf (GetOrCreateNetworkInstanceProtocolOSPFInstanceAreaInterface n w a)"
  using assms unfolding ospf_area_wf_def GetOrCreateNetworkInstanceProtocolOSPFInstanceAreaInterface_def
  by (auto intro!: areaifs.wf_getOrCreate)

lemma wf_GetOrCreateBGPPeerGroup [wf_pres]:
  assumes "bgp_wf b" "\<And>g. pg_Name (w g) = pg_Name g"
  shows "bgp_wf (GetOrCreateNetworkInstanceProtocolBGPPeerGroup n w b)"
  using assms unfolding bgp_wf_def GetOrCreateNetworkInstanceProtocolBGPPeerGroup_def
  by (auto intro!: pgs.wf_getOrCreate)

lemma wf_GetOrCreateBGPNeighbor [wf_pres]:
  assumes "bgp_wf b" "\<And>n. nb_PeerAddress (w n) = nb_PeerAddress n"
  shows "bgp_wf (GetOrCreateNetworkInstanceProtocolBGPNeighbor k w b)"
  using assms unfolding bgp_wf_def GetOrCreateNetworkInstanceProtocolBGPNeighbor_def
  by (auto intro!: nbs.wf_getOrCreate)

lemma wf_GetOrCreateBGPDynamicNeighbors [wf_pres]:
  assumes "bgp_wf b" "\<And>n. dynamic_neighbors_wf n \<Longrightarrow> dynamic_neighbors_wf (w n)"
  shows "bgp_wf (GetOrCreateNetworkInstanceProtocolBGPDynamicNeighbors w b)"
  using assms unfolding bgp_wf_def GetOrCreateNetworkInstanceProtocolBGPDynamicNeighbors_def
  by (auto intro!: optAll_orNew wf_fresh)

lemma wf_GetOrCreateBGPDynamicNeighborsInterface [wf_pres]:
  assumes "dynamic_neighbors_wf n" "\<And>i. dni_SubInterfaceName (w i) = dni_SubInterfaceName i"
  shows "dynamic_neighbors_wf (GetOrCreateNetworkInstanceProtocolBGPDynamicNeighborsInterface k w n)"
  using assms unfolding dynamic_neighbors_wf_def
    GetOrCreateNetworkInstanceProtocolBGPDynamicNeighborsInterface_def
  by (auto intro!: dnis.wf_getOrCreate)

section \<open>The keys that the writes of inner structs keep\<close>

lemma inner_writes_keep_keys [simp]:
  "if_Name (GetOrCreateInterfaceSubInterface k wsi i) = if_Name i"
  "tun_Name (GetOrCreateTunnelInterfaceSubInterface k wtsi t) = tun_Name t"
  "ni_Name (GetOrCreateNetworkInstanceProtocols wp n) = ni_Name n"
  "ii_Name (GetOrCreateNetworkInstanceProtocolISISInstanceInterface s wi ii) = ii_Name ii"
  "oi_Name (GetOrCreateNetworkInstanceProtocolOSPFInstanceArea a wa oi) = oi_Name oi"
  "oa_Name (GetOrCreateNetworkInstanceProtocolOSPFInstanceAreaInterface s wai oa) = oa_Name oa"
  by (simp_all add: GetOrCreateInterfaceSubInterface_def GetOrCreateTunnelInterfaceSubInterface_def
      GetOrCreateNetworkInstanceProtocols_def GetOrCreateNetworkInstanceProtocolISISInstanceInterface_def
      GetOrCreateNetworkInstanceProtocolOSPFInstanceArea_def
      GetOrCreateNetworkInstanceProtocolOSPFInstanceAreaInterface_def)

text \<open>A write to a field that holds no slice keeps the well-formedness of its struct.\<close>

lemma plain_writes_wf [simp]:
  "interface_wf (if_VLANTagging_update g1 i) = interface_wf i"
  "interface_wf (if_Speed_update g2 i) = interface_wf i"
  "interface_wf (if_LAGMember_update g1 i) = interface_wf i"
  "isis_instance_wf (ii_AddressFamilies_update g3 ii) = isis_instance_wf ii"
  "isis_instance_wf (ii_LevelCapability_update g4 ii) = isis_instance_wf ii"
  "isis_instance_wf (ii_MaxECMPPaths_update g5 ii) = isis_instance_wf ii"
  "isis_instance_wf (ii_Net_update g3 ii) = isis_instance_wf ii"
  "isis_instance_wf (ii_Level1_update g6 ii) = isis_instance_wf ii"
  "isis_instance_wf (ii_Level2_update g6 ii) = isis_instance_wf ii"
  "ospf_instance_wf (oi_RouterID_update g2 oi) = ospf_instance_wf oi"
  "ospf_instance_wf (oi_Version_update g7 oi) = ospf_instance_wf oi"
  "ospf_instance_wf (oi_MaxECMPPaths_update g5 oi) = ospf_instance_wf oi"
  "ospf_instance_wf (oi_ASBR_update g1 oi) = ospf_instance_wf oi"
  "ospf_area_wf (oa_NSSA_update g8 oa) = ospf_area_wf oa"
  "ospf_area_wf (oa_Stub_update g8 oa) = ospf_area_wf oa"
  "bgp_wf (bgp_AS_update g5 b) = bgp_wf b"
  "bgp_wf (bgp_RouterID_update g2 b) = bgp_wf b"
  "bgp_wf (bgp_AddressFamilies_update g9 b) = bgp_wf b"
  "network_instance_wf (ni_Type_update g2 n) = network_instance_wf n"
  "network_instance_wf (ni_Interfaces_update g10 n) = network_instance_wf n"
  "network_instance_wf (ni_VXLANInterface_update g11 n) = network_instance_wf n"
  by (simp_all add: interface_wf_def isis_instance_wf_def ospf_instance_wf_def ospf_area_wf_def
      bgp_wf_def network_instance_wf_def)

section \<open>The guarded operations\<close>

lemma wf_AddOrUpdate_device [wf_pres]:
  "device_wf d \<Longrightarrow> device_wf (AddOrUpdateInterface i d)"
  "device_wf d \<Longrightarrow> device_wf (AddOrUpdateTunnelInterface t d)"
  "device_wf d \<Longrightarrow> device_wf (AddOrUpdateRoutingPolicy p d)"
  "device_wf d \<Longrightarrow> device_wf (Device_AddNetworkInstance n ty is vx d)"
  by (auto simp: AddOrUpdateInterface_def AddOrUpdateTunnelInterface_def AddOrUpdateRoutingPolicy_def
      Device_AddNetworkInstance_def split: option.splits intro!: wf_pres)

lemma wf_AddOrUpdate_inner [wf_pres]:
  "interface_wf itf \<Longrightarrow> interface_wf (AddOrUpdateInterfaceSubInterface si itf)"
  "tunnel_wf tun \<Longrightarrow> tunnel_wf (AddOrUpdateTunnelInterfaceSubInterface tsi tun)"
  "bfd_wf bfd \<Longrightarrow> bfd_wf (AddOrUpdateBFDInterface bi bfd)"
  "isis_wf isis \<Longrightarrow> isis_wf (AddOrUpdateNetworkInstanceProtocolISISInstances ii isis)"
  "isis_instance_wf inst \<Longrightarrow>
     isis_instance_wf (AddOrUpdateNetworkInstanceProtocolISISInstanceInterface iii inst)"
  "ospf_wf ospf \<Longrightarrow> ospf_wf (AddOrUpdateNetworkInstanceProtocolOSPFInstances oi ospf)"
  "ospf_instance_wf oinst \<Longrightarrow>
     ospf_instance_wf (AddOrUpdateNetworkInstanceProtocolOSPFInstanceArea ar oinst)"
  "ospf_area_wf area \<Longrightarrow>
     ospf_area_wf (AddOrUpdateNetworkInstanceProtocolOSPFInstanceAreaInterface oai area)"
  by (auto simp: AddOrUpdateInterfaceSubInterface_def AddOrUpdateTunnelInterfaceSubInterface_def
      AddOrUpdateBFDInterface_def AddOrUpdateNetworkInstanceProtocolISISInstances_def
      AddOrUpdateNetworkInstanceProtocolISISInstanceInterface_def
      AddOrUpdateNetworkInstanceProtocolOSPFInstances_def
      AddOrUpdateNetworkInstanceProtocolOSPFInstanceArea_def
      AddOrUpdateNetworkInstanceProtocolOSPFInstanceAreaInterface_def
      split: option.splits intro!: wf_pres)

lemma wf_AddOrUpdate_bgp [wf_pres]:
  "bgp_wf b \<Longrightarrow> bgp_wf (AddOrUpdateNetworkInstanceProtocolBGPPeerGroup pg b)"
  "bgp_wf b \<Longrightarrow> bgp_wf (AddOrUpdateNetworkInstanceProtocolBGNeighbor nb b)"
  "dynamic_neighbors_wf dn \<Longrightarrow>
     dynamic_neighbors_wf (AddOrUpdateetworkInstanceProtocolBGPDynamicNeighborsInterface dni dn)"
proof -
  assume "bgp_wf b"
  then show "bgp_wf (AddOrUpdateNetworkInstanceProtocolBGPPeerGroup pg b)"
    by (auto simp: AddOrUpdateNetworkInstanceProtocolBGPPeerGroup_def split: option.splits intro!: wf_pres)
next
  assume "bgp_wf b"
  then show "bgp_wf (AddOrUpdateNetworkInstanceProtocolBGNeighbor nb b)"
    by (cases nb) (auto simp: AddOrUpdateBGNeighbor_Some intro!: wf_pres,
      simp add: AddOrUpdateNetworkInstanceProtocolBGNeighbor_def)
next
  assume "dynamic_neighbors_wf dn"
  then show "dynamic_neighbors_wf (AddOrUpdateetworkInstanceProtocolBGPDynamicNeighborsInterface dni dn)"
    by (auto simp: AddOrUpdateetworkInstanceProtocolBGPDynamicNeighborsInterface_def
        split: option.splits intro!: wf_pres)
qed

end
