(* ===== verification/DevicesStore.thy ===== *)
theory DevicesStore
  imports DeviceInvariant
begin

text \<open>
  The device configurations of one build (\<open>pkg/devbuilder/devices.go\<close>): a map from node names to
  devices, where every operation creates the device of its node when it is missing. The mutex of the
  Go struct makes each operation atomic, so an operation is a function of the state.

  The step relation \<open>devices_step node\<close> has one rule per operation, and \<open>devices_run N\<close> is any
  sequence of operations on nodes of \<open>N\<close>; the locale \<open>devices_invariant\<close> carries what every operation
  keeps to such sequences, hence to whole builds.
\<close>

record Devices =
  dvs_nsn :: NamespacedName
  dvs_devices :: "string \<rightharpoonup> NetworkDevice"

definition NewDevices :: "NamespacedName \<Rightarrow> Devices" where
  "NewDevices nsn = \<lparr>dvs_nsn = nsn, dvs_devices = Map.empty\<rparr>"

text \<open>The order in which Go ranges over the map is not defined; it is the parameter \<open>order\<close>.\<close>

definition GetNetworkDeviceConfigs :: "string list \<Rightarrow> Devices \<Rightarrow> NetworkDevice list" where
  "GetNetworkDeviceConfigs order r = List.map_filter (dvs_devices r) order"

section \<open>The operations\<close>

text \<open>
  The device of a node: \<open>if _, ok := r.devices[nodeName]; !ok { r.devices[nodeName] = NewDevice(r.nsn, nodeName) }\<close>.
\<close>

definition deviceOf :: "Devices \<Rightarrow> string \<Rightarrow> NetworkDevice" where
  "deviceOf r nodeName = (case dvs_devices r nodeName of
      None \<Rightarrow> NewDevice (dvs_nsn r) nodeName | Some d \<Rightarrow> d)"

definition withDevice :: "string \<Rightarrow> (NetworkDevice \<Rightarrow> NetworkDevice) \<Rightarrow> Devices \<Rightarrow> Devices" where
  "withDevice nodeName w r = r\<lparr>dvs_devices := (dvs_devices r)(nodeName \<mapsto> w (deviceOf r nodeName))\<rparr>"

text \<open>\<open>d.GetOrCreateNetworkInstance(niName).GetOrCreateNetworkInstanceProtocols()\<close> and the BGP, ISIS
  and OSPF structs under it.\<close>

definition onProtocols ::
  "string \<Rightarrow> (NetworkDeviceNetworkInstanceProtocols \<Rightarrow> NetworkDeviceNetworkInstanceProtocols)
     \<Rightarrow> NetworkDevice \<Rightarrow> NetworkDevice" where
  "onProtocols niName w = GetOrCreateNetworkInstance niName (GetOrCreateNetworkInstanceProtocols w)"

abbreviation onBGP ::
  "string \<Rightarrow> (NetworkDeviceNetworkInstanceProtocolBGP \<Rightarrow> NetworkDeviceNetworkInstanceProtocolBGP)
     \<Rightarrow> NetworkDevice \<Rightarrow> NetworkDevice" where
  "onBGP niName w \<equiv> onProtocols niName (GetOrCreateNetworkInstanceProtocolsBGP w)"

abbreviation onISIS ::
  "string \<Rightarrow> (NetworkDeviceNetworkInstanceProtocolISIS \<Rightarrow> NetworkDeviceNetworkInstanceProtocolISIS)
     \<Rightarrow> NetworkDevice \<Rightarrow> NetworkDevice" where
  "onISIS niName w \<equiv> onProtocols niName (GetOrCreateNetworkInstanceProtocolsISIS w)"

abbreviation onOSPF ::
  "string \<Rightarrow> (NetworkDeviceNetworkInstanceProtocolOSPF \<Rightarrow> NetworkDeviceNetworkInstanceProtocolOSPF)
     \<Rightarrow> NetworkDevice \<Rightarrow> NetworkDevice" where
  "onOSPF niName w \<equiv> onProtocols niName (GetOrCreateNetworkInstanceProtocolsOSPF w)"

definition AddProvider :: "string \<Rightarrow> string \<Rightarrow> Devices \<Rightarrow> Devices" where
  "AddProvider nodeName provider = withDevice nodeName (Device_AddProvider provider)"

definition AddNetworkInstanceProtocolsBGPAS :: "string \<Rightarrow> string \<Rightarrow> uint32 \<Rightarrow> Devices \<Rightarrow> Devices" where
  "AddNetworkInstanceProtocolsBGPAS nodeName niName as =
     withDevice nodeName (onBGP niName (\<lambda>b. b\<lparr>bgp_AS := as\<rparr>))"

definition AddNetworkInstanceProtocolsBGPRouterID :: "string \<Rightarrow> string \<Rightarrow> string \<Rightarrow> Devices \<Rightarrow> Devices" where
  "AddNetworkInstanceProtocolsBGPRouterID nodeName niName routerID =
     withDevice nodeName (onBGP niName (\<lambda>b. b\<lparr>bgp_RouterID := routerID\<rparr>))"

definition AddNetworkInstanceProtocolsBGPAddressFamilies ::
  "string \<Rightarrow> string \<Rightarrow> NetworkDeviceNetworkInstanceProtocolBGPAddressFamily list \<Rightarrow> Devices \<Rightarrow> Devices" where
  "AddNetworkInstanceProtocolsBGPAddressFamilies nodeName niName afs =
     withDevice nodeName (onBGP niName (\<lambda>b. b\<lparr>bgp_AddressFamilies := afs\<rparr>))"

definition AddBFDInterface :: "string \<Rightarrow> NetworkDeviceBFDInterface option \<Rightarrow> Devices \<Rightarrow> Devices" where
  "AddBFDInterface nodeName x = withDevice nodeName (GetOrCreateBFD (AddOrUpdateBFDInterface x))"

definition AddInterface :: "string \<Rightarrow> NetworkDeviceInterface option \<Rightarrow> Devices \<Rightarrow> Devices" where
  "AddInterface nodeName x = withDevice nodeName (AddOrUpdateInterface x)"

definition AddTunnelInterface :: "string \<Rightarrow> NetworkDeviceTunnelInterface option \<Rightarrow> Devices \<Rightarrow> Devices" where
  "AddTunnelInterface nodeName x = withDevice nodeName (AddOrUpdateTunnelInterface x)"

definition AddSubInterface ::
  "string \<Rightarrow> string \<Rightarrow> NetworkDeviceInterfaceSubInterface \<Rightarrow> Devices \<Rightarrow> Devices" where
  "AddSubInterface nodeName ifName x = withDevice nodeName (GetOrCreateInterface ifName
     (\<lambda>itfce0.
        let itfce1 = (if si_VLAN x \<noteq> None then itfce0\<lparr>if_VLANTagging := True\<rparr> else itfce0);
            itfce2 = AddOrUpdateInterfaceSubInterface x itfce1
        in GetOrCreateInterfaceSubInterface (si_ID x)
             (\<lambda>si. si\<lparr>si_IPv4 := si_IPv4 x, si_IPv6 := si_IPv6 x, si_PeerName := si_PeerName x,
                      si_VLAN := si_VLAN x, si_Type := si_Type x\<rparr>) itfce2))"

definition AddTunnelSubInterface ::
  "string \<Rightarrow> string \<Rightarrow> NetworkDeviceTunnelInterfaceSubInterface \<Rightarrow> Devices \<Rightarrow> Devices" where
  "AddTunnelSubInterface nodeName ifName x = withDevice nodeName (GetOrCreateTunnelInterface ifName
     (\<lambda>itfce. GetOrCreateTunnelInterfaceSubInterface (tsi_ID x) (\<lambda>si. si\<lparr>tsi_Type := tsi_Type x\<rparr>)
                (AddOrUpdateTunnelInterfaceSubInterface x itfce)))"

definition AddNetworkInstance :: "string \<Rightarrow> NetworkDeviceNetworkInstance \<Rightarrow> Devices \<Rightarrow> Devices" where
  "AddNetworkInstance nodeName newNI = withDevice nodeName
     (GetOrCreateNetworkInstance (ni_Name newNI) (\<lambda>ni. ni\<lparr>ni_Type := ni_Type newNI\<rparr>))"

definition AddNetworkInstanceSubInterface ::
  "string \<Rightarrow> string \<Rightarrow> NetworkDeviceNetworkInstanceInterface \<Rightarrow> Devices \<Rightarrow> Devices" where
  "AddNetworkInstanceSubInterface nodeName niName niItfce = withDevice nodeName
     (GetOrCreateNetworkInstance niName
        (\<lambda>ni. ni\<lparr>ni_Interfaces := replaceOrAppend
            (\<lambda>itfce. nii_Name itfce = nii_Name niItfce \<and> nii_ID itfce = nii_ID niItfce)
            niItfce (ni_Interfaces ni)\<rparr>))"

definition AddNetworkInstanceSubInterfaceVXLAN ::
  "string \<Rightarrow> string \<Rightarrow> NetworkDeviceNetworkInstanceInterface option \<Rightarrow> Devices \<Rightarrow> Devices" where
  "AddNetworkInstanceSubInterfaceVXLAN nodeName niName vxlanItfce = withDevice nodeName
     (GetOrCreateNetworkInstance niName (\<lambda>ni. ni\<lparr>ni_VXLANInterface := vxlanItfce\<rparr>))"

definition AddNetworkInstanceProtocolsISISInstance ::
  "string \<Rightarrow> string \<Rightarrow> NetworkDeviceNetworkInstanceProtocolISISInstance \<Rightarrow> Devices \<Rightarrow> Devices" where
  "AddNetworkInstanceProtocolsISISInstance nodeName niName inst = withDevice nodeName
     (onISIS niName (GetOrCreateNetworkInstanceProtocolISISInstance (ii_Name inst)
        (\<lambda>i. i\<lparr>ii_AddressFamilies := ii_AddressFamilies inst, ii_LevelCapability := ii_LevelCapability inst,
               ii_MaxECMPPaths := ii_MaxECMPPaths inst, ii_Net := ii_Net inst,
               ii_Level1 := ii_Level1 inst, ii_Level2 := ii_Level2 inst\<rparr>)))"

definition AddNetworkInstanceProtocolsISISInstanceInterface ::
  "string \<Rightarrow> string \<Rightarrow> string \<Rightarrow> NetworkDeviceNetworkInstanceProtocolISISInstanceInterface
     \<Rightarrow> Devices \<Rightarrow> Devices" where
  "AddNetworkInstanceProtocolsISISInstanceInterface nodeName niName instanceName itfce =
     withDevice nodeName (onISIS niName (GetOrCreateNetworkInstanceProtocolISISInstance instanceName
       (AddOrUpdateNetworkInstanceProtocolISISInstanceInterface itfce)))"

definition AddNetworkInstanceProtocolsOSPFInstance ::
  "string \<Rightarrow> string \<Rightarrow> NetworkDeviceNetworkInstanceProtocolOSPFInstance \<Rightarrow> Devices \<Rightarrow> Devices" where
  "AddNetworkInstanceProtocolsOSPFInstance nodeName niName inst = withDevice nodeName
     (onOSPF niName (GetOrCreateNetworkInstanceProtocolOSPFInstance (oi_Name inst)
        (\<lambda>i. i\<lparr>oi_RouterID := oi_RouterID inst, oi_Version := oi_Version inst,
               oi_MaxECMPPaths := oi_MaxECMPPaths inst, oi_ASBR := oi_ASBR inst\<rparr>)))"

definition AddNetworkInstanceProtocolsOSPFInstanceArea ::
  "string \<Rightarrow> string \<Rightarrow> string \<Rightarrow> NetworkDeviceNetworkInstanceProtocolOSPFInstanceArea
     \<Rightarrow> Devices \<Rightarrow> Devices" where
  "AddNetworkInstanceProtocolsOSPFInstanceArea nodeName niName instanceName area =
     withDevice nodeName (onOSPF niName (GetOrCreateNetworkInstanceProtocolOSPFInstance instanceName
       (AddOrUpdateNetworkInstanceProtocolOSPFInstanceArea area)))"

definition AddNetworkInstanceProtocolsOSPFInstanceAreaInterface ::
  "string \<Rightarrow> string \<Rightarrow> string \<Rightarrow> string \<Rightarrow> NetworkDeviceNetworkInstanceProtocolOSPFInstanceAreaInterface
     \<Rightarrow> Devices \<Rightarrow> Devices" where
  "AddNetworkInstanceProtocolsOSPFInstanceAreaInterface nodeName niName instanceName area itfce =
     withDevice nodeName (onOSPF niName (GetOrCreateNetworkInstanceProtocolOSPFInstance instanceName
       (GetOrCreateNetworkInstanceProtocolOSPFInstanceArea area
         (AddOrUpdateNetworkInstanceProtocolOSPFInstanceAreaInterface itfce))))"

definition AddNetworkInstanceprotocolsBGPNeighbor ::
  "string \<Rightarrow> string \<Rightarrow> NetworkDeviceNetworkInstanceProtocolBGPNeighbor option \<Rightarrow> Devices \<Rightarrow> Devices" where
  "AddNetworkInstanceprotocolsBGPNeighbor nodeName niName x = withDevice nodeName
     (onBGP niName (AddOrUpdateNetworkInstanceProtocolBGNeighbor x))"

definition AddNetworkInstanceprotocolsBGPDynamicNeighbor ::
  "string \<Rightarrow> string \<Rightarrow> NetworkDeviceNetworkInstanceProtocolBGPDynamicNeighborsInterface option
     \<Rightarrow> Devices \<Rightarrow> Devices" where
  "AddNetworkInstanceprotocolsBGPDynamicNeighbor nodeName niName new = withDevice nodeName
     (onBGP niName (GetOrCreateNetworkInstanceProtocolBGPDynamicNeighbors
       (AddOrUpdateetworkInstanceProtocolBGPDynamicNeighborsInterface new)))"

definition AddNetworkInstanceprotocolsBGPPeerGroup ::
  "string \<Rightarrow> string \<Rightarrow> NetworkDeviceNetworkInstanceProtocolBGPPeerGroup option \<Rightarrow> Devices \<Rightarrow> Devices" where
  "AddNetworkInstanceprotocolsBGPPeerGroup nodeName niName x = withDevice nodeName
     (onBGP niName (AddOrUpdateNetworkInstanceProtocolBGPPeerGroup x))"

text \<open>
  Reading the system address creates the interface and the sub interface it reads. The result is the
  address and the new state.
\<close>

definition systemSubInterface :: "string \<Rightarrow> uint32 \<Rightarrow> NetworkDevice \<Rightarrow> NetworkDeviceInterfaceSubInterface" where
  "systemSubInterface ifName i d =
     (let itfce = (case lookupBy if_Name (spec_Interfaces (dev_Spec d)) ifName of
                     None \<Rightarrow> fresh_Interface ifName | Some x \<Rightarrow> x)
      in case lookupBy si_ID (if_SubInterfaces itfce) i of None \<Rightarrow> fresh_SubInterface i | Some si \<Rightarrow> si)"

definition GetSystemIP :: "string \<Rightarrow> string \<Rightarrow> uint32 \<Rightarrow> bool \<Rightarrow> Devices \<Rightarrow> string \<times> Devices" where
  "GetSystemIP nodeName ifName i ipv4 r =
     (let si = systemSubInterface ifName i (deviceOf r nodeName);
          addresses = (if ipv4 then (case si_IPv4 si of None \<Rightarrow> [] | Some a \<Rightarrow> si4_Addresses a)
                       else (case si_IPv6 si of None \<Rightarrow> [] | Some a \<Rightarrow> si6_Addresses a))
      in (case addresses of [] \<Rightarrow> '''' | a # _ \<Rightarrow> a,
          withDevice nodeName (GetOrCreateInterface ifName (GetOrCreateInterfaceSubInterface i (\<lambda>si. si))) r))"

definition AddRoutingPolicy :: "string \<Rightarrow> string \<Rightarrow> string list \<Rightarrow> string list \<Rightarrow> Devices \<Rightarrow> Devices" where
  "AddRoutingPolicy nodeName policyName ipv4 ipv6 = withDevice nodeName
     (GetOrCreateRoutingPolicy policyName (\<lambda>rp. rp\<lparr>rp_IPv4Prefixes := ipv4, rp_IPv6Prefixes := ipv6\<rparr>))"

definition AddNetworkInstanceProtocolsBGPVPN ::
  "string \<Rightarrow> string \<Rightarrow> NetworkDeviceNetworkInstanceProtocolBGPVPN \<Rightarrow> Devices \<Rightarrow> Devices" where
  "AddNetworkInstanceProtocolsBGPVPN nodeName niName x = withDevice nodeName
     (onProtocols niName (GetOrCreateNetworkInstanceProtocolsBGPVPN
       (\<lambda>v. v\<lparr>vpn_ExportRouteTarget := vpn_ExportRouteTarget x,
              vpn_ImportRouteTarget := vpn_ImportRouteTarget x\<rparr>)))"

definition AddNetworkInstanceProtocolsBGPEVPN ::
  "string \<Rightarrow> string \<Rightarrow> NetworkDeviceNetworkInstanceProtocolBGPEVPN \<Rightarrow> Devices \<Rightarrow> Devices" where
  "AddNetworkInstanceProtocolsBGPEVPN nodeName niName x = withDevice nodeName
     (onProtocols niName (GetOrCreateNetworkInstanceProtocolsBGPEVPN
       (\<lambda>v. v\<lparr>evpn_ECMP := evpn_ECMP x, evpn_EVI := evpn_EVI x,
              evpn_VXLANInterface := evpn_VXLANInterface x\<rparr>)))"

definition AddSystemProtocolsBGPVPN :: "string \<Rightarrow> unit option \<Rightarrow> Devices \<Rightarrow> Devices" where
  "AddSystemProtocolsBGPVPN nodeName x = withDevice nodeName
     (GetOrCreateSystem (GetOrCreateSystemProtocols (GetOrCreateSystemProtocolsBGPVPN (\<lambda>v. v))))"

section \<open>Operations on one node and the frame\<close>

lemma deviceOf_withDevice [simp]:
  "deviceOf (withDevice n w r) n' = (if n' = n then w (deviceOf r n) else deviceOf r n')"
  by (simp add: deviceOf_def withDevice_def split: option.splits)

lemma dvs_withDevice [simp]:
  "dvs_nsn (withDevice n w r) = dvs_nsn r"
  "dvs_devices (withDevice n w r) = (dvs_devices r)(n \<mapsto> w (deviceOf r n))"
  by (simp_all add: withDevice_def)

lemma withDevice_fuse: "withDevice n w2 (withDevice n w1 r) = withDevice n (w2 \<circ> w1) r"
  by (simp add: withDevice_def deviceOf_def)

lemma withDevice_commute:
  "n \<noteq> n' \<Longrightarrow> withDevice n w (withDevice n' w' r) = withDevice n' w' (withDevice n w r)"
  by (simp add: withDevice_def deviceOf_def fun_upd_twist split: option.splits)

lemmas devices_ops =
  AddProvider_def AddNetworkInstanceProtocolsBGPAS_def AddNetworkInstanceProtocolsBGPRouterID_def
  AddNetworkInstanceProtocolsBGPAddressFamilies_def AddBFDInterface_def AddInterface_def
  AddTunnelInterface_def AddSubInterface_def AddTunnelSubInterface_def AddNetworkInstance_def
  AddNetworkInstanceSubInterface_def AddNetworkInstanceSubInterfaceVXLAN_def
  AddNetworkInstanceProtocolsISISInstance_def AddNetworkInstanceProtocolsISISInstanceInterface_def
  AddNetworkInstanceProtocolsOSPFInstance_def AddNetworkInstanceProtocolsOSPFInstanceArea_def
  AddNetworkInstanceProtocolsOSPFInstanceAreaInterface_def AddNetworkInstanceprotocolsBGPNeighbor_def
  AddNetworkInstanceprotocolsBGPDynamicNeighbor_def AddNetworkInstanceprotocolsBGPPeerGroup_def
  AddRoutingPolicy_def AddNetworkInstanceProtocolsBGPVPN_def AddNetworkInstanceProtocolsBGPEVPN_def
  AddSystemProtocolsBGPVPN_def GetSystemIP_def

section \<open>The step relation\<close>

inductive devices_step :: "string \<Rightarrow> Devices \<Rightarrow> Devices \<Rightarrow> bool" where
  Provider: "devices_step n r (AddProvider n p r)"
| BGPAS: "devices_step n r (AddNetworkInstanceProtocolsBGPAS n ni as r)"
| BGPRouterID: "devices_step n r (AddNetworkInstanceProtocolsBGPRouterID n ni rid r)"
| BGPAddressFamilies: "devices_step n r (AddNetworkInstanceProtocolsBGPAddressFamilies n ni afs r)"
| BFDInterface: "devices_step n r (AddBFDInterface n bfdi r)"
| Itfce: "devices_step n r (AddInterface n itf r)"
| Tunnel: "devices_step n r (AddTunnelInterface n tun r)"
| SubInterface: "devices_step n r (AddSubInterface n ifn si r)"
| TunnelSubInterface: "devices_step n r (AddTunnelSubInterface n ifn tsi r)"
| Instance: "devices_step n r (AddNetworkInstance n inst r)"
| InstanceSubInterface: "devices_step n r (AddNetworkInstanceSubInterface n ni nii r)"
| InstanceVXLAN: "devices_step n r (AddNetworkInstanceSubInterfaceVXLAN n ni nvx r)"
| ISISInstance: "devices_step n r (AddNetworkInstanceProtocolsISISInstance n ni ii r)"
| ISISInterface: "devices_step n r (AddNetworkInstanceProtocolsISISInstanceInterface n ni iname iii r)"
| OSPFInstance: "devices_step n r (AddNetworkInstanceProtocolsOSPFInstance n ni oi r)"
| OSPFArea: "devices_step n r (AddNetworkInstanceProtocolsOSPFInstanceArea n ni iname oa r)"
| OSPFAreaInterface: "devices_step n r (AddNetworkInstanceProtocolsOSPFInstanceAreaInterface n ni iname an oai r)"
| BGPNeighbor: "devices_step n r (AddNetworkInstanceprotocolsBGPNeighbor n ni nb r)"
| BGPDynamicNeighbor: "devices_step n r (AddNetworkInstanceprotocolsBGPDynamicNeighbor n ni dni r)"
| BGPPeerGroup: "devices_step n r (AddNetworkInstanceprotocolsBGPPeerGroup n ni pg r)"
| SystemIP: "GetSystemIP n ifn si v4 r = (a, r') \<Longrightarrow> devices_step n r r'"
| RoutingPolicy: "devices_step n r (AddRoutingPolicy n rp v4s v6s r)"
| BGPVPN: "devices_step n r (AddNetworkInstanceProtocolsBGPVPN n ni vpn r)"
| BGPEVPN: "devices_step n r (AddNetworkInstanceProtocolsBGPEVPN n ni evpn r)"
| SystemBGPVPN: "devices_step n r (AddSystemProtocolsBGPVPN n u r)"

lemma devices_step_withDevice:
  assumes "devices_step n r r'"
  obtains w where "r' = withDevice n w r"
  using assms by cases (auto simp: devices_ops Let_def)

definition devices_run :: "string set \<Rightarrow> Devices \<Rightarrow> Devices \<Rightarrow> bool" where
  "devices_run N = (\<lambda>r r'. \<exists>n \<in> N. devices_step n r r')\<^sup>*\<^sup>*"

lemma devices_run_refl [simp, intro]: "devices_run N r r"
  by (simp add: devices_run_def)

lemma devices_run_trans [trans]: "devices_run N r s \<Longrightarrow> devices_run N s t \<Longrightarrow> devices_run N r t"
  unfolding devices_run_def by (rule rtranclp_trans)

lemma devices_run_step: "devices_step n s t \<Longrightarrow> n \<in> N \<Longrightarrow> devices_run N r s \<Longrightarrow> devices_run N r t"
  unfolding devices_run_def by (rule rtranclp.rtrancl_into_rtrancl) auto

lemma devices_run_mono: "devices_run M r s \<Longrightarrow> M \<subseteq> N \<Longrightarrow> devices_run N r s"
  unfolding devices_run_def by (rule rtranclp_mono [THEN predicate2D, rotated]) blast+

lemma devices_run_induct [consumes 1, case_names refl step]:
  assumes "devices_run N r r'" and "P r"
    and "\<And>n s t. devices_run N r s \<Longrightarrow> n \<in> N \<Longrightarrow> devices_step n s t \<Longrightarrow> P s \<Longrightarrow> P t"
  shows "P r'"
  using assms unfolding devices_run_def by (induction rule: rtranclp_induct) auto

text \<open>A run keeps the name of the network, touches only its nodes, and removes no device.\<close>

lemma devices_run_nsn: "devices_run N r r' \<Longrightarrow> dvs_nsn r' = dvs_nsn r"
  by (induction rule: devices_run_induct) (auto elim: devices_step_withDevice)

lemma devices_run_other:
  "devices_run N r r' \<Longrightarrow> n \<notin> N \<Longrightarrow> dvs_devices r' n = dvs_devices r n"
  by (induction rule: devices_run_induct) (auto elim!: devices_step_withDevice)

lemma devices_step_dom:
  assumes "devices_step n r r'"
  shows "dom (dvs_devices r') = insert n (dom (dvs_devices r))"
proof -
  from assms obtain w where "r' = withDevice n w r" by (rule devices_step_withDevice)
  then show ?thesis by (simp add: dom_fun_upd)
qed

lemma devices_run_dom:
  assumes "devices_run N r r'"
  shows "dom (dvs_devices r) \<subseteq> dom (dvs_devices r')"
    and "dom (dvs_devices r') \<subseteq> dom (dvs_devices r) \<union> N"
proof -
  show "dom (dvs_devices r) \<subseteq> dom (dvs_devices r')"
    using assms by (induction rule: devices_run_induct) (simp_all add: devices_step_dom subset_insertI2)
  show "dom (dvs_devices r') \<subseteq> dom (dvs_devices r) \<union> N"
    using assms by (induction rule: devices_run_induct) (simp_all add: devices_step_dom)
qed

section \<open>What every operation keeps\<close>

locale devices_invariant =
  fixes I :: "NamespacedName \<Rightarrow> string \<Rightarrow> NetworkDevice \<Rightarrow> bool"
  assumes new_device: "I nsn n (NewDevice nsn n)"
    and step_device: "devices_step n r r' \<Longrightarrow> I (dvs_nsn r) n (deviceOf r n) \<Longrightarrow> I (dvs_nsn r) n (deviceOf r' n)"
begin

definition holds :: "Devices \<Rightarrow> bool" where
  "holds r \<longleftrightarrow> (\<forall>n d. dvs_devices r n = Some d \<longrightarrow> I (dvs_nsn r) n d)"

lemma holds_deviceOf: "holds r \<Longrightarrow> I (dvs_nsn r) n (deviceOf r n)"
  by (cases "dvs_devices r n") (simp_all add: holds_def deviceOf_def new_device)

lemma holds_new: "holds (NewDevices nsn)"
  by (simp add: holds_def NewDevices_def)

lemma holds_step:
  assumes step: "devices_step n r r'" and "holds r"
  shows "holds r'"
proof -
  from step obtain w where r': "r' = withDevice n w r" by (rule devices_step_withDevice)
  have "I (dvs_nsn r) n (deviceOf r' n)"
    using step holds_deviceOf [OF \<open>holds r\<close>] by (rule step_device)
  then show ?thesis using \<open>holds r\<close> by (auto simp: holds_def r')
qed

lemma holds_run: "devices_run N r r' \<Longrightarrow> holds r \<Longrightarrow> holds r'"
  by (induction rule: devices_run_induct) (auto intro: holds_step)

lemma run_from_new:
  assumes "devices_run N (NewDevices nsn) r" and "dvs_devices r n = Some d"
  shows "I nsn n d"
proof -
  have "holds r" using assms(1) holds_new by (rule holds_run)
  moreover have "dvs_nsn r = nsn" using devices_run_nsn [OF assms(1)] by (simp add: NewDevices_def)
  ultimately show ?thesis using assms(2) by (auto simp: holds_def)
qed

end

section \<open>Every slice of every device stays in strict order\<close>

lemma wf_onProtocols [wf_pres]:
  assumes "device_wf d" "\<And>p. protocols_wf p \<Longrightarrow> protocols_wf (w p)"
  shows "device_wf (onProtocols ni w d)"
  unfolding onProtocols_def using assms by (auto intro!: wf_pres)

lemma AddOrUpdateInterfaceSubInterface_keeps_name [simp]:
  "if_Name (AddOrUpdateInterfaceSubInterface si i) = if_Name i"
  "tun_Name (AddOrUpdateTunnelInterfaceSubInterface tsi t) = tun_Name t"
  "ii_Name (AddOrUpdateNetworkInstanceProtocolISISInstanceInterface iii ii) = ii_Name ii"
  "oi_Name (AddOrUpdateNetworkInstanceProtocolOSPFInstanceArea a oi) = oi_Name oi"
  "oa_Name (AddOrUpdateNetworkInstanceProtocolOSPFInstanceAreaInterface oai oa) = oa_Name oa"
  by (simp_all add: AddOrUpdateInterfaceSubInterface_def AddOrUpdateTunnelInterfaceSubInterface_def
      AddOrUpdateNetworkInstanceProtocolISISInstanceInterface_def
      AddOrUpdateNetworkInstanceProtocolOSPFInstanceArea_def
      AddOrUpdateNetworkInstanceProtocolOSPFInstanceAreaInterface_def)

interpretation dvs_wf: devices_invariant "\<lambda>_ _. device_wf"
proof
  show "device_wf (NewDevice nsn n)" for nsn n by (rule wf_fresh)
  show "devices_step n r r' \<Longrightarrow> device_wf (deviceOf r n) \<Longrightarrow> device_wf (deviceOf r' n)" for n r r'
    by (erule devices_step.cases) (auto simp: devices_ops Let_def intro!: wf_pres)
qed

section \<open>Every device keeps its identity\<close>

definition device_named :: "NamespacedName \<Rightarrow> string \<Rightarrow> NetworkDevice \<Rightarrow> bool" where
  "device_named nsn n d \<longleftrightarrow>
     dev_Name d = dot (nsn_Name nsn) n \<and> dev_Namespace d = nsn_Namespace nsn \<and>
     spec_Topology (dev_Spec d) = hd (strings_Split CHR ''.'' (nsn_Name nsn)) \<and>
     dev_Status d = zero_DeviceStatus"

lemma device_named_NewDevice: "device_named nsn n (NewDevice nsn n)"
  by (simp add: device_named_def NewDevice_def BuildNetworkDevice_def Let_def hd_conv_nth)

lemma device_named_writes [simp]:
  "device_named nsn n (Device_AddProvider p d) = device_named nsn n d"
  "device_named nsn n (GetOrCreateInterface k w1 d) = device_named nsn n d"
  "device_named nsn n (AddOrUpdateInterface i d) = device_named nsn n d"
  "device_named nsn n (GetOrCreateTunnelInterface k w2 d) = device_named nsn n d"
  "device_named nsn n (AddOrUpdateTunnelInterface t d) = device_named nsn n d"
  "device_named nsn n (GetOrCreateNetworkInstance k w3 d) = device_named nsn n d"
  "device_named nsn n (GetOrCreateRoutingPolicy k w4 d) = device_named nsn n d"
  "device_named nsn n (GetOrCreateBFD w5 d) = device_named nsn n d"
  "device_named nsn n (GetOrCreateSystem w6 d) = device_named nsn n d"
  "device_named nsn n (onProtocols ni w7 d) = device_named nsn n d"
  by (auto simp: device_named_def Device_AddProvider_def GetOrCreateInterface_def AddOrUpdateInterface_def
      GetOrCreateTunnelInterface_def AddOrUpdateTunnelInterface_def GetOrCreateNetworkInstance_def
      GetOrCreateRoutingPolicy_def GetOrCreateBFD_def GetOrCreateSystem_def onProtocols_def
      split: option.splits)

interpretation dvs_named: devices_invariant device_named
proof
  show "device_named nsn n (NewDevice nsn n)" for nsn n by (rule device_named_NewDevice)
  show "devices_step n r r' \<Longrightarrow> device_named (dvs_nsn r) n (deviceOf r n) \<Longrightarrow>
    device_named (dvs_nsn r) n (deviceOf r' n)" for n r r'
    by (erule devices_step.cases) (auto simp: devices_ops Let_def)
qed

section \<open>The ISIS interfaces carry no levels\<close>

text \<open>
  \<open>AddOrUpdateNetworkInstanceProtocolISISInstanceInterface\<close> does not copy the levels of an
  interface, and nothing else writes them, so the metric and the disabled level that
  \<open>getISISInterface\<close> computes for a link never reach a device.
\<close>

named_theorems levels_pres

definition isis_interface_bare :: "NetworkDeviceNetworkInstanceProtocolISISInstanceInterface \<Rightarrow> bool" where
  "isis_interface_bare i \<longleftrightarrow> iii_Level1 i = None \<and> iii_Level2 i = None"

definition isis_instance_bare :: "NetworkDeviceNetworkInstanceProtocolISISInstance \<Rightarrow> bool" where
  "isis_instance_bare i \<longleftrightarrow> (\<forall>x \<in> set (ii_Interfaces i). isis_interface_bare x)"

definition protocols_bare :: "NetworkDeviceNetworkInstanceProtocols \<Rightarrow> bool" where
  "protocols_bare p \<longleftrightarrow> optAll (\<lambda>s. \<forall>i \<in> set (isis_Instances s). isis_instance_bare i) (p_ISIS p)"

definition device_bare :: "NetworkDevice \<Rightarrow> bool" where
  "device_bare d \<longleftrightarrow> (\<forall>n \<in> set (spec_NetworkInstances (dev_Spec d)). optAll protocols_bare (ni_Protocols n))"

lemma device_bare_GetOrCreateNetworkInstance [levels_pres]:
  assumes "device_bare d" "\<And>n. optAll protocols_bare (ni_Protocols n) \<Longrightarrow> optAll protocols_bare (ni_Protocols (w n))"
  shows "device_bare (GetOrCreateNetworkInstance k w d)"
proof -
  have "\<forall>n \<in> set (getOrCreate ni_Name ni_Name fresh_NetworkInstance k w (spec_NetworkInstances (dev_Spec d))).
      optAll protocols_bare (ni_Protocols n)"
    by (rule nis.all_getOrCreate)
      (use assms in \<open>simp_all add: device_bare_def fresh_NetworkInstance_def\<close>)
  then show ?thesis by (simp add: device_bare_def GetOrCreateNetworkInstance_def)
qed

lemma device_bare_onProtocols [levels_pres]:
  assumes "device_bare d" "\<And>p. protocols_bare p \<Longrightarrow> protocols_bare (w p)"
  shows "device_bare (onProtocols k w d)"
  unfolding onProtocols_def using assms
  by (intro device_bare_GetOrCreateNetworkInstance)
    (auto simp: GetOrCreateNetworkInstanceProtocols_def protocols_bare_def zero_Protocols_def
      intro!: optAll_orNew)

lemma protocols_bare_ISISInstance [levels_pres]:
  assumes p: "protocols_bare p" and w: "\<And>i. isis_instance_bare i \<Longrightarrow> isis_instance_bare (w i)"
  shows "protocols_bare (GetOrCreateNetworkInstanceProtocolsISIS
    (GetOrCreateNetworkInstanceProtocolISISInstance k w) p)"
proof -
  have "isis_instance_bare (fresh_ISISInstance k)"
    by (simp add: isis_instance_bare_def fresh_ISISInstance_def)
  then have step: "\<forall>i \<in> set xs. isis_instance_bare i \<Longrightarrow>
      \<forall>i \<in> set (getOrCreate ii_Name ii_Name fresh_ISISInstance k w xs). isis_instance_bare i" for xs
    using w by (rule isisinsts.all_getOrCreate [rotated])
  show ?thesis
    using p unfolding protocols_bare_def
    by (cases "p_ISIS p")
      (simp_all add: step step [of "[]", simplified] GetOrCreateNetworkInstanceProtocolsISIS_def
        GetOrCreateNetworkInstanceProtocolISISInstance_def)
qed

lemma isis_instance_bare_AddOrUpdateInterface [levels_pres]:
  assumes "isis_instance_bare i"
  shows "isis_instance_bare (AddOrUpdateNetworkInstanceProtocolISISInstanceInterface x i)"
proof -
  have "isis_interface_bare (fresh_ISISInterface (iii_SubInterfaceName x))"
    by (simp add: isis_interface_bare_def fresh_ISISInterface_def)
  then have "\<forall>y \<in> set (getOrCreate iii_SubInterfaceName (siSortKey \<circ> iii_SubInterfaceName)
      fresh_ISISInterface (iii_SubInterfaceName x)
      (\<lambda>y. y\<lparr>iii_IPv4 := iii_IPv4 x, iii_IPv6 := iii_IPv6 x, iii_Passive := iii_Passive x,
        iii_NetworkType := iii_NetworkType x\<rparr>) (ii_Interfaces i)). isis_interface_bare y"
    using assms
    by (intro isisifs.all_getOrCreate) (simp_all add: isis_instance_bare_def isis_interface_bare_def)
  then show ?thesis
    by (simp add: isis_instance_bare_def AddOrUpdateNetworkInstanceProtocolISISInstanceInterface_def
        GetOrCreateNetworkInstanceProtocolISISInstanceInterface_def)
qed

lemma protocols_bare_other [levels_pres]:
  "protocols_bare p \<Longrightarrow> protocols_bare (GetOrCreateNetworkInstanceProtocolsBGP w1 p)"
  "protocols_bare p \<Longrightarrow> protocols_bare (GetOrCreateNetworkInstanceProtocolsBGPEVPN w2 p)"
  "protocols_bare p \<Longrightarrow> protocols_bare (GetOrCreateNetworkInstanceProtocolsBGPVPN w3 p)"
  "protocols_bare p \<Longrightarrow> protocols_bare (GetOrCreateNetworkInstanceProtocolsOSPF w4 p)"
  by (simp_all add: protocols_bare_def GetOrCreateNetworkInstanceProtocolsBGP_def
      GetOrCreateNetworkInstanceProtocolsBGPEVPN_def GetOrCreateNetworkInstanceProtocolsBGPVPN_def
      GetOrCreateNetworkInstanceProtocolsOSPF_def)

lemma device_bare_other [simp]:
  "device_bare (Device_AddProvider p d) = device_bare d"
  "device_bare (GetOrCreateInterface k w1 d) = device_bare d"
  "device_bare (AddOrUpdateInterface i d) = device_bare d"
  "device_bare (GetOrCreateTunnelInterface k w2 d) = device_bare d"
  "device_bare (AddOrUpdateTunnelInterface t d) = device_bare d"
  "device_bare (GetOrCreateRoutingPolicy k w4 d) = device_bare d"
  "device_bare (GetOrCreateBFD w5 d) = device_bare d"
  "device_bare (GetOrCreateSystem w6 d) = device_bare d"
  by (auto simp: device_bare_def Device_AddProvider_def GetOrCreateInterface_def AddOrUpdateInterface_def
      GetOrCreateTunnelInterface_def AddOrUpdateTunnelInterface_def GetOrCreateRoutingPolicy_def
      GetOrCreateBFD_def GetOrCreateSystem_def split: option.splits)

interpretation dvs_bare: devices_invariant "\<lambda>_ _. device_bare"
proof
  show "device_bare (NewDevice nsn n)" for nsn n
    by (simp add: device_bare_def NewDevice_def BuildNetworkDevice_def Let_def zero_DeviceSpec_def)
  show "devices_step n r r' \<Longrightarrow> device_bare (deviceOf r n) \<Longrightarrow> device_bare (deviceOf r' n)" for n r r'
    by (erule devices_step.cases)
      (auto simp: devices_ops Let_def isis_instance_bare_def intro!: levels_pres)
qed

section \<open>Operations depend on their node only\<close>

lemma systemIP_step:
  "devices_step n r (withDevice n (GetOrCreateInterface ifn (GetOrCreateInterfaceSubInterface i (\<lambda>si. si))) r)"
  by (rule devices_step.SystemIP [of n ifn i True r "fst (GetSystemIP n ifn i True r)"])
    (simp add: GetSystemIP_def Let_def)

lemma uniform_withDevice:
  assumes "f = withDevice n w" and "\<And>r2. devices_step n r2 (f r2)" and "r' = f r"
  shows "\<exists>w. r' = withDevice n w r \<and> (\<forall>r2. devices_step n r2 (withDevice n w r2))"
  using assms by blast

lemmas uniform_ops =
  uniform_withDevice [OF AddProvider_def devices_step.Provider]
  uniform_withDevice [OF AddNetworkInstanceProtocolsBGPAS_def devices_step.BGPAS]
  uniform_withDevice [OF AddNetworkInstanceProtocolsBGPRouterID_def devices_step.BGPRouterID]
  uniform_withDevice [OF AddNetworkInstanceProtocolsBGPAddressFamilies_def devices_step.BGPAddressFamilies]
  uniform_withDevice [OF AddBFDInterface_def devices_step.BFDInterface]
  uniform_withDevice [OF AddInterface_def devices_step.Itfce]
  uniform_withDevice [OF AddTunnelInterface_def devices_step.Tunnel]
  uniform_withDevice [OF AddSubInterface_def devices_step.SubInterface]
  uniform_withDevice [OF AddTunnelSubInterface_def devices_step.TunnelSubInterface]
  uniform_withDevice [OF AddNetworkInstance_def devices_step.Instance]
  uniform_withDevice [OF AddNetworkInstanceSubInterface_def devices_step.InstanceSubInterface]
  uniform_withDevice [OF AddNetworkInstanceSubInterfaceVXLAN_def devices_step.InstanceVXLAN]
  uniform_withDevice [OF AddNetworkInstanceProtocolsISISInstance_def devices_step.ISISInstance]
  uniform_withDevice [OF AddNetworkInstanceProtocolsISISInstanceInterface_def devices_step.ISISInterface]
  uniform_withDevice [OF AddNetworkInstanceProtocolsOSPFInstance_def devices_step.OSPFInstance]
  uniform_withDevice [OF AddNetworkInstanceProtocolsOSPFInstanceArea_def devices_step.OSPFArea]
  uniform_withDevice [OF AddNetworkInstanceProtocolsOSPFInstanceAreaInterface_def devices_step.OSPFAreaInterface]
  uniform_withDevice [OF AddNetworkInstanceprotocolsBGPNeighbor_def devices_step.BGPNeighbor]
  uniform_withDevice [OF AddNetworkInstanceprotocolsBGPDynamicNeighbor_def devices_step.BGPDynamicNeighbor]
  uniform_withDevice [OF AddNetworkInstanceprotocolsBGPPeerGroup_def devices_step.BGPPeerGroup]
  uniform_withDevice [OF AddRoutingPolicy_def devices_step.RoutingPolicy]
  uniform_withDevice [OF AddNetworkInstanceProtocolsBGPVPN_def devices_step.BGPVPN]
  uniform_withDevice [OF AddNetworkInstanceProtocolsBGPEVPN_def devices_step.BGPEVPN]
  uniform_withDevice [OF AddSystemProtocolsBGPVPN_def devices_step.SystemBGPVPN]

lemma devices_step_uniform:
  assumes "devices_step n r r'"
  shows "\<exists>w. r' = withDevice n w r \<and> (\<forall>r2. devices_step n r2 (withDevice n w r2))"
  using assms
proof cases
  case (SystemIP ifn si v4 a)
  then have "r' = withDevice n (GetOrCreateInterface ifn (GetOrCreateInterfaceSubInterface si (\<lambda>si. si))) r"
    by (simp add: GetSystemIP_def Let_def)
  then show ?thesis using systemIP_step by blast
qed (erule uniform_ops)+

section \<open>Properties\<close>

text \<open>
  Every operation of the store keeps every slice of every device, at every depth, in strict order
  of its sort key; touches no device but that of its node; and removes none.
\<close>

theorem operations_keep_devices_wf:
  assumes "devices_step n r r'" and "\<forall>k d. dvs_devices r k = Some d \<longrightarrow> device_wf d"
  shows "(\<forall>k d. dvs_devices r' k = Some d \<longrightarrow> device_wf d) \<and>
    (\<forall>k. k \<noteq> n \<longrightarrow> dvs_devices r' k = dvs_devices r k) \<and>
    dom (dvs_devices r') = insert n (dom (dvs_devices r)) \<and> dvs_nsn r' = dvs_nsn r"
proof (intro conjI)
  show "\<forall>k d. dvs_devices r' k = Some d \<longrightarrow> device_wf d"
    using dvs_wf.holds_step [OF assms(1)] assms(2) by (simp add: dvs_wf.holds_def)
  from assms(1) obtain w where "r' = withDevice n w r" by (rule devices_step_withDevice)
  then show "\<forall>k. k \<noteq> n \<longrightarrow> dvs_devices r' k = dvs_devices r k" "dvs_nsn r' = dvs_nsn r" by simp_all
qed (rule devices_step_dom [OF assms(1)])

theorem operations_keep_devices_wf_witness:
  "device_wf (deviceOf (AddInterface ''n0'' (Some (fresh_Interface ''e1-1''))
     (NewDevices \<lparr>nsn_Namespace = ''default'', nsn_Name = ''topo.default''\<rparr>)) ''n0'')"
  using operations_keep_devices_wf [OF devices_step.Itfce [of "''n0''" "NewDevices \<lparr>nsn_Namespace = ''default'', nsn_Name = ''topo.default''\<rparr>"
      "Some (fresh_Interface ''e1-1'')"]]
  by (auto simp: NewDevices_def AddInterface_def)



end
