(* ===== verification/Link.thy ===== *)
theory Link
  imports Network DevicesStore
begin

text \<open>
  The builder's view of an inventory link (\<open>pkg/devbuilder/link.go\<close>): what was gathered for each of
  its two ends, and the parts of the device configuration derived from it and the network design.
\<close>

unbundle bit_operations_syntax

section \<open>The two ends\<close>

text \<open>The slices have length 2; the accessors guard the index, a Go \<open>uint\<close>.\<close>

record link =
  lk_l :: InfraLink
  lk_nodeName :: "string list"
  lk_epName :: "string list"
  lk_as :: "uint32 list"
  lk_ipv4 :: "string list"
  lk_ipv6 :: "string list"

definition newLink :: "InfraLink \<Rightarrow> link" where
  "newLink l = \<lparr>lk_l = l, lk_nodeName = ['''', ''''], lk_epName = ['''', ''''], lk_as = [0, 0],
     lk_ipv4 = ['''', ''''], lk_ipv6 = ['''', '''']\<rparr>"

definition getNodeName :: "nat \<Rightarrow> link \<Rightarrow> string" where
  "getNodeName idx r = (if idx > 1 then '''' else lk_nodeName r ! idx)"
definition addNodeName :: "nat \<Rightarrow> string \<Rightarrow> link \<Rightarrow> link" where
  "addNodeName idx node r = (if idx > 1 then r else r\<lparr>lk_nodeName := (lk_nodeName r)[idx := node]\<rparr>)"
definition getEPName :: "nat \<Rightarrow> link \<Rightarrow> string" where
  "getEPName idx r = (if idx > 1 then '''' else lk_epName r ! idx)"
definition addEPName :: "nat \<Rightarrow> string \<Rightarrow> link \<Rightarrow> link" where
  "addEPName idx node r = (if idx > 1 then r else r\<lparr>lk_epName := (lk_epName r)[idx := node]\<rparr>)"
definition getAS :: "nat \<Rightarrow> link \<Rightarrow> uint32" where
  "getAS idx r = (if idx > 1 then 0 else lk_as r ! idx)"
definition addAS :: "nat \<Rightarrow> uint32 \<Rightarrow> link \<Rightarrow> link" where
  "addAS idx as r = (if idx > 1 then r else r\<lparr>lk_as := (lk_as r)[idx := as]\<rparr>)"
definition getIpv4 :: "nat \<Rightarrow> link \<Rightarrow> string" where
  "getIpv4 idx r = (if idx > 1 then '''' else lk_ipv4 r ! idx)"
definition addIpv4 :: "nat \<Rightarrow> string \<Rightarrow> link \<Rightarrow> link" where
  "addIpv4 idx ipv4 r = (if idx > 1 then r else r\<lparr>lk_ipv4 := (lk_ipv4 r)[idx := ipv4]\<rparr>)"
definition getIpv6 :: "nat \<Rightarrow> link \<Rightarrow> string" where
  "getIpv6 idx r = (if idx > 1 then '''' else lk_ipv6 r ! idx)"
definition addIpv6 :: "nat \<Rightarrow> string \<Rightarrow> link \<Rightarrow> link" where
  "addIpv6 idx ipv6 r = (if idx > 1 then r else r\<lparr>lk_ipv6 := (lk_ipv6 r)[idx := ipv6]\<rparr>)"

lemmas link_accessors = getNodeName_def addNodeName_def getEPName_def addEPName_def getAS_def addAS_def
  getIpv4_def addIpv4_def getIpv6_def addIpv6_def

definition link_wf :: "link \<Rightarrow> bool" where
  "link_wf r \<longleftrightarrow> length (lk_nodeName r) = 2 \<and> length (lk_epName r) = 2 \<and> length (lk_as r) = 2 \<and>
     length (lk_ipv4 r) = 2 \<and> length (lk_ipv6 r) = 2"

lemma link_wf_ops [simp]:
  "link_wf (newLink l)"
  "link_wf (addNodeName i s r) = link_wf r" "link_wf (addEPName i s r) = link_wf r"
  "link_wf (addAS i a r) = link_wf r" "link_wf (addIpv4 i s r) = link_wf r"
  "link_wf (addIpv6 i s r) = link_wf r"
  by (simp_all add: link_wf_def newLink_def link_accessors)

lemma link_l_ops [simp]:
  "lk_l (newLink l) = l"
  "lk_l (addNodeName i s r) = lk_l r" "lk_l (addEPName i s r) = lk_l r" "lk_l (addAS i a r) = lk_l r"
  "lk_l (addIpv4 i s r) = lk_l r" "lk_l (addIpv6 i s r) = lk_l r"
  by (simp_all add: newLink_def link_accessors)

lemma get_after_add [simp]:
  "link_wf r \<Longrightarrow> getNodeName j (addNodeName i s r) = (if j = i \<and> i \<le> 1 then s else getNodeName j r)"
  "link_wf r \<Longrightarrow> getEPName j (addEPName i s r) = (if j = i \<and> i \<le> 1 then s else getEPName j r)"
  "link_wf r \<Longrightarrow> getAS j (addAS i a r) = (if j = i \<and> i \<le> 1 then a else getAS j r)"
  "link_wf r \<Longrightarrow> getIpv4 j (addIpv4 i s r) = (if j = i \<and> i \<le> 1 then s else getIpv4 j r)"
  "link_wf r \<Longrightarrow> getIpv6 j (addIpv6 i s r) = (if j = i \<and> i \<le> 1 then s else getIpv6 j r)"
  by (auto simp: link_accessors link_wf_def nth_list_update)

lemma get_after_other_add [simp]:
  "getNodeName j (addEPName i s r) = getNodeName j r" "getNodeName j (addAS i a r) = getNodeName j r"
  "getNodeName j (addIpv4 i s r) = getNodeName j r" "getNodeName j (addIpv6 i s r) = getNodeName j r"
  "getEPName j (addNodeName i s r) = getEPName j r" "getEPName j (addAS i a r) = getEPName j r"
  "getEPName j (addIpv4 i s r) = getEPName j r" "getEPName j (addIpv6 i s r) = getEPName j r"
  "getAS j (addNodeName i s r) = getAS j r" "getAS j (addEPName i s r) = getAS j r"
  "getAS j (addIpv4 i s r) = getAS j r" "getAS j (addIpv6 i s r) = getAS j r"
  "getIpv4 j (addNodeName i s r) = getIpv4 j r" "getIpv4 j (addEPName i s r) = getIpv4 j r"
  "getIpv4 j (addAS i a r) = getIpv4 j r" "getIpv4 j (addIpv6 i s r) = getIpv4 j r"
  "getIpv6 j (addNodeName i s r) = getIpv6 j r" "getIpv6 j (addEPName i s r) = getIpv6 j r"
  "getIpv6 j (addAS i a r) = getIpv6 j r" "getIpv6 j (addIpv4 i s r) = getIpv6 j r"
  by (simp_all add: link_accessors)

section \<open>The sub interface of an end\<close>

text \<open>Each \<open>if\<close> assigns the field anew, so the last one that holds decides.\<close>

definition getUnderlaySubInterface ::
  "nat \<Rightarrow> NetworkDesign \<Rightarrow> uint32 \<Rightarrow> link \<Rightarrow> NetworkDeviceInterfaceSubInterface" where
  "getUnderlaySubInterface idx networkDesign i r =
     (let j = idx XOR 1;
          si0 = (fresh_SubInterface i)\<lparr>si_PeerName := dot (getNodeName j r) (getEPName j r),
                   si_Type := SubInterfaceType_Routed\<rparr>;
          si1 = (if IsUnderlayIPv4Numbered networkDesign
                 then si0\<lparr>si_IPv4 := Some \<lparr>si4_Addresses = [getIpv4 idx r]\<rparr>\<rparr> else si0);
          si2 = (if IsUnderlayIPv4UnNumbered networkDesign
                 then si1\<lparr>si_IPv4 := Some \<lparr>si4_Addresses = []\<rparr>\<rparr> else si1);
          si3 = (if IsUnderlayIPv6Numbered networkDesign
                 then si2\<lparr>si_IPv6 := Some \<lparr>si6_Addresses = [getIpv6 idx r]\<rparr>\<rparr> else si2)
      in if IsUnderlayIPv6UnNumbered networkDesign
         then si3\<lparr>si_IPv6 := Some \<lparr>si6_Addresses = []\<rparr>\<rparr> else si3)"

section \<open>BFD parameters\<close>

text \<open>
  The parameters are the design's own object when it has one, so the overrides of a link are written
  through its pointers: the memory of these numbers is the state, and a nil pointer panics. The
  \<open>Enabled\<close> pointer is replaced by a fresh one in every call, so its value is part of the result;
  that the design's own \<open>Enabled\<close> is replaced too is not observed by the program.
\<close>

type_synonym heap = "addr \<Rightarrow> uint32"

definition overridePtr :: "uint32 option \<Rightarrow> addr option \<Rightarrow> heap \<Rightarrow> heap res" where
  "overridePtr v p h = (case v of
      None \<Rightarrow> Inr h
    | Some x \<Rightarrow> (case p of None \<Rightarrow> Inl nilDereference | Some a \<Rightarrow> Inr (h(a := x))))"

definition getBFDLinkParameters ::
  "NetworkDesign \<Rightarrow> link \<Rightarrow> heap \<Rightarrow> (addr BFDLinkParameters \<times> heap) res" where
  "getBFDLinkParameters networkDesign r h =
     (let bfdParams = (case GetUnderlayBFDParameters networkDesign of
            Some p \<Rightarrow> p
          | None \<Rightarrow> \<lparr>bfd_Enabled = None, bfd_MinEchoRx = None, bfd_MinRx = None,
                      bfd_MinTx = None, bfd_Multiplier = None, bfd_TTL = None\<rparr>)
      in case il_BFD (lk_l r) of
           None \<Rightarrow> Inr (bfdParams\<lparr>bfd_Enabled := Some True\<rparr>, h)
         | Some ov \<Rightarrow>
             let enabled = (case bfd_Enabled ov of None \<Rightarrow> True | Some b \<Rightarrow> b) in
             bindR (overridePtr (bfd_MinEchoRx ov) (bfd_MinEchoRx bfdParams) h) (\<lambda>h1.
             bindR (overridePtr (bfd_MinRx ov) (bfd_MinRx bfdParams) h1) (\<lambda>h2.
             bindR (overridePtr (bfd_MinTx ov) (bfd_MinTx bfdParams) h2) (\<lambda>h3.
             bindR (overridePtr (bfd_Multiplier ov) (bfd_Multiplier bfdParams) h3) (\<lambda>h4.
             bindR (overridePtr (bfd_TTL ov) (bfd_TTL bfdParams) h4) (\<lambda>h5.
               Inr (bfdParams\<lparr>bfd_Enabled := Some enabled\<rparr>, h5)))))))"

section \<open>OSPF, ISIS and BGP of a link\<close>

definition getOSPFArea :: "NetworkDesign \<Rightarrow> link \<Rightarrow> string" where
  "getOSPFArea networkDesign r = (case Option.bind (il_OSPF (lk_l r)) olp_Area of
      Some area \<Rightarrow> area | None \<Rightarrow> GetOSPFArea networkDesign)"

definition getOSPFPassive :: "link \<Rightarrow> bool" where
  "getOSPFPassive r = (case Option.bind (il_OSPF (lk_l r)) olp_Passive of Some b \<Rightarrow> b | None \<Rightarrow> False)"

definition getOSPFNetworkType :: "link \<Rightarrow> NetworkType" where
  "getOSPFNetworkType r = (case Option.bind (il_OSPF (lk_l r)) olp_NetworkType of
      Some t \<Rightarrow> t | None \<Rightarrow> NetworkTypeP2P)"

definition getOSPFBFD :: "NetworkDesign \<Rightarrow> link \<Rightarrow> bool" where
  "getOSPFBFD networkDesign r =
     (if \<not> IsOSPFBFDEnabled networkDesign then False
      else case Option.bind (il_OSPF (lk_l r)) olp_BFD of Some b \<Rightarrow> b | None \<Rightarrow> True)"

definition getISISBFD :: "NetworkDesign \<Rightarrow> link \<Rightarrow> bool" where
  "getISISBFD networkDesign r =
     (if \<not> IsISISBFDEnabled networkDesign then False
      else case Option.bind (il_ISIS_BFD (lk_l r)) id of Some b \<Rightarrow> b | None \<Rightarrow> True)"

definition getBGPBFD :: "NetworkDesign \<Rightarrow> link \<Rightarrow> bool" where
  "getBGPBFD networkDesign r =
     (if \<not> IsEBGPBFDEnabled networkDesign then False
      else case Option.bind (il_BGP_BFD (lk_l r)) id of Some b \<Rightarrow> b | None \<Rightarrow> True)"

abbreviation "ISISInterfaceLevel1 \<equiv> GetOrCreateNetworkInstanceProtocolISISInstanceInterfaceLevel1"
abbreviation "ISISInterfaceLevel2 \<equiv> GetOrCreateNetworkInstanceProtocolISISInstanceInterfaceLevel2"

definition setMetric ::
  "uint32 \<Rightarrow> NetworkDeviceNetworkInstanceProtocolISISInstanceInterfaceLevel
     \<Rightarrow> NetworkDeviceNetworkInstanceProtocolISISInstanceInterfaceLevel" where
  "setMetric m l = l\<lparr>iil_Metric := m, iil_MetricIPv6Unicast := m\<rparr>"

definition getISISInterface ::
  "nat \<Rightarrow> NetworkDesign \<Rightarrow> uint32 \<Rightarrow> link \<Rightarrow> NetworkDeviceNetworkInstanceProtocolISISInstanceInterface" where
  "getISISInterface idx networkDesign i r =
     (let l = lk_l r;
          x0 = fresh_ISISInterface \<lparr>nii_Name = getEPName idx r, nii_ID = i\<rparr>;
          x1 = (if il_GetISISPassive l
                then x0\<lparr>iii_NetworkType := NetworkTypeUnknown, iii_Passive := True\<rparr>
                else x0\<lparr>iii_NetworkType := (if il_GetISISNetworkType l \<noteq> NetworkTypeUnknown
                          then il_GetISISNetworkType l else NetworkTypeP2P)\<rparr>);
          linkLevel = il_GetISISLevel l;
          metric = il_GetISISMetric l;
          x2 = (case GetISISLevel networkDesign of
              ISISLevelL1 \<Rightarrow>
                (let y = (if linkLevel = ISISLevelL2 then ISISInterfaceLevel1 (\<lambda>v. v\<lparr>iil_Disable := True\<rparr>) x1 else x1)
                 in if metric \<noteq> 0 then ISISInterfaceLevel1 (setMetric metric) y else y)
            | ISISLevelL2 \<Rightarrow>
                (let y = (if linkLevel = ISISLevelL1 then ISISInterfaceLevel2 (\<lambda>v. v\<lparr>iil_Disable := True\<rparr>) x1 else x1)
                 in if metric \<noteq> 0 then ISISInterfaceLevel2 (setMetric metric) y else y)
            | ISISLevelL1L2 \<Rightarrow>
                (let y = (if linkLevel = ISISLevelL1 then ISISInterfaceLevel2 (\<lambda>v. v\<lparr>iil_Disable := True\<rparr>) x1 else x1);
                     z = (if linkLevel = ISISLevelL2 then ISISInterfaceLevel1 (\<lambda>v. v\<lparr>iil_Disable := True\<rparr>) y else y)
                 in if metric \<noteq> 0
                    then ISISInterfaceLevel2 (setMetric metric) (ISISInterfaceLevel1 (setMetric metric) z) else z)
            | _ \<Rightarrow> x1);
          x3 = (if IsUnderlayIPv4Enabled networkDesign
                then GetOrCreateNetworkInstanceProtocolISISInstanceInterfaceIPv4
                       (\<lambda>v. v\<lparr>ii4_BFD := getISISBFD networkDesign r\<rparr>) x2 else x2)
      in if IsUnderlayIPv6Enabled networkDesign
         then GetOrCreateNetworkInstanceProtocolISISInstanceInterfaceIPv6
                (\<lambda>v. v\<lparr>ii6_BFD := getISISBFD networkDesign r\<rparr>) x3 else x3)"

section \<open>What the accessors give on the two ends\<close>

lemma other_end [simp]: "(0::nat) XOR 1 = Suc 0" "Suc 0 XOR 1 = (0::nat)"
  by simp_all

lemma getUnderlaySubInterface_fields:
  "si_ID (getUnderlaySubInterface idx d i r) = i"
  "si_VLAN (getUnderlaySubInterface idx d i r) = None"
  "si_Type (getUnderlaySubInterface idx d i r) = SubInterfaceType_Routed"
  "si_PeerName (getUnderlaySubInterface idx d i r) = dot (getNodeName (idx XOR 1) r) (getEPName (idx XOR 1) r)"
  by (simp_all add: getUnderlaySubInterface_def Let_def fresh_SubInterface_def)

lemma getUnderlaySubInterface_IPv4:
  "si_IPv4 (getUnderlaySubInterface idx d i r) =
    (if IsUnderlayIPv4Numbered d then Some \<lparr>si4_Addresses = [getIpv4 idx r]\<rparr>
     else if IsUnderlayIPv4UnNumbered d then Some \<lparr>si4_Addresses = []\<rparr> else None)"
  using underlay_IPv4_cases(2) [of d]
  by (auto simp: getUnderlaySubInterface_def Let_def fresh_SubInterface_def)

lemma getUnderlaySubInterface_IPv6:
  "si_IPv6 (getUnderlaySubInterface idx d i r) =
    (if IsUnderlayIPv6Numbered d then Some \<lparr>si6_Addresses = [getIpv6 idx r]\<rparr>
     else if IsUnderlayIPv6UnNumbered d then Some \<lparr>si6_Addresses = []\<rparr> else None)"
  using underlay_IPv6_cases(2) [of d]
  by (auto simp: getUnderlaySubInterface_def Let_def fresh_SubInterface_def)

text \<open>With all its numbers in the design the parameters can be read and overridden for every link.\<close>

lemma overridePtr_Some [simp]:
  "overridePtr v (Some a) h = Inr (case v of None \<Rightarrow> h | Some x \<Rightarrow> h(a := x))"
  by (simp add: overridePtr_def split: option.split)

lemma overridePtr_None [simp]:
  "overridePtr v None h = (case v of None \<Rightarrow> Inr h | Some x \<Rightarrow> Inl nilDereference)"
  by (simp add: overridePtr_def split: option.split)

lemma getBFDLinkParameters_total:
  assumes "GetUnderlayBFDParameters d = Some p"
    and "bfd_MinEchoRx p = Some a1" "bfd_MinRx p = Some a2" "bfd_MinTx p = Some a3"
    and "bfd_Multiplier p = Some a4" "bfd_TTL p = Some a5"
  shows "\<exists>b h'. getBFDLinkParameters d r h = Inr (p\<lparr>bfd_Enabled := Some b\<rparr>, h')"
  by (cases "il_BFD (lk_l r)") (simp_all add: getBFDLinkParameters_def assms, blast+)

section \<open>Properties\<close>

text \<open>
  C36. The BFD numbers of the underlay are one object of the design, so a number that one link overrides
  is the number of every link: a link without parameters of its own, configured later, gets the
  overridden value (and so does every interface configured before).
\<close>

theorem bfd_override_reaches_other_links:
  assumes "GetUnderlayBFDParameters d = Some q" and "bfd_MinRx q = Some a"
    and "Some a \<notin> {bfd_MinTx q, bfd_Multiplier q, bfd_TTL q}"
    and "il_BFD (lk_l l1) = Some ov" and "bfd_MinRx ov = Some v"
    and "getBFDLinkParameters d l1 h = Inr (p1, h1)" and "il_BFD (lk_l l2) = None"
  shows "\<exists>p2. getBFDLinkParameters d l2 h1 = Inr (p2, h1) \<and> bfd_MinRx p2 = Some a \<and> h1 a = v"
proof -
  have keep: "overridePtr x p h = Inr h' \<Longrightarrow> p \<noteq> Some a \<Longrightarrow> h' a = h a" for x p h h'
    by (auto simp: overridePtr_def split: option.splits)
  from assms(6) obtain ha hb hc hd where
    rx: "overridePtr (Some v) (Some a) ha = Inr hb" and
    "overridePtr (bfd_MinTx ov) (bfd_MinTx q) hb = Inr hc" and
    "overridePtr (bfd_Multiplier ov) (bfd_Multiplier q) hc = Inr hd" and
    "overridePtr (bfd_TTL ov) (bfd_TTL q) hd = Inr h1"
    unfolding getBFDLinkParameters_def assms(1,4) option.case Let_def bindR_Inr_iff assms(2,5) by auto
  moreover have "bfd_MinTx q \<noteq> Some a" "bfd_Multiplier q \<noteq> Some a" "bfd_TTL q \<noteq> Some a"
    using assms(3) by auto
  ultimately have "h1 a = hb a" by (simp add: keep)
  also have "hb a = v" using rx by auto
  finally have "h1 a = v" .
  then show ?thesis by (simp add: getBFDLinkParameters_def assms)
qed

text \<open>
  A design without BFD parameters gives the links nil pointers: reading the parameters of a link
  panics exactly when the link overrides one of the five numbers.
\<close>

theorem bfd_override_without_design_parameters:
  assumes "GetUnderlayBFDParameters d = None"
  shows "getBFDLinkParameters d l h = Inl nilDereference \<longleftrightarrow>
    (\<exists>ov. il_BFD (lk_l l) = Some ov \<and>
       (bfd_MinEchoRx ov, bfd_MinRx ov, bfd_MinTx ov, bfd_Multiplier ov, bfd_TTL ov) \<noteq> (None, None, None, None, None))"
proof (cases "il_BFD (lk_l l)")
  case None
  with assms show ?thesis by (simp add: getBFDLinkParameters_def)
next
  case (Some ov)
  then show ?thesis
    by (cases "bfd_MinEchoRx ov"; cases "bfd_MinRx ov"; cases "bfd_MinTx ov"; cases "bfd_Multiplier ov";
        cases "bfd_TTL ov") (simp_all add: getBFDLinkParameters_def assms)
qed

text \<open>
  The sub interface of an end names its peer by the node and endpoint of the other end, and carries
  exactly the address families of the underlay: the claimed address where the family is numbered, no
  address where it is unnumbered.
\<close>

theorem underlay_sub_interface_families:
  "si_PeerName (getUnderlaySubInterface idx d i r) = dot (getNodeName (idx XOR 1) r) (getEPName (idx XOR 1) r) \<and>
   (si_IPv4 (getUnderlaySubInterface idx d i r) \<noteq> None \<longleftrightarrow> IsUnderlayIPv4Enabled d) \<and>
   (si_IPv6 (getUnderlaySubInterface idx d i r) \<noteq> None \<longleftrightarrow> IsUnderlayIPv6Enabled d) \<and>
   map_option si4_Addresses (si_IPv4 (getUnderlaySubInterface idx d i r)) =
     (if IsUnderlayIPv4Enabled d then Some (if IsUnderlayIPv4Numbered d then [getIpv4 idx r] else []) else None) \<and>
   map_option si6_Addresses (si_IPv6 (getUnderlaySubInterface idx d i r)) =
     (if IsUnderlayIPv6Enabled d then Some (if IsUnderlayIPv6Numbered d then [getIpv6 idx r] else []) else None)"
  using underlay_IPv4_cases [of d] underlay_IPv6_cases [of d]
  by (simp add: getUnderlaySubInterface_fields getUnderlaySubInterface_IPv4 getUnderlaySubInterface_IPv6)

text \<open>
  The ISIS interface of a link: the levels of the design carry the metric of the link and are
  disabled where the link takes part in the other level only; passive links have no network type.
\<close>

theorem isis_interface_result:
  fixes d r idx i
  defines "x \<equiv> getISISInterface idx d i r" and "m \<equiv> il_GetISISMetric (lk_l r)" and "lev \<equiv> il_GetISISLevel (lk_l r)"
  shows "iii_SubInterfaceName x = \<lparr>nii_Name = getEPName idx r, nii_ID = i\<rparr> \<and>
    iii_Passive x = il_GetISISPassive (lk_l r) \<and>
    iii_NetworkType x = (if il_GetISISPassive (lk_l r) then NetworkTypeUnknown
      else if il_GetISISNetworkType (lk_l r) = NetworkTypeUnknown then NetworkTypeP2P
      else il_GetISISNetworkType (lk_l r)) \<and>
    iii_Level1 x = (if GetISISLevel d \<in> {ISISLevelL1, ISISLevelL1L2} \<and> \<not> (m = 0 \<and> lev \<noteq> ISISLevelL2)
      then Some \<lparr>iil_Metric = m, iil_MetricIPv6Unicast = m, iil_Disable = (lev = ISISLevelL2)\<rparr> else None) \<and>
    iii_Level2 x = (if GetISISLevel d \<in> {ISISLevelL2, ISISLevelL1L2} \<and> \<not> (m = 0 \<and> lev \<noteq> ISISLevelL1)
      then Some \<lparr>iil_Metric = m, iil_MetricIPv6Unicast = m, iil_Disable = (lev = ISISLevelL1)\<rparr> else None) \<and>
    iii_IPv4 x = (if IsUnderlayIPv4Enabled d then Some \<lparr>ii4_BFD = getISISBFD d r\<rparr> else None) \<and>
    iii_IPv6 x = (if IsUnderlayIPv6Enabled d then Some \<lparr>ii6_BFD = getISISBFD d r\<rparr> else None)"
  unfolding x_def m_def lev_def
  by (cases "GetISISLevel d"; cases "il_GetISISLevel (lk_l r)")
    (simp_all add: getISISInterface_def Let_def fresh_ISISInterface_def setMetric_def
      GetOrCreateNetworkInstanceProtocolISISInstanceInterfaceIPv4_def
      GetOrCreateNetworkInstanceProtocolISISInstanceInterfaceIPv6_def
      GetOrCreateNetworkInstanceProtocolISISInstanceInterfaceLevel1_def
      GetOrCreateNetworkInstanceProtocolISISInstanceInterfaceLevel2_def)

end
