(* ===== verification/BuilderGather.thy ===== *)
theory BuilderGather
  imports Link
begin

text \<open>
  The state of the device builder (\<open>builder.go\<close>, \<open>node.go\<close>, \<open>rr.go\<close> of \<open>pkg/devbuilder\<close>), its reads of
  the API server (\<open>api.go\<close>), and the first half of a build: what it gathers for a node and for the two
  ends of a link.

  The inputs of the Go struct are the record \<open>inputs\<close>, its derived data the record \<open>DeviceBuilder\<close>. A
  failed build is discarded by its caller, so a failure carries no state.
\<close>

section \<open>The state\<close>

record node =
  nn_nodeID :: NodeID
  nn_systemID :: string
  nn_provider :: string
  nn_ipv4 :: string
  nn_ipv6 :: string
  nn_routerID :: string
  nn_as :: uint32
  nn_edge :: bool

record rr =
  rr_ip :: string
  rr_ipv4 :: bool

record inputs =
  inp_client :: client
  inp_env :: env
  inp_network :: Network
  inp_design :: NetworkDesign

record DeviceBuilder =
  db_devices :: Devices
  db_nodes :: "string \<rightharpoonup> node"
  db_nodeSet :: "string set"
  db_rrs :: "string \<rightharpoonup> rr"
  db_heap :: heap

definition NewBuilder :: "inputs \<Rightarrow> heap \<Rightarrow> DeviceBuilder" where
  "NewBuilder inp h = \<lparr>db_devices = NewDevices (GetNamespacedName (inp_network inp)),
     db_nodes = Map.empty, db_nodeSet = {}, db_rrs = Map.empty, db_heap = h\<rparr>"

definition onDevices :: "(Devices \<Rightarrow> Devices) \<Rightarrow> DeviceBuilder \<Rightarrow> DeviceBuilder" where
  "onDevices f b = b\<lparr>db_devices := f (db_devices b)\<rparr>"

lemma onDevices_fields [simp]:
  "db_devices (onDevices f b) = f (db_devices b)" "db_nodes (onDevices f b) = db_nodes b"
  "db_nodeSet (onDevices f b) = db_nodeSet b" "db_rrs (onDevices f b) = db_rrs b"
  "db_heap (onDevices f b) = db_heap b"
  by (simp_all add: onDevices_def)

text \<open>The order in which Go lists a map is not defined; \<open>order\<close> lists its keys.\<close>

definition nodes_List :: "string list \<Rightarrow> (string \<rightharpoonup> node) \<Rightarrow> node list" where
  "nodes_List order m = List.map_filter m order"

definition rrs_List :: "string list \<Rightarrow> (string \<rightharpoonup> rr) \<Rightarrow> (string \<times> rr) list" where
  "rrs_List order m = List.map_filter (\<lambda>k. map_option (Pair k) (m k)) order"

definition nodes_Get :: "string \<Rightarrow> (string \<rightharpoonup> node) \<Rightarrow> node option" where
  "nodes_Get nodeName m = m nodeName"

definition nodes_Add :: "string \<Rightarrow> node \<Rightarrow> DeviceBuilder \<Rightarrow> DeviceBuilder" where
  "nodes_Add nodeName n b = b\<lparr>db_nodes := (db_nodes b)(nodeName \<mapsto> n)\<rparr>"

definition rrs_Add :: "string \<Rightarrow> rr \<Rightarrow> DeviceBuilder \<Rightarrow> DeviceBuilder" where
  "rrs_Add name r b = b\<lparr>db_rrs := (db_rrs b)(name \<mapsto> r)\<rparr>"

lemma adds_keep_devices [simp]:
  "db_devices (nodes_Add k n b) = db_devices b" "db_devices (rrs_Add k r b) = db_devices b"
  by (simp_all add: nodes_Add_def rrs_Add_def)

section \<open>Reads of the API server\<close>

definition topologyOf :: "inputs \<Rightarrow> string" where
  "topologyOf inp = ns_Topology (net_Spec (inp_network inp))"

text \<open>\<open>types.NamespacedName{Namespace: r.network.Namespace, Name: name}\<close>\<close>

definition key :: "inputs \<Rightarrow> string \<Rightarrow> NamespacedName" where
  "key inp name = \<lparr>nsn_Namespace = net_Namespace (inp_network inp), nsn_Name = name\<rparr>"

definition GetNodes :: "inputs \<Rightarrow> InfraNode list res" where
  "GetNodes inp = bindR (apiCall (cl_ListNodes (inp_client inp) (net_Namespace (inp_network inp))))
     (\<lambda>items. Inr (filter (\<lambda>n. topologyOf inp = in_NodeGroup n) items))"

text \<open>
  The inner loop over the endpoints of a link (\<open>api.go:70-74\<close>) only continues itself, so it has no
  effect: a link is kept for its type alone.
\<close>

definition GetLinks :: "inputs \<Rightarrow> InfraLink list res" where
  "GetLinks inp = bindR (apiCall (cl_ListLinks (inp_client inp) (net_Namespace (inp_network inp))))
     (\<lambda>items. Inr (filter (\<lambda>l. case il_Labels l (env_KuidINVLinkTypeKey (inp_env inp)) of
         None \<Rightarrow> False
       | Some linkType \<Rightarrow> linkType = ''infra'') items))"

definition getIPClaim :: "inputs \<Rightarrow> NamespacedName \<Rightarrow> string res" where
  "getIPClaim inp k = bindR (apiCall (cl_GetIPClaim (inp_client inp) k)) (\<lambda>claim.
     let keyString = env_NamespacedName_String (inp_env inp) k in
     if ipc_Ready claim = ConditionFalse
     then Inl (Err (''ipclaim '' @ keyString @ '' condition not ready''))
     else case ipc_Address claim of
       None \<Rightarrow> Inl (Err (''ipclaim '' @ keyString @ '' address not found ''))
     | Some a \<Rightarrow> Inr a)"

definition getASClaim :: "inputs \<Rightarrow> NamespacedName \<Rightarrow> uint32 res" where
  "getASClaim inp nsn = bindR (apiCall (cl_GetASClaim (inp_client inp) nsn)) (\<lambda>claim.
     let keyString = env_NamespacedName_String (inp_env inp) nsn in
     if asc_Ready claim = ConditionFalse
     then Inl (Err (''asclaim '' @ keyString @ '' condition not ready''))
     else case asc_ID claim of
       None \<Rightarrow> Inl (Err (''asclaim '' @ keyString @ '' id not found ''))
     | Some i \<Rightarrow> Inr i)"

definition getEndpoint :: "inputs \<Rightarrow> NamespacedName \<Rightarrow> InfraEndpoint res" where
  "getEndpoint inp nsn = apiCall (cl_GetEndpoint (inp_client inp) nsn)"

definition getNode :: "inputs \<Rightarrow> NamespacedName \<Rightarrow> InfraNode res" where
  "getNode inp nsn = apiCall (cl_GetNode (inp_client inp) nsn)"

section \<open>The names of the claims\<close>

abbreviation netName :: "inputs \<Rightarrow> string" where
  "netName inp \<equiv> net_Name (inp_network inp)"

text \<open>\<open>fmt.Sprintf("%s.%s", r.network.Name, nodeName)\<close> and the longer ones.\<close>

definition claim2 :: "inputs \<Rightarrow> string \<Rightarrow> NamespacedName" where
  "claim2 inp a = key inp (dot (netName inp) a)"
definition claim3 :: "inputs \<Rightarrow> string \<Rightarrow> string \<Rightarrow> NamespacedName" where
  "claim3 inp a c = key inp (dot (dot (netName inp) a) c)"
definition claim4 :: "inputs \<Rightarrow> string \<Rightarrow> string \<Rightarrow> string \<Rightarrow> NamespacedName" where
  "claim4 inp a c d = key inp (dot (dot (dot (netName inp) a) c) d)"

section \<open>Gathering\<close>

definition newNode :: "NodeID \<Rightarrow> string \<Rightarrow> string \<Rightarrow> node" where
  "newNode nodeID provider systemID = \<lparr>nn_nodeID = nodeID, nn_systemID = systemID,
     nn_provider = provider, nn_ipv4 = '''', nn_ipv6 = '''', nn_routerID = '''', nn_as = 0, nn_edge = False\<rparr>"

text \<open>The loopback addresses, the router id and the AS of a node, in the order of the code.\<close>

definition gatherRouterID :: "inputs \<Rightarrow> string \<Rightarrow> node \<Rightarrow> node res" where
  "gatherRouterID inp nodeName n =
     (if IsLoopbackIPv4Enabled (inp_design inp) then
        bindR (getIPClaim inp (claim3 inp nodeName ''ipv4'')) (\<lambda>ip.
        bindR (ipString (inp_env inp) ip) (\<lambda>routerID.
          Inr (n\<lparr>nn_ipv4 := ip, nn_routerID := routerID\<rparr>)))
      else
        bindR (getIPClaim inp (claim3 inp nodeName ''routerid'')) (\<lambda>ip.
        bindR (ipString (inp_env inp) ip) (\<lambda>routerID.
          Inr (n\<lparr>nn_routerID := routerID\<rparr>))))"

definition gatherLoopbackIPv6 :: "inputs \<Rightarrow> string \<Rightarrow> node \<Rightarrow> node res" where
  "gatherLoopbackIPv6 inp nodeName n =
     (if IsLoopbackIPv6Enabled (inp_design inp) then
        bindR (getIPClaim inp (claim3 inp nodeName ''ipv6'')) (\<lambda>ip. Inr (n\<lparr>nn_ipv6 := ip\<rparr>))
      else Inr n)"

definition gatherNodeAS :: "inputs \<Rightarrow> string \<Rightarrow> node \<Rightarrow> node res" where
  "gatherNodeAS inp nodeName n =
     (if IsEBGPEnabled (inp_design inp) then
        bindR (getASClaim inp (claim2 inp nodeName)) (\<lambda>as. Inr (n\<lparr>nn_as := as\<rparr>))
      else Inr (n\<lparr>nn_as := GetIBGPAS (inp_design inp)\<rparr>))"

text \<open>A node without a device type is read but not added (\<open>builder.go:303\<close>).\<close>

definition gatherNodeInfo :: "inputs \<Rightarrow> NodeID \<Rightarrow> DeviceBuilder \<Rightarrow> DeviceBuilder res" where
  "gatherNodeInfo inp nodeID b =
     (let nodeName = nid_Node nodeID in
      bindR (getNode inp (key inp (dot (topologyOf inp) (env_NodeID_KuidString (inp_env inp) nodeID)))) (\<lambda>n.
      case in_SystemID n of
        None \<Rightarrow> Inl (Err ''cannot create a node w/o a systemID'')
      | Some systemID \<Rightarrow>
          bindR (gatherRouterID inp nodeName (newNode nodeID (in_Provider n) systemID)) (\<lambda>n1.
          bindR (gatherLoopbackIPv6 inp nodeName n1) (\<lambda>n2.
          bindR (gatherNodeAS inp nodeName n2) (\<lambda>n3.
            case in_Labels n (env_KuidINVNetworkDeviceType (inp_env inp)) of
              None \<Rightarrow> Inr b
            | Some deviceType \<Rightarrow>
                let n4 = (if deviceType = ''edge'' \<or> deviceType = ''pe'' then n3\<lparr>nn_edge := True\<rparr> else n3)
                in Inr (nodes_Add nodeName n4 b))))))"

definition gatherEndAS :: "inputs \<Rightarrow> nat \<Rightarrow> string \<Rightarrow> link \<Rightarrow> link res" where
  "gatherEndAS inp i nodeName l =
     (if IsEBGPEnabled (inp_design inp)
      then bindR (getASClaim inp (claim2 inp nodeName)) (\<lambda>as. Inr (addAS i as l)) else Inr l)"

definition gatherEndIPv4 :: "inputs \<Rightarrow> nat \<Rightarrow> string \<Rightarrow> string \<Rightarrow> link \<Rightarrow> link res" where
  "gatherEndIPv4 inp i nodeName epName l =
     (if IsUnderlayIPv4Numbered (inp_design inp)
      then bindR (getIPClaim inp (claim4 inp nodeName epName ''ipv4'')) (\<lambda>ip. Inr (addIpv4 i ip l)) else Inr l)"

definition gatherEndIPv6 :: "inputs \<Rightarrow> nat \<Rightarrow> string \<Rightarrow> string \<Rightarrow> link \<Rightarrow> link res" where
  "gatherEndIPv6 inp i nodeName epName l =
     (if IsUnderlayIPv6Numbered (inp_design inp)
      then bindR (getIPClaim inp (claim4 inp nodeName epName ''ipv6'')) (\<lambda>ip. Inr (addIpv6 i ip l)) else Inr l)"

definition gatherEnd :: "inputs \<Rightarrow> InfraLink \<Rightarrow> nat \<Rightarrow> link \<times> DeviceBuilder \<Rightarrow> (link \<times> DeviceBuilder) res" where
  "gatherEnd inp infraLink i = (\<lambda>(l, b).
     if i \<ge> length (il_Endpoints infraLink) then Inl (Panic ''index out of range'')
     else
       let ep = ngep_EndpointID (il_Endpoints infraLink ! i);
           nodeID = epid_NodeID ep;
           nodeName = nid_Node nodeID;
           epName = epid_Endpoint ep;
           l1 = addEPName i epName (addNodeName i nodeName l)
       in bindR (if nodes_Get nodeName (db_nodes b) = None then gatherNodeInfo inp nodeID b else Inr b) (\<lambda>b1.
          bindR (gatherEndAS inp i nodeName l1) (\<lambda>l2.
          bindR (gatherEndIPv4 inp i nodeName epName l2) (\<lambda>l3.
          bindR (gatherEndIPv6 inp i nodeName epName l3) (\<lambda>l4.
            Inr (l4, b1))))))"

definition gatherLinkAndNodeInfo ::
  "inputs \<Rightarrow> InfraLink \<Rightarrow> DeviceBuilder \<Rightarrow> (link \<times> DeviceBuilder) res" where
  "gatherLinkAndNodeInfo inp infraLink b = forE [0, 1] (gatherEnd inp infraLink) (newLink infraLink, b)"

text \<open>\<open>r.networkDesign.Spec.Protocols.IBGP.RouteReflectors\<close> is read without a test for nil.\<close>

definition gatherRRInfo :: "inputs \<Rightarrow> DeviceBuilder \<Rightarrow> DeviceBuilder res" where
  "gatherRRInfo inp b = (case IBGP (inp_design inp) of
      None \<Rightarrow> Inl nilDereference
    | Some p \<Rightarrow> forE (ndib_RouteReflectors p) (\<lambda>rrNodeNameAF b.
        bindR (getIPClaim inp (key inp rrNodeNameAF)) (\<lambda>rrIP.
        bindR (parsedIP (inp_env inp) rrIP) (\<lambda>rrPrefix.
          Inr (rrs_Add rrNodeNameAF \<lparr>rr_ip = ipi_Address rrPrefix, rr_ipv4 = ipi_IsIpv4 rrPrefix\<rparr> b)))) b)"

section \<open>Properties\<close>

text \<open>
  The links of a build do not depend on the network's topology: the filter on the node group of the
  endpoints has no effect.
\<close>

theorem links_ignore_topology:
  "GetLinks (inp\<lparr>inp_network := (inp_network inp)\<lparr>net_Spec := sp\<rparr>\<rparr>) = GetLinks inp"
  by (simp add: GetLinks_def)

end
