(* ===== verification/BuilderUnderlay.thy ===== *)
theory BuilderUnderlay
  imports BuilderGather
begin

text \<open>
  The underlay half of the device builder (\<open>pkg/devbuilder/builder.go\<close>): from the inventory links to
  the interfaces, the IGP and the BGP configuration of the nodes at their ends, and the route reflector
  mesh.

  A \<open>for i := uint(0); i < 2; i++\<close> loop is \<open>forE [0, 1]\<close>. The orders in which Go ranges over its maps
  are the record \<open>schedule\<close>, a parameter of the mesh.
\<close>

section \<open>Net identifiers\<close>

definition getISISNetIDs :: "string list \<Rightarrow> string \<Rightarrow> string list" where
  "getISISNetIDs areas systemID =
     (let parts = strings_Split CHR '':'' systemID
      in if length parts \<noteq> 6 then []
         else map (\<lambda>area. dot (dot area
                (dot (dot (parts ! 0 @ parts ! 1) (parts ! 2 @ parts ! 3)) (parts ! 4 @ parts ! 5))) ''00'') areas)"

section \<open>Per node\<close>

abbreviation networkName :: "inputs \<Rightarrow> string" where
  "networkName inp \<equiv> GetNetworkName (inp_network inp)"

definition updateUnderlayNetworkInstance :: "inputs \<Rightarrow> string \<Rightarrow> Devices \<Rightarrow> Devices" where
  "updateUnderlayNetworkInstance inp nodeName ds =
     (let ds1 = AddNetworkInstance nodeName
            ((fresh_NetworkInstance (networkName inp))\<lparr>ni_Type := NetworkInstanceType_DEFAULT\<rparr>) ds
      in AddNetworkInstanceSubInterface nodeName (networkName inp)
           \<lparr>nii_Name = SystemInterfaceName, nii_ID = 0\<rparr> ds1)"

definition updateUnderlayOSPFNodeDeviceConfig ::
  "inputs \<Rightarrow> string \<Rightarrow> string \<Rightarrow> Devices \<Rightarrow> Devices res" where
  "updateUnderlayOSPFNodeDeviceConfig inp nodeName routerID ds =
     (let d = inp_design inp in
      bindR (GetOSPFInstanceName d) (\<lambda>instanceName.
        let ds1 = AddNetworkInstanceProtocolsOSPFInstance nodeName (networkName inp)
              ((fresh_OSPFInstance instanceName)\<lparr>oi_Version := GetOSPFVersion d, oi_RouterID := routerID,
                 oi_MaxECMPPaths := GetOSPFGetMaxECMPLPaths d\<rparr>) ds;
            ds2 = AddNetworkInstanceProtocolsOSPFInstanceArea nodeName (networkName inp) instanceName
              (fresh_OSPFArea (GetOSPFArea d)) ds1
        in Inr (AddNetworkInstanceProtocolsOSPFInstanceAreaInterface nodeName (networkName inp)
             instanceName (GetOSPFArea d)
             ((fresh_OSPFAreaInterface \<lparr>nii_Name = SystemInterfaceName, nii_ID = UnderlaySubInterfaceID\<rparr>)
                \<lparr>oai_NetworkType := NetworkTypeUnknown, oai_Passive := True, oai_BFD := False\<rparr>) ds2)))"

definition isisLevels ::
  "ISISLevel \<Rightarrow> NetworkDeviceNetworkInstanceProtocolISISInstanceLevel option \<times>
     NetworkDeviceNetworkInstanceProtocolISISInstanceLevel option" where
  "isisLevels level =
     (let narrow = Some \<lparr>iln_MetricStyle = ISISMetricStyleNarrow\<rparr>
      in case level of
           ISISLevelL1 \<Rightarrow> (narrow, None)
         | ISISLevelL2 \<Rightarrow> (None, narrow)
         | ISISLevelL1L2 \<Rightarrow> (narrow, narrow)
         | _ \<Rightarrow> (None, None))"

definition updateUnderlayISISNodeDeviceConfig ::
  "inputs \<Rightarrow> string \<Rightarrow> string \<Rightarrow> Devices \<Rightarrow> Devices res" where
  "updateUnderlayISISNodeDeviceConfig inp nodeName systemID ds =
     (let d = inp_design inp in
      bindR (GetISISInstanceName d) (\<lambda>instanceName.
        let (level1, level2) = isisLevels (GetISISLevel d);
            ds1 = AddNetworkInstanceProtocolsISISInstance nodeName (networkName inp)
              \<lparr>ii_Name = instanceName, ii_Net = getISISNetIDs (GetISISAreas d) systemID,
               ii_LevelCapability = GetISISLevel d, ii_Level1 = level1, ii_Level2 = level2,
               ii_Interfaces = [], ii_MaxECMPPaths = GetISISGetMaxECMPLPaths d,
               ii_AddressFamilies = GetIGPAddressFamilies d\<rparr> ds
        in Inr (AddNetworkInstanceProtocolsISISInstanceInterface nodeName (networkName inp) instanceName
             ((fresh_ISISInterface \<lparr>nii_Name = SystemInterfaceName, nii_ID = UnderlaySubInterfaceID\<rparr>)
                \<lparr>iii_NetworkType := NetworkTypeUnknown, iii_Passive := True\<rparr>) ds1)))"

definition updateUnderlayBGPNodeDeviceConfig ::
  "inputs \<Rightarrow> string \<Rightarrow> string \<Rightarrow> uint32 \<Rightarrow> Devices \<Rightarrow> Devices" where
  "updateUnderlayBGPNodeDeviceConfig inp nodeName routerID as ds =
     (let d = inp_design inp;
          ds1 = AddNetworkInstanceProtocolsBGPAS nodeName (networkName inp) as ds;
          ds2 = AddNetworkInstanceProtocolsBGPRouterID nodeName (networkName inp) routerID ds1;
          ds3 = (if IsEBGPEnabled d
                 then case GetLoopbackPrefixesPerAF (inp_env inp) d of (ipv4, ipv6) \<Rightarrow>
                        AddRoutingPolicy nodeName UnderlayPolicyName ipv4 ipv6 ds2
                 else ds2);
          ds4 = (if IsIBGPEnabled d
                 then AddNetworkInstanceProtocolsBGPAddressFamilies nodeName (networkName inp)
                        (GetAllEnabledAddressFamilies d) (AddRoutingPolicy nodeName OverlayPolicyName [] [] ds3)
                 else ds3)
      in if IsBGPEVPNEnabled d then AddSystemProtocolsBGPVPN nodeName (Some ()) ds4 else ds4)"

text \<open>\<open>[]string{}\<close> with the address appended when it is not empty.\<close>

definition addressList :: "string \<Rightarrow> string list" where
  "addressList a = (if a \<noteq> '''' then [a] else [])"

definition updateBaseNodeInterfaces :: "inputs \<Rightarrow> string \<Rightarrow> node \<Rightarrow> Devices \<Rightarrow> Devices" where
  "updateBaseNodeInterfaces inp nodeName n ds =
     (let ds1 = AddProvider nodeName (nn_provider n) ds;
          ds2 = AddInterface nodeName (Some (fresh_Interface IRBInterfaceName)) ds1;
          ds3 = AddInterface nodeName (Some (fresh_Interface SystemInterfaceName)) ds2;
          ds4 = AddSubInterface nodeName SystemInterfaceName
            ((fresh_SubInterface 0)\<lparr>si_IPv4 := Some \<lparr>si4_Addresses = addressList (nn_ipv4 n)\<rparr>,
               si_IPv6 := Some \<lparr>si6_Addresses = addressList (nn_ipv6 n)\<rparr>\<rparr>) ds3
      in if IsVXLANEnabled (inp_design inp)
         then AddTunnelInterface nodeName (Some (fresh_TunnelInterface VXLANInterfaceName)) ds4 else ds4)"

definition updateBaseNode :: "inputs \<Rightarrow> string \<Rightarrow> node \<Rightarrow> Devices \<Rightarrow> Devices res" where
  "updateBaseNode inp nodeName n ds =
     (let d = inp_design inp;
          ds1 = updateUnderlayNetworkInstance inp nodeName (updateBaseNodeInterfaces inp nodeName n ds)
      in bindR (if IsOSPFEnabled d then updateUnderlayOSPFNodeDeviceConfig inp nodeName (nn_routerID n) ds1
                else Inr ds1) (\<lambda>ds2.
         bindR (if IsISISEnabled d then updateUnderlayISISNodeDeviceConfig inp nodeName (nn_systemID n) ds2
                else Inr ds2) (\<lambda>ds3.
           Inr (if IsIBGPEnabled d \<or> IsEBGPEnabled d
                then updateUnderlayBGPNodeDeviceConfig inp nodeName (nn_routerID n) (nn_as n) ds3
                else ds3))))"

text \<open>A node that was not added is nil here, and reading its provider dereferences it.\<close>

definition updateBaseEnd :: "inputs \<Rightarrow> link \<Rightarrow> nat \<Rightarrow> DeviceBuilder \<Rightarrow> DeviceBuilder res" where
  "updateBaseEnd inp l i b =
     (let nodeName = getNodeName i l
      in if nodeName \<in> db_nodeSet b then Inr b
         else case nodes_Get nodeName (db_nodes b) of
           None \<Rightarrow> Inl nilDereference
         | Some n \<Rightarrow> bindR (updateBaseNode inp nodeName n (db_devices b)) (\<lambda>ds.
             Inr (b\<lparr>db_devices := ds, db_nodeSet := insert nodeName (db_nodeSet b)\<rparr>)))"

definition updateBaseDeviceConfig :: "inputs \<Rightarrow> link \<Rightarrow> DeviceBuilder \<Rightarrow> DeviceBuilder res" where
  "updateBaseDeviceConfig inp l = forE [0, 1] (updateBaseEnd inp l)"

section \<open>Per end of a link\<close>

definition updateUnderlayOSPFInterfaceDeviceConfig ::
  "inputs \<Rightarrow> string \<Rightarrow> string \<Rightarrow> link \<Rightarrow> Devices \<Rightarrow> Devices res" where
  "updateUnderlayOSPFInterfaceDeviceConfig inp nodeName ifName l ds =
     (let d = inp_design inp in
      bindR (GetOSPFInstanceName d) (\<lambda>instanceName.
        let area = getOSPFArea d l;
            passive = getOSPFPassive l;
            networkType = (if passive then NetworkTypeUnknown else getOSPFNetworkType l);
            bfd = getOSPFBFD d l;
            ds1 = AddNetworkInstanceProtocolsOSPFInstanceArea nodeName (networkName inp) instanceName
                    (fresh_OSPFArea area) ds
        in Inr (AddNetworkInstanceProtocolsOSPFInstanceAreaInterface nodeName (networkName inp)
             instanceName area
             ((fresh_OSPFAreaInterface \<lparr>nii_Name = ifName, nii_ID = UnderlaySubInterfaceID\<rparr>)
                \<lparr>oai_NetworkType := networkType, oai_Passive := passive, oai_BFD := bfd\<rparr>) ds1)))"

definition updateUnderlayISISInterfaceDeviceConfig ::
  "inputs \<Rightarrow> string \<Rightarrow> link \<Rightarrow> nat \<Rightarrow> Devices \<Rightarrow> Devices res" where
  "updateUnderlayISISInterfaceDeviceConfig inp nodeName l i ds =
     bindR (GetISISInstanceName (inp_design inp)) (\<lambda>instanceName.
       Inr (AddNetworkInstanceProtocolsISISInstanceInterface nodeName (networkName inp) instanceName
              (getISISInterface i (inp_design inp) UnderlaySubInterfaceID l) ds))"

text \<open>
  A numbered address family gets a neighbor, an unnumbered one a dynamic neighbor on the sub interface;
  \<open>getIP\<close> is \<open>getIpv4\<close> or \<open>getIpv6\<close>.
\<close>

definition ebgpNeighbor ::
  "inputs \<Rightarrow> (nat \<Rightarrow> link \<Rightarrow> string) \<Rightarrow> link \<Rightarrow> nat \<Rightarrow> NetworkDeviceNetworkInstanceProtocolBGPNeighbor res" where
  "ebgpNeighbor inp getIP l i =
     (let j = i XOR 1 in
      bindR (ipString (inp_env inp) (getIP i l)) (\<lambda>local.
      bindR (ipString (inp_env inp) (getIP j l)) (\<lambda>peer.
        Inr \<lparr>nb_PeerAddress = peer, nb_PeerAS = getAS j l, nb_PeerGroup = BGPUnderlayPeerGroupName,
             nb_LocalAS = getAS i l, nb_LocalAddress = local, nb_BFD = getBGPBFD (inp_design inp) l\<rparr>)))"

definition addEBGPNeighbor ::
  "inputs \<Rightarrow> bool \<Rightarrow> (nat \<Rightarrow> link \<Rightarrow> string) \<Rightarrow> string \<Rightarrow> string \<Rightarrow> link \<Rightarrow> nat \<Rightarrow> Devices \<Rightarrow> Devices res" where
  "addEBGPNeighbor inp numbered getIP nodeName ifName l i ds =
     (if numbered
      then bindR (ebgpNeighbor inp getIP l i) (\<lambda>n.
             Inr (AddNetworkInstanceprotocolsBGPNeighbor nodeName (networkName inp) (Some n) ds))
      else Inr (AddNetworkInstanceprotocolsBGPDynamicNeighbor nodeName (networkName inp)
             (Some \<lparr>dni_SubInterfaceName = \<lparr>nii_Name = ifName, nii_ID = UnderlaySubInterfaceID\<rparr>,
                    dni_PeerAS = getAS (i XOR 1) l, dni_PeerGroup = BGPUnderlayPeerGroupName\<rparr>) ds))"

definition updateUnderlayEBGPInterfaceDeviceConfig ::
  "inputs \<Rightarrow> string \<Rightarrow> string \<Rightarrow> link \<Rightarrow> nat \<Rightarrow> Devices \<Rightarrow> Devices res" where
  "updateUnderlayEBGPInterfaceDeviceConfig inp nodeName ifName l i ds =
     (let d = inp_design inp in
      bindR (if IsUnderlayIPv4Enabled d
             then addEBGPNeighbor inp (IsUnderlayIPv4Numbered d) getIpv4 nodeName ifName l i ds
             else Inr ds) (\<lambda>ds1.
      bindR (if IsUnderlayIPv6Enabled d
             then addEBGPNeighbor inp (IsUnderlayIPv6Numbered d) getIpv6 nodeName ifName l i ds1
             else Inr ds1) (\<lambda>ds2.
        Inr (AddNetworkInstanceprotocolsBGPPeerGroup nodeName (networkName inp)
          (Some ((fresh_BGPPeerGroup BGPUnderlayPeerGroupName)
             \<lparr>pg_AddressFamilies := GetUnderlayAddressFamiliesToBeDisabled d,
              pg_BFD := getBGPBFD d l\<rparr>)) ds2))))"

definition addLinkBFD :: "inputs \<Rightarrow> string \<Rightarrow> string \<Rightarrow> link \<Rightarrow> DeviceBuilder \<Rightarrow> DeviceBuilder res" where
  "addLinkBFD inp nodeName epName l b =
     bindR (getBFDLinkParameters (inp_design inp) l (db_heap b)) (\<lambda>(bfdParmas, h).
       let b1 = b\<lparr>db_heap := h\<rparr>
       in Inr (if bfd_Enabled bfdParmas = Some True
               then onDevices (AddBFDInterface nodeName
                      (Some \<lparr>bfdi_SubInterfaceName = \<lparr>nii_Name = epName, nii_ID = UnderlaySubInterfaceID\<rparr>,
                             bfdi_BFDLinkParameters = bfdParmas\<rparr>)) b1
               else b1))"

definition updateEndInterface :: "inputs \<Rightarrow> link \<Rightarrow> nat \<Rightarrow> Devices \<Rightarrow> Devices" where
  "updateEndInterface inp l i ds =
     (let nodeName = getNodeName i l;
          epName = getEPName i l;
          ds1 = AddInterface nodeName (Some (fresh_Interface epName)) ds;
          ds2 = AddSubInterface nodeName epName
                  (getUnderlaySubInterface i (inp_design inp) UnderlaySubInterfaceID l) ds1
      in AddNetworkInstanceSubInterface nodeName DefaultNetwork
           \<lparr>nii_Name = epName, nii_ID = UnderlaySubInterfaceID\<rparr> ds2)"

text \<open>A step on the devices that can fail, as a step on the builder.\<close>

definition tryDevices :: "(Devices \<Rightarrow> Devices res) \<Rightarrow> DeviceBuilder \<Rightarrow> DeviceBuilder res" where
  "tryDevices f b = bindR (f (db_devices b)) (\<lambda>ds. Inr (b\<lparr>db_devices := ds\<rparr>))"

definition updateUnderlayInterfaceEnd :: "inputs \<Rightarrow> link \<Rightarrow> nat \<Rightarrow> DeviceBuilder \<Rightarrow> DeviceBuilder res" where
  "updateUnderlayInterfaceEnd inp l i b =
     (let d = inp_design inp;
          nodeName = getNodeName i l;
          epName = getEPName i l;
          b1 = onDevices (updateEndInterface inp l i) b
      in bindR (if IsBFDEnabled d then addLinkBFD inp nodeName epName l b1 else Inr b1) (\<lambda>b2.
         bindR (if IsOSPFEnabled d
                then tryDevices (updateUnderlayOSPFInterfaceDeviceConfig inp nodeName epName l) b2
                else Inr b2) (\<lambda>b3.
         bindR (if IsISISEnabled d
                then tryDevices (updateUnderlayISISInterfaceDeviceConfig inp nodeName l i) b3
                else Inr b3) (\<lambda>b4.
           if IsEBGPEnabled d
           then tryDevices (updateUnderlayEBGPInterfaceDeviceConfig inp nodeName epName l i) b4
           else Inr b4))))"

definition updateUnderlayInterfaceDeviceConfig :: "inputs \<Rightarrow> link \<Rightarrow> DeviceBuilder \<Rightarrow> DeviceBuilder res" where
  "updateUnderlayInterfaceDeviceConfig inp l = forE [0, 1] (updateUnderlayInterfaceEnd inp l)"

section \<open>The route reflector mesh\<close>

record schedule =
  sch_edgeNodes :: "string list"
  sch_edgeRRs :: "string \<Rightarrow> string list"
  sch_rrs :: "string list"
  sch_rrNodes :: "string \<Rightarrow> string list"

text \<open>The state of the mesh: the devices and the map \<open>rrEdgeIPs\<close>, whose missing keys read as nil.\<close>

type_synonym mesh = "Devices \<times> (string \<Rightarrow> string list)"

text \<open>\<open>prefix := n.ipv4; if !rr.ipv4 { prefix = n.ipv6 }; pi, _ := iputil.New(prefix); pi.GetIPAddress().String()\<close>\<close>

definition rrLocalAddress :: "inputs \<Rightarrow> node \<Rightarrow> rr \<Rightarrow> string res" where
  "rrLocalAddress inp n r = ipString (inp_env inp) (if \<not> rr_ipv4 r then nn_ipv6 n else nn_ipv4 n)"

definition ibgpNeighbor ::
  "inputs \<Rightarrow> string \<Rightarrow> string \<Rightarrow> NetworkDeviceNetworkInstanceProtocolBGPNeighbor" where
  "ibgpNeighbor inp local peer =
     \<lparr>nb_PeerAddress = peer, nb_PeerAS = GetIBGPAS (inp_design inp), nb_PeerGroup = BGPOverlayPeerGroupName,
      nb_LocalAS = GetIBGPAS (inp_design inp), nb_LocalAddress = local, nb_BFD = False\<rparr>"

definition edgeStep :: "inputs \<Rightarrow> node \<Rightarrow> string \<times> rr \<Rightarrow> mesh \<Rightarrow> mesh res" where
  "edgeStep inp n = (\<lambda>(rrName, r) (ds, rrEdgeIPs).
     let nodeName = nid_Node (nn_nodeID n) in
     if nn_edge n then
       let ds1 = AddNetworkInstanceprotocolsBGPPeerGroup nodeName (networkName inp)
             (Some ((fresh_BGPPeerGroup BGPOverlayPeerGroupName)
                \<lparr>pg_AddressFamilies := GetOverlayAddressFamiliesToBeDisabled (inp_design inp)\<rparr>)) ds
       in bindR (rrLocalAddress inp n r) (\<lambda>localAddress.
            Inr (AddNetworkInstanceprotocolsBGPNeighbor nodeName (networkName inp)
                   (Some (ibgpNeighbor inp localAddress (rr_ip r))) ds1,
                 rrEdgeIPs(rrName := rrEdgeIPs rrName @ [localAddress])))
     else Inr (ds, rrEdgeIPs))"

definition rrNodeStep ::
  "inputs \<Rightarrow> (string \<Rightarrow> string list) \<Rightarrow> string \<times> rr \<Rightarrow> node \<Rightarrow> Devices \<Rightarrow> Devices res" where
  "rrNodeStep inp rrEdgeIPs = (\<lambda>(rrName, r) n ds.
     let nodeName = nid_Node (nn_nodeID n) in
     if rrName = dot (dot (netName inp) nodeName) ''ipv4'' \<or> rrName = dot (dot (netName inp) nodeName) ''ipv6''
     then
       let ds1 = AddNetworkInstanceprotocolsBGPPeerGroup nodeName (networkName inp)
             (Some ((fresh_BGPPeerGroup BGPOverlayPeerGroupName)
                \<lparr>pg_AddressFamilies := GetOverlayAddressFamiliesToBeDisabled (inp_design inp),
                 pg_RouteReflector := Some \<lparr>rr_ClusterID = rr_ip r\<rparr>\<rparr>)) ds
       in forE (rrEdgeIPs rrName) (\<lambda>peerIP ds.
            bindR (rrLocalAddress inp n r) (\<lambda>localAddress.
              Inr (AddNetworkInstanceprotocolsBGPNeighbor nodeName (networkName inp)
                     (Some (ibgpNeighbor inp localAddress peerIP)) ds))) ds1
     else Inr ds)"

definition edgePhase :: "inputs \<Rightarrow> schedule \<Rightarrow> DeviceBuilder \<Rightarrow> mesh \<Rightarrow> mesh res" where
  "edgePhase inp sch b = forE (nodes_List (sch_edgeNodes sch) (db_nodes b)) (\<lambda>n.
     forE (rrs_List (sch_edgeRRs sch (nid_Node (nn_nodeID n))) (db_rrs b)) (edgeStep inp n))"

definition rrPhase ::
  "inputs \<Rightarrow> schedule \<Rightarrow> DeviceBuilder \<Rightarrow> (string \<Rightarrow> string list) \<Rightarrow> Devices \<Rightarrow> Devices res" where
  "rrPhase inp sch b rrEdgeIPs = forE (rrs_List (sch_rrs sch) (db_rrs b)) (\<lambda>(rrName, r).
     forE (nodes_List (sch_rrNodes sch rrName) (db_nodes b)) (rrNodeStep inp rrEdgeIPs (rrName, r)))"

definition updateUnderlayRRConfig :: "inputs \<Rightarrow> schedule \<Rightarrow> DeviceBuilder \<Rightarrow> DeviceBuilder res" where
  "updateUnderlayRRConfig inp sch b0 =
     bindR (gatherRRInfo inp b0) (\<lambda>b.
     bindR (edgePhase inp sch b (db_devices b, \<lambda>_. [])) (\<lambda>(ds, rrEdgeIPs).
     bindR (rrPhase inp sch b rrEdgeIPs ds) (\<lambda>ds'.
       Inr (b\<lparr>db_devices := ds'\<rparr>))))"

section \<open>The underlay\<close>

definition buildLink :: "inputs \<Rightarrow> InfraLink \<Rightarrow> DeviceBuilder \<Rightarrow> DeviceBuilder res" where
  "buildLink inp infraLink b =
     bindR (gatherLinkAndNodeInfo inp infraLink b) (\<lambda>(l, b1).
     bindR (updateBaseDeviceConfig inp l b1) (\<lambda>b2.
       updateUnderlayInterfaceDeviceConfig inp l b2))"

definition BuildUnderlay :: "inputs \<Rightarrow> schedule \<Rightarrow> DeviceBuilder \<Rightarrow> DeviceBuilder res" where
  "BuildUnderlay inp sch b =
     bindR (GetLinks inp) (\<lambda>links.
     bindR (forE links (buildLink inp) b) (\<lambda>b1.
       if IsIBGPEnabled (inp_design inp) then updateUnderlayRRConfig inp sch b1 else Inr b1))"

section \<open>Properties\<close>

text \<open>
  From a system id of six groups the net ids are, area by area, the area, the groups joined in
  pairs, and the selector \<open>00\<close>.
\<close>

theorem isis_net_ids:
  assumes "\<forall>p \<in> set [a, b, c, d, e, f]. CHR '':'' \<notin> set p"
  shows "getISISNetIDs areas (strings_Join CHR '':'' [a, b, c, d, e, f]) =
    map (\<lambda>area. strings_Join CHR ''.'' [area, a @ b, c @ d, e @ f, ''00'']) areas"
  using Split_Join [OF assms] by (simp add: getISISNetIDs_def dot_def)

theorem isis_net_ids_witness:
  "getISISNetIDs [''49.0001''] (strings_Join CHR '':'' [''00'', ''1a'', ''00'', ''00'', ''00'', ''01'']) =
    [''49.0001.001a.0000.0001.00'']"
  using isis_net_ids [of "''00''" "''1a''" "''00''" "''00''" "''00''" "''01''" "[''49.0001'']"] by simp

text \<open>
  C30. The values the schema of a design accepts for the addressing of the underlay are not those the code knows.
  Of the accepted ones only dualstack is numbered; a design with ipv4only or ipv6only builds its links without
  any address family: no address on the sub interface, and of an eBGP session nothing but the peer group.
\<close>

theorem accepted_addressing:
  assumes "Underlay (inp_design inp) = Some u" and "ndip_Addressing u \<in> set Addressing_Enum"
  shows "(IsUnderlayIPv4Numbered (inp_design inp) \<longleftrightarrow> ndip_Addressing u = Addressing_DualStack) \<and>
    (IsUnderlayIPv6Numbered (inp_design inp) \<longleftrightarrow> ndip_Addressing u = Addressing_DualStack) \<and>
    (ndip_Addressing u \<in> {''ipv4only'', ''ipv6only''} \<longrightarrow>
       si_IPv4 (getUnderlaySubInterface idx (inp_design inp) i l) = None \<and>
       si_IPv6 (getUnderlaySubInterface idx (inp_design inp) i l) = None \<and>
       updateUnderlayEBGPInterfaceDeviceConfig inp nodeName ifName l idx ds =
         Inr (AddNetworkInstanceprotocolsBGPPeerGroup nodeName (networkName inp)
           (Some ((fresh_BGPPeerGroup BGPUnderlayPeerGroupName)
              \<lparr>pg_AddressFamilies := GetUnderlayAddressFamiliesToBeDisabled (inp_design inp),
               pg_BFD := getBGPBFD (inp_design inp) l\<rparr>)) ds))"
proof -
  let ?d = "inp_design inp"
  have numbered: "IsUnderlayIPv4Numbered ?d \<longleftrightarrow> ndip_Addressing u = Addressing_DualStack"
    "IsUnderlayIPv6Numbered ?d \<longleftrightarrow> ndip_Addressing u = Addressing_DualStack"
    using assms by (auto simp: addressing_predicates Addressing_defs Addressing_Enum_def)
  have none: "\<not> IsUnderlayIPv4Enabled ?d" "\<not> IsUnderlayIPv6Enabled ?d" if "ndip_Addressing u \<in> {''ipv4only'', ''ipv6only''}"
    using assms that by (auto simp: addressing_predicates Addressing_defs)
  have "si_IPv4 (getUnderlaySubInterface idx ?d i l) = None \<and> si_IPv6 (getUnderlaySubInterface idx ?d i l) = None \<and>
       updateUnderlayEBGPInterfaceDeviceConfig inp nodeName ifName l idx ds =
         Inr (AddNetworkInstanceprotocolsBGPPeerGroup nodeName (networkName inp)
           (Some ((fresh_BGPPeerGroup BGPUnderlayPeerGroupName)
              \<lparr>pg_AddressFamilies := GetUnderlayAddressFamiliesToBeDisabled ?d, pg_BFD := getBGPBFD ?d l\<rparr>)) ds)"
    if "ndip_Addressing u \<in> {''ipv4only'', ''ipv6only''}"
    using none [OF that] underlay_IPv4_cases [of ?d] underlay_IPv6_cases [of ?d]
    by (simp add: updateUnderlayEBGPInterfaceDeviceConfig_def getUnderlaySubInterface_IPv4 getUnderlaySubInterface_IPv6 Let_def)
  with numbered show ?thesis by blast
qed

end
