(* ===== verification/BuilderOverlay.thy ===== *)
theory BuilderOverlay
  imports BuilderUnderlay
begin

text \<open>
  The overlay half of the device builder: the bridges and routers of a network that is not the default
  network, and the choice between the two halves (\<open>Build\<close>).

  The set of nodes that \<open>BuildOverlay\<close> collects per bridge (\<open>bd2NodeName\<close>) is never read and is left out.
\<close>

section \<open>What bridges and routers share\<close>

text \<open>\<open>fmt.Sprintf("target:%d:%d", r.networkDesign.GetIBGPAS(), id)\<close>\<close>

definition routeTarget :: "inputs \<Rightarrow> uint32 \<Rightarrow> string" where
  "routeTarget inp i = ''target:'' @ itoa32 (GetIBGPAS (inp_design inp)) @ '':'' @ itoa32 i"

definition lookupEndpoint :: "inputs \<Rightarrow> string \<Rightarrow> NodeID \<Rightarrow> InfraEndpoint res" where
  "lookupEndpoint inp endpoint nodeID = getEndpoint inp (key inp (dot (topologyOf inp)
     (env_EndpointID_KuidString (inp_env inp) \<lparr>epid_Endpoint = endpoint, epid_NodeID = nodeID\<rparr>)))"

definition lookupNode :: "inputs \<Rightarrow> NodeID \<Rightarrow> InfraNode res" where
  "lookupNode inp nodeID = getNode inp (key inp (dot (topologyOf inp)
     (env_NodeID_KuidString (inp_env inp) nodeID)))"

text \<open>The VXLAN sub interface and the EVPN and VPN configuration of one network instance.\<close>

definition addVXLAN :: "inputs \<Rightarrow> string \<Rightarrow> string \<Rightarrow> uint32 \<Rightarrow> SubInterfaceType \<Rightarrow> Devices \<Rightarrow> Devices" where
  "addVXLAN inp nodeName niName i ty ds =
     (if IsVXLANEnabled (inp_design inp)
      then AddNetworkInstanceSubInterfaceVXLAN nodeName niName
             (Some \<lparr>nii_Name = VXLANInterfaceName, nii_ID = i\<rparr>)
             (AddTunnelSubInterface nodeName VXLANInterfaceName \<lparr>tsi_ID = i, tsi_Type = ty\<rparr> ds)
      else ds)"

definition addVPN :: "inputs \<Rightarrow> string \<Rightarrow> string \<Rightarrow> uint32 \<Rightarrow> Devices \<Rightarrow> Devices" where
  "addVPN inp nodeName niName i ds =
     AddNetworkInstanceProtocolsBGPVPN nodeName niName
       \<lparr>vpn_ImportRouteTarget = routeTarget inp i, vpn_ExportRouteTarget = routeTarget inp i\<rparr>
       (AddNetworkInstanceProtocolsBGPEVPN nodeName niName
         \<lparr>evpn_EVI = i, evpn_ECMP = 2, evpn_VXLANInterface = VXLANInterfaceName\<rparr> ds)"

definition interfaceVLAN :: "uint32 \<Rightarrow> NetworkInterface \<Rightarrow> uint32" where
  "interfaceVLAN i itfce = (case nif_VLANID itfce of None \<Rightarrow> i | Some v \<Rightarrow> v)"

section \<open>Bridges\<close>

definition bridgeConfig ::
  "inputs \<Rightarrow> string \<Rightarrow> uint32 \<Rightarrow> NetworkInterface \<Rightarrow> string \<Rightarrow> InfraEndpoint \<Rightarrow> Devices \<Rightarrow> Devices" where
  "bridgeConfig inp bdName i itfce nodeName ep ds =
     (let ds1 = AddProvider nodeName (ie_Provider ep) ds;
          ds2 = AddSubInterface nodeName (ie_Endpoint ep)
            ((fresh_SubInterface i)\<lparr>si_PeerName := ''customer'', si_Type := SubInterfaceType_Bridged,
               si_VLAN := Some (interfaceVLAN i itfce)\<rparr>) ds1;
          ds3 = AddNetworkInstance nodeName
            ((fresh_NetworkInstance bdName)\<lparr>ni_Type := NetworkInstanceType_MACVRF\<rparr>) ds2;
          ds4 = AddNetworkInstanceSubInterface nodeName bdName
            \<lparr>nii_Name = ie_Endpoint ep, nii_ID = i\<rparr> ds3
      in addVPN inp nodeName bdName i (addVXLAN inp nodeName bdName i SubInterfaceType_Bridged ds4))"

definition bridgeInterface ::
  "inputs \<Rightarrow> string \<Rightarrow> uint32 \<Rightarrow> NetworkInterface \<Rightarrow> Devices \<Rightarrow> Devices res" where
  "bridgeInterface inp bdName i itfce ds =
     (if \<not> IsDynamic itfce then
        case nif_EndPoint itfce of
          None \<Rightarrow> Inl (Err ''cannot have a bridge domain without a specific endpoint defined'')
        | Some endpoint \<Rightarrow>
            case nif_NodeID itfce of
              None \<Rightarrow> Inl (Err ''cannot have a bridge domain without a specific node id defined'')
            | Some nodeID \<Rightarrow>
                bindR (lookupEndpoint inp endpoint nodeID) (\<lambda>ep.
                  Inr (bridgeConfig inp bdName i itfce (nid_Node nodeID) ep ds))
      else Inr ds)"

definition buildBridge :: "inputs \<Rightarrow> NetworkBridge \<Rightarrow> Devices \<Rightarrow> Devices res" where
  "buildBridge inp bridge ds =
     (let bdName = dot (networkName inp) (nbr_Name bridge);
          i = ucast (nbr_NetworkID bridge) :: uint32
      in forE (nbr_Interfaces bridge) (bridgeInterface inp bdName i) ds)"

section \<open>Routers\<close>

text \<open>Addresses the parser refuses are skipped.\<close>

definition splitAddresses :: "env \<Rightarrow> NetworkInterfaceAddress list \<Rightarrow> string list \<times> string list" where
  "splitAddresses e as = foldl
     (\<lambda>(v4, v6) address. case env_iputil_New e (nia_Address address) of
        None \<Rightarrow> (v4, v6)
      | Some pi \<Rightarrow> if ipi_IsIpv4 pi then (v4 @ [nia_Address address], v6)
                   else (v4, v6 @ [nia_Address address])) ([], []) as"

definition routerConfig ::
  "inputs \<Rightarrow> string \<Rightarrow> uint32 \<Rightarrow> string \<Rightarrow> string \<Rightarrow> Devices \<Rightarrow> Devices" where
  "routerConfig inp niName i nodeName provider ds =
     (let ds1 = AddProvider nodeName provider ds;
          ds2 = AddNetworkInstance nodeName
            ((fresh_NetworkInstance niName)\<lparr>ni_Type := NetworkInstanceType_IPVRF\<rparr>) ds1
      in addVPN inp nodeName niName i (addVXLAN inp nodeName niName i SubInterfaceType_Routed ds2))"

definition routedSubInterface ::
  "inputs \<Rightarrow> uint32 \<Rightarrow> NetworkInterface \<Rightarrow> NetworkDeviceInterfaceSubInterface" where
  "routedSubInterface inp i itfce =
     (case splitAddresses (inp_env inp) (nif_Addresses itfce) of (ipv4, ipv6) \<Rightarrow>
        (fresh_SubInterface i)\<lparr>si_PeerName := ''customer'', si_IPv4 := Some \<lparr>si4_Addresses = ipv4\<rparr>,
          si_IPv6 := Some \<lparr>si6_Addresses = ipv6\<rparr>\<rparr>)"

definition routerEndpoint ::
  "inputs \<Rightarrow> string \<Rightarrow> uint32 \<Rightarrow> NetworkInterface \<Rightarrow> string \<Rightarrow> string \<Rightarrow> Devices \<Rightarrow> Devices" where
  "routerEndpoint inp niName i itfce nodeName endpoint ds =
     AddNetworkInstanceSubInterface nodeName niName \<lparr>nii_Name = endpoint, nii_ID = i\<rparr>
       (AddSubInterface nodeName endpoint
         ((routedSubInterface inp i itfce)\<lparr>si_Type := SubInterfaceType_Routed,
            si_VLAN := Some (interfaceVLAN i itfce)\<rparr>) ds)"

definition routerIRB ::
  "inputs \<Rightarrow> string \<Rightarrow> uint32 \<Rightarrow> NetworkInterface \<Rightarrow> string \<Rightarrow> string \<Rightarrow> Devices \<Rightarrow> Devices res" where
  "routerIRB inp niName i itfce nodeName bridge ds =
     (if \<not> IsBridgePresent bridge (inp_network inp)
      then Inl (Err ''cannot create an irb interface on a bridgedomain that is not present'')
      else
        let irb = \<lparr>nii_Name = IRBInterfaceName, nii_ID = i\<rparr>;
            ds1 = AddSubInterface nodeName IRBInterfaceName (routedSubInterface inp i itfce) ds;
            ds2 = AddNetworkInstanceSubInterface nodeName niName irb ds1
        in Inr (AddNetworkInstanceSubInterface nodeName (dot (networkName inp) bridge) irb ds2))"

definition routerInterface ::
  "inputs \<Rightarrow> string \<Rightarrow> uint32 \<Rightarrow> NetworkInterface \<Rightarrow> Devices \<Rightarrow> Devices res" where
  "routerInterface inp niName i itfce ds =
     (if IsDynamic itfce then Inr ds
      else if nif_Bridge itfce = None \<and> nif_EndPoint itfce = None
      then Inl (Err ''cannot create an rt interface w/o a bridgedomain or endpoint specified'')
      else case nif_NodeID itfce of
        None \<Rightarrow> Inl (Err ''unsupported for now'')
      | Some nodeID \<Rightarrow>
          let nodeName = nid_Node nodeID in
          case nif_Bridge itfce of
            None \<Rightarrow>
              (case nif_EndPoint itfce of
                 None \<Rightarrow> Inl (Err ''cannot create a interface w/o no endpoint and brdigedomain'')
               | Some endpoint \<Rightarrow>
                   bindR (lookupEndpoint inp endpoint nodeID) (\<lambda>ep.
                     Inr (routerEndpoint inp niName i itfce nodeName endpoint
                       (routerConfig inp niName i nodeName (ie_Provider ep) ds))))
          | Some bridge \<Rightarrow>
              bindR (lookupNode inp nodeID) (\<lambda>n.
                routerIRB inp niName i itfce nodeName bridge
                  (routerConfig inp niName i nodeName (in_Provider n) ds)))"

definition buildRouter :: "inputs \<Rightarrow> NetworkRouter \<Rightarrow> Devices \<Rightarrow> Devices res" where
  "buildRouter inp router ds =
     (let niName = dot (networkName inp) (nrt_Name router);
          i = ucast (nrt_NetworkID router) :: uint32
      in forE (nrt_Interfaces router) (routerInterface inp niName i) ds)"

section \<open>The overlay and the build\<close>

definition BuildOverlay :: "inputs \<Rightarrow> DeviceBuilder \<Rightarrow> DeviceBuilder res" where
  "BuildOverlay inp = tryDevices (\<lambda>ds0.
     bindR (forE (ns_Bridges (net_Spec (inp_network inp))) (buildBridge inp) ds0)
       (forE (ns_Routers (net_Spec (inp_network inp))) (buildRouter inp)))"

definition Build :: "inputs \<Rightarrow> schedule \<Rightarrow> DeviceBuilder \<Rightarrow> DeviceBuilder res" where
  "Build inp sch b =
     (if IsDefaultNetwork (inp_network inp) then BuildUnderlay inp sch b else BuildOverlay inp b)"

definition Builder_GetNetworkDeviceConfigs :: "string list \<Rightarrow> DeviceBuilder \<Rightarrow> NetworkDevice list" where
  "Builder_GetNetworkDeviceConfigs order b = GetNetworkDeviceConfigs order (db_devices b)"

section \<open>Properties\<close>

text \<open>
  A bridge interface is configured exactly when it is dynamic, or names an endpoint and a node whose
  endpoint the inventory has; every other interface fails the build.
\<close>

theorem bridge_interface_outcome:
  "(\<exists>ds'. bridgeInterface inp bd i itfce ds = Inr ds') \<longleftrightarrow>
    IsDynamic itfce \<or> (\<exists>e n ep. nif_EndPoint itfce = Some e \<and> nif_NodeID itfce = Some n \<and>
      cl_GetEndpoint (inp_client inp) (key inp (dot (topologyOf inp)
        (env_EndpointID_KuidString (inp_env inp) \<lparr>epid_Endpoint = e, epid_NodeID = n\<rparr>))) = Inr ep)"
  by (auto simp: bridgeInterface_def bindR_Inr_iff lookupEndpoint_def getEndpoint_def apiCall_Inr_iff
      split: option.splits)



end
