(* ===== verification/BuildRuns.thy ===== *)
theory BuildRuns
  imports BuilderOverlay
begin

text \<open>
  Every build is a run of device operations. What was gathered for a link (\<open>gathered\<close>) and for a node
  (\<open>node_gathered\<close>) is what the API server holds; every function of the builder is a \<open>devices_run\<close> on the
  nodes it is called for; so a build touches exactly the nodes at the ends of its links, or of its
  static interfaces, and keeps every \<open>devices_invariant\<close>.
\<close>

section \<open>The ends of a link\<close>

definition linkNodeID :: "InfraLink \<Rightarrow> nat \<Rightarrow> NodeID" where
  "linkNodeID l i = epid_NodeID (ngep_EndpointID (il_Endpoints l ! i))"
definition linkNode :: "InfraLink \<Rightarrow> nat \<Rightarrow> string" where
  "linkNode l i = nid_Node (linkNodeID l i)"
definition linkEP :: "InfraLink \<Rightarrow> nat \<Rightarrow> string" where
  "linkEP l i = epid_Endpoint (ngep_EndpointID (il_Endpoints l ! i))"

definition linkNodes :: "InfraLink \<Rightarrow> string set" where
  "linkNodes l = {linkNode l 0, linkNode l 1}"

definition gathered :: "inputs \<Rightarrow> InfraLink \<Rightarrow> nat \<Rightarrow> link \<Rightarrow> bool" where
  "gathered inp il i l \<longleftrightarrow>
     i < length (il_Endpoints il) \<and> getNodeName i l = linkNode il i \<and> getEPName i l = linkEP il i \<and>
     (IsEBGPEnabled (inp_design inp) \<longrightarrow> getASClaim inp (claim2 inp (linkNode il i)) = Inr (getAS i l)) \<and>
     (IsUnderlayIPv4Numbered (inp_design inp) \<longrightarrow>
        getIPClaim inp (claim4 inp (linkNode il i) (linkEP il i) ''ipv4'') = Inr (getIpv4 i l)) \<and>
     (IsUnderlayIPv6Numbered (inp_design inp) \<longrightarrow>
        getIPClaim inp (claim4 inp (linkNode il i) (linkEP il i) ''ipv6'') = Inr (getIpv6 i l))"

section \<open>The nodes\<close>

text \<open>What the entry of a node in the builder's map is made of.\<close>

definition node_gathered :: "inputs \<Rightarrow> string \<Rightarrow> node \<Rightarrow> bool" where
  "node_gathered inp k n \<longleftrightarrow>
     nid_Node (nn_nodeID n) = k \<and>
     (\<exists>m. lookupNode inp (nn_nodeID n) = Inr m \<and> nn_provider n = in_Provider m \<and>
          in_SystemID m = Some (nn_systemID n)) \<and>
     (if IsEBGPEnabled (inp_design inp) then getASClaim inp (claim2 inp k) = Inr (nn_as n)
      else nn_as n = GetIBGPAS (inp_design inp)) \<and>
     (if IsLoopbackIPv4Enabled (inp_design inp)
      then getIPClaim inp (claim3 inp k ''ipv4'') = Inr (nn_ipv4 n) \<and>
           ipString (inp_env inp) (nn_ipv4 n) = Inr (nn_routerID n)
      else nn_ipv4 n = '''' \<and>
           (\<exists>ip. getIPClaim inp (claim3 inp k ''routerid'') = Inr ip \<and>
                 ipString (inp_env inp) ip = Inr (nn_routerID n))) \<and>
     (if IsLoopbackIPv6Enabled (inp_design inp)
      then getIPClaim inp (claim3 inp k ''ipv6'') = Inr (nn_ipv6 n) else nn_ipv6 n = '''')"

definition nodes_ok :: "inputs \<Rightarrow> DeviceBuilder \<Rightarrow> bool" where
  "nodes_ok inp b \<longleftrightarrow> (\<forall>k n. db_nodes b k = Some n \<longrightarrow> node_gathered inp k n)"

lemma gatherNodeInfo_result:
  assumes "gatherNodeInfo inp nodeID b = Inr b'" and "nodes_ok inp b"
  shows "nodes_ok inp b' \<and> db_devices b' = db_devices b \<and> db_nodeSet b' = db_nodeSet b \<and>
    db_heap b' = db_heap b \<and> db_rrs b' = db_rrs b \<and>
    dom (db_nodes b') \<subseteq> insert (nid_Node nodeID) (dom (db_nodes b))"
proof -
  from assms(1) obtain m systemID n1 n2 n3 where
    m: "lookupNode inp nodeID = Inr m" "in_SystemID m = Some systemID" and
    n1: "gatherRouterID inp (nid_Node nodeID) (newNode nodeID (in_Provider m) systemID) = Inr n1" and
    n2: "gatherLoopbackIPv6 inp (nid_Node nodeID) n1 = Inr n2" and
    n3: "gatherNodeAS inp (nid_Node nodeID) n2 = Inr n3" and
    b': "b' = b \<or> b' = nodes_Add (nid_Node nodeID) n3 b \<or>
      b' = nodes_Add (nid_Node nodeID) (n3\<lparr>nn_edge := True\<rparr>) b"
    by (auto simp: gatherNodeInfo_def lookupNode_def bindR_Inr_iff Let_def
        split: option.splits if_splits)
  have "node_gathered inp (nid_Node nodeID) (n3\<lparr>nn_edge := e\<rparr>)" for e
    using m n1 n2 n3
    by (auto simp: node_gathered_def gatherRouterID_def gatherLoopbackIPv6_def gatherNodeAS_def
        newNode_def bindR_Inr_iff split: if_splits)
  then have "node_gathered inp (nid_Node nodeID) n3" "node_gathered inp (nid_Node nodeID) (n3\<lparr>nn_edge := True\<rparr>)"
    by (metis node.surjective node.update_convs(8), blast)
  with b' assms(2) show ?thesis
    by (auto simp: nodes_ok_def nodes_Add_def split: if_splits)
qed

section \<open>Gathering a link\<close>

lemma gatherEnd_result:
  assumes "gatherEnd inp il i (l, b) = Inr (l', b')" and "link_wf l" and "i \<le> 1" and "nodes_ok inp b"
  shows "gathered inp il i l'" "link_wf l'" "lk_l l' = lk_l l"
    and "\<And>j. j \<noteq> i \<Longrightarrow> gathered inp il j l \<Longrightarrow> gathered inp il j l'"
    and "nodes_ok inp b'" "db_devices b' = db_devices b" "db_nodeSet b' = db_nodeSet b"
    and "db_heap b' = db_heap b" "db_rrs b' = db_rrs b"
    and "dom (db_nodes b') \<subseteq> insert (linkNode il i) (dom (db_nodes b))"
proof -
  let ?l1 = "addEPName i (linkEP il i) (addNodeName i (linkNode il i) l)"
  from assms(1) obtain l2 l3 where
    i: "i < length (il_Endpoints il)" and
    b': "(if db_nodes b (linkNode il i) = None then gatherNodeInfo inp (linkNodeID il i) b else Inr b) = Inr b'" and
    l2: "gatherEndAS inp i (linkNode il i) ?l1 = Inr l2" and
    l3: "gatherEndIPv4 inp i (linkNode il i) (linkEP il i) l2 = Inr l3" and
    l': "gatherEndIPv6 inp i (linkNode il i) (linkEP il i) l3 = Inr l'"
    by (auto simp: gatherEnd_def linkNode_def linkEP_def linkNodeID_def bindR_Inr_iff Let_def nodes_Get_def
        split: if_splits)
  show "gathered inp il i l'" "link_wf l'" "lk_l l' = lk_l l"
    "\<And>j. j \<noteq> i \<Longrightarrow> gathered inp il j l \<Longrightarrow> gathered inp il j l'"
    using i l2 l3 l' assms(2,3)
    by (auto simp: gathered_def gatherEndAS_def gatherEndIPv4_def gatherEndIPv6_def bindR_Inr_iff
        split: if_splits)
  show "nodes_ok inp b'" "db_devices b' = db_devices b" "db_nodeSet b' = db_nodeSet b"
    "db_heap b' = db_heap b" "db_rrs b' = db_rrs b"
    "dom (db_nodes b') \<subseteq> insert (linkNode il i) (dom (db_nodes b))"
    using b' gatherNodeInfo_result [OF _ assms(4), of "linkNodeID il i" b'] assms(4)
    by (auto simp: linkNode_def split: if_splits)
qed

lemma gatherLinkAndNodeInfo_result:
  assumes "gatherLinkAndNodeInfo inp il b = Inr (l, b')" and "nodes_ok inp b"
  shows "gathered inp il 0 l" "gathered inp il 1 l" "lk_l l = il"
    and "nodes_ok inp b'" "db_devices b' = db_devices b" "db_nodeSet b' = db_nodeSet b"
    and "db_heap b' = db_heap b" "db_rrs b' = db_rrs b"
    and "dom (db_nodes b') \<subseteq> linkNodes il \<union> dom (db_nodes b)"
proof -
  from assms(1) obtain l0 b0 where
    g0: "gatherEnd inp il 0 (newLink il, b) = Inr (l0, b0)" and
    g1: "gatherEnd inp il 1 (l0, b0) = Inr (l, b')"
    by (auto simp: gatherLinkAndNodeInfo_def bindR_Inr_iff)
  note r0 = gatherEnd_result [OF g0 _ _ assms(2), simplified]
  note r1 = gatherEnd_result [OF g1 r0(2) _ r0(5), simplified]
  show "gathered inp il 0 l" "gathered inp il 1 l" "lk_l l = il"
    "nodes_ok inp b'" "db_devices b' = db_devices b" "db_nodeSet b' = db_nodeSet b"
    "db_heap b' = db_heap b" "db_rrs b' = db_rrs b"
    using r0 r1 by simp_all
  show "dom (db_nodes b') \<subseteq> linkNodes il \<union> dom (db_nodes b)"
    using r0(10) r1(10) unfolding linkNodes_def One_nat_def by blast
qed

lemma gatherNodeInfo_grows:
  "gatherNodeInfo inp nodeID b = Inr b' \<Longrightarrow> dom (db_nodes b) \<subseteq> dom (db_nodes b')"
  by (auto simp: gatherNodeInfo_def bindR_Inr_iff Let_def nodes_Add_def split: option.splits if_splits)

lemma gatherEnd_grows:
  "gatherEnd inp il i (l, b) = Inr (l', b') \<Longrightarrow> dom (db_nodes b) \<subseteq> dom (db_nodes b')"
  by (auto simp: gatherEnd_def bindR_Inr_iff Let_def split: if_splits dest: gatherNodeInfo_grows [THEN subsetD])

lemma gather_grows:
  assumes "gatherLinkAndNodeInfo inp il b = Inr (l, b')"
  shows "dom (db_nodes b) \<subseteq> dom (db_nodes b')"
proof -
  from assms obtain l0 b0 where "gatherEnd inp il 0 (newLink il, b) = Inr (l0, b0)"
    and "gatherEnd inp il 1 (l0, b0) = Inr (l, b')"
    by (auto simp: gatherLinkAndNodeInfo_def bindR_Inr_iff)
  then show ?thesis by (meson gatherEnd_grows order_trans)
qed

lemma gathered_names:
  assumes "gathered inp il 0 l" "gathered inp il 1 l" "i \<le> 1"
  shows "getNodeName i l \<in> linkNodes il" "getNodeName i l = linkNode il i" "getEPName i l = linkEP il i"
  using assms by (auto simp: gathered_def linkNodes_def le_Suc_eq)

section \<open>Every function of the builder is a run\<close>

lemmas run_ops =
  devices_step.Provider [THEN devices_run_step] devices_step.BGPAS [THEN devices_run_step]
  devices_step.BGPRouterID [THEN devices_run_step] devices_step.BGPAddressFamilies [THEN devices_run_step]
  devices_step.BFDInterface [THEN devices_run_step] devices_step.Itfce [THEN devices_run_step]
  devices_step.Tunnel [THEN devices_run_step] devices_step.SubInterface [THEN devices_run_step]
  devices_step.TunnelSubInterface [THEN devices_run_step] devices_step.Instance [THEN devices_run_step]
  devices_step.InstanceSubInterface [THEN devices_run_step] devices_step.InstanceVXLAN [THEN devices_run_step]
  devices_step.ISISInstance [THEN devices_run_step] devices_step.ISISInterface [THEN devices_run_step]
  devices_step.OSPFInstance [THEN devices_run_step] devices_step.OSPFArea [THEN devices_run_step]
  devices_step.OSPFAreaInterface [THEN devices_run_step] devices_step.BGPNeighbor [THEN devices_run_step]
  devices_step.BGPDynamicNeighbor [THEN devices_run_step] devices_step.BGPPeerGroup [THEN devices_run_step]
  devices_step.RoutingPolicy [THEN devices_run_step] devices_step.BGPVPN [THEN devices_run_step]
  devices_step.BGPEVPN [THEN devices_run_step] devices_step.SystemBGPVPN [THEN devices_run_step]

lemma run_updateUnderlayNetworkInstance:
  "devices_run N r ds \<Longrightarrow> n \<in> N \<Longrightarrow> devices_run N r (updateUnderlayNetworkInstance inp n ds)"
  by (auto simp: updateUnderlayNetworkInstance_def Let_def intro!: run_ops)

lemma run_updateBaseNodeInterfaces:
  "devices_run N r ds \<Longrightarrow> n \<in> N \<Longrightarrow> devices_run N r (updateBaseNodeInterfaces inp n nd ds)"
  by (auto simp: updateBaseNodeInterfaces_def Let_def intro!: run_ops)

lemma run_updateUnderlayBGPNodeDeviceConfig:
  "devices_run N r ds \<Longrightarrow> n \<in> N \<Longrightarrow> devices_run N r (updateUnderlayBGPNodeDeviceConfig inp n rid as ds)"
  by (auto simp: updateUnderlayBGPNodeDeviceConfig_def Let_def split: prod.split intro!: run_ops)

lemma run_updateUnderlayIGPNodeDeviceConfig:
  "updateUnderlayOSPFNodeDeviceConfig inp n rid ds = Inr ds' \<Longrightarrow> devices_run N r ds \<Longrightarrow> n \<in> N \<Longrightarrow>
    devices_run N r ds'"
  "updateUnderlayISISNodeDeviceConfig inp n sid ds = Inr ds' \<Longrightarrow> devices_run N r ds \<Longrightarrow> n \<in> N \<Longrightarrow>
    devices_run N r ds'"
  by (auto simp: updateUnderlayOSPFNodeDeviceConfig_def updateUnderlayISISNodeDeviceConfig_def
      bindR_Inr_iff Let_def split_beta intro!: run_ops)

lemma updateBaseNode_run:
  assumes "updateBaseNode inp n nd ds = Inr ds'" and "n \<in> N"
  shows "devices_run N (updateUnderlayNetworkInstance inp n (updateBaseNodeInterfaces inp n nd ds)) ds'"
    (is "devices_run N ?ds1 ds'")
proof -
  from assms(1) obtain ds2 ds3 where
    "(if IsOSPFEnabled (inp_design inp) then updateUnderlayOSPFNodeDeviceConfig inp n (nn_routerID nd) ?ds1
      else Inr ?ds1) = Inr ds2" and
    "(if IsISISEnabled (inp_design inp) then updateUnderlayISISNodeDeviceConfig inp n (nn_systemID nd) ds2
      else Inr ds2) = Inr ds3" and
    ds': "ds' = (if IsIBGPEnabled (inp_design inp) \<or> IsEBGPEnabled (inp_design inp)
      then updateUnderlayBGPNodeDeviceConfig inp n (nn_routerID nd) (nn_as nd) ds3 else ds3)"
    by (auto simp: updateBaseNode_def bindR_Inr_iff Let_def)
  then have "devices_run N ?ds1 ds3"
    using assms(2) by (auto dest: run_updateUnderlayIGPNodeDeviceConfig split: if_splits)
  then show ?thesis
    using assms(2) by (simp add: ds' run_updateUnderlayBGPNodeDeviceConfig)
qed

lemma run_updateBaseNode:
  assumes "updateBaseNode inp n nd ds = Inr ds'" and "devices_run N r ds" and "n \<in> N"
  shows "devices_run N r ds'"
proof -
  have "devices_run N r (updateUnderlayNetworkInstance inp n (updateBaseNodeInterfaces inp n nd ds))"
    using assms(2,3) by (intro run_updateUnderlayNetworkInstance run_updateBaseNodeInterfaces)
  then show ?thesis using updateBaseNode_run [OF assms(1,3)] by (rule devices_run_trans)
qed

lemma updateBaseNode_dom:
  assumes "updateBaseNode inp n nd ds = Inr ds'"
  shows "n \<in> dom (dvs_devices ds')"
proof -
  have "n \<in> dom (dvs_devices (updateUnderlayNetworkInstance inp n (updateBaseNodeInterfaces inp n nd ds)))"
    by (simp add: updateUnderlayNetworkInstance_def AddNetworkInstanceSubInterface_def Let_def)
  then show ?thesis
    using devices_run_dom(1) [OF updateBaseNode_run [OF assms, of "{n}"]] by auto
qed

lemma run_updateBaseEnd:
  assumes "updateBaseEnd inp l i b = Inr b'" and "devices_run N r (db_devices b)" and "getNodeName i l \<in> N"
  shows "devices_run N r (db_devices b')"
  using assms
  by (auto simp: updateBaseEnd_def bindR_Inr_iff Let_def split: if_splits option.splits
      intro: run_updateBaseNode)

lemma run_updateBaseDeviceConfig:
  assumes "updateBaseDeviceConfig inp l b = Inr b'" and "devices_run N r (db_devices b)"
    and "getNodeName 0 l \<in> N" "getNodeName 1 l \<in> N"
  shows "devices_run N r (db_devices b')"
  using assms by (auto simp: updateBaseDeviceConfig_def bindR_Inr_iff dest!: run_updateBaseEnd)

lemma run_updateEndInterface:
  "devices_run N r ds \<Longrightarrow> getNodeName i l \<in> N \<Longrightarrow> devices_run N r (updateEndInterface inp l i ds)"
  by (auto simp: updateEndInterface_def Let_def intro!: run_ops)

lemma run_addLinkBFD:
  "addLinkBFD inp n ep l b = Inr b' \<Longrightarrow> devices_run N r (db_devices b) \<Longrightarrow> n \<in> N \<Longrightarrow>
    devices_run N r (db_devices b')"
  by (auto simp: addLinkBFD_def bindR_Inr_iff Let_def split: if_splits intro!: run_ops)

lemma run_updateUnderlayIGPInterface:
  "updateUnderlayOSPFInterfaceDeviceConfig inp n ifn l ds = Inr ds' \<Longrightarrow> devices_run N r ds \<Longrightarrow> n \<in> N \<Longrightarrow>
    devices_run N r ds'"
  "updateUnderlayISISInterfaceDeviceConfig inp n l i ds = Inr ds' \<Longrightarrow> devices_run N r ds \<Longrightarrow> n \<in> N \<Longrightarrow>
    devices_run N r ds'"
  by (auto simp: updateUnderlayOSPFInterfaceDeviceConfig_def updateUnderlayISISInterfaceDeviceConfig_def
      bindR_Inr_iff Let_def intro!: run_ops)

lemma run_addEBGPNeighbor:
  "addEBGPNeighbor inp num getIP n ifn l i ds = Inr ds' \<Longrightarrow> devices_run N r ds \<Longrightarrow> n \<in> N \<Longrightarrow>
    devices_run N r ds'"
  by (auto simp: addEBGPNeighbor_def bindR_Inr_iff split: if_splits intro!: run_ops)

lemma run_updateUnderlayEBGPInterface:
  assumes "updateUnderlayEBGPInterfaceDeviceConfig inp n ifn l i ds = Inr ds'"
    and "devices_run N r ds" and "n \<in> N"
  shows "devices_run N r ds'"
  using assms
  by (auto simp: updateUnderlayEBGPInterfaceDeviceConfig_def bindR_Inr_iff Let_def
      dest!: run_addEBGPNeighbor split: if_splits intro!: run_ops)

lemma tryDevices_Inr:
  assumes "tryDevices f b = Inr b'"
  obtains ds where "f (db_devices b) = Inr ds" and "b' = b\<lparr>db_devices := ds\<rparr>"
  using assms by (auto simp: tryDevices_def bindR_Inr_iff)

lemma updateUnderlayInterfaceEnd_Inr:
  assumes "updateUnderlayInterfaceEnd inp l i b = Inr b'"
  obtains b2 b3 b4 where
    "IsBFDEnabled (inp_design inp) \<Longrightarrow> addLinkBFD inp (getNodeName i l) (getEPName i l) l
       (onDevices (updateEndInterface inp l i) b) = Inr b2"
    "\<not> IsBFDEnabled (inp_design inp) \<Longrightarrow> b2 = onDevices (updateEndInterface inp l i) b"
    "IsOSPFEnabled (inp_design inp) \<Longrightarrow> tryDevices
       (updateUnderlayOSPFInterfaceDeviceConfig inp (getNodeName i l) (getEPName i l) l) b2 = Inr b3"
    "\<not> IsOSPFEnabled (inp_design inp) \<Longrightarrow> b3 = b2"
    "IsISISEnabled (inp_design inp) \<Longrightarrow> tryDevices
       (updateUnderlayISISInterfaceDeviceConfig inp (getNodeName i l) l i) b3 = Inr b4"
    "\<not> IsISISEnabled (inp_design inp) \<Longrightarrow> b4 = b3"
    "IsEBGPEnabled (inp_design inp) \<Longrightarrow> tryDevices
       (updateUnderlayEBGPInterfaceDeviceConfig inp (getNodeName i l) (getEPName i l) l i) b4 = Inr b'"
    "\<not> IsEBGPEnabled (inp_design inp) \<Longrightarrow> b' = b4"
proof -
  let ?b1 = "onDevices (updateEndInterface inp l i) b" and ?d = "inp_design inp"
  and ?n = "getNodeName i l" and ?ep = "getEPName i l"
  from assms obtain b2 b3 b4 where
    "(if IsBFDEnabled ?d then addLinkBFD inp ?n ?ep l ?b1 else Inr ?b1) = Inr b2"
    "(if IsOSPFEnabled ?d then tryDevices (updateUnderlayOSPFInterfaceDeviceConfig inp ?n ?ep l) b2
          else Inr b2) = Inr b3"
    "(if IsISISEnabled ?d then tryDevices (updateUnderlayISISInterfaceDeviceConfig inp ?n l i) b3
          else Inr b3) = Inr b4"
    "(if IsEBGPEnabled ?d then tryDevices (updateUnderlayEBGPInterfaceDeviceConfig inp ?n ?ep l i) b4
          else Inr b4) = Inr b'"
    unfolding updateUnderlayInterfaceEnd_def Let_def bindR_Inr_iff by blast
  then show thesis by (intro that [of b2 b3 b4]) (simp_all split: if_splits)
qed

lemma run_updateUnderlayInterfaceEnd:
  assumes "updateUnderlayInterfaceEnd inp l i b = Inr b'" and b: "devices_run N r (db_devices b)"
    and n: "getNodeName i l \<in> N"
  shows "devices_run N r (db_devices b')"
  using assms(1)
proof (rule updateUnderlayInterfaceEnd_Inr)
  fix b2 b3 b4
  assume s: "IsBFDEnabled (inp_design inp) \<Longrightarrow> addLinkBFD inp (getNodeName i l) (getEPName i l) l
       (onDevices (updateEndInterface inp l i) b) = Inr b2"
    "\<not> IsBFDEnabled (inp_design inp) \<Longrightarrow> b2 = onDevices (updateEndInterface inp l i) b"
    "IsOSPFEnabled (inp_design inp) \<Longrightarrow> tryDevices
       (updateUnderlayOSPFInterfaceDeviceConfig inp (getNodeName i l) (getEPName i l) l) b2 = Inr b3"
    "\<not> IsOSPFEnabled (inp_design inp) \<Longrightarrow> b3 = b2"
    "IsISISEnabled (inp_design inp) \<Longrightarrow> tryDevices
       (updateUnderlayISISInterfaceDeviceConfig inp (getNodeName i l) l i) b3 = Inr b4"
    "\<not> IsISISEnabled (inp_design inp) \<Longrightarrow> b4 = b3"
    "IsEBGPEnabled (inp_design inp) \<Longrightarrow> tryDevices
       (updateUnderlayEBGPInterfaceDeviceConfig inp (getNodeName i l) (getEPName i l) l i) b4 = Inr b'"
    "\<not> IsEBGPEnabled (inp_design inp) \<Longrightarrow> b' = b4"
  have "devices_run N r (db_devices (onDevices (updateEndInterface inp l i) b))"
    using b n by (simp add: run_updateEndInterface)
  then have "devices_run N r (db_devices b2)"
    using s(1,2) n by (cases "IsBFDEnabled (inp_design inp)") (auto dest: run_addLinkBFD)
  then have "devices_run N r (db_devices b3)"
    using s(3,4) n by (cases "IsOSPFEnabled (inp_design inp)")
      (auto elim!: tryDevices_Inr dest: run_updateUnderlayIGPInterface)
  then have "devices_run N r (db_devices b4)"
    using s(5,6) n by (cases "IsISISEnabled (inp_design inp)")
      (auto elim!: tryDevices_Inr dest: run_updateUnderlayIGPInterface)
  then show ?thesis
    using s(7,8) n by (cases "IsEBGPEnabled (inp_design inp)")
      (auto elim!: tryDevices_Inr dest: run_updateUnderlayEBGPInterface)
qed

lemma run_updateUnderlayInterfaceDeviceConfig:
  assumes "updateUnderlayInterfaceDeviceConfig inp l b = Inr b'" and "devices_run N r (db_devices b)"
    and "getNodeName 0 l \<in> N" "getNodeName 1 l \<in> N"
  shows "devices_run N r (db_devices b')"
  using assms
  by (auto simp: updateUnderlayInterfaceDeviceConfig_def bindR_Inr_iff dest!: run_updateUnderlayInterfaceEnd)

section \<open>Nodes, route reflectors and processed nodes through the functions\<close>

lemma keeps_addLinkBFD:
  "addLinkBFD inp n ep l b = Inr b' \<Longrightarrow> db_nodes b' = db_nodes b \<and> db_nodeSet b' = db_nodeSet b \<and> db_rrs b' = db_rrs b"
  by (auto simp: addLinkBFD_def bindR_Inr_iff Let_def split: if_splits)

lemma keeps_tryDevices:
  "tryDevices f b = Inr b' \<Longrightarrow> db_nodes b' = db_nodes b \<and> db_nodeSet b' = db_nodeSet b \<and>
    db_rrs b' = db_rrs b \<and> db_heap b' = db_heap b"
  by (auto elim!: tryDevices_Inr)

lemma keeps_updateUnderlayInterfaceEnd:
  assumes "updateUnderlayInterfaceEnd inp l i b = Inr b'"
  shows "db_nodes b' = db_nodes b \<and> db_nodeSet b' = db_nodeSet b \<and> db_rrs b' = db_rrs b"
  using assms
  by (rule updateUnderlayInterfaceEnd_Inr) (metis keeps_addLinkBFD keeps_tryDevices onDevices_fields)

lemma keeps_updateUnderlayInterfaceDeviceConfig:
  assumes "updateUnderlayInterfaceDeviceConfig inp l b = Inr b'"
  shows "db_nodes b' = db_nodes b \<and> db_nodeSet b' = db_nodeSet b \<and> db_rrs b' = db_rrs b"
  using assms
  by (auto simp: updateUnderlayInterfaceDeviceConfig_def bindR_Inr_iff dest!: keeps_updateUnderlayInterfaceEnd)

lemma keeps_updateBaseEnd:
  assumes "updateBaseEnd inp l i b = Inr b'"
  shows "db_nodes b' = db_nodes b" "db_nodeSet b' = insert (getNodeName i l) (db_nodeSet b)"
    "db_rrs b' = db_rrs b" "db_heap b' = db_heap b"
  using assms
  by (auto simp: updateBaseEnd_def bindR_Inr_iff Let_def nodes_Get_def split: if_splits option.splits)

text \<open>The processed nodes have a device and an entry in the map of nodes.\<close>

definition processed_ok :: "DeviceBuilder \<Rightarrow> bool" where
  "processed_ok b \<longleftrightarrow> db_nodeSet b \<subseteq> dom (db_nodes b) \<and> db_nodeSet b \<subseteq> dom (dvs_devices (db_devices b))"

lemma processed_ok_updateBaseEnd:
  assumes "updateBaseEnd inp l i b = Inr b'" and "processed_ok b"
  shows "processed_ok b'"
proof (cases "getNodeName i l \<in> db_nodeSet b")
  case True
  with assms show ?thesis by (simp add: updateBaseEnd_def)
next
  case False
  with assms(1) obtain n ds where n: "db_nodes b (getNodeName i l) = Some n"
    and ds: "updateBaseNode inp (getNodeName i l) n (db_devices b) = Inr ds"
    and b': "b' = b\<lparr>db_devices := ds, db_nodeSet := insert (getNodeName i l) (db_nodeSet b)\<rparr>"
    by (auto simp: updateBaseEnd_def bindR_Inr_iff Let_def nodes_Get_def split: option.splits)
  have "devices_run {getNodeName i l} (db_devices b) ds"
    using ds by (rule run_updateBaseNode) simp_all
  from devices_run_dom(1) [OF this] updateBaseNode_dom [OF ds] assms(2) n
  show ?thesis unfolding processed_ok_def b' by (simp add: domI) (meson order_trans)
qed

section \<open>One link\<close>

definition underlay_inv :: "inputs \<Rightarrow> string set \<Rightarrow> DeviceBuilder \<Rightarrow> bool" where
  "underlay_inv inp N b \<longleftrightarrow> nodes_ok inp b \<and> processed_ok b \<and> dom (db_nodes b) \<subseteq> N \<and>
     devices_run N (NewDevices (GetNamespacedName (inp_network inp))) (db_devices b)"

lemma underlay_inv_new: "underlay_inv inp N (NewBuilder inp h)"
  by (simp add: underlay_inv_def NewBuilder_def nodes_ok_def processed_ok_def)

lemma buildLink_result:
  assumes "buildLink inp il b = Inr b'" and inv: "underlay_inv inp N b" and N: "linkNodes il \<subseteq> N"
  shows "underlay_inv inp N b'" "linkNodes il \<subseteq> db_nodeSet b'" "db_nodeSet b \<subseteq> db_nodeSet b'"
proof -
  from assms(1) obtain l b1 b2 where
    b1: "gatherLinkAndNodeInfo inp il b = Inr (l, b1)" and
    b2: "updateBaseDeviceConfig inp l b1 = Inr b2" and
    b': "updateUnderlayInterfaceDeviceConfig inp l b2 = Inr b'"
    by (auto simp: buildLink_def bindR_Inr_iff)
  have "nodes_ok inp b" using inv by (simp add: underlay_inv_def)
  note g = gatherLinkAndNodeInfo_result [OF b1 this]
  have names: "getNodeName 0 l = linkNode il 0" "getNodeName 1 l = linkNode il 1"
    using gathered_names [OF g(1,2)] by simp_all
  with N have in_N: "getNodeName 0 l \<in> N" "getNodeName 1 l \<in> N" by (simp_all add: linkNodes_def)
  from b2 obtain c where c: "updateBaseEnd inp l 0 b1 = Inr c" "updateBaseEnd inp l 1 c = Inr b2"
    by (auto simp: updateBaseDeviceConfig_def bindR_Inr_iff)
  note k = keeps_updateBaseEnd [OF c(1)] keeps_updateBaseEnd [OF c(2)]
    keeps_updateUnderlayInterfaceDeviceConfig [OF b']
  have "processed_ok b1"
    using inv g(5,6) b1 by (simp add: underlay_inv_def processed_ok_def) (meson gather_grows order_trans)
  then have p2: "processed_ok b2" using c by (meson processed_ok_updateBaseEnd)
  have r2: "devices_run N (NewDevices (GetNamespacedName (inp_network inp))) (db_devices b2)"
    using b2 inv g(5) in_N by (auto simp: underlay_inv_def intro: run_updateBaseDeviceConfig)
  have r': "devices_run N (db_devices b2) (db_devices b')"
    using b' in_N by (auto intro: run_updateUnderlayInterfaceDeviceConfig)
  have "processed_ok b'"
    using p2 k devices_run_dom(1) [OF r'] unfolding processed_ok_def by (metis order_trans)
  moreover have "dom (db_nodes b') \<subseteq> N"
    using g(9) inv N k by (simp add: underlay_inv_def) (meson Un_least order_trans)
  moreover have "nodes_ok inp b'" using g(4) k by (simp add: nodes_ok_def)
  ultimately show "underlay_inv inp N b'"
    using devices_run_trans [OF r2 r'] by (simp add: underlay_inv_def)
  show "linkNodes il \<subseteq> db_nodeSet b'" "db_nodeSet b \<subseteq> db_nodeSet b'"
    using k names g(6) by (auto simp: linkNodes_def)
qed

end
