(* ===== verification/BuildResults.thy ===== *)
theory BuildResults
  imports BuildRuns
begin

text \<open>
  The whole build as a run of device operations: the underlay with its route reflector mesh, the
  overlay, and \<open>Build\<close>. The devices of a successful build are exactly those of \<open>underlayNodes\<close> or
  \<open>overlayNodes\<close>, and each satisfies every \<open>devices_invariant\<close>.
\<close>

section \<open>The route reflector mesh\<close>

lemma gatherRRInfo_keeps:
  assumes "gatherRRInfo inp b = Inr b'"
  shows "db_devices b' = db_devices b \<and> db_nodes b' = db_nodes b \<and> db_nodeSet b' = db_nodeSet b \<and>
    db_heap b' = db_heap b"
proof (cases "IBGP (inp_design inp)")
  case None
  with assms have False unfolding gatherRRInfo_def by simp
  then show ?thesis ..
next
  case (Some p)
  note loop = assms [unfolded gatherRRInfo_def Some option.case]
  show ?thesis
  proof (rule forE_invariant [OF loop, of "\<lambda>c. db_devices c = db_devices b \<and> db_nodes c = db_nodes b \<and>
        db_nodeSet c = db_nodeSet b \<and> db_heap c = db_heap b"])
    fix x s s'
    assume "db_devices s = db_devices b \<and> db_nodes s = db_nodes b \<and>
        db_nodeSet s = db_nodeSet b \<and> db_heap s = db_heap b"
      and "bindR (getIPClaim inp (key inp x)) (\<lambda>rrIP. bindR (parsedIP (inp_env inp) rrIP) (\<lambda>rrPrefix.
          Inr (rrs_Add x \<lparr>rr_ip = ipi_Address rrPrefix, rr_ipv4 = ipi_IsIpv4 rrPrefix\<rparr> s))) = Inr s'"
    then show "db_devices s' = db_devices b \<and> db_nodes s' = db_nodes b \<and>
        db_nodeSet s' = db_nodeSet b \<and> db_heap s' = db_heap b"
      by (simp only: bindR_Inr_iff sum.inject) (elim exE conjE, hypsubst, simp add: rrs_Add_def)
  qed simp
qed

lemma in_nodes_List:
  "n \<in> set (nodes_List order m) \<longleftrightarrow> (\<exists>k \<in> set order. m k = Some n)"
  by (induction order) (auto simp: nodes_List_def List.map_filter_simps split: option.splits)

lemma node_in_nodes_List:
  assumes "nodes_ok inp b" and "n \<in> set (nodes_List order (db_nodes b))" and "dom (db_nodes b) \<subseteq> N"
  shows "nid_Node (nn_nodeID n) \<in> N"
  using assms by (auto simp: in_nodes_List nodes_ok_def node_gathered_def)

text \<open>What the two operations of the mesh keep, on the nodes of the builder, the mesh keeps.\<close>

locale mesh_invariant =
  fixes inp :: inputs and N :: "string set" and I :: "Devices \<Rightarrow> bool"
  assumes peer_group: "n \<in> N \<Longrightarrow> I ds \<Longrightarrow> I (AddNetworkInstanceprotocolsBGPPeerGroup n (networkName inp) pg ds)"
    and neighbor: "n \<in> N \<Longrightarrow> I ds \<Longrightarrow> I (AddNetworkInstanceprotocolsBGPNeighbor n (networkName inp) nb ds)"
begin

lemma edgeStep:
  assumes "edgeStep inp n rr (ds, ips) = Inr (ds', ips')" and "I ds" and "nid_Node (nn_nodeID n) \<in> N"
  shows "I ds'"
  using assms by (auto simp: edgeStep_def bindR_Inr_iff Let_def split: if_splits prod.splits intro!: peer_group neighbor)

lemma rrNodeStep:
  assumes "rrNodeStep inp ips rr n ds = Inr ds'" and r: "I ds" and n: "nid_Node (nn_nodeID n) \<in> N"
  shows "I ds'"
proof (cases "rrNodeStep inp ips rr n ds = Inr ds")
  case True
  with assms show ?thesis by simp
next
  case False
  obtain name x where rr: "rr = (name, x)" by (cases rr)
  let ?n = "nid_Node (nn_nodeID n)"
  let ?ds1 = "AddNetworkInstanceprotocolsBGPPeerGroup ?n (networkName inp)
     (Some ((fresh_BGPPeerGroup BGPOverlayPeerGroupName)
        \<lparr>pg_AddressFamilies := GetOverlayAddressFamiliesToBeDisabled (inp_design inp),
         pg_RouteReflector := Some \<lparr>rr_ClusterID = rr_ip x\<rparr>\<rparr>)) ds"
  from assms(1) False have loop: "forE (ips name) (\<lambda>peerIP ds.
            bindR (rrLocalAddress inp n x) (\<lambda>localAddress.
              Inr (AddNetworkInstanceprotocolsBGPNeighbor ?n (networkName inp)
                     (Some (ibgpNeighbor inp localAddress peerIP)) ds))) ?ds1 = Inr ds'"
    by (simp add: rr rrNodeStep_def Let_def split: if_splits)
  have "I ?ds1" using n r by (rule peer_group)
  with loop show ?thesis
    by (rule forE_invariant) (auto simp: bindR_Inr_iff n intro!: neighbor)
qed

lemma edgePhase:
  assumes "edgePhase inp sch b (ds, ips) = Inr (ds', ips')" and "I ds"
    and ok: "nodes_ok inp b" "dom (db_nodes b) \<subseteq> N"
  shows "I ds'"
proof -
  have "I (fst (ds', ips'))"
  proof (rule forE_invariant [OF assms(1) [unfolded edgePhase_def], of "\<lambda>m. I (fst m)"])
    fix n s s'
    assume n: "n \<in> set (nodes_List (sch_edgeNodes sch) (db_nodes b))" and s: "I (fst s)"
      and loop: "forE (rrs_List (sch_edgeRRs sch (nid_Node (nn_nodeID n))) (db_rrs b)) (BuilderUnderlay.edgeStep inp n) s = Inr s'"
    have "nid_Node (nn_nodeID n) \<in> N" using node_in_nodes_List [OF ok(1) n ok(2)] .
    then show "I (fst s')"
      by (intro forE_invariant [OF loop, of "\<lambda>m. I (fst m)"] s) (metis prod.collapse edgeStep)
  qed (use assms(2) in simp)
  then show ?thesis by simp
qed

lemma rrPhase:
  assumes "rrPhase inp sch b ips ds = Inr ds'" and "I ds"
    and ok: "nodes_ok inp b" "dom (db_nodes b) \<subseteq> N"
  shows "I ds'"
proof (rule forE_invariant [OF assms(1) [unfolded rrPhase_def], of I])
  fix x s s'
  assume s: "I s" and
    "(case x of (rrName, r) \<Rightarrow> forE (nodes_List (sch_rrNodes sch rrName) (db_nodes b))
       (BuilderUnderlay.rrNodeStep inp ips (rrName, r))) s = Inr s'"
  then have loop: "forE (nodes_List (sch_rrNodes sch (fst x)) (db_nodes b)) (BuilderUnderlay.rrNodeStep inp ips x) s = Inr s'"
    by (cases x) simp
  show "I s'"
    by (rule forE_invariant [OF loop, of I]) (use s rrNodeStep node_in_nodes_List [OF ok(1) _ ok(2)] in blast)+
qed (use assms(2) in simp)

lemma updateUnderlayRRConfig:
  assumes "updateUnderlayRRConfig inp sch b = Inr b'" and "I (db_devices b)"
    and ok: "nodes_ok inp b" "dom (db_nodes b) \<subseteq> N"
  shows "I (db_devices b')"
proof -
  from assms(1) obtain b1 ds ips ds' where
    b1: "gatherRRInfo inp b = Inr b1" and
    e: "BuilderUnderlay.edgePhase inp sch b1 (db_devices b1, \<lambda>_. []) = Inr (ds, ips)" and
    p: "BuilderUnderlay.rrPhase inp sch b1 ips ds = Inr ds'" and b': "b' = b1\<lparr>db_devices := ds'\<rparr>"
    by (auto simp: updateUnderlayRRConfig_def bindR_Inr_iff)
  note k = gatherRRInfo_keeps [OF b1]
  have ok1: "nodes_ok inp b1" "dom (db_nodes b1) \<subseteq> N" using ok k by (simp_all add: nodes_ok_def)
  have "I ds" using edgePhase [OF e _ ok1] k assms(2) by simp
  then show ?thesis using rrPhase [OF p _ ok1] unfolding b' by simp
qed

end

interpretation mesh_run: mesh_invariant inp N "devices_run N r" for inp N r
  by unfold_locales (auto intro!: run_ops)

lemma updateUnderlayRRConfig_keeps:
  assumes "updateUnderlayRRConfig inp sch b = Inr b'"
  shows "db_nodes b' = db_nodes b" "db_nodeSet b' = db_nodeSet b"
  using assms by (auto simp: updateUnderlayRRConfig_def bindR_Inr_iff dest: gatherRRInfo_keeps)

lemma updateUnderlayRRConfig_result:
  assumes u: "updateUnderlayRRConfig inp sch b = Inr b'" and inv: "underlay_inv inp N b"
  shows "underlay_inv inp N b' \<and> db_nodeSet b' = db_nodeSet b"
proof -
  note k = updateUnderlayRRConfig_keeps [OF u]
  have "devices_run N (db_devices b) (db_devices b')"
    using inv mesh_run.updateUnderlayRRConfig [OF u, of N "db_devices b"] by (simp add: underlay_inv_def)
  moreover from devices_run_dom(1) [OF this] have "processed_ok b'"
    using inv k by (simp add: underlay_inv_def processed_ok_def) (meson order_trans)
  ultimately show ?thesis
    using inv k by (auto simp: underlay_inv_def nodes_ok_def intro: devices_run_trans)
qed

section \<open>The underlay\<close>

definition underlayNodes :: "InfraLink list \<Rightarrow> string set" where
  "underlayNodes links = (\<Union>l \<in> set links. linkNodes l)"

lemma buildLinks_result:
  assumes "forE links (buildLink inp) b = Inr b'" and "underlay_inv inp N b" and "underlayNodes links \<subseteq> N"
  shows "underlay_inv inp N b' \<and> (\<forall>l \<in> set links. linkNodes l \<subseteq> db_nodeSet b')"
  using assms
proof (induction links arbitrary: b)
  case Nil
  then show ?case by simp
next
  case (Cons l links)
  from Cons.prems(1) obtain c where c: "buildLink inp l b = Inr c" and rest: "forE links (buildLink inp) c = Inr b'"
    by (auto simp: bindR_Inr_iff)
  have lN: "linkNodes l \<subseteq> N" and linksN: "underlayNodes links \<subseteq> N"
    using Cons.prems(3) by (auto simp: underlayNodes_def)
  note one = buildLink_result [OF c Cons.prems(2) lN]
  have mono: "db_nodeSet c \<subseteq> db_nodeSet b'"
  proof -
    have "underlay_inv inp N b' \<and> db_nodeSet c \<subseteq> db_nodeSet b'"
    proof (rule forE_invariant [OF rest, of "\<lambda>x. underlay_inv inp N x \<and> db_nodeSet c \<subseteq> db_nodeSet x"])
      fix x s s'
      assume "x \<in> set links" "underlay_inv inp N s \<and> db_nodeSet c \<subseteq> db_nodeSet s" "buildLink inp x s = Inr s'"
      moreover from \<open>x \<in> set links\<close> linksN have "linkNodes x \<subseteq> N" by (auto simp: underlayNodes_def)
      ultimately show "underlay_inv inp N s' \<and> db_nodeSet c \<subseteq> db_nodeSet s'"
        using buildLink_result [of inp x s s' N] by blast
    qed (use one in simp)
    then show ?thesis by simp
  qed
  with Cons.IH [OF rest one(1) linksN] one(2) show ?case by auto
qed

lemma BuildUnderlay_result:
  assumes "BuildUnderlay inp sch (NewBuilder inp h) = Inr b"
  obtains links where "GetLinks inp = Inr links"
    and "underlay_inv inp (underlayNodes links) b"
    and "dom (dvs_devices (db_devices b)) = underlayNodes links"
    and "underlayNodes links \<subseteq> dom (db_nodes b)"
proof -
  from assms obtain links b1 where links: "GetLinks inp = Inr links"
    and b1: "forE links (buildLink inp) (NewBuilder inp h) = Inr b1"
    and b: "(if IsIBGPEnabled (inp_design inp) then updateUnderlayRRConfig inp sch b1 else Inr b1) = Inr b"
    by (auto simp: BuildUnderlay_def bindR_Inr_iff)
  note r1 = buildLinks_result [OF b1 underlay_inv_new subset_refl]
  then have inv: "underlay_inv inp (underlayNodes links) b" "db_nodeSet b = db_nodeSet b1"
    using b updateUnderlayRRConfig_result [of inp sch b1 b "underlayNodes links"] by (auto split: if_splits)
  have "underlayNodes links \<subseteq> db_nodeSet b"
    using r1 inv(2) by (auto simp: underlayNodes_def)
  moreover have "db_nodeSet b \<subseteq> dom (dvs_devices (db_devices b))"
    using inv(1) by (simp add: underlay_inv_def processed_ok_def)
  moreover have "dom (dvs_devices (db_devices b)) \<subseteq> underlayNodes links"
    using devices_run_dom(2) [of "underlayNodes links" "NewDevices (GetNamespacedName (inp_network inp))" "db_devices b"]
      inv(1) by (simp add: underlay_inv_def NewDevices_def)
  ultimately have "dom (dvs_devices (db_devices b)) = underlayNodes links" by blast
  moreover have "underlayNodes links \<subseteq> dom (db_nodes b)"
    using order_trans [OF \<open>underlayNodes links \<subseteq> db_nodeSet b\<close>] inv(1)
    by (simp add: underlay_inv_def processed_ok_def)
  ultimately show thesis using links inv(1) by (intro that)
qed

section \<open>The overlay\<close>

definition staticNodes :: "NetworkInterface list \<Rightarrow> string set" where
  "staticNodes is = {nid_Node n |n i. i \<in> set is \<and> \<not> IsDynamic i \<and> nif_NodeID i = Some n}"

definition overlayNodes :: "Network \<Rightarrow> string set" where
  "overlayNodes net =
     (\<Union>b \<in> set (ns_Bridges (net_Spec net)). staticNodes (nbr_Interfaces b)) \<union>
     (\<Union>r \<in> set (ns_Routers (net_Spec net)). staticNodes (nrt_Interfaces r))"

lemma run_addVPN_addVXLAN:
  "devices_run N r ds \<Longrightarrow> n \<in> N \<Longrightarrow> devices_run N r (addVPN inp n ni i ds)"
  "devices_run N r ds \<Longrightarrow> n \<in> N \<Longrightarrow> devices_run N r (addVXLAN inp n ni i ty ds)"
  by (auto simp: addVPN_def addVXLAN_def intro!: run_ops)

lemma bridgeInterface_result:
  assumes "bridgeInterface inp bd i itfce ds = Inr ds'" and "staticNodes [itfce] \<subseteq> N" and "devices_run N r ds"
  shows "devices_run N r ds'" "staticNodes [itfce] \<subseteq> dom (dvs_devices ds')"
proof -
  show "devices_run N r ds'"
    using assms
    by (auto simp: bridgeInterface_def bridgeConfig_def bindR_Inr_iff Let_def staticNodes_def
        split: if_splits option.splits intro!: run_addVPN_addVXLAN run_ops)
  show "staticNodes [itfce] \<subseteq> dom (dvs_devices ds')"
    using assms(1)
    by (auto simp: bridgeInterface_def bridgeConfig_def bindR_Inr_iff Let_def staticNodes_def addVPN_def
        AddNetworkInstanceProtocolsBGPVPN_def split: if_splits option.splits)
qed

lemma run_routerConfig:
  "devices_run N r ds \<Longrightarrow> n \<in> N \<Longrightarrow> devices_run N r (routerConfig inp ni i n p ds)"
  by (auto simp: routerConfig_def Let_def intro!: run_addVPN_addVXLAN run_ops)

lemma routerInterface_result:
  assumes "routerInterface inp ni i itfce ds = Inr ds'" and "staticNodes [itfce] \<subseteq> N" and "devices_run N r ds"
  shows "devices_run N r ds'" "staticNodes [itfce] \<subseteq> dom (dvs_devices ds')"
proof -
  show "devices_run N r ds'"
    using assms
    by (auto simp: routerInterface_def routerEndpoint_def routerIRB_def bindR_Inr_iff Let_def staticNodes_def
        split: if_splits option.splits intro!: run_routerConfig run_ops)
  show "staticNodes [itfce] \<subseteq> dom (dvs_devices ds')"
    using assms(1)
    by (auto simp: routerInterface_def routerEndpoint_def routerIRB_def bindR_Inr_iff Let_def staticNodes_def
        AddNetworkInstanceSubInterface_def split: if_splits option.splits)
qed

text \<open>Two loops that establish something for each of their elements and keep it.\<close>

lemma forE_run:
  assumes loop: "forE xs body ds = Inr ds'" and "devices_run N r ds"
    and step: "\<And>x s s'. x \<in> set xs \<Longrightarrow> body x s = Inr s' \<Longrightarrow> devices_run N s s' \<and> A x \<subseteq> dom (dvs_devices s')"
  shows "devices_run N r ds' \<and> (\<Union>x \<in> set xs. A x) \<subseteq> dom (dvs_devices ds')"
proof
  show "devices_run N r ds'"
    by (rule forE_invariant [OF loop, of "devices_run N r"]) (use assms(2) step devices_run_trans in blast)+
  have "\<forall>x \<in> set xs. A x \<subseteq> dom (dvs_devices ds')"
    by (rule forE_establishes [OF loop, of "\<lambda>x s. A x \<subseteq> dom (dvs_devices s)"])
      (use step devices_run_dom(1) in \<open>blast | meson order_trans\<close>)+
  then show "(\<Union>x \<in> set xs. A x) \<subseteq> dom (dvs_devices ds')" by blast
qed

lemma staticNodes_Union: "staticNodes is = (\<Union>i \<in> set is. staticNodes [i])"
  by (auto simp: staticNodes_def)

lemma buildBridge_result:
  assumes "buildBridge inp br ds = Inr ds'" and N: "staticNodes (nbr_Interfaces br) \<subseteq> N"
  shows "devices_run N ds ds' \<and> staticNodes (nbr_Interfaces br) \<subseteq> dom (dvs_devices ds')"
  unfolding staticNodes_Union [of "nbr_Interfaces br"]
proof (rule forE_run [OF assms(1) [unfolded buildBridge_def Let_def]])
  fix x s s'
  assume x: "x \<in> set (nbr_Interfaces br)"
    and "bridgeInterface inp (dot (networkName inp) (nbr_Name br)) (ucast (nbr_NetworkID br)) x s = Inr s'"
  moreover from x N have "staticNodes [x] \<subseteq> N" unfolding staticNodes_Union [of "nbr_Interfaces br"] by blast
  ultimately show "devices_run N s s' \<and> staticNodes [x] \<subseteq> dom (dvs_devices s')"
    using bridgeInterface_result [of inp "dot (networkName inp) (nbr_Name br)" "ucast (nbr_NetworkID br)" x s s' N s]
    by simp
qed simp

lemma buildRouter_result:
  assumes "buildRouter inp ro ds = Inr ds'" and N: "staticNodes (nrt_Interfaces ro) \<subseteq> N"
  shows "devices_run N ds ds' \<and> staticNodes (nrt_Interfaces ro) \<subseteq> dom (dvs_devices ds')"
  unfolding staticNodes_Union [of "nrt_Interfaces ro"]
proof (rule forE_run [OF assms(1) [unfolded buildRouter_def Let_def]])
  fix x s s'
  assume x: "x \<in> set (nrt_Interfaces ro)"
    and "routerInterface inp (dot (networkName inp) (nrt_Name ro)) (ucast (nrt_NetworkID ro)) x s = Inr s'"
  moreover from x N have "staticNodes [x] \<subseteq> N" unfolding staticNodes_Union [of "nrt_Interfaces ro"] by blast
  ultimately show "devices_run N s s' \<and> staticNodes [x] \<subseteq> dom (dvs_devices s')"
    using routerInterface_result [of inp "dot (networkName inp) (nrt_Name ro)" "ucast (nrt_NetworkID ro)" x s s' N s]
    by simp
qed simp

lemma BuildOverlay_result:
  assumes "BuildOverlay inp b = Inr b'"
  shows "devices_run (overlayNodes (inp_network inp)) (db_devices b) (db_devices b')"
    and "overlayNodes (inp_network inp) \<subseteq> dom (dvs_devices (db_devices b'))"
proof -
  let ?N = "overlayNodes (inp_network inp)" and ?spec = "net_Spec (inp_network inp)"
  from assms obtain ds1 where
    b1: "forE (ns_Bridges ?spec) (buildBridge inp) (db_devices b) = Inr ds1" and
    b2: "forE (ns_Routers ?spec) (buildRouter inp) ds1 = Inr (db_devices b')"
    by (auto simp: BuildOverlay_def bindR_Inr_iff elim!: tryDevices_Inr)
  have sub: "x \<in> set (ns_Bridges ?spec) \<Longrightarrow> staticNodes (nbr_Interfaces x) \<subseteq> ?N"
    "y \<in> set (ns_Routers ?spec) \<Longrightarrow> staticNodes (nrt_Interfaces y) \<subseteq> ?N" for x y
    unfolding overlayNodes_def by blast+
  have 1: "devices_run ?N (db_devices b) ds1 \<and>
      (\<Union>x \<in> set (ns_Bridges ?spec). staticNodes (nbr_Interfaces x)) \<subseteq> dom (dvs_devices ds1)"
    by (rule forE_run [OF b1 devices_run_refl]) (rule buildBridge_result, assumption, rule sub)
  have 2: "devices_run ?N ds1 (db_devices b') \<and>
      (\<Union>x \<in> set (ns_Routers ?spec). staticNodes (nrt_Interfaces x)) \<subseteq> dom (dvs_devices (db_devices b'))"
    by (rule forE_run [OF b2 devices_run_refl]) (rule buildRouter_result, assumption, rule sub)
  show "devices_run ?N (db_devices b) (db_devices b')"
    by (rule devices_run_trans [OF conjunct1 [OF 1] conjunct1 [OF 2]])
  have "dom (dvs_devices ds1) \<subseteq> dom (dvs_devices (db_devices b'))"
    by (rule devices_run_dom(1) [OF conjunct1 [OF 2]])
  then show "?N \<subseteq> dom (dvs_devices (db_devices b'))"
    using order_trans [OF conjunct2 [OF 1]] conjunct2 [OF 2]
    by (simp only: overlayNodes_def Un_subset_iff)
qed

section \<open>The build\<close>

definition buildNodes :: "inputs \<Rightarrow> string set" where
  "buildNodes inp =
     (if IsDefaultNetwork (inp_network inp)
      then (case GetLinks inp of Inl _ \<Rightarrow> {} | Inr links \<Rightarrow> underlayNodes links)
      else overlayNodes (inp_network inp))"

lemma Build_run:
  assumes "Build inp sch (NewBuilder inp h) = Inr b"
  shows "devices_run (buildNodes inp) (NewDevices (GetNamespacedName (inp_network inp))) (db_devices b)"
    and "dom (dvs_devices (db_devices b)) = buildNodes inp"
proof -
  have "devices_run (buildNodes inp) (NewDevices (GetNamespacedName (inp_network inp))) (db_devices b) \<and>
    buildNodes inp \<subseteq> dom (dvs_devices (db_devices b))"
  proof (cases "IsDefaultNetwork (inp_network inp)")
    case True
    with assms have "BuildUnderlay inp sch (NewBuilder inp h) = Inr b" by (simp add: Build_def)
    then show ?thesis
      by (rule BuildUnderlay_result) (simp add: buildNodes_def True underlay_inv_def)
  next
    case False
    with assms have "BuildOverlay inp (NewBuilder inp h) = Inr b" by (simp add: Build_def)
    from BuildOverlay_result [OF this] show ?thesis
      by (simp add: buildNodes_def False NewBuilder_def)
  qed
  note run = conjunct1 [OF this] and sup = conjunct2 [OF this]
  show "devices_run (buildNodes inp) (NewDevices (GetNamespacedName (inp_network inp))) (db_devices b)"
    by (rule run)
  show "dom (dvs_devices (db_devices b)) = buildNodes inp"
    using devices_run_dom(2) [OF run] sup by (simp add: NewDevices_def subset_antisym)
qed

end
