(* ===== verification/Readback.thy ===== *)
theory Readback
  imports DevicesStore
begin

text \<open>
  Reading a device: the abstract view of a configuration as nested finite maps from names to structs.
  The operations of theory \<open>DevicesStore\<close> act on these maps as pointwise updates; this is the contract
  the builder relies on.
\<close>

section \<open>The readers\<close>

definition interfaceOf :: "NetworkDevice \<Rightarrow> string \<Rightarrow> NetworkDeviceInterface option" where
  "interfaceOf d = lookupBy if_Name (spec_Interfaces (dev_Spec d))"

definition subInterfaceOf :: "NetworkDevice \<Rightarrow> string \<Rightarrow> uint32 \<Rightarrow> NetworkDeviceInterfaceSubInterface option" where
  "subInterfaceOf d n i = Option.bind (interfaceOf d n) (\<lambda>x. lookupBy si_ID (if_SubInterfaces x) i)"

definition tunnelOf :: "NetworkDevice \<Rightarrow> string \<Rightarrow> NetworkDeviceTunnelInterface option" where
  "tunnelOf d = lookupBy tun_Name (spec_TunnelInterfaces (dev_Spec d))"

definition instanceOf :: "NetworkDevice \<Rightarrow> string \<Rightarrow> NetworkDeviceNetworkInstance option" where
  "instanceOf d = lookupBy ni_Name (spec_NetworkInstances (dev_Spec d))"

definition protocolsOf :: "NetworkDevice \<Rightarrow> string \<Rightarrow> NetworkDeviceNetworkInstanceProtocols option" where
  "protocolsOf d n = Option.bind (instanceOf d n) ni_Protocols"

definition bgpOf :: "NetworkDevice \<Rightarrow> string \<Rightarrow> NetworkDeviceNetworkInstanceProtocolBGP option" where
  "bgpOf d n = Option.bind (protocolsOf d n) p_BGP"

definition neighborOf :: "NetworkDevice \<Rightarrow> string \<Rightarrow> string \<Rightarrow> NetworkDeviceNetworkInstanceProtocolBGPNeighbor option" where
  "neighborOf d n a = Option.bind (bgpOf d n) (\<lambda>b. lookupBy nb_PeerAddress (bgp_Neighbors b) a)"

definition peerGroupOf :: "NetworkDevice \<Rightarrow> string \<Rightarrow> string \<Rightarrow> NetworkDeviceNetworkInstanceProtocolBGPPeerGroup option" where
  "peerGroupOf d n a = Option.bind (bgpOf d n) (\<lambda>b. lookupBy pg_Name (bgp_PeerGroups b) a)"

abbreviation orElse :: "'a option \<Rightarrow> 'a \<Rightarrow> 'a" where
  "orElse x z \<equiv> (case x of Some y \<Rightarrow> y | None \<Rightarrow> z)"

lemma orNew_orElse: "orNew z w x = Some (w (orElse x z))"
  by (cases x) simp_all

section \<open>Find-or-create functions are pointwise updates\<close>

named_theorems read

lemma read_GetOrCreateInterface [read]:
  "(\<And>i. if_Name (w i) = if_Name i) \<Longrightarrow>
    interfaceOf (GetOrCreateInterface n w d) = (interfaceOf d)(n \<mapsto> w (orElse (interfaceOf d n) (fresh_Interface n)))"
  by (simp add: interfaceOf_def GetOrCreateInterface_def ifs.lookup_getOrCreate)

lemma read_GetOrCreateTunnelInterface [read]:
  "(\<And>i. tun_Name (w i) = tun_Name i) \<Longrightarrow>
    tunnelOf (GetOrCreateTunnelInterface n w d) = (tunnelOf d)(n \<mapsto> w (orElse (tunnelOf d n) (fresh_TunnelInterface n)))"
  by (simp add: tunnelOf_def GetOrCreateTunnelInterface_def tuns.lookup_getOrCreate)

lemma read_GetOrCreateNetworkInstance [read]:
  "(\<And>i. ni_Name (w i) = ni_Name i) \<Longrightarrow>
    instanceOf (GetOrCreateNetworkInstance n w d) =
      (instanceOf d)(n \<mapsto> w (orElse (instanceOf d n) (fresh_NetworkInstance n)))"
  by (simp add: instanceOf_def GetOrCreateNetworkInstance_def nis.lookup_getOrCreate)

lemma ni_Protocols_fresh [simp]: "ni_Protocols (fresh_NetworkInstance n) = None"
  by (simp add: fresh_NetworkInstance_def)

lemma read_onProtocols_instance [read]:
  "instanceOf (onProtocols n w d) = (instanceOf d)(n \<mapsto>
     (orElse (instanceOf d n) (fresh_NetworkInstance n))
       \<lparr>ni_Protocols := Some (w (orElse (protocolsOf d n) zero_Protocols))\<rparr>)"
proof -
  have "GetOrCreateNetworkInstanceProtocols w (orElse (instanceOf d n) (fresh_NetworkInstance n)) =
    (orElse (instanceOf d n) (fresh_NetworkInstance n))
       \<lparr>ni_Protocols := Some (w (orElse (protocolsOf d n) zero_Protocols))\<rparr>"
    by (cases "instanceOf d n")
      (simp_all add: GetOrCreateNetworkInstanceProtocols_def orNew_orElse protocolsOf_def)
  then show ?thesis by (simp add: onProtocols_def read)
qed

lemma read_onProtocols [read]:
  "protocolsOf (onProtocols n w d) = (protocolsOf d)(n \<mapsto> w (orElse (protocolsOf d n) zero_Protocols))"
  by (rule ext) (simp add: read protocolsOf_def [of "onProtocols n w d"] protocolsOf_def [of d])

lemma read_onBGP [read]:
  "bgpOf (onBGP n w d) = (bgpOf d)(n \<mapsto> w (orElse (bgpOf d n) zero_BGP))"
proof
  fix m
  show "bgpOf (onBGP n w d) m = ((bgpOf d)(n \<mapsto> w (orElse (bgpOf d n) zero_BGP))) m"
    by (cases "protocolsOf d n")
      (simp_all add: bgpOf_def read GetOrCreateNetworkInstanceProtocolsBGP_def orNew_orElse zero_Protocols_def)
qed

text \<open>The other parts of a device are untouched.\<close>

lemma read_frame [simp]:
  "interfaceOf (GetOrCreateNetworkInstance n w1 d) = interfaceOf d"
  "interfaceOf (onProtocols n w2 d) = interfaceOf d"
  "interfaceOf (GetOrCreateTunnelInterface n w3 d) = interfaceOf d"
  "interfaceOf (Device_AddProvider p d) = interfaceOf d"
  "instanceOf (GetOrCreateInterface n w4 d) = instanceOf d"
  "instanceOf (GetOrCreateTunnelInterface n w3 d) = instanceOf d"
  "instanceOf (Device_AddProvider p d) = instanceOf d"
  "instanceOf (GetOrCreateBFD w5 d) = instanceOf d"
  "instanceOf (AddOrUpdateInterface i d) = instanceOf d"
  by (auto simp: interfaceOf_def instanceOf_def GetOrCreateNetworkInstance_def onProtocols_def
      GetOrCreateTunnelInterface_def GetOrCreateInterface_def Device_AddProvider_def GetOrCreateBFD_def
      AddOrUpdateInterface_def split: option.splits)

section \<open>The operations, as updates\<close>

lemma lookup_GetOrCreateSubInterface:
  "(\<And>s. si_ID (w s) = si_ID s) \<Longrightarrow>
    lookupBy si_ID (if_SubInterfaces (GetOrCreateInterfaceSubInterface i w x)) =
      (lookupBy si_ID (if_SubInterfaces x))(i \<mapsto> w (orElse (lookupBy si_ID (if_SubInterfaces x) i) (fresh_SubInterface i)))"
  by (simp add: GetOrCreateInterfaceSubInterface_def subifs.lookup_getOrCreate)

lemma lookupBy_fresh_Interface [simp]: "if_SubInterfaces (fresh_Interface n) = []"
  by (simp add: fresh_Interface_def)

lemma lookupBy_Nil [simp]: "lookupBy k [] = Map.empty"
  by (simp add: lookupBy_def fun_eq_iff)

lemma lookupBy_key: "lookupBy k xs a = Some x \<Longrightarrow> k x = a"
  by (auto simp: lookupBy_def find_Some_iff)

text \<open>Writing every field of a sub interface replaces it.\<close>

lemma subInterface_overwritten:
  fixes s x :: NetworkDeviceInterfaceSubInterface
  shows "si_ID s = si_ID x \<Longrightarrow>
    s\<lparr>si_IPv4 := si_IPv4 x, si_IPv6 := si_IPv6 x, si_PeerName := si_PeerName x, si_VLAN := si_VLAN x,
      si_Type := si_Type x\<rparr> = x"
  by (cases s, cases x) simp

definition taggedInterface ::
  "NetworkDeviceInterfaceSubInterface \<Rightarrow> NetworkDeviceInterface \<Rightarrow> NetworkDeviceInterface" where
  "taggedInterface x i = (if si_VLAN x \<noteq> None then i\<lparr>if_VLANTagging := True\<rparr> else i)"

text \<open>
  The sub interface that \<open>AddSubInterface\<close> writes is \<open>x\<close> itself, the other sub interfaces of the
  interface stay, and the interface is tagged when \<open>x\<close> has a VLAN.
\<close>

lemma AddSubInterface_interface:
  obtains i where
    "interfaceOf (deviceOf (AddSubInterface n ifn x r) n) = (interfaceOf (deviceOf r n))(ifn \<mapsto> i)"
    "lookupBy si_ID (if_SubInterfaces i) =
      (lookupBy si_ID (if_SubInterfaces (orElse (interfaceOf (deviceOf r n) ifn) (fresh_Interface ifn))))(si_ID x \<mapsto> x)"
    "if_VLANTagging i = (si_VLAN x \<noteq> None \<or>
      if_VLANTagging (orElse (interfaceOf (deviceOf r n) ifn) (fresh_Interface ifn)))"
proof -
  let ?old = "orElse (interfaceOf (deviceOf r n) ifn) (fresh_Interface ifn)"
  let ?w1 = "\<lambda>si. si\<lparr>si_PeerName := si_PeerName x, si_VLAN := si_VLAN x, si_Type := si_Type x\<rparr>"
  let ?w2 = "\<lambda>si. si\<lparr>si_IPv4 := si_IPv4 x, si_IPv6 := si_IPv6 x, si_PeerName := si_PeerName x,
                      si_VLAN := si_VLAN x, si_Type := si_Type x\<rparr>"
  let ?i = "GetOrCreateInterfaceSubInterface (si_ID x) ?w2
     (GetOrCreateInterfaceSubInterface (si_ID x) ?w1 (taggedInterface x ?old))"
  have subs: "if_SubInterfaces (taggedInterface x i) = if_SubInterfaces i" for i
    by (simp add: taggedInterface_def)
  have tag: "if_VLANTagging (GetOrCreateInterfaceSubInterface k w i) = if_VLANTagging i" for k w i
    by (simp add: GetOrCreateInterfaceSubInterface_def)
  have "interfaceOf (deviceOf (AddSubInterface n ifn x r) n) = (interfaceOf (deviceOf r n))(ifn \<mapsto> ?i)"
    by (simp add: AddSubInterface_def AddOrUpdateInterfaceSubInterface_def read Let_def taggedInterface_def)
  moreover have "lookupBy si_ID (if_SubInterfaces ?i) = (lookupBy si_ID (if_SubInterfaces ?old))(si_ID x \<mapsto> x)"
  proof -
    have "si_ID (orElse (lookupBy si_ID (if_SubInterfaces ?old) (si_ID x)) (fresh_SubInterface (si_ID x))) = si_ID x"
      by (auto simp: fresh_SubInterface_def dest: lookupBy_key split: option.splits)
    then show ?thesis
      by (simp add: lookup_GetOrCreateSubInterface subs subInterface_overwritten)
  qed
  moreover have "if_VLANTagging ?i = (si_VLAN x \<noteq> None \<or> if_VLANTagging ?old)"
    by (simp add: tag) (simp add: taggedInterface_def)
  ultimately show thesis by (rule that)
qed

lemma read_AddOrUpdateBGNeighbor:
  assumes "nb_PeerAddress x \<noteq> ''''"
  shows "lookupBy nb_PeerAddress (bgp_Neighbors (AddOrUpdateNetworkInstanceProtocolBGNeighbor (Some x) b)) =
    (lookupBy nb_PeerAddress (bgp_Neighbors b))(nb_PeerAddress x \<mapsto> x)"
proof -
  let ?w = "\<lambda>y. y\<lparr>nb_LocalAS := nb_LocalAS x, nb_LocalAddress := nb_LocalAddress x,
              nb_PeerAS := nb_PeerAS x, nb_PeerGroup := nb_PeerGroup x, nb_BFD := nb_BFD x\<rparr>"
  let ?y = "orElse (lookupBy nb_PeerAddress (bgp_Neighbors b) (nb_PeerAddress x)) (fresh_BGPNeighbor (nb_PeerAddress x))"
  have "nb_PeerAddress ?y = nb_PeerAddress x"
    by (auto simp: fresh_BGPNeighbor_def dest: lookupBy_key split: option.splits)
  then have "?w ?y = x" by (cases ?y, cases x) simp
  with assms show ?thesis
    by (simp add: AddOrUpdateBGNeighbor_Some GetOrCreateNetworkInstanceProtocolBGPNeighbor_def
        nbs.lookup_getOrCreate)
qed

lemma neighborOf_onBGP:
  "neighborOf (onBGP ni w d) m a =
    (if m = ni then lookupBy nb_PeerAddress (bgp_Neighbors (w (orElse (bgpOf d ni) zero_BGP))) a
     else neighborOf d m a)"
  by (simp add: neighborOf_def read)

lemma neighborOf_bgp:
  "lookupBy nb_PeerAddress (bgp_Neighbors (orElse (bgpOf d ni) zero_BGP)) = neighborOf d ni"
  by (rule ext) (simp add: neighborOf_def zero_BGP_def split: option.splits)

text \<open>A neighbor that is added is found under its address; all other neighbors stay.\<close>

lemma neighborOf_AddNeighbor:
  assumes "nb_PeerAddress x \<noteq> ''''"
  shows "neighborOf (deviceOf (AddNetworkInstanceprotocolsBGPNeighbor n ni (Some x) r) n') m a =
    (if n' = n \<and> m = ni \<and> a = nb_PeerAddress x then Some x else neighborOf (deviceOf r n') m a)"
  by (simp add: AddNetworkInstanceprotocolsBGPNeighbor_def neighborOf_onBGP neighborOf_bgp
      read_AddOrUpdateBGNeighbor [OF assms])

lemma neighborOf_other_bgp:
  "neighborOf (deviceOf (AddNetworkInstanceprotocolsBGPPeerGroup n ni pg r) n') = neighborOf (deviceOf r n')"
  "neighborOf (deviceOf (AddNetworkInstanceprotocolsBGPDynamicNeighbor n ni dn r) n') = neighborOf (deviceOf r n')"
proof -
  have pg: "bgp_Neighbors (AddOrUpdateNetworkInstanceProtocolBGPPeerGroup pg b) = bgp_Neighbors b" for b
    by (simp add: AddOrUpdateNetworkInstanceProtocolBGPPeerGroup_def
        GetOrCreateNetworkInstanceProtocolBGPPeerGroup_def split: option.splits)
  have dn: "bgp_Neighbors (GetOrCreateNetworkInstanceProtocolBGPDynamicNeighbors w b) = bgp_Neighbors b" for w b
    by (simp add: GetOrCreateNetworkInstanceProtocolBGPDynamicNeighbors_def)
  show "neighborOf (deviceOf (AddNetworkInstanceprotocolsBGPPeerGroup n ni pg r) n') = neighborOf (deviceOf r n')"
    "neighborOf (deviceOf (AddNetworkInstanceprotocolsBGPDynamicNeighbor n ni dn r) n') = neighborOf (deviceOf r n')"
    by (intro ext; simp add: AddNetworkInstanceprotocolsBGPPeerGroup_def
        AddNetworkInstanceprotocolsBGPDynamicNeighbor_def neighborOf_onBGP pg dn neighborOf_bgp)+
qed

section \<open>Properties\<close>

text \<open>
  C24. Adding a BGP neighbor to a network instance of a node updates the abstract map of neighbors at one
  point: the neighbor is found under its address with exactly the values given, and every other neighbor
  of every network instance of every node is what it was.
\<close>

theorem neighbor_refines_map:
  assumes "nb_PeerAddress x \<noteq> ''''"
  shows "neighborOf (deviceOf (AddNetworkInstanceprotocolsBGPNeighbor n ni (Some x) r) n') m a =
    (if (n', m, a) = (n, ni, nb_PeerAddress x) then Some x else neighborOf (deviceOf r n') m a)"
  by (simp add: neighborOf_AddNeighbor [OF assms])

theorem neighbor_refines_map_witness:
  "neighborOf (deviceOf (AddNetworkInstanceprotocolsBGPNeighbor ''n0'' ''default''
      (Some (fresh_BGPNeighbor ''10.0.0.1'')) (NewDevices \<lparr>nsn_Namespace = ''default'', nsn_Name = ''topo.default''\<rparr>)) ''n0'')
    ''default'' ''10.0.0.1'' = Some (fresh_BGPNeighbor ''10.0.0.1'')"
  using neighbor_refines_map [of "fresh_BGPNeighbor ''10.0.0.1''" "''n0''" "''default''"
    "NewDevices \<lparr>nsn_Namespace = ''default'', nsn_Name = ''topo.default''\<rparr>" "''n0''" "''default''" "''10.0.0.1''"]
  by (simp add: fresh_BGPNeighbor_def)

text \<open>
  C35. A sub interface that is added is found as it was given, its interface is tagged when it has a
  VLAN, and the other interfaces of the node stay.
\<close>

theorem add_sub_interface_result:
  shows "subInterfaceOf (deviceOf (AddSubInterface n ifn x r) n) ifn (si_ID x) = Some x \<and>
    map_option if_VLANTagging (interfaceOf (deviceOf (AddSubInterface n ifn x r) n) ifn) =
      Some (if si_VLAN x = None
        then (case interfaceOf (deviceOf r n) ifn of None \<Rightarrow> False | Some i \<Rightarrow> if_VLANTagging i) else True) \<and>
    (interfaceOf (deviceOf (AddSubInterface n ifn x r) n))(ifn := None) = (interfaceOf (deviceOf r n))(ifn := None)"
  by (rule AddSubInterface_interface [of n ifn x r])
    (auto simp: subInterfaceOf_def fresh_Interface_def split: option.splits)

text \<open>
  \<open>AddInterface\<close> writes the VLAN tagging of its argument: adding the bare interface again after a
  tagged sub interface turns the tagging off, while the sub interface stays.
\<close>

theorem add_interface_resets_tagging:
  assumes "ifn \<noteq> ''''"
  shows "\<exists>i. interfaceOf (deviceOf (AddInterface n (Some (fresh_Interface ifn)) (AddSubInterface n ifn x r)) n) ifn = Some i \<and>
    \<not> if_VLANTagging i \<and> lookupBy si_ID (if_SubInterfaces i) (si_ID x) = Some x"
  using assms
  by (rule_tac AddSubInterface_interface [of n ifn x r])
    (simp add: AddInterface_def [of n "Some _"] AddOrUpdateInterface_def fresh_Interface_def [of ifn] read)

theorem add_interface_resets_tagging_witness:
  "\<exists>i. interfaceOf (deviceOf (AddInterface ''n0'' (Some (fresh_Interface ''e1-1''))
      (AddSubInterface ''n0'' ''e1-1'' ((fresh_SubInterface 10)\<lparr>si_VLAN := Some 10\<rparr>)
        (NewDevices \<lparr>nsn_Namespace = ''default'', nsn_Name = ''topo.default''\<rparr>))) ''n0'') ''e1-1'' = Some i \<and> \<not> if_VLANTagging i"
  using add_interface_resets_tagging [of "''e1-1''" "''n0''" "(fresh_SubInterface 10)\<lparr>si_VLAN := Some 10\<rparr>"
    "NewDevices \<lparr>nsn_Namespace = ''default'', nsn_Name = ''topo.default''\<rparr>"] by auto

text \<open>
  \<open>GetSystemIP\<close> answers the first address of the sub interface that was added.
\<close>

theorem system_ip_after_add:
  assumes "si_IPv4 x = Some \<lparr>si4_Addresses = a # as\<rparr>"
  shows "fst (GetSystemIP n ifn (si_ID x) True (AddSubInterface n ifn x r)) = a"
  using assms
  by (rule_tac AddSubInterface_interface [of n ifn x r])
    (simp add: GetSystemIP_def systemSubInterface_def interfaceOf_def Let_def)

theorem system_ip_after_add_witness:
  "fst (GetSystemIP ''n0'' ''system0'' 0 True (AddSubInterface ''n0'' ''system0''
     ((fresh_SubInterface 0)\<lparr>si_IPv4 := Some \<lparr>si4_Addresses = [''1.0.0.0/32'']\<rparr>\<rparr>)
     (NewDevices \<lparr>nsn_Namespace = ''default'', nsn_Name = ''topo.default''\<rparr>))) = ''1.0.0.0/32''"
  using system_ip_after_add [of "(fresh_SubInterface 0)\<lparr>si_IPv4 := Some \<lparr>si4_Addresses = [''1.0.0.0/32'']\<rparr>\<rparr>"]
  by (simp add: fresh_SubInterface_def)

end
