(* ===== verification/Sessions.thy ===== *)
theory Sessions
  imports BuildResults Readback
begin

text \<open>
  The BGP sessions the builder configures: the eBGP neighbors at the two ends of a link, and the
  addresses that the route reflectors learn of the edge nodes.
\<close>

section \<open>Frames of a run, for the readers\<close>

lemma devices_run_deviceOf:
  assumes "devices_run N r r'" and "n \<notin> N"
  shows "deviceOf r' n = deviceOf r n"
  using devices_run_other [OF assms] devices_run_nsn [OF assms(1)] by (simp add: deviceOf_def split: option.split)

section \<open>eBGP\<close>

lemma addEBGPNeighbor_numbered:
  assumes "addEBGPNeighbor inp True getIP n ifn l i ds = Inr ds'"
  obtains nb where "ebgpNeighbor inp getIP l i = Inr nb"
    and "nb_PeerAddress nb \<noteq> '''' \<Longrightarrow> neighborOf (deviceOf ds' n) (networkName inp) (nb_PeerAddress nb) = Some nb"
    and "\<And>a. a \<noteq> nb_PeerAddress nb \<Longrightarrow>
      neighborOf (deviceOf ds' n) (networkName inp) a = neighborOf (deviceOf ds n) (networkName inp) a"
proof -
  from assms obtain nb where nb: "ebgpNeighbor inp getIP l i = Inr nb"
    and ds': "ds' = AddNetworkInstanceprotocolsBGPNeighbor n (networkName inp) (Some nb) ds"
    by (auto simp: addEBGPNeighbor_def bindR_Inr_iff)
  have "nb_PeerAddress nb = '''' \<Longrightarrow>
      neighborOf (deviceOf ds' n) (networkName inp) = neighborOf (deviceOf ds n) (networkName inp)"
    by (simp add: ds' AddNetworkInstanceprotocolsBGPNeighbor_def neighborOf_onBGP neighborOf_bgp fun_eq_iff
        AddOrUpdateBGNeighbor_Some)
  then show thesis
    using nb by (cases "nb_PeerAddress nb = ''''") (auto intro!: that simp: ds' neighborOf_AddNeighbor)
qed

lemma ebgpNeighbor_fields:
  assumes "ebgpNeighbor inp getIP l i = Inr nb"
  shows "ipString (inp_env inp) (getIP i l) = Inr (nb_LocalAddress nb)"
    and "ipString (inp_env inp) (getIP (i XOR 1) l) = Inr (nb_PeerAddress nb)"
    and "nb_LocalAS nb = getAS i l" "nb_PeerAS nb = getAS (i XOR 1) l"
    and "nb_PeerGroup nb = BGPUnderlayPeerGroupName" "nb_BFD nb = getBGPBFD (inp_design inp) l"
  using assms by (auto simp: ebgpNeighbor_def bindR_Inr_iff Let_def)

text \<open>The IPv4 session of one end, when the IPv6 session of the same end has another peer address.\<close>

lemma ebgp_end_IPv4:
  assumes upd: "updateUnderlayEBGPInterfaceDeviceConfig inp n ifn l i ds = Inr ds'"
    and v4: "IsUnderlayIPv4Numbered (inp_design inp)"
    and nonempty: "\<forall>s pi. env_iputil_New (inp_env inp) s = Some pi \<longrightarrow> ipi_Address pi \<noteq> ''''"
    and distinct: "IsUnderlayIPv6Numbered (inp_design inp) \<Longrightarrow>
      ipString (inp_env inp) (getIpv6 (i XOR 1) l) \<noteq> ipString (inp_env inp) (getIpv4 (i XOR 1) l)"
  shows "\<exists>nb. ebgpNeighbor inp getIpv4 l i = Inr nb \<and>
    neighborOf (deviceOf ds' n) (networkName inp) (nb_PeerAddress nb) = Some nb"
proof -
  let ?d = "inp_design inp"
  have en: "IsUnderlayIPv4Enabled ?d" using v4 underlay_IPv4_cases(1) by blast
  from upd obtain ds1 ds2 where
    1: "addEBGPNeighbor inp True getIpv4 n ifn l i ds = Inr ds1" and
    2: "(if IsUnderlayIPv6Enabled ?d
         then addEBGPNeighbor inp (IsUnderlayIPv6Numbered ?d) getIpv6 n ifn l i ds1 else Inr ds1) = Inr ds2" and
    ds': "neighborOf (deviceOf ds' n) = neighborOf (deviceOf ds2 n)"
    by (auto simp: updateUnderlayEBGPInterfaceDeviceConfig_def bindR_Inr_iff Let_def en v4 neighborOf_other_bgp)
  from 1 obtain nb where nb: "ebgpNeighbor inp getIpv4 l i = Inr nb"
    and found: "nb_PeerAddress nb \<noteq> '''' \<Longrightarrow> neighborOf (deviceOf ds1 n) (networkName inp) (nb_PeerAddress nb) = Some nb"
    and "\<And>a. a \<noteq> nb_PeerAddress nb \<Longrightarrow>
      neighborOf (deviceOf ds1 n) (networkName inp) a = neighborOf (deviceOf ds n) (networkName inp) a"
    by (rule addEBGPNeighbor_numbered) blast
  have "nb_PeerAddress nb \<noteq> ''''"
    using ebgpNeighbor_fields(2) [OF nb] nonempty by (metis ipString_Inr_iff)
  note found = found [OF this]
  have "neighborOf (deviceOf ds2 n) (networkName inp) (nb_PeerAddress nb) = Some nb"
  proof (cases "IsUnderlayIPv6Numbered ?d")
    case True
    then have "addEBGPNeighbor inp True getIpv6 n ifn l i ds1 = Inr ds2"
      using 2 underlay_IPv6_cases(1) by simp
    then obtain nb6 where nb6: "ebgpNeighbor inp getIpv6 l i = Inr nb6"
      and "nb_PeerAddress nb6 \<noteq> '''' \<Longrightarrow>
        neighborOf (deviceOf ds2 n) (networkName inp) (nb_PeerAddress nb6) = Some nb6"
      and other: "\<And>a. a \<noteq> nb_PeerAddress nb6 \<Longrightarrow>
        neighborOf (deviceOf ds2 n) (networkName inp) a = neighborOf (deviceOf ds1 n) (networkName inp) a"
      by (rule addEBGPNeighbor_numbered) blast
    have "nb_PeerAddress nb \<noteq> nb_PeerAddress nb6"
      using distinct [OF True] ebgpNeighbor_fields(2) [OF nb] ebgpNeighbor_fields(2) [OF nb6] by auto
    with other found show ?thesis by simp
  next
    case False
    then have "neighborOf (deviceOf ds2 n) = neighborOf (deviceOf ds1 n)"
      using 2 by (auto simp: addEBGPNeighbor_def neighborOf_other_bgp split: if_splits)
    with found show ?thesis by simp
  qed
  with nb ds' show ?thesis by auto
qed

lemma updateUnderlayInterfaceEnd_ebgp:
  assumes upd: "updateUnderlayInterfaceEnd inp l i b = Inr b'" and ebgp: "IsEBGPEnabled (inp_design inp)"
  shows "\<exists>b4. tryDevices
    (updateUnderlayEBGPInterfaceDeviceConfig inp (getNodeName i l) (getEPName i l) l i) b4 = Inr b'"
  by (rule updateUnderlayInterfaceEnd_Inr [OF upd]) (use ebgp in blast)

lemma ebgp_link_end:
  assumes upd: "updateUnderlayInterfaceEnd inp l i b = Inr b'"
    and ebgp: "IsEBGPEnabled (inp_design inp)" and v4: "IsUnderlayIPv4Numbered (inp_design inp)"
    and nonempty: "\<forall>s pi. env_iputil_New (inp_env inp) s = Some pi \<longrightarrow> ipi_Address pi \<noteq> ''''"
    and distinct: "IsUnderlayIPv6Numbered (inp_design inp) \<Longrightarrow>
      ipString (inp_env inp) (getIpv6 (i XOR 1) l) \<noteq> ipString (inp_env inp) (getIpv4 (i XOR 1) l)"
  shows "\<exists>nb. ebgpNeighbor inp getIpv4 l i = Inr nb \<and>
    neighborOf (deviceOf (db_devices b') (getNodeName i l)) (networkName inp) (nb_PeerAddress nb) = Some nb"
proof -
  from upd ebgp obtain b4 where
    "tryDevices (updateUnderlayEBGPInterfaceDeviceConfig inp (getNodeName i l) (getEPName i l) l i) b4 = Inr b'"
    using updateUnderlayInterfaceEnd_ebgp by blast
  then obtain ds where
    "updateUnderlayEBGPInterfaceDeviceConfig inp (getNodeName i l) (getEPName i l) l i (db_devices b4) = Inr ds"
    and "b' = b4\<lparr>db_devices := ds\<rparr>"
    by (rule tryDevices_Inr)
  then show ?thesis using ebgp_end_IPv4 [OF _ v4 nonempty distinct] by simp
qed

text \<open>The printed address of an end of a link, from the claim of the end.\<close>

definition endAddress :: "inputs \<Rightarrow> InfraLink \<Rightarrow> nat \<Rightarrow> string \<Rightarrow> string res" where
  "endAddress inp il i af =
     bindR (getIPClaim inp (claim4 inp (linkNode il i) (linkEP il i) af)) (ipString (inp_env inp))"

lemma gathered_endAddress:
  assumes "gathered inp il i l"
  shows "IsUnderlayIPv4Numbered (inp_design inp) \<Longrightarrow>
      endAddress inp il i ''ipv4'' = ipString (inp_env inp) (getIpv4 i l)"
    and "IsUnderlayIPv6Numbered (inp_design inp) \<Longrightarrow>
      endAddress inp il i ''ipv6'' = ipString (inp_env inp) (getIpv6 i l)"
  using assms by (simp_all add: endAddress_def gathered_def)

section \<open>The addresses of the edge nodes\<close>

lemma edgeStep_ips:
  assumes "edgeStep inp n (name, x) (ds, ips) = Inr (ds', ips')"
  shows "(nn_edge n \<longrightarrow> (\<exists>a. rrLocalAddress inp n x = Inr a \<and> ips' = ips(name := ips name @ [a]))) \<and>
    (\<not> nn_edge n \<longrightarrow> ips' = ips)"
  using assms by (auto simp: edgeStep_def bindR_Inr_iff Let_def split: if_splits)

lemma edge_loop_ips:
  assumes "forE rrl (edgeStep inp n) (ds, ips) = Inr (ds', ips')" and "distinct (map fst rrl)"
  shows "\<forall>(name, x) \<in> set rrl. if nn_edge n then \<exists>a. rrLocalAddress inp n x = Inr a \<and> ips' name = ips name @ [a]
      else ips' name = ips name"
    and "\<forall>name. name \<notin> fst ` set rrl \<longrightarrow> ips' name = ips name"
proof -
  have "(\<forall>(name, x) \<in> set rrl. if nn_edge n then \<exists>a. rrLocalAddress inp n x = Inr a \<and> ips' name = ips name @ [a]
      else ips' name = ips name) \<and> (\<forall>name. name \<notin> fst ` set rrl \<longrightarrow> ips' name = ips name)"
    using assms
  proof (induction rrl arbitrary: ds ips)
    case Nil
    then show ?case by simp
  next
    case (Cons p rrl)
    obtain name x where p: "p = (name, x)" by (cases p)
    from Cons.prems(1) obtain ds1 ips1 where s: "edgeStep inp n (name, x) (ds, ips) = Inr (ds1, ips1)"
      and rest: "forE rrl (edgeStep inp n) (ds1, ips1) = Inr (ds', ips')"
      by (auto simp: bindR_Inr_iff p)
    have notin: "name \<notin> fst ` set rrl" using Cons.prems(2) by (simp add: p)
    have "distinct (map fst rrl)" using Cons.prems(2) by simp
    note IH = Cons.IH [OF rest this]
    have own: "ips' name = ips1 name" using IH notin by blast
    have others: "m \<noteq> name \<Longrightarrow> ips1 m = ips m" for m
      using edgeStep_ips [OF s] by (cases "nn_edge n") auto
    have head: "if nn_edge n then \<exists>a. rrLocalAddress inp n x = Inr a \<and> ips' name = ips name @ [a]
        else ips' name = ips name"
      using edgeStep_ips [OF s] own by (cases "nn_edge n") auto
    have "if nn_edge n then \<exists>a. rrLocalAddress inp n y = Inr a \<and> ips' m = ips m @ [a] else ips' m = ips m"
      if "(m, y) \<in> set rrl" for m y
    proof -
      from that notin have "m \<noteq> name" by force
      then show ?thesis using IH that others [of m] by (auto split: if_splits)
    qed
    with head IH others show ?case by (auto simp: p)
  qed
  then show "\<forall>(name, x) \<in> set rrl. if nn_edge n then \<exists>a. rrLocalAddress inp n x = Inr a \<and> ips' name = ips name @ [a]
      else ips' name = ips name" and "\<forall>name. name \<notin> fst ` set rrl \<longrightarrow> ips' name = ips name"
    by blast+
qed

lemma set_rrs_List: "(k, x) \<in> set (rrs_List order m) \<longleftrightarrow> k \<in> set order \<and> m k = Some x"
  by (induction order) (auto simp: rrs_List_def List.map_filter_simps split: option.splits)

lemma distinct_rrs_List:
  assumes "distinct order"
  shows "distinct (map fst (rrs_List order m))"
proof -
  have "fst ` set (rrs_List order m) \<subseteq> set order" for order
    by (auto simp: set_rrs_List)
  then show ?thesis using assms
    by (induction order) (auto simp: rrs_List_def List.map_filter_simps split: option.splits)
qed

text \<open>
  One pass over the edge nodes appends the address of each of them to the list of every reflector, in
  the order of the nodes.
\<close>

lemma edge_nodes_ips:
  assumes "forE ns (\<lambda>n. forE (rrs_List (order n) m) (edgeStep inp n)) (ds, ips) = Inr (ds', ips')"
    and "m name = Some x" and "\<And>n. name \<in> set (order n)" and "\<And>n. distinct (order n)"
  shows "map Inr (ips' name) = map Inr (ips name) @ map (\<lambda>n. rrLocalAddress inp n x) (filter nn_edge ns)"
  using assms(1)
proof (induction ns arbitrary: ds ips)
  case Nil
  then show ?case by simp
next
  case (Cons n ns)
  from Cons.prems obtain ds1 ips1 where
    1: "forE (rrs_List (order n) m) (edgeStep inp n) (ds, ips) = Inr (ds1, ips1)" and
    rest: "forE ns (\<lambda>n. forE (rrs_List (order n) m) (edgeStep inp n)) (ds1, ips1) = Inr (ds', ips')"
    by (auto simp: bindR_Inr_iff)
  have "(name, x) \<in> set (rrs_List (order n) m)" using assms(2,3) by (simp add: set_rrs_List)
  then have "if nn_edge n then \<exists>a. rrLocalAddress inp n x = Inr a \<and> ips1 name = ips name @ [a]
      else ips1 name = ips name"
    using edge_loop_ips(1) [OF 1 distinct_rrs_List [OF assms(4)]] by blast
  then have "map Inr (ips1 name) =
      map Inr (ips name) @ map (\<lambda>n. rrLocalAddress inp n x) (filter nn_edge [n])"
    by (auto split: if_splits)
  with Cons.IH [OF rest] show ?case by simp
qed

section \<open>Nodes without a device type\<close>

lemma gatherEnd_other:
  assumes "gatherEnd inp il i (l, b) = Inr (l', b')" and "k \<noteq> linkNode il i"
  shows "db_nodes b' k = db_nodes b k"
  using assms
  by (auto simp: gatherEnd_def gatherNodeInfo_def bindR_Inr_iff Let_def nodes_Add_def linkNode_def linkNodeID_def
      split: if_splits option.splits)

lemma gatherEnd_unlabelled:
  assumes "gatherEnd inp il i (l, b) = Inr (l', b')" and "lookupNode inp (linkNodeID il i) = Inr m"
    and "in_Labels m (env_KuidINVNetworkDeviceType (inp_env inp)) = None"
    and "db_nodes b (linkNode il i) = None"
  shows "db_nodes b' (linkNode il i) = None"
proof -
  have "gatherNodeInfo inp (linkNodeID il i) b = Inr b'' \<Longrightarrow> b'' = b" for b''
    using assms(2,3) by (auto simp: gatherNodeInfo_def lookupNode_def bindR_Inr_iff Let_def split: option.splits)
  then show ?thesis
    using assms(1,4)
    by (auto simp: gatherEnd_def bindR_Inr_iff Let_def linkNode_def linkNodeID_def split: if_splits)
qed

end
