(* ===== verification/OverlayResults.thy ===== *)
theory OverlayResults
  imports BuilderOverlay Readback
begin

text \<open>
  What the overlay configures on a node, read back from the device: the sub interface of a bridge or
  router, its network instance, and the route targets and the EVI of that instance.
\<close>

section \<open>Readers of the overlay\<close>

definition vpnOf :: "NetworkDevice \<Rightarrow> string \<Rightarrow> NetworkDeviceNetworkInstanceProtocolBGPVPN option" where
  "vpnOf d n = Option.bind (protocolsOf d n) p_BGPVPN"

definition evpnOf :: "NetworkDevice \<Rightarrow> string \<Rightarrow> NetworkDeviceNetworkInstanceProtocolBGPEVPN option" where
  "evpnOf d n = Option.bind (protocolsOf d n) p_BGPEVPN"

definition niTypeOf :: "NetworkDevice \<Rightarrow> string \<Rightarrow> NetworkInstanceType option" where
  "niTypeOf d n = map_option ni_Type (instanceOf d n)"

lemma subInterfaceOf_frame:
  "interfaceOf d' = interfaceOf d \<Longrightarrow> subInterfaceOf d' = subInterfaceOf d"
  by (simp add: subInterfaceOf_def fun_eq_iff)

text \<open>The operations on network instances and tunnels leave the interfaces alone.\<close>

lemma interfaceOf_overlay [simp]:
  "interfaceOf (deviceOf (AddNetworkInstance n x r) n') = interfaceOf (deviceOf r n')"
  "interfaceOf (deviceOf (AddNetworkInstanceSubInterface n ni y r) n') = interfaceOf (deviceOf r n')"
  "interfaceOf (deviceOf (addVXLAN inp n ni i ty r) n') = interfaceOf (deviceOf r n')"
  "interfaceOf (deviceOf (addVPN inp n ni i r) n') = interfaceOf (deviceOf r n')"
  by (simp_all add: AddNetworkInstance_def AddNetworkInstanceSubInterface_def addVXLAN_def addVPN_def
      AddNetworkInstanceSubInterfaceVXLAN_def AddTunnelSubInterface_def AddNetworkInstanceProtocolsBGPVPN_def
      AddNetworkInstanceProtocolsBGPEVPN_def)

lemma niTypeOf_read:
  "niTypeOf (deviceOf (AddNetworkInstance n x r) n) (ni_Name x) = Some (ni_Type x)"
  "niTypeOf (deviceOf (AddNetworkInstanceSubInterface n ni y r) n) ni =
     Some (ni_Type (orElse (instanceOf (deviceOf r n) ni) (fresh_NetworkInstance ni)))"
  by (simp_all add: niTypeOf_def AddNetworkInstance_def AddNetworkInstanceSubInterface_def read)

lemma niTypeOf_keep:
  assumes "niTypeOf (deviceOf r n) ni = Some t"
  shows "niTypeOf (deviceOf (AddNetworkInstanceSubInterface n ni y r) n) ni = Some t"
    and "niTypeOf (deviceOf (addVXLAN inp n ni i ty r) n) ni = Some t"
    and "niTypeOf (deviceOf (addVPN inp n ni i r) n) ni = Some t"
  using assms
  by (auto simp: niTypeOf_def AddNetworkInstanceSubInterface_def addVXLAN_def addVPN_def read
      AddNetworkInstanceSubInterfaceVXLAN_def AddTunnelSubInterface_def AddNetworkInstanceProtocolsBGPVPN_def
      AddNetworkInstanceProtocolsBGPEVPN_def)

lemma addVPN_read:
  "vpnOf (deviceOf (addVPN inp n ni i r) n) ni =
     Some \<lparr>vpn_ImportRouteTarget = routeTarget inp i, vpn_ExportRouteTarget = routeTarget inp i\<rparr>"
  "evpnOf (deviceOf (addVPN inp n ni i r) n) ni =
     Some \<lparr>evpn_EVI = i, evpn_ECMP = 2, evpn_VXLANInterface = VXLANInterfaceName\<rparr>"
  by (simp_all add: vpnOf_def evpnOf_def addVPN_def AddNetworkInstanceProtocolsBGPVPN_def
      AddNetworkInstanceProtocolsBGPEVPN_def GetOrCreateNetworkInstanceProtocolsBGPVPN_def
      GetOrCreateNetworkInstanceProtocolsBGPEVPN_def orNew_orElse read)

lemma AddSubInterface_found:
  "subInterfaceOf (deviceOf (AddSubInterface n ifn x r) n) ifn (si_ID x) = Some x"
  by (rule AddSubInterface_interface [of n ifn x r]) (simp add: subInterfaceOf_def)

end
