(* ===== verification/Example.thy ===== *)
theory Example
  imports Sessions OverlayResults
begin

text \<open>
  A concrete inventory on which the properties of the builder are exercised: two edge nodes joined by
  one infra link, a default network with a dual-stack design, and an overlay network with a bridge and
  a router.
\<close>

definition exNode :: "string \<Rightarrow> NodeID" where
  "exNode n = \<lparr>nid_Region = ''r'', nid_Site = ''s'', nid_Node = n\<rparr>"

definition exEndpoint :: "string \<Rightarrow> string \<Rightarrow> NodeGroupEndpointID" where
  "exEndpoint n e = \<lparr>ngep_NodeGroup = ''topo'',
     ngep_EndpointID = \<lparr>epid_Endpoint = e, epid_NodeID = exNode n\<rparr>\<rparr>"

definition exLink :: InfraLink where
  "exLink = \<lparr>il_Name = ''link'', il_Namespace = ''default'', il_Labels = [''type'' \<mapsto> ''infra''],
     il_Endpoints = [exEndpoint ''n0'' ''e1-1'', exEndpoint ''n1'' ''e1-1''],
     il_BFD = None, il_OSPF = None, il_ISIS_BFD = None, il_BGP_BFD = None, il_GetISISPassive = False,
     il_GetISISNetworkType = NetworkTypeUnknown, il_GetISISLevel = ISISLevelUnknown, il_GetISISMetric = 10\<rparr>"

definition exInfraNode :: "string \<Rightarrow> InfraNode" where
  "exInfraNode n = \<lparr>in_Name = n, in_Namespace = ''default'', in_NodeGroup = ''topo'',
     in_Provider = ''srl'', in_SystemID = Some ''00:00:00:00:00:01'',
     in_Labels = [''devType'' \<mapsto> ''edge'']\<rparr>"

text \<open>The claims of the two nodes and the two ends of the link.\<close>

definition exAddresses :: "(string \<times> string) list" where
  "exAddresses =
     [(''topo.default.n0.ipv4'', ''1.0.0.0''), (''topo.default.n1.ipv4'', ''1.0.0.1''),
      (''topo.default.n0.ipv6'', ''1::0''), (''topo.default.n1.ipv6'', ''1::1''),
      (''topo.default.n0.e1-1.ipv4'', ''2.0.0.0''), (''topo.default.n1.e1-1.ipv4'', ''2.0.0.1''),
      (''topo.default.n0.e1-1.ipv6'', ''2::0''), (''topo.default.n1.e1-1.ipv6'', ''2::1'')]"

definition exAS :: "(string \<times> uint32) list" where
  "exAS = [(''topo.default.n0'', 65000), (''topo.default.n1'', 65001)]"

definition exClient :: client where
  "exClient = \<lparr>cl_ListNodes = \<lambda>_. Inr [exInfraNode ''n0'', exInfraNode ''n1''],
     cl_ListLinks = \<lambda>_. Inr [exLink],
     cl_GetNode = \<lambda>k. Inr (exInfraNode (nsn_Name k)),
     cl_GetEndpoint = \<lambda>k. Inr \<lparr>ie_Provider = ''srl'', ie_Endpoint = ''e1-2''\<rparr>,
     cl_GetIPClaim = \<lambda>k. (case map_of exAddresses (nsn_Name k) of
        None \<Rightarrow> Inl ''not found''
      | Some a \<Rightarrow> Inr \<lparr>ipc_Ready = ConditionTrue, ipc_Address = Some a\<rparr>),
     cl_GetASClaim = \<lambda>k. (case map_of exAS (nsn_Name k) of
        None \<Rightarrow> Inl ''not found''
      | Some a \<Rightarrow> Inr \<lparr>asc_Ready = ConditionTrue, asc_ID = Some a\<rparr>)\<rparr>"

text \<open>An address without a prefix length prints as itself; a colon makes it IPv6.\<close>

definition exEnv :: env where
  "exEnv = \<lparr>env_iputil_New = \<lambda>s. if s = '''' then None
       else Some \<lparr>ipi_Address = s, ipi_IsIpv4 = (CHR '':'' \<notin> set s)\<rparr>,
     env_NodeID_KuidString = \<lambda>n. dot (dot (nid_Region n) (nid_Site n)) (nid_Node n),
     env_EndpointID_KuidString = \<lambda>e. dot (nid_Node (epid_NodeID e)) (epid_Endpoint e),
     env_NamespacedName_String = nsn_Name,
     env_KuidINVNetworkDeviceType = ''devType'', env_KuidINVLinkTypeKey = ''type''\<rparr>"

definition exProtocols :: NetworkDesignProtocols where
  "exProtocols = \<lparr>ndp_OSPF = None,
     ndp_ISIS = Some \<lparr>ndis_Instance = None, ndis_Level = ISISLevelL2, ndis_Areas = [''49.0001''],
       ndis_MaxECMPPaths = None, ndis_BFD = False\<rparr>,
     ndp_IBGP = Some \<lparr>ndib_AS = Some 65535, ndib_LocalAS = False,
       ndib_RouteReflectors = [''topo.default.n0.ipv4'']\<rparr>,
     ndp_EBGP = Some \<lparr>ndeb_ASPool = Some ''aspool'', ndeb_BFD = True\<rparr>,
     ndp_BGPEVPN = Some (), ndp_BGPVPNv4 = None, ndp_BGPVPNv6 = None, ndp_BGPRouteTarget = None,
     ndp_BGPLabeledUnicastv4 = None, ndp_BGPLabeledUnicastv6 = None\<rparr>"

definition exDesign :: NetworkDesign where
  "exDesign = \<lparr>nd_Namespace = ''default'', nd_Name = ''topo.default'', nd_ResourceVersion = ''1'', nd_Deleting = False,
     nd_Spec = \<lparr>nds_Topology = ''topo'',
       nds_Interfaces = Some
         \<lparr>ndi_Loopback = Some \<lparr>ndip_Prefixes = [], ndip_Addressing = Addressing_DualStack\<rparr>,
          ndi_Underlay = Some \<lparr>ndip_Prefixes = [], ndip_Addressing = Addressing_DualStack,
            ndiu_VLANTagging = False,
            ndiu_BFD = Some \<lparr>bfd_Enabled = None, bfd_MinEchoRx = Some 0, bfd_MinRx = Some 1,
              bfd_MinTx = Some 2, bfd_Multiplier = Some 3, bfd_TTL = Some 4\<rparr>\<rparr>\<rparr>,
       nds_Protocols = Some exProtocols,
       nds_Encapsultation = Some \<lparr>nde_VXLAN = Some (), nde_MPLS = None, nde_SRV6 = None\<rparr>\<rparr>,
     nd_Status_GetCondition = \<lambda>t. \<lparr>cond_Type = t, cond_Status = ConditionUnknown, cond_Reason = [], cond_Message = []\<rparr>\<rparr>"

definition exStatus :: NetworkStatus where
  "exStatus = \<lparr>nst_GetCondition = \<lambda>t. \<lparr>cond_Type = t, cond_Status = ConditionFalse, cond_Reason = ''Failed'',
       cond_Message = ''''\<rparr>,
     nst_DevicesConfigStatus = [], nst_DevicesDeployStatus = [], nst_UsedReferences = None\<rparr>"

definition exNetwork :: Network where
  "exNetwork = \<lparr>net_Namespace = ''default'', net_Name = ''topo.default'',
     net_UID = ''u0'', net_Annotations = Map.empty, net_Deleting = False,
     net_Spec = \<lparr>ns_Topology = ''topo'', ns_Bridges = [], ns_Routers = []\<rparr>, net_Status = exStatus\<rparr>"

definition exInterface :: "NetworkInterface" where
  "exInterface = \<lparr>nif_Bridge = None, nif_EndPoint = Some ''e1-2'', nif_NodeID = Some (exNode ''n0''),
     nif_Addresses = [], nif_VLANID = None, nif_Selector = None, nif_VLANTagging = False, nif_Protocols = None\<rparr>"

definition exOverlay :: Network where
  "exOverlay = \<lparr>net_Namespace = ''default'', net_Name = ''topo.blue'',
     net_UID = ''u1'', net_Annotations = Map.empty, net_Deleting = False,
     net_Spec = \<lparr>ns_Topology = ''topo'',
       ns_Bridges = [\<lparr>nbr_Name = ''br'', nbr_NetworkID = 10, nbr_Interfaces = [exInterface]\<rparr>],
       ns_Routers = [\<lparr>nrt_Name = ''rt'', nrt_NetworkID = 11,
         nrt_Interfaces = [exInterface\<lparr>nif_Bridge := Some ''br'', nif_EndPoint := None\<rparr>]\<rparr>]\<rparr>,
     net_Status = exStatus\<rparr>"

definition exInputs :: inputs where
  "exInputs = \<lparr>inp_client = exClient, inp_env = exEnv, inp_network = exNetwork, inp_design = exDesign\<rparr>"

definition exSchedule :: schedule where
  "exSchedule = \<lparr>sch_edgeNodes = [''n0'', ''n1''], sch_edgeRRs = \<lambda>_. [''topo.default.n0.ipv4''],
     sch_rrs = [''topo.default.n0.ipv4''], sch_rrNodes = \<lambda>_. [''n0'', ''n1'']\<rparr>"

definition succeeds :: "'a res \<Rightarrow> bool" where
  "succeeds r = (case r of Inl _ \<Rightarrow> False | Inr _ \<Rightarrow> True)"

lemma succeeds_iff: "succeeds r \<longleftrightarrow> (\<exists>x. r = Inr x)"
  by (cases r) (simp_all add: succeeds_def)

section \<open>Its evaluation\<close>

lemma ex_inputs [simp]:
  "inp_client exInputs = exClient" "inp_env exInputs = exEnv" "inp_network exInputs = exNetwork"
  "inp_design exInputs = exDesign"
  by (simp_all add: exInputs_def)

lemma ex_networks [simp]:
  "net_Namespace exNetwork = ''default''" "net_Name exNetwork = ''topo.default''"
  "GetNetworkName exNetwork = ''default''" "IsDefaultNetwork exNetwork"
  "net_Namespace exOverlay = ''default''" "GetNetworkName exOverlay = ''blue''"
  "\<not> IsDefaultNetwork exOverlay" "IsBridgePresent ''br'' exOverlay"
  by code_simp+

lemma ex_design [simp]:
  "IsEBGPEnabled exDesign" "IsIBGPEnabled exDesign" "IsISISEnabled exDesign" "\<not> IsOSPFEnabled exDesign"
  "IsUnderlayIPv4Enabled exDesign" "IsUnderlayIPv6Enabled exDesign" "IsUnderlayIPv4Numbered exDesign"
  "IsUnderlayIPv6Numbered exDesign" "IsLoopbackIPv4Enabled exDesign" "IsLoopbackIPv6Enabled exDesign"
  "IsBFDEnabled exDesign" "IsVXLANEnabled exDesign" "GetISISInstanceName exDesign = Inr ''i1''"
  by code_simp+

lemma ex_claims [simp]:
  "getASClaim exInputs (claim2 exInputs ''n0'') = Inr 65000"
  "getASClaim exInputs (claim2 exInputs ''n1'') = Inr 65001"
  "getIPClaim exInputs (claim3 exInputs ''n0'' ''ipv4'') = Inr ''1.0.0.0''"
  "getIPClaim exInputs (claim3 exInputs ''n1'' ''ipv4'') = Inr ''1.0.0.1''"
  "getIPClaim exInputs (claim3 exInputs ''n0'' ''ipv6'') = Inr ''1::0''"
  "getIPClaim exInputs (claim3 exInputs ''n1'' ''ipv6'') = Inr ''1::1''"
  "getIPClaim exInputs (claim4 exInputs ''n0'' ''e1-1'' ''ipv4'') = Inr ''2.0.0.0''"
  "getIPClaim exInputs (claim4 exInputs ''n1'' ''e1-1'' ''ipv4'') = Inr ''2.0.0.1''"
  "getIPClaim exInputs (claim4 exInputs ''n0'' ''e1-1'' ''ipv6'') = Inr ''2::0''"
  "getIPClaim exInputs (claim4 exInputs ''n1'' ''e1-1'' ''ipv6'') = Inr ''2::1''"
  "getIPClaim exInputs (key exInputs ''topo.default.n0.ipv4'') = Inr ''1.0.0.0''"
  by (simp_all add: getASClaim_def getIPClaim_def claim2_def claim3_def claim4_def key_def dot_def
      exClient_def exAS_def exAddresses_def)

lemma ex_ip [simp]:
  "s \<noteq> '''' \<Longrightarrow> ipString exEnv s = Inr s"
  "s \<noteq> '''' \<Longrightarrow> parsedIP exEnv s = Inr \<lparr>ipi_Address = s, ipi_IsIpv4 = (CHR '':'' \<notin> set s)\<rparr>"
  by (simp_all add: ipString_def parsedIP_def exEnv_def)

lemma ex_link [simp]:
  "il_Endpoints exLink = [exEndpoint ''n0'' ''e1-1'', exEndpoint ''n1'' ''e1-1'']"
  "il_BFD exLink = None" "GetLinks exInputs = Inr [exLink]"
  by (simp_all add: exLink_def GetLinks_def exClient_def exEnv_def)

definition exLinkInfo :: link where
  "exLinkInfo = \<lparr>lk_l = exLink, lk_nodeName = [''n0'', ''n1''], lk_epName = [''e1-1'', ''e1-1''],
     lk_as = [65000, 65001], lk_ipv4 = [''2.0.0.0'', ''2.0.0.1''], lk_ipv6 = [''2::0'', ''2::1'']\<rparr>"

definition exNodeInfo :: "string \<Rightarrow> string \<Rightarrow> string \<Rightarrow> uint32 \<Rightarrow> node" where
  "exNodeInfo n v4 v6 as = \<lparr>nn_nodeID = exNode n, nn_systemID = ''00:00:00:00:00:01'', nn_provider = ''srl'',
     nn_ipv4 = v4, nn_ipv6 = v6, nn_routerID = v4, nn_as = as, nn_edge = True\<rparr>"

abbreviation exNew :: DeviceBuilder where
  "exNew \<equiv> NewBuilder exInputs (\<lambda>_. 0)"

definition exNodes :: "string \<rightharpoonup> node" where
  "exNodes = [''n0'' \<mapsto> exNodeInfo ''n0'' ''1.0.0.0'' ''1::0'' 65000,
     ''n1'' \<mapsto> exNodeInfo ''n1'' ''1.0.0.1'' ''1::1'' 65001]"

lemma ex_getNode:
  "getNode exInputs k = Inr (exInfraNode (nsn_Name k))"
  by (simp add: getNode_def exClient_def)

lemma ex_gatherNodeInfo:
  assumes "getIPClaim exInputs (claim3 exInputs n ''ipv4'') = Inr v4" "v4 \<noteq> ''''"
    and "getIPClaim exInputs (claim3 exInputs n ''ipv6'') = Inr v6"
    and "getASClaim exInputs (claim2 exInputs n) = Inr as"
  shows "gatherNodeInfo exInputs (exNode n) b = Inr (nodes_Add n (exNodeInfo n v4 v6 as) b)"
  using assms
  by (simp add: gatherNodeInfo_def ex_getNode exInfraNode_def gatherRouterID_def gatherLoopbackIPv6_def
      gatherNodeAS_def newNode_def exNodeInfo_def exNode_def exEnv_def [symmetric] Let_def)
    (simp add: exEnv_def)

lemma ex_gather:
  "gatherLinkAndNodeInfo exInputs exLink exNew = Inr (exLinkInfo, exNew\<lparr>db_nodes := exNodes\<rparr>)"
  by (simp add: gatherLinkAndNodeInfo_def gatherEnd_def exEndpoint_def Let_def ex_gatherNodeInfo
      NewBuilder_def nodes_Get_def nodes_Add_def exNodes_def gatherEndAS_def gatherEndIPv4_def gatherEndIPv6_def
      newLink_def link_accessors exLinkInfo_def)
    (simp add: exNode_def gatherEnd_def exEndpoint_def Let_def nodes_Get_def
      ex_gatherNodeInfo [unfolded exNode_def] nodes_Add_def gatherEndAS_def
      gatherEndIPv4_def gatherEndIPv6_def link_accessors)

lemma ex_updateBaseEnd:
  assumes "db_nodes b (getNodeName i exLinkInfo) = Some n" and "getNodeName i exLinkInfo \<notin> db_nodeSet b"
  shows "\<exists>ds. updateBaseEnd exInputs exLinkInfo i b =
    Inr (b\<lparr>db_devices := ds, db_nodeSet := insert (getNodeName i exLinkInfo) (db_nodeSet b)\<rparr>)"
  using assms
  by (simp add: updateBaseEnd_def updateBaseNode_def nodes_Get_def Let_def split_beta
      updateUnderlayISISNodeDeviceConfig_def) blast

lemma ex_names [simp]:
  "getNodeName 0 exLinkInfo = ''n0''" "getNodeName (Suc 0) exLinkInfo = ''n1''"
  "getIpv4 0 exLinkInfo = ''2.0.0.0''" "getIpv4 (Suc 0) exLinkInfo = ''2.0.0.1''"
  "getIpv6 0 exLinkInfo = ''2::0''" "getIpv6 (Suc 0) exLinkInfo = ''2::1''"
  "getAS 0 exLinkInfo = 65000" "getAS (Suc 0) exLinkInfo = 65001" "lk_l exLinkInfo = exLink"
  by (simp_all add: link_accessors exLinkInfo_def)

lemma ex_updateBase:
  "\<exists>ds. updateBaseDeviceConfig exInputs exLinkInfo (exNew\<lparr>db_nodes := exNodes\<rparr>) =
    Inr (exNew\<lparr>db_nodes := exNodes, db_devices := ds, db_nodeSet := {''n0'', ''n1''}\<rparr>)"
proof -
  have n: "exNodes ''n0'' = Some (exNodeInfo ''n0'' ''1.0.0.0'' ''1::0'' 65000)"
    "exNodes ''n1'' = Some (exNodeInfo ''n1'' ''1.0.0.1'' ''1::1'' 65001)"
    by (simp_all add: exNodes_def)
  obtain ds0 where 0: "updateBaseEnd exInputs exLinkInfo 0 (exNew\<lparr>db_nodes := exNodes\<rparr>) =
    Inr (exNew\<lparr>db_nodes := exNodes, db_devices := ds0, db_nodeSet := {''n0''}\<rparr>)"
    using ex_updateBaseEnd [of "exNew\<lparr>db_nodes := exNodes\<rparr>" 0] by (auto simp: n NewBuilder_def)
  obtain ds1 where "updateBaseEnd exInputs exLinkInfo (Suc 0)
      (exNew\<lparr>db_nodes := exNodes, db_devices := ds0, db_nodeSet := {''n0''}\<rparr>) =
    Inr (exNew\<lparr>db_nodes := exNodes, db_devices := ds1, db_nodeSet := {''n0'', ''n1''}\<rparr>)"
    using ex_updateBaseEnd [of "exNew\<lparr>db_nodes := exNodes, db_devices := ds0, db_nodeSet := {''n0''}\<rparr>" "Suc 0"]
    by (auto simp: n NewBuilder_def insert_commute)
  with 0 show ?thesis by (simp add: updateBaseDeviceConfig_def) blast
qed

lemma ex_updateInterfaceEnd:
  assumes "i \<le> 1"
  shows "\<exists>ds. updateUnderlayInterfaceEnd exInputs exLinkInfo i b = Inr (b\<lparr>db_devices := ds\<rparr>)"
proof -
  have bfd: "getBFDLinkParameters exDesign exLinkInfo h = Inr (\<lparr>bfd_Enabled = Some True, bfd_MinEchoRx = Some 0,
      bfd_MinRx = Some 1, bfd_MinTx = Some 2, bfd_Multiplier = Some 3, bfd_TTL = Some 4\<rparr>, h)" for h
    by (simp add: getBFDLinkParameters_def GetUnderlayBFDParameters_def Underlay_def exDesign_def)
  show ?thesis
    using assms
    by (auto simp: le_Suc_eq updateUnderlayInterfaceEnd_def addLinkBFD_def bfd Let_def tryDevices_def onDevices_def
      updateUnderlayISISInterfaceDeviceConfig_def updateUnderlayEBGPInterfaceDeviceConfig_def
      addEBGPNeighbor_def ebgpNeighbor_def)
qed

lemma ex_updateInterface:
  "\<exists>ds. updateUnderlayInterfaceDeviceConfig exInputs exLinkInfo b = Inr (b\<lparr>db_devices := ds\<rparr>)"
proof -
  obtain ds0 where "updateUnderlayInterfaceEnd exInputs exLinkInfo 0 b = Inr (b\<lparr>db_devices := ds0\<rparr>)"
    using ex_updateInterfaceEnd [of 0 b] by auto
  moreover obtain ds1 where "updateUnderlayInterfaceEnd exInputs exLinkInfo (Suc 0) (b\<lparr>db_devices := ds0\<rparr>) =
      Inr (b\<lparr>db_devices := ds1\<rparr>)"
    using ex_updateInterfaceEnd [of "Suc 0" "b\<lparr>db_devices := ds0\<rparr>"] by auto
  ultimately show ?thesis by (simp add: updateUnderlayInterfaceDeviceConfig_def) blast
qed

lemma ex_buildLink:
  "\<exists>ds. buildLink exInputs exLink exNew =
    Inr (exNew\<lparr>db_nodes := exNodes, db_nodeSet := {''n0'', ''n1''}, db_devices := ds\<rparr>)"
proof -
  obtain ds0 where b0: "updateBaseDeviceConfig exInputs exLinkInfo (exNew\<lparr>db_nodes := exNodes\<rparr>) =
    Inr (exNew\<lparr>db_nodes := exNodes, db_devices := ds0, db_nodeSet := {''n0'', ''n1''}\<rparr>)" (is "_ = Inr ?b0")
    using ex_updateBase by blast
  obtain ds where "updateUnderlayInterfaceDeviceConfig exInputs exLinkInfo ?b0 = Inr (?b0\<lparr>db_devices := ds\<rparr>)"
    using ex_updateInterface by blast
  with b0 show ?thesis by (simp add: buildLink_def ex_gather) blast
qed

lemma ex_rr:
  assumes "db_nodes b = exNodes" and "db_rrs b = Map.empty"
  shows "\<exists>b'. updateUnderlayRRConfig exInputs exSchedule b = Inr b'"
proof -
  have "IBGP exDesign = Some \<lparr>ndib_AS = Some 65535, ndib_LocalAS = False,
      ndib_RouteReflectors = [''topo.default.n0.ipv4'']\<rparr>"
    by (simp add: IBGP_def exDesign_def exProtocols_def)
  then show ?thesis using assms
    by (simp add: updateUnderlayRRConfig_def gatherRRInfo_def rrs_Add_def edgePhase_def rrPhase_def exSchedule_def
        nodes_List_def rrs_List_def List.map_filter_simps exNodes_def exNodeInfo_def edgeStep_def Let_def
        rrLocalAddress_def rrNodeStep_def exNode_def dot_def)
qed

lemma ex_Build: "\<exists>b. Build exInputs exSchedule exNew = Inr b"
proof -
  obtain ds where b: "buildLink exInputs exLink exNew =
      Inr (exNew\<lparr>db_nodes := exNodes, db_nodeSet := {''n0'', ''n1''}, db_devices := ds\<rparr>)"
    using ex_buildLink by blast
  show ?thesis
    using ex_rr [of "exNew\<lparr>db_nodes := exNodes, db_nodeSet := {''n0'', ''n1''}, db_devices := ds\<rparr>"]
    by (simp add: Build_def BuildUnderlay_def b) (simp add: NewBuilder_def)
qed

definition exOverlayInputs :: inputs where "exOverlayInputs = exInputs\<lparr>inp_network := exOverlay\<rparr>"

lemma ex_Build_overlay_status:
  assumes "inp = exInputs\<lparr>inp_network := exOverlay\<lparr>net_Status := st\<rparr>\<rparr>"
  shows "\<exists>b. Build inp sch (NewBuilder inp h) = Inr b"
proof -
  have "ns_Bridges (net_Spec exOverlay) = [\<lparr>nbr_Name = ''br'', nbr_NetworkID = 10, nbr_Interfaces = [exInterface]\<rparr>]"
    "ns_Routers (net_Spec exOverlay) = [\<lparr>nrt_Name = ''rt'', nrt_NetworkID = 11,
         nrt_Interfaces = [exInterface\<lparr>nif_Bridge := Some ''br'', nif_EndPoint := None\<rparr>]\<rparr>]"
    by (simp_all add: exOverlay_def)
  moreover have "IsDefaultNetwork (exOverlay\<lparr>net_Status := st\<rparr>) = IsDefaultNetwork exOverlay"
    "GetNetworkName (exOverlay\<lparr>net_Status := st\<rparr>) = GetNetworkName exOverlay"
    "IsBridgePresent n (exOverlay\<lparr>net_Status := st\<rparr>) = IsBridgePresent n exOverlay" for n
    by (simp_all add: IsDefaultNetwork_def GetNetworkName_def IsBridgePresent_def)
  ultimately show ?thesis
    by (simp add: assms Build_def BuildOverlay_def tryDevices_def buildBridge_def bridgeInterface_def
        exInterface_def lookupEndpoint_def getEndpoint_def exClient_def Let_def IsDynamic_def present_def
        routerInterface_def buildRouter_def lookupNode_def getNode_def routerIRB_def)
qed

lemma ex_Build_overlay: "\<exists>b. Build exOverlayInputs sch (NewBuilder exOverlayInputs h) = Inr b"
  by (rule ex_Build_overlay_status [of _ "net_Status exOverlay"]) (simp add: exOverlayInputs_def)

lemma ex_linkNodes [simp]: "linkNode exLink 0 = ''n0''" "linkNode exLink (Suc 0) = ''n1''"
  by (simp_all add: linkNode_def linkNodeID_def exEndpoint_def exNode_def)

lemma ex_buildNodes: "buildNodes exInputs = {''n0'', ''n1''}"
  by (simp add: buildNodes_def underlayNodes_def linkNodes_def)

lemma ex_buildNodes_overlay: "buildNodes exOverlayInputs = {''n0''}"
proof -
  have "staticNodes [exInterface] = {''n0''}"
    "staticNodes [exInterface\<lparr>nif_Bridge := Some ''br'', nif_EndPoint := None\<rparr>] = {''n0''}"
    by (auto simp: staticNodes_def exInterface_def IsDynamic_def present_def exNode_def)
  then have "overlayNodes exOverlay = {''n0''}" by (simp add: overlayNodes_def exOverlay_def)
  then show ?thesis by (simp add: buildNodes_def exOverlayInputs_def)
qed

lemma ex_nodes_ok: "nodes_ok inp (NewBuilder inp h)"
  by (simp add: nodes_ok_def NewBuilder_def)

text \<open>The same inventory with nodes that have no device type.\<close>

definition exUnlabelled :: inputs where
  "exUnlabelled = exInputs\<lparr>inp_client := exClient\<lparr>cl_GetNode :=
     \<lambda>k. Inr ((exInfraNode (nsn_Name k))\<lparr>in_Labels := Map.empty\<rparr>)\<rparr>\<rparr>"

lemma ex_unlabelled_inputs [simp]:
  "inp_env exUnlabelled = exEnv" "inp_network exUnlabelled = exNetwork" "inp_design exUnlabelled = exDesign"
  "getIPClaim exUnlabelled = getIPClaim exInputs" "getASClaim exUnlabelled = getASClaim exInputs"
  "claim2 exUnlabelled = claim2 exInputs" "claim3 exUnlabelled = claim3 exInputs"
  "claim4 exUnlabelled = claim4 exInputs" "key exUnlabelled = key exInputs" "topologyOf exUnlabelled = ''topo''"
  by (simp_all add: exUnlabelled_def getIPClaim_def getASClaim_def claim2_def claim3_def claim4_def key_def
      fun_eq_iff topologyOf_def exNetwork_def)

lemma ex_unlabelled_lookup:
  "\<exists>m. lookupNode exUnlabelled nodeID = Inr m \<and> in_Labels m = Map.empty \<and> in_SystemID m = Some ''00:00:00:00:00:01''"
  by (simp add: lookupNode_def getNode_def) (simp add: exUnlabelled_def exInfraNode_def)

lemma ex_unlabelled_gatherNodeInfo:
  assumes "n = ''n0'' \<or> n = ''n1''"
  shows "gatherNodeInfo exUnlabelled (exNode n) b = Inr b"
proof -
  obtain m where m: "getNode exUnlabelled (key exInputs (dot ''topo'' (env_NodeID_KuidString exEnv (exNode n)))) = Inr m"
    "in_Labels m = Map.empty" "in_SystemID m = Some ''00:00:00:00:00:01''"
    using ex_unlabelled_lookup [of "exNode n"] by (auto simp: lookupNode_def)
  show ?thesis using assms
    by (auto simp: gatherNodeInfo_def m exNode_def [of "''n0''"] exNode_def [of "''n1''"] Let_def
        m [unfolded exNode_def]
        gatherRouterID_def gatherLoopbackIPv6_def gatherNodeAS_def)
qed

lemma ex_unlabelled_gather: "\<exists>l b. gatherLinkAndNodeInfo exUnlabelled exLink exNew = Inr (l, b)"
  using ex_unlabelled_gatherNodeInfo [of "''n0''"] ex_unlabelled_gatherNodeInfo [of "''n1''"]
  by (simp add: gatherLinkAndNodeInfo_def gatherEnd_def exEndpoint_def Let_def NewBuilder_def nodes_Get_def
      exNode_def gatherEndAS_def gatherEndIPv4_def gatherEndIPv6_def)

text \<open>The route reflector of the example, and the phase of the edge nodes.\<close>

definition exMesh :: DeviceBuilder where
  "exMesh = exNew\<lparr>db_nodes := exNodes,
     db_rrs := [''topo.default.n0.ipv4'' \<mapsto> \<lparr>rr_ip = ''1.0.0.0'', rr_ipv4 = True\<rparr>]\<rparr>"

lemma ex_edgePhase: "\<exists>ds ips. edgePhase exInputs exSchedule exMesh (db_devices exMesh, \<lambda>_. []) = Inr (ds, ips)"
  by (simp add: edgePhase_def exMesh_def exSchedule_def nodes_List_def rrs_List_def List.map_filter_simps exNodes_def
      exNodeInfo_def edgeStep_def Let_def rrLocalAddress_def)

section \<open>Witnesses of the properties of links\<close>

definition exOverride :: "uint32 BFDLinkParameters" where
  "exOverride = \<lparr>bfd_Enabled = None, bfd_MinEchoRx = None, bfd_MinRx = Some 50, bfd_MinTx = None,
     bfd_Multiplier = None, bfd_TTL = None\<rparr>"

lemma ex_BFD: "GetUnderlayBFDParameters exDesign = Some \<lparr>bfd_Enabled = None, bfd_MinEchoRx = Some 0,
    bfd_MinRx = Some 1, bfd_MinTx = Some 2, bfd_Multiplier = Some 3, bfd_TTL = Some 4\<rparr>"
  by (simp add: GetUnderlayBFDParameters_def Underlay_def exDesign_def)

theorem bfd_override_reaches_other_links_witness:
  "\<exists>p2. getBFDLinkParameters exDesign exLinkInfo ((\<lambda>_. 300)(1 := 50)) = Inr (p2, (\<lambda>_. 300)(1 := 50)) \<and>
     bfd_MinRx p2 = Some 1"
proof -
  have "getBFDLinkParameters exDesign (exLinkInfo\<lparr>lk_l := exLink\<lparr>il_BFD := Some exOverride\<rparr>\<rparr>) (\<lambda>_. 300) =
      Inr (\<lparr>bfd_Enabled = Some True, bfd_MinEchoRx = Some 0, bfd_MinRx = Some 1, bfd_MinTx = Some 2,
        bfd_Multiplier = Some 3, bfd_TTL = Some 4\<rparr>, (\<lambda>_. 300)(1 := 50))"
    by (simp add: getBFDLinkParameters_def ex_BFD exOverride_def)
  from bfd_override_reaches_other_links [OF ex_BFD _ _ _ _ this, of 1 exOverride 50 exLinkInfo]
  show ?thesis by (auto simp: exOverride_def)
qed

theorem bfd_override_without_design_parameters_witness:
  "getBFDLinkParameters (exDesign\<lparr>nd_Spec := (nd_Spec exDesign)\<lparr>nds_Interfaces := None\<rparr>\<rparr>)
     (exLinkInfo\<lparr>lk_l := exLink\<lparr>il_BFD := Some exOverride\<rparr>\<rparr>) (\<lambda>_. 0) = Inl nilDereference"
proof -
  have "GetUnderlayBFDParameters (exDesign\<lparr>nd_Spec := (nd_Spec exDesign)\<lparr>nds_Interfaces := None\<rparr>\<rparr>) = None"
    by (simp add: GetUnderlayBFDParameters_def Underlay_def)
  from bfd_override_without_design_parameters [OF this] show ?thesis by (simp add: exOverride_def)
qed

end
