(* ===== verification/Claims.thy ===== *)
theory Claims
  imports BuilderGather "HOL-Library.AList"
begin

text \<open>
  The claims a network design makes (\<open>networkdesign_interfaces.go\<close>): the pools of the design itself, and
  for a network the addresses and AS numbers of its nodes and links, which the device builder reads back
  under the same names.

  The constructors \<open>BuildIPClaim\<close>, \<open>BuildASClaim\<close>, \<open>BuildASIndex\<close> and \<open>BuildGENIDClaim\<close> belong to the
  backend: a record holds what the code passes to them. An owner reference is represented by the object it
  is taken of.
\<close>

section \<open>Claims\<close>

datatype IPPrefixType = IPPrefixType_Pool | IPPrefixType_Network

datatype IPAddressFamily = AddressFamilyIpv4 | AddressFamilyIpv6

datatype owner = DesignOwner NamespacedName | NetworkOwner NamespacedName | NodeOwner NamespacedName

record IPClaim =
  ipcl_Key :: NamespacedName
  ipcl_Index :: string
  ipcl_PrefixType :: "IPPrefixType option"
  ipcl_AddressFamily :: "IPAddressFamily option"
  ipcl_CreatePrefix :: "bool option"
  ipcl_PrefixLength :: "uint32 option"
  ipcl_Owner :: owner
  ipcl_MatchLabels :: "(string \<times> string) list"

record ASClaim =
  ascl_Key :: NamespacedName
  ascl_Index :: string
  ascl_ID :: "uint32 option"
  ascl_Range :: "string option"
  ascl_Owner :: owner
  ascl_MatchLabels :: "(string \<times> string) list"

record GENIDClaim =
  gic_Key :: NamespacedName
  gic_Index :: string
  gic_Owner :: owner

text \<open>The label keys of the backend, the node of a node name, and the claim of a prefix.\<close>

record claim_env =
  cle_KuidINVPurpose :: string
  cle_KuidIPAMddressFamilyKey :: string
  cle_KuidIPAMIPPrefixTypeKey :: string
  cle_KuidClaimNameKey :: string
  cle_IPPrefixType :: "IPPrefixType \<Rightarrow> string"
  cle_NodeOf :: "string \<Rightarrow> string"  \<comment> \<open>\<open>String2NodeGroupNodeID(name).Node\<close>\<close>
  cle_GetIPClaimFromPrefix :: "NetworkDesign \<Rightarrow> Prefix \<Rightarrow> IPClaim"

section \<open>The pools of a design\<close>

definition InterfaceKindLoopback :: string where "InterfaceKindLoopback = ''loopback''"
definition InterfaceKindUnderlay :: string where "InterfaceKindUnderlay = ''underlay''"

definition designKey :: "NetworkDesign \<Rightarrow> string \<Rightarrow> NamespacedName" where
  "designKey r n = \<lparr>nsn_Namespace = nd_Namespace r, nsn_Name = n\<rparr>"

definition designOwner :: "NetworkDesign \<Rightarrow> owner" where
  "designOwner r = DesignOwner (designKey r (nd_Name r))"

text \<open>
  The loop variable is a copy of the prefix, but a Go map is a reference: labels written to a non-empty
  map are written to the design. The result is the prefix of the claim and the prefix left in the design.
\<close>

definition labelPrefix :: "claim_env \<Rightarrow> string \<Rightarrow> string \<Rightarrow> Prefix \<Rightarrow> Prefix \<times> Prefix" where
  "labelPrefix e purpose prefixType p =
     (let labelled = p\<lparr>pfx_Labels := AList.update (cle_KuidIPAMIPPrefixTypeKey e) prefixType
                         (AList.update (cle_KuidINVPurpose e) purpose (pfx_Labels p))\<rparr>
      in (labelled, if pfx_Labels p = [] then p else labelled))"

definition prefixClaims ::
  "claim_env \<Rightarrow> NetworkDesign \<Rightarrow> string \<Rightarrow> string \<Rightarrow> Prefix list \<Rightarrow> IPClaim list \<times> Prefix list" where
  "prefixClaims e r purpose prefixType ps =
     (map (\<lambda>p. cle_GetIPClaimFromPrefix e r (fst (labelPrefix e purpose prefixType p))) ps,
      map (\<lambda>p. snd (labelPrefix e purpose prefixType p)) ps)"

definition loopbackClaims :: "claim_env \<Rightarrow> NetworkDesign \<Rightarrow> IPClaim list \<times> NetworkDesign" where
  "loopbackClaims e r = (case Loopback r of
      None \<Rightarrow> ([], r)
    | Some l \<Rightarrow>
        (case prefixClaims e r InterfaceKindLoopback (cle_IPPrefixType e IPPrefixType_Pool) (ndip_Prefixes l) of (claims, ps) \<Rightarrow>
          (claims, r\<lparr>nd_Spec := (nd_Spec r)\<lparr>nds_Interfaces :=
             map_option (ndi_Loopback_update (map_option (ndip_Prefixes_update (\<lambda>_. ps))))
               (nds_Interfaces (nd_Spec r))\<rparr>\<rparr>)))"

definition underlayClaims :: "claim_env \<Rightarrow> NetworkDesign \<Rightarrow> IPClaim list \<times> NetworkDesign" where
  "underlayClaims e r = (case Underlay r of
      None \<Rightarrow> ([], r)
    | Some u \<Rightarrow>
        (case prefixClaims e r InterfaceKindUnderlay (cle_IPPrefixType e IPPrefixType_Network) (ndip_Prefixes u) of (claims, ps) \<Rightarrow>
          (claims, r\<lparr>nd_Spec := (nd_Spec r)\<lparr>nds_Interfaces :=
             map_option (ndi_Underlay_update (map_option (ndip_Prefixes_update (\<lambda>_. ps))))
               (nds_Interfaces (nd_Spec r))\<rparr>\<rparr>)))"

definition GetIPClaims :: "claim_env \<Rightarrow> NetworkDesign \<Rightarrow> IPClaim list \<times> NetworkDesign" where
  "GetIPClaims e r =
     (case loopbackClaims e r of (claims1, r1) \<Rightarrow>
      case underlayClaims e r1 of (claims2, r2) \<Rightarrow> (claims1 @ claims2, r2))"

definition GetASIndex :: "NetworkDesign \<Rightarrow> NamespacedName" where
  "GetASIndex r = designKey r (nd_Name r)"

definition GetGENIDClaim :: "NetworkDesign \<Rightarrow> GENIDClaim" where
  "GetGENIDClaim r = \<lparr>gic_Key = designKey r (dot ''network'' (nd_Name r)),
     gic_Index = dot ''network'' (nds_Topology (nd_Spec r)), gic_Owner = designOwner r\<rparr>"

definition GetASClaims :: "NetworkDesign \<Rightarrow> ASClaim list" where
  "GetASClaims r =
     (case Option.bind (IBGP r) ndib_AS of
        None \<Rightarrow> []
      | Some as \<Rightarrow> [\<lparr>ascl_Key = designKey r (dot (nd_Name r) ''ibgp''), ascl_Index = nd_Name r,
          ascl_ID = Some as, ascl_Range = None, ascl_Owner = designOwner r, ascl_MatchLabels = []\<rparr>]) @
     (case Option.bind (EBGP r) ndeb_ASPool of
        None \<Rightarrow> []
      | Some pool \<Rightarrow> [\<lparr>ascl_Key = designKey r (dot (nd_Name r) ''aspool''), ascl_Index = nd_Name r,
          ascl_ID = None, ascl_Range = Some pool, ascl_Owner = designOwner r, ascl_MatchLabels = []\<rparr>])"

section \<open>The claims of a node\<close>

definition networkKey :: "Network \<Rightarrow> string \<Rightarrow> NamespacedName" where
  "networkKey cr n = \<lparr>nsn_Namespace = net_Namespace cr, nsn_Name = n\<rparr>"

definition networkOwner :: "Network \<Rightarrow> owner" where
  "networkOwner cr = NetworkOwner (networkKey cr (net_Name cr))"

definition loopbackLabels :: "claim_env \<Rightarrow> string \<Rightarrow> (string \<times> string) list" where
  "loopbackLabels e af = [(cle_KuidINVPurpose e, ''loopback''), (cle_KuidIPAMddressFamilyKey e, af)]"

definition poolClaim ::
  "claim_env \<Rightarrow> Network \<Rightarrow> NamespacedName \<Rightarrow> owner \<Rightarrow> string \<Rightarrow> IPClaim" where
  "poolClaim e cr k own af = \<lparr>ipcl_Key = k, ipcl_Index = net_Name cr,
     ipcl_PrefixType = Some IPPrefixType_Pool, ipcl_AddressFamily = None, ipcl_CreatePrefix = None,
     ipcl_PrefixLength = None, ipcl_Owner = own, ipcl_MatchLabels = loopbackLabels e af\<rparr>"

text \<open>
  The claim of the IPv6 loopback is put in the namespace of the node and owned by the node; the others are
  in the namespace of the network and owned by it.
\<close>

definition GetNodeIPClaims :: "claim_env \<Rightarrow> NetworkDesign \<Rightarrow> Network \<Rightarrow> InfraNode \<Rightarrow> IPClaim list" where
  "GetNodeIPClaims e r cr ob =
     (let node = cle_NodeOf e (in_Name ob);
          name = (\<lambda>suffix. dot (dot (net_Name cr) node) suffix);
          v4 = (if IsLoopbackIPv4Enabled r
                then [poolClaim e cr (networkKey cr (name ''ipv4'')) (networkOwner cr) ''ipv4'']
                else [poolClaim e cr (networkKey cr (name ''routerid'')) (networkOwner cr) ''ipv4'']);
          v6 = (if IsLoopbackIPv6Enabled r
                then [poolClaim e cr \<lparr>nsn_Namespace = in_Namespace ob, nsn_Name = name ''ipv6''\<rparr>
                        (NodeOwner \<lparr>nsn_Namespace = in_Namespace ob, nsn_Name = in_Name ob\<rparr>) ''ipv6'']
                else [])
      in v4 @ v6)"

definition GetNodeASClaim :: "claim_env \<Rightarrow> NetworkDesign \<Rightarrow> Network \<Rightarrow> InfraNode \<Rightarrow> ASClaim option" where
  "GetNodeASClaim e r cr ob =
     (case Option.bind (EBGP r) ndeb_ASPool of
        None \<Rightarrow> None
      | Some _ \<Rightarrow> Some \<lparr>ascl_Key = designKey r (dot (net_Name cr) (cle_NodeOf e (in_Name ob))),
          ascl_Index = net_Name cr, ascl_ID = None, ascl_Range = None, ascl_Owner = designOwner r,
          ascl_MatchLabels = [(cle_KuidClaimNameKey e, dot (net_Name cr) ''aspool'')]\<rparr>)"

section \<open>The claims of a link\<close>

definition endNode :: "NodeGroupEndpointID \<Rightarrow> string" where
  "endNode ep = nid_Node (epid_NodeID (ngep_EndpointID ep))"

definition endEndpoint :: "NodeGroupEndpointID \<Rightarrow> string" where
  "endEndpoint ep = epid_Endpoint (ngep_EndpointID ep)"

text \<open>The name of the network is written with the first endpoint, so a link without endpoints has no name.\<close>

definition getReducedLinkName :: "Network \<Rightarrow> InfraLink \<Rightarrow> string" where
  "getReducedLinkName cr l =
     (if il_Endpoints l = [] then '''' else net_Name cr) @
     concat (map (\<lambda>ep. ''.'' @ endNode ep @ ''.'' @ endEndpoint ep) (il_Endpoints l))"

text \<open>The prefix of the link and the address of each end, in one address family.\<close>

definition linkFamilyClaims ::
  "claim_env \<Rightarrow> Network \<Rightarrow> InfraLink \<Rightarrow> string \<Rightarrow> IPAddressFamily \<Rightarrow> uint32 \<Rightarrow> IPClaim list" where
  "linkFamilyClaims e cr l af family plen =
     (let ipClaimLinkName = dot (getReducedLinkName cr l) af
      in \<lparr>ipcl_Key = networkKey cr ipClaimLinkName, ipcl_Index = net_Name cr,
          ipcl_PrefixType = Some IPPrefixType_Network, ipcl_AddressFamily = Some family,
          ipcl_CreatePrefix = Some True, ipcl_PrefixLength = Some plen, ipcl_Owner = networkOwner cr,
          ipcl_MatchLabels = [(cle_KuidINVPurpose e, InterfaceKindUnderlay), (cle_KuidIPAMddressFamilyKey e, af)]\<rparr> #
         map (\<lambda>ep. \<lparr>ipcl_Key = networkKey cr (dot (dot (dot (net_Name cr) (endNode ep)) (endEndpoint ep)) af),
           ipcl_Index = net_Name cr, ipcl_PrefixType = Some IPPrefixType_Network, ipcl_AddressFamily = None,
           ipcl_CreatePrefix = None, ipcl_PrefixLength = None, ipcl_Owner = networkOwner cr,
           ipcl_MatchLabels = [(cle_KuidClaimNameKey e, ipClaimLinkName), (cle_KuidIPAMddressFamilyKey e, af)]\<rparr>)
           (il_Endpoints l))"

definition GetLinkIPClaims :: "claim_env \<Rightarrow> NetworkDesign \<Rightarrow> Network \<Rightarrow> InfraLink \<Rightarrow> IPClaim list" where
  "GetLinkIPClaims e r cr l =
     (if IsUnderlayIPv4Numbered r then linkFamilyClaims e cr l ''ipv4'' AddressFamilyIpv4 31 else []) @
     (if IsUnderlayIPv6Numbered r then linkFamilyClaims e cr l ''ipv6'' AddressFamilyIpv6 127 else [])"

end
