(* ===== verification/Reconcile.thy ===== *)
theory Reconcile
  imports Prelude
begin

text \<open>
  What the controllers have in common (\<open>pkg/reconcilers\<close>): one call of \<open>Reconcile\<close> reads a resource,
  calls the API server, and returns a result and an error.

  The client, the finalizer helper and the resource inventory are packages outside the program. One call of
  \<open>Reconcile\<close> meets them as the record \<open>api\<close> of their answers, a parameter of every controller. The outcome
  of the call is the record \<open>outcome\<close>: the calls that change the cluster, in their order, and what is
  returned. The outcomes of several calls compose by replaying their status updates.
\<close>

section \<open>The parameters\<close>

datatype 'cr got = Got 'cr | NotFound | GetFailed string

datatype Kind = IPClaimKind | ASClaimKind | ASIndexKind | GENIDClaimKind | GENIDIndexKind | NodeKind | LinkKind
  | EndpointKind | ConfigKind | NetworkDeviceKind | NetworkKind | NetworkDesignKind | TopologyKind | PackageRevisionKind

text \<open>
  \<open>APIApply\<close> and \<open>APIDelete\<close> take the kinds the inventory owns; an answer \<open>Some e\<close> is the error \<open>e\<close>. The
  finalizer calls may rewrite the object they are given.
\<close>

record ('cr, 'o) api =
  api_Get :: "'cr got"
  api_AddFinalizer :: "'cr \<Rightarrow> 'cr \<times> string option"
  api_RemoveFinalizer :: "'cr \<Rightarrow> 'cr \<times> string option"
  api_APIApply :: "Kind list \<Rightarrow> 'o list \<Rightarrow> 'cr \<Rightarrow> string option"
  api_APIDelete :: "Kind list \<Rightarrow> 'cr \<Rightarrow> string option"
  api_StatusUpdate :: "'cr \<Rightarrow> string option"

section \<open>Outcomes\<close>

text \<open>A \<open>time.Duration\<close> counts nanoseconds.\<close>

definition time_Second :: int where "time_Second = 1000000000"

record Result =
  res_Requeue :: bool
  res_RequeueAfter :: int

definition noResult :: Result where "noResult = \<lparr>res_Requeue = False, res_RequeueAfter = 0\<rparr>"
definition requeue :: Result where "requeue = \<lparr>res_Requeue = True, res_RequeueAfter = 0\<rparr>"
definition requeueAfter2s :: Result where
  "requeueAfter2s = \<lparr>res_Requeue = False, res_RequeueAfter = 2 * time_Second\<rparr>"

datatype EventType = EventTypeNormal | EventTypeWarning

text \<open>The calls, each with the error it returned.\<close>

datatype ('cr, 'o) action =
    AddFinalizer string "string option"
  | RemoveFinalizer string "string option"
  | APIApply "Kind list" "'o list" "string option"
  | APIDelete "Kind list" "string option"
  | Event EventType string string  \<comment> \<open>type, reason and message format\<close>
  | StatusUpdate 'cr "string option"

text \<open>\<open>perrors.Wrap(err, msg)\<close>, which is nil for a nil error, as the message and the wrapped error.\<close>

type_synonym wrapped = "(string \<times> string) option"

definition Wrap :: "string option \<Rightarrow> string \<Rightarrow> wrapped" where
  "Wrap err msg = map_option (Pair msg) err"

record ('cr, 'o) outcome =
  out_Actions :: "('cr, 'o) action list"
  out_Result :: Result
  out_Error :: wrapped
  out_Panic :: "string option"  \<comment> \<open>the call did not return\<close>

definition finish :: "Result \<Rightarrow> wrapped \<Rightarrow> ('cr, 'o) outcome" where
  "finish r e = \<lparr>out_Actions = [], out_Result = r, out_Error = e, out_Panic = None\<rparr>"

definition panics :: "string \<Rightarrow> ('cr, 'o) outcome" where
  "panics msg = (finish noResult None)\<lparr>out_Panic := Some msg\<rparr>"

definition does :: "('cr, 'o) action list \<Rightarrow> ('cr, 'o) outcome \<Rightarrow> ('cr, 'o) outcome" where
  "does as out = out\<lparr>out_Actions := as @ out_Actions out\<rparr>"

definition errGetCr :: string where "errGetCr = ''cannot get cr''"
definition errUpdateStatus :: string where "errUpdateStatus = ''cannot update status''"

text \<open>\<open>return result, perrors.Wrap(r.Client.Status().Update(ctx, cr), errUpdateStatus)\<close>\<close>

definition updateStatus :: "('cr, 'o) api \<Rightarrow> 'cr \<Rightarrow> Result \<Rightarrow> ('cr, 'o) outcome" where
  "updateStatus a cr r = does [StatusUpdate cr (api_StatusUpdate a cr)] (finish r (Wrap (api_StatusUpdate a cr) errUpdateStatus))"

lemma outcome_fields [simp]:
  "out_Actions (finish r e) = []" "out_Result (finish r e) = r" "out_Error (finish r e) = e"
  "out_Actions (does as out) = as @ out_Actions out" "out_Result (does as out) = out_Result out"
  "out_Error (does as out) = out_Error out" "out_Panic (finish r e) = None"
  "out_Panic (does as out) = out_Panic out" "out_Actions (panics m) = []" "out_Panic (panics m) = Some m"
  "out_Actions (updateStatus a cr r) = [StatusUpdate cr (api_StatusUpdate a cr)]" "out_Result (updateStatus a cr r) = r"
  "out_Error (updateStatus a cr r) = Wrap (api_StatusUpdate a cr) errUpdateStatus"
  "out_Panic (updateStatus a cr r) = None"
  by (simp_all add: finish_def does_def updateStatus_def panics_def)

lemma results_distinct [simp]: "requeue \<noteq> noResult" "requeueAfter2s \<noteq> noResult" "noResult \<noteq> requeue"
  "noResult \<noteq> requeueAfter2s"
  by (simp_all add: noResult_def requeue_def requeueAfter2s_def time_Second_def)

lemma Wrap_simps [simp]: "Wrap None m = None" "Wrap (Some e) m = Some (m, e)"
  by (simp_all add: Wrap_def)

section \<open>What a call did\<close>

text \<open>The statuses that were written.\<close>

fun statuses :: "('cr, 'o) action list \<Rightarrow> 'cr list" where
  "statuses [] = []"
| "statuses (StatusUpdate cr err # as) = (if err = None then [cr] else []) @ statuses as"
| "statuses (_ # as) = statuses as"

lemma statuses_append [simp]: "statuses (as @ bs) = statuses as @ statuses bs"
proof (induction as)
  case (Cons a as) then show ?case by (cases a) simp_all
qed simp

text \<open>
  The discipline of a finalizer: nothing is applied before the finalizer is on the object, it is taken off
  only after the resources of the object were deleted, and a call does not both put it on and take it off.
  The two flags say which of the calls has succeeded so far.
\<close>

fun guarded :: "bool \<Rightarrow> bool \<Rightarrow> ('cr, 'o) action list \<Rightarrow> bool" where
  "guarded added deleted [] = True"
| "guarded added deleted (AddFinalizer _ err # as) = guarded (added \<or> err = None) deleted as"
| "guarded added deleted (APIDelete _ err # as) = guarded added (deleted \<or> err = None) as"
| "guarded added deleted (APIApply _ _ _ # as) = (added \<and> guarded added deleted as)"
| "guarded added deleted (RemoveFinalizer _ _ # as) = (deleted \<and> \<not> added \<and> guarded added deleted as)"
| "guarded added deleted (Event _ _ _ # as) = guarded added deleted as"
| "guarded added deleted (StatusUpdate _ _ # as) = guarded added deleted as"

lemma guarded_removal:
  "guarded added deleted as \<Longrightarrow> RemoveFinalizer f e \<in> set as \<Longrightarrow>
     \<not> added \<and> (deleted \<or> (\<exists>ks. APIDelete ks None \<in> set as))"
  by (induction added deleted as rule: guarded.induct) auto

lemma guarded_apply:
  "guarded added deleted as \<Longrightarrow> APIApply ks os e \<in> set as \<Longrightarrow> added \<or> (\<exists>f. AddFinalizer f None \<in> set as)"
  by (induction added deleted as rule: guarded.induct) auto

text \<open>\<open>resource.IgnoreNotFound\<close> turns a missing object into success (every controller opens this way).\<close>

definition readCr :: "('cr, 'o) api \<Rightarrow> ('cr \<Rightarrow> ('cr, 'o) outcome) \<Rightarrow> ('cr, 'o) outcome" where
  "readCr a f = (case api_Get a of
      NotFound \<Rightarrow> finish noResult None
    | GetFailed e \<Rightarrow> finish noResult (Wrap (Some e) errGetCr)
    | Got cr \<Rightarrow> f cr)"

lemma readCr_simps [simp]:
  "api_Get a = NotFound \<Longrightarrow> readCr a f = finish noResult None"
  "api_Get a = GetFailed e \<Longrightarrow> readCr a f = finish noResult (Some (errGetCr, e))"
  "api_Get a = Got cr \<Longrightarrow> readCr a f = f cr"
  by (simp_all add: readCr_def)

text \<open>\<open>errors.Join(errm, err)\<close>: a nil error is left out, the others print on lines of their own.\<close>

definition errors_Join :: "string option \<Rightarrow> string \<Rightarrow> string option" where
  "errors_Join errm err = Some (case errm of None \<Rightarrow> err | Some m \<Rightarrow> m @ CHR 0x0A # err)"

lemma errors_Join_not_None [simp]: "errors_Join m e \<noteq> None"
  by (simp add: errors_Join_def)

section \<open>The shape of a controller\<close>

text \<open>
  \<open>handleError\<close> gives the object with its failed condition and the event; \<open>failed\<close> is what follows it at
  every return but two: the status is written and the result returned.
\<close>

definition failed :: "('cr, 'o) api \<Rightarrow> 'cr \<times> ('cr, 'o) action \<Rightarrow> Result \<Rightarrow> ('cr, 'o) outcome" where
  "failed a h r = does [snd h] (updateStatus a (fst h) r)"

lemma failed_fields [simp]:
  "out_Actions (failed a h r) = [snd h, StatusUpdate (fst h) (api_StatusUpdate a (fst h))]"
  "out_Result (failed a h r) = r"
  "out_Error (failed a h r) = Wrap (api_StatusUpdate a (fst h)) errUpdateStatus" "out_Panic (failed a h r) = None"
  by (simp_all add: failed_def)

text \<open>\<open>delete\<close> of a controller: all that an inventory of these kinds holds for the object.\<close>

definition deleteOwned :: "('cr, 'o) api \<Rightarrow> Kind list \<Rightarrow> 'cr \<Rightarrow> ('cr, 'o) action list \<times> string option" where
  "deleteOwned a kinds cr = (let err = api_APIDelete a kinds cr in ([APIDelete kinds err], err))"

lemma deleteOwned_eq [simp]: "deleteOwned a kinds cr = ([APIDelete kinds (api_APIDelete a kinds cr)], api_APIDelete a kinds cr)"
  by (simp add: deleteOwned_def Let_def)

text \<open>The branch of an object that is being deleted, the same in every controller that has a finalizer.\<close>

definition reconcileDelete ::
  "('cr, 'o) api \<Rightarrow> ('cr \<Rightarrow> ('cr, 'o) action list \<times> string option) \<Rightarrow> string \<Rightarrow>
   ('cr \<Rightarrow> string \<Rightarrow> string option \<Rightarrow> 'cr \<times> ('cr, 'o) action) \<Rightarrow> 'cr \<Rightarrow> ('cr, 'o) outcome" where
  "reconcileDelete a delete finalizer handleError cr =
     (case delete cr of (as, err) \<Rightarrow>
      does as
       (if err \<noteq> None then failed a (handleError cr ''canot delete resources'' err) requeue
        else case api_RemoveFinalizer a cr of (cr1, err1) \<Rightarrow>
          does [RemoveFinalizer finalizer err1]
           (if err1 \<noteq> None then failed a (handleError cr1 ''cannot remove finalizer'' err1) requeue
            else finish noResult None)))"

text \<open>The events a controller records; the condition of a failure is its message, or the error's.\<close>

definition failureMessage :: "string \<Rightarrow> string option \<Rightarrow> string" where
  "failureMessage msg err = (case err of None \<Rightarrow> msg | Some e \<Rightarrow> e)"

definition warning :: "string \<Rightarrow> string \<Rightarrow> string option \<Rightarrow> ('cr, 'o) action" where
  "warning reason msg err = Event EventTypeWarning reason
     (case err of None \<Rightarrow> msg | Some e \<Rightarrow> msg @ '', err: '' @ e)"

lemma guarded_warning [simp]: "guarded x y (warning r m e # as) = guarded x y as"
  by (simp add: warning_def)

lemma warning_other [simp]: "StatusUpdate x y \<noteq> warning r m e" "APIApply ks os err \<noteq> warning r m e"
  "APIDelete ks err \<noteq> warning r m e" "AddFinalizer f err \<noteq> warning r m e" "RemoveFinalizer f err \<noteq> warning r m e"
  by (simp_all add: warning_def)

lemma statuses_warning [simp]: "statuses (warning r m e # as) = statuses as"
  by (simp add: warning_def)

text \<open>The contract the controllers share: the discipline of the finalizer.\<close>

locale finalized =
  fixes reconcile :: "'env \<Rightarrow> ('cr, 'o) outcome"
  assumes disciplined: "guarded False False (out_Actions (reconcile a))"
begin

lemma removal_after_delete:
  assumes "RemoveFinalizer f e \<in> set (out_Actions (reconcile a))"
  shows "\<exists>ks. APIDelete ks None \<in> set (out_Actions (reconcile a))"
  using guarded_removal [OF disciplined assms] by blast

lemma applies_with_finalizer:
  assumes "APIApply ks os e \<in> set (out_Actions (reconcile a))"
  shows "\<exists>f. AddFinalizer f None \<in> set (out_Actions (reconcile a))"
  using guarded_apply [OF disciplined assms] by simp

end

text \<open>
  Most own a set of kinds: they apply no others, and delete all of them before the finalizer goes.
\<close>

locale controller = finalized +
  fixes owned :: "Kind set"
  assumes applies_owned: "APIApply ks os e \<in> set (out_Actions (reconcile a)) \<Longrightarrow> set ks \<subseteq> owned"
    and deletes_owned: "APIDelete ks e \<in> set (out_Actions (reconcile a)) \<Longrightarrow> owned \<subseteq> set ks"
begin

text \<open>Whatever one call applied, a later call that gives up the finalizer has deleted.\<close>

lemma applied_is_deleted:
  assumes "APIApply ks os e \<in> set (out_Actions (reconcile a))"
    and "RemoveFinalizer f e' \<in> set (out_Actions (reconcile b))"
  shows "\<exists>ks'. APIDelete ks' None \<in> set (out_Actions (reconcile b)) \<and> set ks \<subseteq> set ks'"
proof -
  obtain ks' where d: "APIDelete ks' None \<in> set (out_Actions (reconcile b))"
    using removal_after_delete [OF assms(2)] by blast
  have "set ks \<subseteq> set ks'" using applies_owned [OF assms(1)] deletes_owned [OF d] by (rule subset_trans)
  with d show ?thesis by blast
qed

end

end
