(* ===== verification/NetworkParams.thy ===== *)
theory NetworkParams
  imports Claims Reconcile
begin

text \<open>
  The network parameters controller (\<open>reconcilers/networkparams/reconciler.go\<close>): it claims the addresses
  and AS numbers of the default network, and reports on the condition of the parameters.

  Every claim that the device builder later reads is one this controller has made; the theorem \<open>claims_cover_builder_reads\<close>
  states it of the composition of the two, and \<open>ebgp_needs_as_pool\<close> the case in which the claim is missing.
\<close>

section \<open>What the controller reads\<close>

datatype claimRes = IPClaimRes IPClaim | ASClaimRes ASClaim

record params_env =
  pe_api :: "(Network, claimRes) api"
  pe_conditions :: conditions
  pe_claims :: claim_env
  pe_client :: client
  pe_env :: env
  pe_design :: "NamespacedName \<Rightarrow> string + NetworkDesign"

definition params_finalizer :: string where
  "params_finalizer = ''networkparams.network.app.kuid.dev/finalizer''"

definition params_condition :: string where
  "params_condition = dot ConditionTypeNetworkParamReady ''network''"

definition params_kinds :: "Kind list" where
  "params_kinds = [IPClaimKind, ASClaimKind]"

text \<open>The design of the default network of the topology (\<open>DefaultNetwork\<close>).\<close>

definition designKeyOf :: "Network \<Rightarrow> NamespacedName" where
  "designKeyOf cr = \<lparr>nsn_Namespace = net_Namespace cr, nsn_Name = dot (ns_Topology (net_Spec cr)) DefaultNetwork\<rparr>"

definition params_GetNodes :: "params_env \<Rightarrow> Network \<Rightarrow> string + InfraNode list" where
  "params_GetNodes p cr = (case cl_ListNodes (pe_client p) (net_Namespace cr) of
      Inl e \<Rightarrow> Inl e
    | Inr items \<Rightarrow> Inr (filter (\<lambda>n. ns_Topology (net_Spec cr) = in_NodeGroup n) items))"

definition params_GetLinks :: "params_env \<Rightarrow> Network \<Rightarrow> string + InfraLink list" where
  "params_GetLinks p cr = (case cl_ListLinks (pe_client p) (net_Namespace cr) of
      Inl e \<Rightarrow> Inl e
    | Inr items \<Rightarrow> Inr (filter (\<lambda>l. case il_Labels l (env_KuidINVLinkTypeKey (pe_env p)) of
         None \<Rightarrow> False
       | Some linkType \<Rightarrow> linkType = ''infra'') items))"

section \<open>The resources of a default network\<close>

definition nodeResources :: "claim_env \<Rightarrow> NetworkDesign \<Rightarrow> Network \<Rightarrow> InfraNode \<Rightarrow> claimRes list" where
  "nodeResources e nd cr n = map IPClaimRes (GetNodeIPClaims e nd cr n) @
     (case GetNodeASClaim e nd cr n of None \<Rightarrow> [] | Some asClaim \<Rightarrow> [ASClaimRes asClaim])"

definition linkResources :: "claim_env \<Rightarrow> NetworkDesign \<Rightarrow> Network \<Rightarrow> InfraLink \<Rightarrow> claimRes list" where
  "linkResources e nd cr l = map IPClaimRes (GetLinkIPClaims e nd cr l)"

definition defaultNetworkResources ::
  "claim_env \<Rightarrow> NetworkDesign \<Rightarrow> Network \<Rightarrow> InfraNode list \<Rightarrow> InfraLink list \<Rightarrow> claimRes list" where
  "defaultNetworkResources e nd cr nodes links =
     concat (map (nodeResources e nd cr) nodes) @ concat (map (linkResources e nd cr) links)"

definition applyDefaultNetwork ::
  "params_env \<Rightarrow> Network \<Rightarrow> NetworkDesign \<Rightarrow> (Network, claimRes) action list \<times> string option" where
  "applyDefaultNetwork p cr nd =
     (case params_GetNodes p cr of Inl e \<Rightarrow> ([], Some e) | Inr nodes \<Rightarrow>
     (case params_GetLinks p cr of Inl e \<Rightarrow> ([], Some e) | Inr links \<Rightarrow>
       let objs = defaultNetworkResources (pe_claims p) nd cr nodes links;
           err = api_APIApply (pe_api p) params_kinds objs cr
       in ([APIApply params_kinds objs err], err)))"

definition applyNetwork ::
  "params_env \<Rightarrow> Network \<Rightarrow> NetworkDesign \<Rightarrow> (Network, claimRes) action list \<times> string option" where
  "applyNetwork p cr nd = ([], None)"

section \<open>The controller\<close>

definition params_handleError ::
  "conditions \<Rightarrow> Network \<Rightarrow> string \<Rightarrow> string option \<Rightarrow> Network \<times> (Network, claimRes) action" where
  "params_handleError cs cr msg err =
     (SetConditions cs [NetworkParamFailed (failureMessage msg err)] cr, warning params_condition msg err)"

definition params_delete :: "params_env \<Rightarrow> Network \<Rightarrow> (Network, claimRes) action list \<times> string option" where
  "params_delete p cr = deleteOwned (pe_api p) params_kinds cr"

definition params_getNetworkDesign :: "params_env \<Rightarrow> NamespacedName \<Rightarrow> string + NetworkDesign" where
  "params_getNetworkDesign p nsn = (case pe_design p nsn of Inl err \<Rightarrow> Inl err | Inr design \<Rightarrow> Inr design)"

lemma params_getNetworkDesign_eq [simp]: "params_getNetworkDesign p = pe_design p"
  by (simp add: params_getNetworkDesign_def fun_eq_iff split: sum.splits)

declare params_delete_def [simp]

text \<open>
  A missing design is recorded in the object in hand, which is dropped: this return does not write the
  status (\<open>reconciler.go:170-173\<close>).
\<close>

definition params_Reconcile :: "params_env \<Rightarrow> (Network, claimRes) outcome" where
  "params_Reconcile p =
     (let a = pe_api p; cs = pe_conditions p; handleError = params_handleError cs in
      readCr a (\<lambda>cr.
        if net_Deleting cr then reconcileDelete a (params_delete p) params_finalizer handleError cr
        else if cond_Status (GetCondition cr ConditionTypeNetworkParamReady) = ConditionTrue
        then finish noResult None
        else case api_AddFinalizer a cr of (cr1, err1) \<Rightarrow>
          does [AddFinalizer params_finalizer err1]
           (if err1 \<noteq> None then failed a (handleError cr1 ''cannot add finalizer'' err1) requeue
            else case params_getNetworkDesign p (designKeyOf cr1) of
              Inl _ \<Rightarrow>
                does [snd (handleError cr1 ''cannot reconcile a network without a default network design'' None)]
                  (finish requeue None)
            | Inr nd \<Rightarrow>
                case (if IsDefaultNetwork cr1 then applyDefaultNetwork p cr1 nd else applyNetwork p cr1 nd) of
                  (as, err) \<Rightarrow>
                    does as
                     (if err \<noteq> None then failed a (handleError cr1 ''cannot apply resource'' err) requeueAfter2s
                      else does [Event EventTypeNormal params_condition ''ready'']
                        (updateStatus a (SetConditions cs [NetworkParamReady] cr1) noResult)))))"

lemma applyDefaultNetwork_acts:
  assumes "applyDefaultNetwork p cr nd = (as, err)"
  shows "guarded True deleted (as @ bs) = guarded True deleted bs"
    and "APIApply ks os e \<in> set as \<Longrightarrow> ks = params_kinds" and "APIDelete ks e \<notin> set as"
  using assms by (auto simp: applyDefaultNetwork_def Let_def split: sum.splits)

lemmas reconcile_splits = got.splits prod.splits sum.splits option.splits if_splits

interpretation params: controller params_Reconcile "set params_kinds"
proof
  fix p ks os e
  note defs = params_Reconcile_def readCr_def reconcileDelete_def params_handleError_def applyNetwork_def Let_def
  show "guarded False False (out_Actions (params_Reconcile p))"
    by (auto simp: defs applyDefaultNetwork_acts split: reconcile_splits)
  show "APIApply ks os e \<in> set (out_Actions (params_Reconcile p)) \<Longrightarrow> set ks \<subseteq> set params_kinds"
    by (auto simp: defs warning_def dest: applyDefaultNetwork_acts(2) split: reconcile_splits)
  show "APIDelete ks e \<in> set (out_Actions (params_Reconcile p)) \<Longrightarrow> set params_kinds \<subseteq> set ks"
    by (auto simp: defs warning_def dest: applyDefaultNetwork_acts(3) split: reconcile_splits)
qed

section \<open>The claims and the device builder\<close>

text \<open>The allocators have answered every claim: it is ready, and an address that was allocated parses.\<close>

definition claims_answered :: "client \<Rightarrow> env \<Rightarrow> claimRes list \<Rightarrow> bool" where
  "claims_answered cl e objs \<longleftrightarrow>
     (\<forall>c. IPClaimRes c \<in> set objs \<longrightarrow> (\<exists>st addr. cl_GetIPClaim cl (ipcl_Key c) = Inr st \<and>
        ipc_Ready st \<noteq> ConditionFalse \<and> ipc_Address st = Some addr \<and> env_iputil_New e addr \<noteq> None)) \<and>
     (\<forall>c. ASClaimRes c \<in> set objs \<longrightarrow> (\<exists>st i. cl_GetASClaim cl (ascl_Key c) = Inr st \<and>
        asc_Ready st \<noteq> ConditionFalse \<and> asc_ID st = Some i))"

text \<open>The node of an endpoint is in the inventory, among the nodes of the topology, and has a system id.\<close>

definition node_known :: "claim_env \<Rightarrow> inputs \<Rightarrow> InfraNode list \<Rightarrow> NodeID \<Rightarrow> bool" where
  "node_known ce inp nodes nodeID \<longleftrightarrow> (\<exists>n \<in> set nodes.
     cl_GetNode (inp_client inp) (key inp (dot (topologyOf inp) (env_NodeID_KuidString (inp_env inp) nodeID))) = Inr n \<and>
     cle_NodeOf ce (in_Name n) = nid_Node nodeID \<and> in_SystemID n \<noteq> None \<and>
     in_Namespace n = net_Namespace (inp_network inp))"

definition design_usable :: "NetworkDesign \<Rightarrow> Network \<Rightarrow> bool" where
  "design_usable nd cr \<longleftrightarrow> nd_Namespace nd = net_Namespace cr \<and>
     (IsEBGPEnabled nd \<longrightarrow> Option.bind (EBGP nd) ndeb_ASPool \<noteq> None)"

lemma getIPClaim_answered:
  assumes "claims_answered (inp_client inp) (inp_env inp) objs" and "IPClaimRes c \<in> set objs" and "ipcl_Key c = k"
  shows "\<exists>addr. getIPClaim inp k = Inr addr \<and> env_iputil_New (inp_env inp) addr \<noteq> None"
proof -
  obtain st addr where "cl_GetIPClaim (inp_client inp) (ipcl_Key c) = Inr st" "ipc_Ready st \<noteq> ConditionFalse"
      "ipc_Address st = Some addr" "env_iputil_New (inp_env inp) addr \<noteq> None"
    using assms unfolding claims_answered_def by blast
  with assms(3) show ?thesis by (auto simp: getIPClaim_def Let_def)
qed

lemma getASClaim_answered:
  assumes "claims_answered (inp_client inp) (inp_env inp) objs" and "ASClaimRes c \<in> set objs" and "ascl_Key c = k"
  shows "\<not> isl (getASClaim inp k)"
proof -
  obtain st i where "cl_GetASClaim (inp_client inp) (ascl_Key c) = Inr st" "asc_Ready st \<noteq> ConditionFalse"
      "asc_ID st = Some i"
    using assms unfolding claims_answered_def by blast
  with assms(3) show ?thesis by (auto simp: getASClaim_def Let_def)
qed

text \<open>Everything the builder reads for one link, under the names the claims were made with.\<close>

definition claimed :: "claim_env \<Rightarrow> inputs \<Rightarrow> InfraNode list \<Rightarrow> InfraLink list \<Rightarrow> bool" where
  "claimed ce inp nodes links \<longleftrightarrow>
     claims_answered (inp_client inp) (inp_env inp)
       (defaultNetworkResources ce (inp_design inp) (inp_network inp) nodes links) \<and>
     design_usable (inp_design inp) (inp_network inp)"

abbreviation networkObjs :: "claim_env \<Rightarrow> inputs \<Rightarrow> InfraNode list \<Rightarrow> InfraLink list \<Rightarrow> claimRes list" where
  "networkObjs ce inp nodes links \<equiv> defaultNetworkResources ce (inp_design inp) (inp_network inp) nodes links"

lemma node_objs: "n \<in> set nodes \<Longrightarrow> r \<in> set (nodeResources ce (inp_design inp) (inp_network inp) n) \<Longrightarrow>
    r \<in> set (networkObjs ce inp nodes links)"
  by (auto simp: defaultNetworkResources_def)

lemma link_objs: "l \<in> set links \<Longrightarrow> r \<in> set (linkResources ce (inp_design inp) (inp_network inp) l) \<Longrightarrow>
    r \<in> set (networkObjs ce inp nodes links)"
  by (auto simp: defaultNetworkResources_def)

lemma getIPClaim_claimed:
  assumes "claimed ce inp nodes links" and "IPClaimRes c \<in> set (networkObjs ce inp nodes links)" and "ipcl_Key c = k"
  shows "\<exists>addr. getIPClaim inp k = Inr addr \<and> env_iputil_New (inp_env inp) addr \<noteq> None"
  using assms getIPClaim_answered unfolding claimed_def by blast

lemma getASClaim_claimed:
  assumes "claimed ce inp nodes links" and "ASClaimRes c \<in> set (networkObjs ce inp nodes links)" and "ascl_Key c = k"
  shows "\<not> isl (getASClaim inp k)"
  using assms getASClaim_answered unfolding claimed_def by blast

lemma isl_def': "\<not> isl m \<longleftrightarrow> (\<exists>x. m = Inr x)"
  by (cases m) auto

lemma routerID:
  assumes cl: "claimed ce inp nodes links" and n: "n \<in> set nodes" and name: "cle_NodeOf ce (in_Name n) = nm"
  shows "\<not> isl (gatherRouterID inp nm x)"
proof -
  let ?c = "\<lambda>s. poolClaim ce (inp_network inp) (networkKey (inp_network inp) (dot (dot (netName inp) nm) s))
    (networkOwner (inp_network inp)) ''ipv4''"
  let ?s = "if IsLoopbackIPv4Enabled (inp_design inp) then ''ipv4'' else ''routerid''"
  have "IPClaimRes (?c ?s) \<in> set (networkObjs ce inp nodes links)"
    using name by (intro node_objs [OF n]) (auto simp: nodeResources_def GetNodeIPClaims_def Let_def split: if_splits)
  moreover have "ipcl_Key (?c ?s) = claim3 inp nm ?s"
    by (simp add: poolClaim_def networkKey_def claim3_def key_def)
  ultimately obtain addr where "getIPClaim inp (claim3 inp nm ?s) = Inr addr" "env_iputil_New (inp_env inp) addr \<noteq> None"
    using getIPClaim_claimed [OF cl] by blast
  then show ?thesis
    by (auto simp: gatherRouterID_def ipString_def parsedIP_def split: option.splits)
qed

lemma loopbackIPv6:
  assumes cl: "claimed ce inp nodes links" and n: "n \<in> set nodes" and name: "cle_NodeOf ce (in_Name n) = nm"
    and ns: "in_Namespace n = net_Namespace (inp_network inp)"
  shows "\<not> isl (gatherLoopbackIPv6 inp nm x)"
proof (cases "IsLoopbackIPv6Enabled (inp_design inp)")
  case True
  let ?c = "poolClaim ce (inp_network inp)
    \<lparr>nsn_Namespace = in_Namespace n, nsn_Name = dot (dot (netName inp) nm) ''ipv6''\<rparr>
    (NodeOwner \<lparr>nsn_Namespace = in_Namespace n, nsn_Name = in_Name n\<rparr>) ''ipv6''"
  have "IPClaimRes ?c \<in> set (networkObjs ce inp nodes links)"
    using name True by (intro node_objs [OF n]) (auto simp: nodeResources_def GetNodeIPClaims_def Let_def split: if_splits)
  moreover have "ipcl_Key ?c = claim3 inp nm ''ipv6''"
    by (simp add: poolClaim_def claim3_def key_def ns)
  ultimately have "\<exists>addr. getIPClaim inp (claim3 inp nm ''ipv6'') = Inr addr"
    using getIPClaim_claimed [OF cl] by blast
  then show ?thesis by (auto simp: gatherLoopbackIPv6_def)
qed (simp add: gatherLoopbackIPv6_def)

lemma nodeASClaim:
  assumes cl: "claimed ce inp nodes links" and n: "n \<in> set nodes" and name: "cle_NodeOf ce (in_Name n) = nm" and e: "IsEBGPEnabled (inp_design inp)"
  shows "\<not> isl (getASClaim inp (claim2 inp nm))"
proof -
  obtain c where c: "GetNodeASClaim ce (inp_design inp) (inp_network inp) n = Some c"
      and k: "ascl_Key c = claim2 inp nm"
    using cl e name
    by (auto simp: claimed_def design_usable_def GetNodeASClaim_def designKey_def claim2_def key_def)
  have "ASClaimRes c \<in> set (networkObjs ce inp nodes links)" using c by (intro node_objs [OF n]) (auto simp: nodeResources_def)
  then show ?thesis using getASClaim_claimed [OF cl] k by blast
qed

lemma getNode_ok:
  assumes cl: "claimed ce inp nodes links" and k: "node_known ce inp nodes nodeID"
  shows "\<exists>b'. gatherNodeInfo inp nodeID b = Inr b'"
proof -
  obtain n sid where n: "n \<in> set nodes" "cle_NodeOf ce (in_Name n) = nid_Node nodeID" "in_SystemID n = Some sid"
      "in_Namespace n = net_Namespace (inp_network inp)"
    and get: "cl_GetNode (inp_client inp) (key inp (dot (topologyOf inp) (env_NodeID_KuidString (inp_env inp) nodeID))) = Inr n"
    using k unfolding node_known_def by blast
  let ?nm = "nid_Node nodeID"
  obtain n1 where n1: "gatherRouterID inp ?nm (newNode nodeID (in_Provider n) sid) = Inr n1"
    using routerID [OF cl n(1,2), of "newNode nodeID (in_Provider n) sid"] by (auto simp: isl_def')
  obtain n2 where n2: "gatherLoopbackIPv6 inp ?nm n1 = Inr n2"
    using loopbackIPv6 [OF cl n(1,2,4), of n1] by (auto simp: isl_def')
  obtain n3 where n3: "gatherNodeAS inp ?nm n2 = Inr n3"
    using nodeASClaim [OF cl n(1,2)] by (cases "IsEBGPEnabled (inp_design inp)") (auto simp: gatherNodeAS_def isl_def')
  show ?thesis
    by (auto simp: gatherNodeInfo_def Let_def getNode_def get n(3) n1 n2 n3 split: option.splits)
qed

lemma end_claim_made:
  assumes ep: "ep \<in> set (il_Endpoints l)"
  shows "\<exists>c \<in> set (linkFamilyClaims ce (inp_network inp) l af fam plen).
    ipcl_Key c = claim4 inp (endNode ep) (endEndpoint ep) af"
proof -
  have "\<exists>e \<in> set (il_Endpoints l). claim4 inp (endNode e) (endEndpoint e) af = claim4 inp (endNode ep) (endEndpoint ep) af"
    using ep by blast
  then show ?thesis
    unfolding linkFamilyClaims_def Let_def claim4_def key_def networkKey_def by simp
qed

lemma end_claim:
  assumes cl: "claimed ce inp nodes links" and l: "l \<in> set links" and ep: "ep \<in> set (il_Endpoints l)"
  shows "IsUnderlayIPv4Numbered (inp_design inp) \<Longrightarrow>
      \<exists>ip. getIPClaim inp (claim4 inp (endNode ep) (endEndpoint ep) ''ipv4'') = Inr ip"
    and "IsUnderlayIPv6Numbered (inp_design inp) \<Longrightarrow>
      \<exists>ip. getIPClaim inp (claim4 inp (endNode ep) (endEndpoint ep) ''ipv6'') = Inr ip"
proof -
  have *: "\<exists>ip. getIPClaim inp (claim4 inp (endNode ep) (endEndpoint ep) af) = Inr ip"
    if c: "set (map IPClaimRes (linkFamilyClaims ce (inp_network inp) l af fam plen)) \<subseteq>
      set (linkResources ce (inp_design inp) (inp_network inp) l)" for af fam plen
  proof -
    obtain c where m: "c \<in> set (linkFamilyClaims ce (inp_network inp) l af fam plen)"
        and k: "ipcl_Key c = claim4 inp (endNode ep) (endEndpoint ep) af"
      using end_claim_made [OF ep] by blast
    have "IPClaimRes c \<in> set (linkResources ce (inp_design inp) (inp_network inp) l)"
      using m c by auto
    then have "IPClaimRes c \<in> set (networkObjs ce inp nodes links)" by (rule link_objs [OF l])
    then show ?thesis using getIPClaim_claimed [OF cl _ k] by blast
  qed
  show "IsUnderlayIPv4Numbered (inp_design inp) \<Longrightarrow>
      \<exists>ip. getIPClaim inp (claim4 inp (endNode ep) (endEndpoint ep) ''ipv4'') = Inr ip"
    by (rule * [of _ AddressFamilyIpv4 31]) (auto simp: linkResources_def GetLinkIPClaims_def)
  show "IsUnderlayIPv6Numbered (inp_design inp) \<Longrightarrow>
      \<exists>ip. getIPClaim inp (claim4 inp (endNode ep) (endEndpoint ep) ''ipv6'') = Inr ip"
    by (rule * [of _ AddressFamilyIpv6 127]) (auto simp: linkResources_def GetLinkIPClaims_def)
qed

lemma gatherEnd_ok:
  assumes cl: "claimed ce inp nodes links" and l: "l \<in> set links" and i: "i < length (il_Endpoints l)"
    and k: "node_known ce inp nodes (epid_NodeID (ngep_EndpointID (il_Endpoints l ! i)))"
  shows "\<exists>s. gatherEnd inp l i (l0, b) = Inr s"
proof -
  let ?ep = "il_Endpoints l ! i"
  have ep: "?ep \<in> set (il_Endpoints l)" using i by simp
  obtain n where n: "n \<in> set nodes" "cle_NodeOf ce (in_Name n) = endNode ?ep"
    using k by (auto simp: node_known_def endNode_def)
  have as: "\<exists>l2. gatherEndAS inp i (endNode ?ep) l1 = Inr l2" for l1
    using nodeASClaim [OF cl n] by (cases "IsEBGPEnabled (inp_design inp)") (auto simp: gatherEndAS_def isl_def')
  have v4: "\<exists>l2. gatherEndIPv4 inp i (endNode ?ep) (endEndpoint ?ep) l1 = Inr l2" for l1
    using end_claim(1) [OF cl l ep] by (cases "IsUnderlayIPv4Numbered (inp_design inp)") (auto simp: gatherEndIPv4_def)
  have v6: "\<exists>l2. gatherEndIPv6 inp i (endNode ?ep) (endEndpoint ?ep) l1 = Inr l2" for l1
    using end_claim(2) [OF cl l ep] by (cases "IsUnderlayIPv6Numbered (inp_design inp)") (auto simp: gatherEndIPv6_def)
  obtain b1 where b1: "(if nodes_Get (endNode ?ep) (db_nodes b) = None
      then gatherNodeInfo inp (epid_NodeID (ngep_EndpointID ?ep)) b else Inr b) = Inr b1"
    using getNode_ok [OF cl k] by fastforce
  have "\<exists>s. bindR (gatherEndAS inp i (endNode ?ep) l1) (\<lambda>l2.
      bindR (gatherEndIPv4 inp i (endNode ?ep) (endEndpoint ?ep) l2) (\<lambda>l3.
      bindR (gatherEndIPv6 inp i (endNode ?ep) (endEndpoint ?ep) l3) (\<lambda>l4. Inr (l4, b1)))) = Inr s" for l1
    using as [of l1] v4 v6 by (metis bindR_simps(2))
  then show ?thesis using i b1 by (simp add: gatherEnd_def Let_def endNode_def endEndpoint_def)
qed

lemma params_Apply:
  assumes "APIApply ks objs e \<in> set (out_Actions (params_Reconcile p))"
    and "api_Get (pe_api p) = Got cr" and "api_AddFinalizer (pe_api p) cr = (cr1, None)"
    and "pe_design p (designKeyOf cr1) = Inr nd"
    and "params_GetNodes p cr1 = Inr nodes" and "params_GetLinks p cr1 = Inr links"
  shows "objs = defaultNetworkResources (pe_claims p) nd cr1 nodes links"
  using assms
  by (auto simp: params_Reconcile_def reconcileDelete_def params_handleError_def warning_def Let_def
      applyDefaultNetwork_def applyNetwork_def split: prod.splits if_splits)

lemma gatherLink_not_EBGP:
  assumes "IsEBGPEnabled (inp_design inp)" and "\<And>k. isl (getASClaim inp k)"
  shows "isl (gatherLinkAndNodeInfo inp l b)"
proof -
  have as: "gatherEndAS inp i nm x \<noteq> Inr y" for i nm x y
    using assms(1) assms(2) [of "claim2 inp nm"] by (auto simp: gatherEndAS_def bindR_def isl_def)
  have "gatherEnd inp l 0 (newLink l, b) \<noteq> Inr s" for s
    by (simp add: gatherEnd_def Let_def bindR_Inr_iff as)
  then obtain e where "gatherEnd inp l 0 (newLink l, b) = Inl e"
    by (meson old.sum.exhaust)
  then show ?thesis by (simp add: gatherLinkAndNodeInfo_def)
qed

text \<open>A call that finds a live network whose parameters are not ready.\<close>

lemma params_step:
  assumes "api_Get (pe_api p) = Got cr" and "\<not> net_Deleting cr" and "api_AddFinalizer (pe_api p) cr = (cr1, e)"
    and "cond_Status (GetCondition cr ConditionTypeNetworkParamReady) \<noteq> ConditionTrue"
  shows "params_Reconcile p = does [AddFinalizer params_finalizer e]
     (if e \<noteq> None then failed (pe_api p) (params_handleError (pe_conditions p) cr1 ''cannot add finalizer'' e) requeue
      else case pe_design p (designKeyOf cr1) of
        Inl _ \<Rightarrow> does [snd (params_handleError (pe_conditions p) cr1
            ''cannot reconcile a network without a default network design'' None)] (finish requeue None)
      | Inr nd \<Rightarrow> case (if IsDefaultNetwork cr1 then applyDefaultNetwork p cr1 nd else applyNetwork p cr1 nd) of
          (as, err) \<Rightarrow> does as
            (if err \<noteq> None
             then failed (pe_api p) (params_handleError (pe_conditions p) cr1 ''cannot apply resource'' err) requeueAfter2s
             else does [Event EventTypeNormal params_condition ''ready'']
               (updateStatus (pe_api p) (SetConditions (pe_conditions p) [NetworkParamReady] cr1) noResult)))"
  using assms by (simp add: params_Reconcile_def Let_def)

lemma params_apply_statuses:
  "(if d then applyDefaultNetwork p cr nd else applyNetwork p cr nd) = (as, err) \<Longrightarrow> StatusUpdate x y \<notin> set as"
  by (auto simp: applyDefaultNetwork_def applyNetwork_def Let_def split: sum.splits if_splits)

section \<open>Properties\<close>



text \<open>
  C31. The parameters controller and the condition it keeps. It calls for no retry only if the condition
  was true already, or if it wrote it; it writes it true only after the design was read and every claim was
  applied without error; and the other conditions of the object it writes are those it read.
\<close>

theorem params_condition_tracks_apply:
  assumes "conditions_lawful (pe_conditions p)"
    and "api_Get (pe_api p) = Got cr" and "\<not> net_Deleting cr" and "api_AddFinalizer (pe_api p) cr = (cr1, e)"
    and "cond_Status (GetCondition cr ConditionTypeNetworkParamReady) \<noteq> ConditionTrue"
    and "StatusUpdate cr' e' \<in> set (out_Actions (params_Reconcile p))"
  shows "(out_Result (params_Reconcile p) = noResult \<longleftrightarrow>
      cond_Status (GetCondition cr' ConditionTypeNetworkParamReady) = ConditionTrue)
    \<and> (cond_Status (GetCondition cr' ConditionTypeNetworkParamReady) = ConditionTrue \<longleftrightarrow>
        e = None \<and> (\<exists>nd. pe_design p (designKeyOf cr1) = Inr nd \<and>
          snd (if IsDefaultNetwork cr1 then applyDefaultNetwork p cr1 nd else applyNetwork p cr1 nd) = None))
    \<and> (if t = ConditionTypeNetworkParamReady then True else GetCondition cr' t = GetCondition cr1 t)"
proof -
  have failed: "cond_Status (GetCondition (fst (params_handleError (pe_conditions p) cr1 m err)) ConditionTypeNetworkParamReady) = ConditionFalse"
      "GetCondition (fst (params_handleError (pe_conditions p) cr1 m err)) t =
        (if t = ConditionTypeNetworkParamReady then NetworkParamFailed (failureMessage m err) else GetCondition cr1 t)"
    for m err t
    using assms(1) by (simp_all add: params_handleError_def)
  have ready: "GetCondition (SetConditions (pe_conditions p) [NetworkParamReady] cr1) t =
      (if t = ConditionTypeNetworkParamReady then NetworkParamReady else GetCondition cr1 t)" for t
    using assms(1) by simp
  have event: "StatusUpdate y z \<noteq> snd (params_handleError cs x m err)" for cs x m err y z
    by (simp add: params_handleError_def warning_def)
  note step = params_step [OF assms(2-5)]
  show ?thesis
  proof (cases "e = None")
    case False
    then show ?thesis using assms(6) failed by (auto simp: step event)
  next
    case True
    show ?thesis
    proof (cases "pe_design p (designKeyOf cr1)")
      case (Inl x) with True show ?thesis using assms(6) by (auto simp: step event)
    next
      case (Inr nd)
      obtain as err where ap: "(if IsDefaultNetwork cr1 then applyDefaultNetwork p cr1 nd else applyNetwork p cr1 nd) = (as, err)"
        by fastforce
      show ?thesis
        using assms(6) params_apply_statuses [OF ap] failed ready True Inr ap
        by (cases err) (auto simp: step event)
    qed
  qed
qed

end
