(* ===== verification/Readiness.thy ===== *)
theory Readiness
  imports Network "HOL-Library.Multiset"
begin

text \<open>
  The status of the devices of a network: \<open>AreAllDeviceConfigsReady\<close> and \<open>getNodeName\<close>, which the network
  controller and the network device controller each have, over configurations and over network devices.
\<close>

section \<open>Names\<close>

definition reconciler_getNodeName :: "string \<Rightarrow> string" where
  "reconciler_getNodeName name =
     (case strings_LastIndex CHR ''.'' name of None \<Rightarrow> name | Some lastDotIndex \<Rightarrow> drop (Suc lastDotIndex) name)"

lemma reconciler_getNodeName_last: "reconciler_getNodeName name = last (strings_Split CHR ''.'' name)"
  by (auto simp: reconciler_getNodeName_def drop_LastIndex LastIndex_None_iff Split_no_sep split: option.splits)

lemma reconciler_getNodeName_dot: "CHR ''.'' \<notin> set b \<Longrightarrow> reconciler_getNodeName (dot a b) = b"
  by (simp add: reconciler_getNodeName_last dot_def last_Split_append Split_no_sep)

section \<open>The items of a list\<close>

text \<open>An item that was listed: its name, the UIDs of its owner references and its Ready condition.\<close>

record listed =
  li_Name :: string
  li_OwnerUIDs :: "string list"
  li_Ready :: Condition

definition notReady :: "listed \<Rightarrow> bool" where
  "notReady item \<longleftrightarrow> cond_Status (li_Ready item) = ConditionFalse"

definition deviceStatus :: "listed \<Rightarrow> NetworkStatusDeviceStatus" where
  "deviceStatus item =
     (if notReady item
      then \<lparr>nsds_Node = reconciler_getNodeName (li_Name item), nsds_Ready = False, nsds_Reason = Some (cond_Reason (li_Ready item))\<rparr>
      else \<lparr>nsds_Node = reconciler_getNodeName (li_Name item), nsds_Ready = True, nsds_Reason = None\<rparr>)"

text \<open>The body of the inner loop, the two loops, and the sort (\<open>sort.SliceStable\<close> by node).\<close>

definition readyStep ::
  "conditions \<Rightarrow> listed \<Rightarrow> bool \<times> bool \<times> NetworkStatusDeviceStatus list \<Rightarrow>
   bool \<times> bool \<times> NetworkStatusDeviceStatus list" where
  "readyStep cs item = (\<lambda>(ready, failures, devicesStatus).
     if notReady item
     then (False, (if cond_Reason (li_Ready item) = cnd_ReasonFailed cs then True else failures),
           devicesStatus @ [deviceStatus item])
     else (ready, failures, devicesStatus @ [deviceStatus item]))"

definition readyItem ::
  "conditions \<Rightarrow> string \<Rightarrow> listed \<Rightarrow> bool \<times> bool \<times> NetworkStatusDeviceStatus list \<Rightarrow>
   bool \<times> bool \<times> NetworkStatusDeviceStatus list" where
  "readyItem cs uid item = fold (\<lambda>ref s. if ref = uid then readyStep cs item s else s) (li_OwnerUIDs item)"

definition AreAllDeviceConfigsReady ::
  "conditions \<Rightarrow> string \<Rightarrow> listed list \<Rightarrow> bool \<times> bool \<times> NetworkStatusDeviceStatus list" where
  "AreAllDeviceConfigsReady cs uid items =
     (case fold (readyItem cs uid) items (True, False, []) of (ready, failures, devicesStatus) \<Rightarrow>
        (ready, failures, sort_key nsds_Node devicesStatus))"

section \<open>What the loops compute\<close>

text \<open>One entry for every reference to the network.\<close>

definition ownedItems :: "string \<Rightarrow> listed list \<Rightarrow> listed list" where
  "ownedItems uid items = concat (map (\<lambda>item. map (\<lambda>_. item) (filter (\<lambda>ref. ref = uid) (li_OwnerUIDs item))) items)"

lemma set_ownedItems: "set (ownedItems uid items) = {item \<in> set items. uid \<in> set (li_OwnerUIDs item)}"
  by (auto simp: ownedItems_def)

lemma readyItem_fold:
  "readyItem cs uid item s = fold (readyStep cs) (map (\<lambda>_. item) (filter (\<lambda>ref. ref = uid) (li_OwnerUIDs item))) s"
proof -
  have "fold (\<lambda>ref s. if ref = uid then readyStep cs item s else s) refs s =
      fold (readyStep cs) (map (\<lambda>_. item) (filter (\<lambda>ref. ref = uid) refs)) s" for refs
    by (induction refs arbitrary: s) auto
  then show ?thesis by (simp add: readyItem_def)
qed

lemma readyItems_fold: "fold (readyItem cs uid) items s = fold (readyStep cs) (ownedItems uid items) s"
  by (induction items arbitrary: s) (auto simp: readyItem_fold ownedItems_def)

lemma readySteps:
  "fold (readyStep cs) items (r, f, ds) =
     (r \<and> (\<forall>item \<in> set items. \<not> notReady item),
      f \<or> (\<exists>item \<in> set items. notReady item \<and> cond_Reason (li_Ready item) = cnd_ReasonFailed cs),
      ds @ map deviceStatus items)"
  by (induction items arbitrary: r f ds) (auto simp: readyStep_def)

lemma AreAllDeviceConfigsReady_eq:
  "AreAllDeviceConfigsReady cs uid items =
     (\<forall>item \<in> set (ownedItems uid items). \<not> notReady item,
      \<exists>item \<in> set (ownedItems uid items). notReady item \<and> cond_Reason (li_Ready item) = cnd_ReasonFailed cs,
      sort_key nsds_Node (map deviceStatus (ownedItems uid items)))"
  by (simp add: AreAllDeviceConfigsReady_def readyItems_fold readySteps)

section \<open>Properties\<close>

text \<open>
  The readiness of a network's devices. All are ready iff no item that the network owns has a false
  Ready condition; some failed iff one of those gives failure as its reason; and the status list is sorted by
  node, with one entry per item and reference, ready exactly for the items that are.
\<close>

theorem device_readiness:
  "case AreAllDeviceConfigsReady cs uid items of (ready, failures, ds) \<Rightarrow>
     (ready \<longleftrightarrow> {item \<in> set items. uid \<in> set (li_OwnerUIDs item) \<and> notReady item} = {}) \<and>
     (failures \<longleftrightarrow> (\<exists>item \<in> set items. uid \<in> set (li_OwnerUIDs item) \<and> notReady item \<and>
        cond_Reason (li_Ready item) = cnd_ReasonFailed cs)) \<and>
     sorted (map nsds_Node ds) \<and> mset ds = mset (map deviceStatus (ownedItems uid items)) \<and>
     (ready \<longleftrightarrow> list_all nsds_Ready ds)"
proof -
  let ?ds = "map deviceStatus (ownedItems uid items)"
  have "sorted (map nsds_Node (sort_key nsds_Node ?ds))" by (rule sorted_sort_key)
  moreover have "mset (sort_key nsds_Node ?ds) = mset ?ds" by (rule mset_sort)
  moreover have "nsds_Ready (deviceStatus item) \<longleftrightarrow> \<not> notReady item" for item
    by (simp add: deviceStatus_def)
  ultimately show ?thesis
    by (auto simp: AreAllDeviceConfigsReady_eq set_ownedItems list_all_iff simp del: map_map list.map_comp)
qed

end
