(* ===== verification/DeviceController.thy ===== *)
theory DeviceController
  imports Readiness Reconcile BuildResults
begin

text \<open>
  The network device controller (\<open>reconcilers/networkdevice/reconciler.go\<close>): it builds the devices of a
  network with the device builder, applies them, and reports on the condition of the devices.
\<close>

record device_env =
  de_api :: "(Network, NetworkDevice) api"
  de_conditions :: conditions
  de_client :: client
  de_env :: env
  de_design :: "NamespacedName \<Rightarrow> string + NetworkDesign"
  de_heap :: heap               \<comment> \<open>the BFD parameters of the design\<close>
  de_schedule :: schedule       \<comment> \<open>the orders in which Go ranges over the builder's maps\<close>
  de_order :: "string list"
  de_ListNetworkDevices :: "string + listed list"

definition device_finalizer :: string where
  "device_finalizer = ''networkdevice.network.app.kuid.dev/finalizer''"

definition device_condition :: string where
  "device_condition = dot ConditionTypeNetworkDeviceReady ''networkdevice''"

definition device_kinds :: "Kind list" where
  "device_kinds = [NetworkDeviceKind]"

definition device_designKey :: "Network \<Rightarrow> NamespacedName" where
  "device_designKey cr = \<lparr>nsn_Namespace = net_Namespace cr, nsn_Name = dot (ns_Topology (net_Spec cr)) DefaultNetwork\<rparr>"

definition builderInputs :: "device_env \<Rightarrow> Network \<Rightarrow> NetworkDesign \<Rightarrow> inputs" where
  "builderInputs d network networkDesign =
     \<lparr>inp_client = de_client d, inp_env = de_env d, inp_network = network, inp_design = networkDesign\<rparr>"

definition buildDevices :: "device_env \<Rightarrow> Network \<Rightarrow> NetworkDesign \<Rightarrow> NetworkDevice list res" where
  "buildDevices d network networkDesign =
     (let inp = builderInputs d network networkDesign
      in bindR (Build inp (de_schedule d) (NewBuilder inp (de_heap d))) (\<lambda>b.
           Inr (Builder_GetNetworkDeviceConfigs (de_order d) b)))"

text \<open>What \<open>apply\<close> did, or the message of the panic it ends with.\<close>

definition device_apply ::
  "device_env \<Rightarrow> Network \<Rightarrow> NetworkDesign \<Rightarrow> string + (Network, NetworkDevice) action list \<times> string option" where
  "device_apply d network networkDesign =
     (case buildDevices d network networkDesign of
        Inl (Panic msg) \<Rightarrow> Inl msg
      | Inl (Err msg) \<Rightarrow> Inr ([], Some msg)
      | Inr devices \<Rightarrow>
          let err = api_APIApply (de_api d) device_kinds devices network
          in Inr ([APIApply device_kinds devices err], err))"

definition device_handleError ::
  "conditions \<Rightarrow> Network \<Rightarrow> string \<Rightarrow> string option \<Rightarrow> Network \<times> (Network, NetworkDevice) action" where
  "device_handleError cs cr msg err =
     (SetConditions cs [NetworkDeviceFailed (failureMessage msg err)] cr, warning device_condition msg err)"

text \<open>The status list is written to the object in hand.\<close>

definition device_AreAllDeviceConfigsReady :: "device_env \<Rightarrow> Network \<Rightarrow> string + bool \<times> bool \<times> Network" where
  "device_AreAllDeviceConfigsReady d cr =
     (case de_ListNetworkDevices d of
        Inl e \<Rightarrow> Inl e
      | Inr items \<Rightarrow>
          (case AreAllDeviceConfigsReady (de_conditions d) (net_UID cr) items of (ready, failures, devicesStatus) \<Rightarrow>
             Inr (ready, failures, cr\<lparr>net_Status := (net_Status cr)\<lparr>nst_DevicesConfigStatus := devicesStatus\<rparr>\<rparr>)))"

text \<open>The end of \<open>Reconcile\<close>, once the devices were applied.\<close>

definition device_report :: "device_env \<Rightarrow> Network \<Rightarrow> (Network, NetworkDevice) outcome" where
  "device_report d cr =
     (let a = de_api d; cs = de_conditions d in
      case device_AreAllDeviceConfigsReady d cr of
        Inl e \<Rightarrow> failed a (device_handleError cs cr ''cannot gather network device status'' (Some e)) requeueAfter2s
      | Inr (allDevicesready, failures, cr2) \<Rightarrow>
          if \<not> allDevicesready
          then updateStatus a (SetConditions cs
                 [if failures then NetworkDeviceFailed ''some devices failed, see device status list''
                  else NetworkDeviceProcessing (cnd_ReasonProcessing cs) ''some devices are still processing''] cr2) noResult
          else does [Event EventTypeNormal device_condition ''ready'']
                 (updateStatus a (SetConditions cs [NetworkDeviceReady] cr2) noResult))"

definition device_delete :: "device_env \<Rightarrow> Network \<Rightarrow> (Network, NetworkDevice) action list \<times> string option" where
  "device_delete d cr = deleteOwned (de_api d) device_kinds cr"

definition device_getNetworkDesign :: "device_env \<Rightarrow> NamespacedName \<Rightarrow> string + NetworkDesign" where
  "device_getNetworkDesign d nsn = (case de_design d nsn of Inl err \<Rightarrow> Inl err | Inr design \<Rightarrow> Inr design)"

lemma device_getNetworkDesign_eq [simp]: "device_getNetworkDesign d = de_design d"
  by (simp add: device_getNetworkDesign_def fun_eq_iff split: sum.splits)

declare device_delete_def [simp]

definition device_Reconcile :: "device_env \<Rightarrow> (Network, NetworkDevice) outcome" where
  "device_Reconcile d =
     (let a = de_api d; cs = de_conditions d; handleError = device_handleError cs in
      readCr a (\<lambda>cr.
        if net_Deleting cr then reconcileDelete a (device_delete d) device_finalizer handleError cr
        else case api_AddFinalizer a cr of (cr1, err1) \<Rightarrow>
          does [AddFinalizer device_finalizer err1]
           (if err1 \<noteq> None then failed a (handleError cr1 ''cannot add finalizer'' err1) requeue
            else if cond_Status (GetCondition cr1 ConditionTypeNetworkParamReady) = ConditionFalse
            then finish noResult None
            else if cond_Status (GetCondition cr1 ConditionTypeNetworkDeviceReady) = ConditionTrue
            then finish noResult None
            else case device_getNetworkDesign d (device_designKey cr1) of
              Inl _ \<Rightarrow>
                does [snd (handleError cr1 ''cannot reconcile a network without a default network design'' None)]
                  (finish requeue None)
            | Inr nd \<Rightarrow>
                case device_apply d cr1 nd of
                  Inl msg \<Rightarrow> panics msg
                | Inr (as, err) \<Rightarrow>
                    does as
                     (if err \<noteq> None then failed a (handleError cr1 ''cannot apply resource'' err) requeueAfter2s
                      else device_report d cr1))))"

section \<open>The contract of a controller\<close>

lemma device_apply_acts:
  assumes "device_apply d cr nd = Inr (as, err)"
  shows "guarded True deleted (as @ bs) = guarded True deleted bs"
    and "APIApply ks os e \<in> set as \<Longrightarrow> ks = device_kinds" and "APIDelete ks e \<notin> set as"
    and "StatusUpdate x y \<notin> set as"
  using assms by (auto simp: device_apply_def Let_def split: sum.splits failure.splits)

lemma device_report_acts [simp]:
  "guarded added deleted (out_Actions (device_report d cr))"
  "APIApply ks os e \<notin> set (out_Actions (device_report d cr))"
  "APIDelete ks e \<notin> set (out_Actions (device_report d cr))"
  by (auto simp: device_report_def device_handleError_def warning_def Let_def split: sum.splits prod.splits if_splits)

interpretation device: controller device_Reconcile "set device_kinds"
proof
  fix d ks os e
  note defs = device_Reconcile_def readCr_def reconcileDelete_def device_handleError_def Let_def
  show "guarded False False (out_Actions (device_Reconcile d))"
    by (auto simp: defs device_apply_acts split: got.splits prod.splits sum.splits option.splits if_splits)
  show "APIApply ks os e \<in> set (out_Actions (device_Reconcile d)) \<Longrightarrow> set ks \<subseteq> set device_kinds"
    by (auto simp: defs dest: device_apply_acts(2) split: got.splits prod.splits sum.splits option.splits if_splits)
  show "APIDelete ks e \<in> set (out_Actions (device_Reconcile d)) \<Longrightarrow> set device_kinds \<subseteq> set ks"
    by (auto simp: defs dest: device_apply_acts(3) split: got.splits prod.splits sum.splits option.splits if_splits)
qed

section \<open>A call on a live network\<close>

lemma device_applied:
  assumes "APIApply ks devices e \<in> set (out_Actions (device_Reconcile d))"
  obtains cr cr1 nd where "api_Get (de_api d) = Got cr" "\<not> net_Deleting cr" "api_AddFinalizer (de_api d) cr = (cr1, None)"
    "cond_Status (GetCondition cr1 ConditionTypeNetworkParamReady) \<noteq> ConditionFalse"
    "cond_Status (GetCondition cr1 ConditionTypeNetworkDeviceReady) \<noteq> ConditionTrue"
    "de_design d (device_designKey cr1) = Inr nd" "buildDevices d cr1 nd = Inr devices" "ks = device_kinds"
proof -
  from assms obtain cr cr1 nd where *: "api_Get (de_api d) = Got cr" "\<not> net_Deleting cr"
      "api_AddFinalizer (de_api d) cr = (cr1, None)"
      "cond_Status (GetCondition cr1 ConditionTypeNetworkParamReady) \<noteq> ConditionFalse"
      "cond_Status (GetCondition cr1 ConditionTypeNetworkDeviceReady) \<noteq> ConditionTrue"
      "de_design d (device_designKey cr1) = Inr nd"
    and ap: "case device_apply d cr1 nd of Inl _ \<Rightarrow> False | Inr (as, err) \<Rightarrow> APIApply ks devices e \<in> set as"
    by (auto simp: device_Reconcile_def readCr_def reconcileDelete_def device_handleError_def Let_def
        split: got.splits prod.splits sum.splits if_splits)
  have "buildDevices d cr1 nd = Inr devices" "ks = device_kinds"
    using ap by (auto simp: device_apply_def Let_def split: sum.splits failure.splits prod.splits)
  with * show ?thesis by (rule that)
qed

lemma nth_GetNetworkDeviceConfigs:
  "dev \<in> set (GetNetworkDeviceConfigs order r) \<longleftrightarrow> (\<exists>n \<in> set order. dvs_devices r n = Some dev)"
  by (force simp: GetNetworkDeviceConfigs_def map_filter_def)

section \<open>Properties\<close>

text \<open>
  C11. What the device controller applies. The parameters are not false and the devices not yet true; every
  device is well formed and carries the name of the network and of its node; and the nodes that the status
  list later reads off the names are the nodes of the network, each of which has a device.
\<close>

theorem applied_devices:
  assumes "APIApply ks devices e \<in> set (out_Actions (device_Reconcile d))"
    and "api_Get (de_api d) = Got cr" and "api_AddFinalizer (de_api d) cr = (cr1, e1)"
    and "de_design d (device_designKey cr1) = Inr nd"
    and "\<And>n. n \<in> buildNodes (builderInputs d cr1 nd) \<Longrightarrow> n \<in> set (de_order d) \<and> CHR ''.'' \<notin> set n"
  shows "ks = [NetworkDeviceKind] \<and>
    cond_Status (GetCondition cr1 ConditionTypeNetworkParamReady) \<noteq> ConditionFalse \<and>
    cond_Status (GetCondition cr1 ConditionTypeNetworkDeviceReady) \<noteq> ConditionTrue \<and>
    Ball (set devices) (\<lambda>dev. device_wf dev \<and> dev_Namespace dev = net_Namespace cr1) \<and>
    (reconciler_getNodeName \<circ> dev_Name) ` set devices = buildNodes (builderInputs d cr1 nd)"
proof -
  obtain cr' cr1' nd' where "api_Get (de_api d) = Got cr'" "api_AddFinalizer (de_api d) cr' = (cr1', None)"
      and c: "cond_Status (GetCondition cr1' ConditionTypeNetworkParamReady) \<noteq> ConditionFalse"
        "cond_Status (GetCondition cr1' ConditionTypeNetworkDeviceReady) \<noteq> ConditionTrue"
      and "de_design d (device_designKey cr1') = Inr nd'" and b': "buildDevices d cr1' nd' = Inr devices" and ks: "ks = device_kinds"
    using assms(1) by (rule device_applied)
  then have eq: "cr1' = cr1" "nd' = nd" using assms(2-4) by auto
  let ?inp = "builderInputs d cr1 nd"
  have net: "GetNamespacedName (inp_network ?inp) = \<lparr>nsn_Namespace = net_Namespace cr1, nsn_Name = net_Name cr1\<rparr>"
    by (simp add: builderInputs_def GetNamespacedName_def)
  obtain b where b: "Build ?inp (de_schedule d) (NewBuilder ?inp (de_heap d)) = Inr b"
      and devices: "devices = GetNetworkDeviceConfigs (de_order d) (db_devices b)"
    using b' eq by (auto simp: buildDevices_def bindR_Inr_iff Builder_GetNetworkDeviceConfigs_def Let_def)
  have wf: "dvs_devices (db_devices b) n = Some dev \<Longrightarrow>
      device_wf dev \<and> device_named (GetNamespacedName (inp_network ?inp)) n dev" for n dev
    using dvs_wf.run_from_new [OF Build_run(1) [OF b]] dvs_named.run_from_new [OF Build_run(1) [OF b]] by blast
  have dom: "dom (dvs_devices (db_devices b)) = buildNodes ?inp" by (rule Build_run(2) [OF b])
  have name: "reconciler_getNodeName (dev_Name dev) = n" if "dvs_devices (db_devices b) n = Some dev" for n dev
  proof -
    have "n \<in> buildNodes ?inp" using that dom by blast
    then show ?thesis using assms(5) wf [OF that] by (simp add: device_named_def reconciler_getNodeName_dot)
  qed
  have "(reconciler_getNodeName \<circ> dev_Name) ` set devices = dom (dvs_devices (db_devices b))"
  proof
    show "(reconciler_getNodeName \<circ> dev_Name) ` set devices \<subseteq> dom (dvs_devices (db_devices b))"
      using name by (auto simp: devices nth_GetNetworkDeviceConfigs)
    show "dom (dvs_devices (db_devices b)) \<subseteq> (reconciler_getNodeName \<circ> dev_Name) ` set devices"
    proof
      fix n assume n: "n \<in> dom (dvs_devices (db_devices b))"
      then obtain dev where dev: "dvs_devices (db_devices b) n = Some dev" unfolding dom_def mem_Collect_eq by blast
      have "n \<in> set (de_order d)" using n dom assms(5) by blast
      then have "dev \<in> set devices" using dev by (auto simp: devices nth_GetNetworkDeviceConfigs)
      then show "n \<in> (reconciler_getNodeName \<circ> dev_Name) ` set devices" using name [OF dev] by force
    qed
  qed
  moreover have "device_wf dev \<and> dev_Namespace dev = net_Namespace cr1" if "dev \<in> set devices" for dev
    using that wf net by (auto simp: devices nth_GetNetworkDeviceConfigs device_named_def)
  ultimately show ?thesis using c eq ks dom by (simp add: device_kinds_def)
qed

text \<open>
  A failure of the devices is filed under the parameters: it makes the parameters' condition false and
  leaves the devices' as it was. The device controller that retries on this status does nothing, until the
  parameters controller has run.
\<close>

theorem device_failure_blocks_retry:
  assumes "conditions_lawful (de_conditions d)"
    and "api_Get (de_api d) = Got cr" and "\<not> net_Deleting cr" and "\<And>x. api_AddFinalizer (de_api d) x = (x, None)"
    and "cond_Status (GetCondition cr ConditionTypeNetworkParamReady) \<noteq> ConditionFalse"
    and "cond_Status (GetCondition cr ConditionTypeNetworkDeviceReady) \<noteq> ConditionTrue"
    and "de_design d (device_designKey cr) = Inr nd" and "device_apply d cr nd = Inr (as, Some err)"
    and "api_StatusUpdate (de_api d) cr' = None"
    and "cr' = SetConditions (de_conditions d) [NetworkDeviceFailed err] cr"
  shows "statuses (out_Actions (device_Reconcile d)) = [cr'] \<and> out_Result (device_Reconcile d) = requeueAfter2s \<and>
    cond_Status (GetCondition cr' ConditionTypeNetworkParamReady) = ConditionFalse \<and>
    GetCondition cr' ConditionTypeNetworkDeviceReady = GetCondition cr ConditionTypeNetworkDeviceReady \<and>
    device_Reconcile (d\<lparr>de_api := (de_api d)\<lparr>api_Get := Got cr'\<rparr>\<rparr>) =
      does [AddFinalizer device_finalizer None] (finish noResult None)"
proof -
  have no: "statuses as = []"
    using assms(8) by (auto simp: device_apply_def Let_def split: sum.splits failure.splits)
  have first: "device_Reconcile d = does [AddFinalizer device_finalizer None] (does as
      (failed (de_api d) (cr', warning device_condition ''cannot apply resource'' (Some err)) requeueAfter2s))"
    using assms(2-8,10) by (simp add: device_Reconcile_def device_handleError_def failureMessage_def Let_def)
  have param: "cond_Status (GetCondition cr' ConditionTypeNetworkParamReady) = ConditionFalse"
    using assms(1,10) by simp
  have "device_Reconcile (d\<lparr>de_api := (de_api d)\<lparr>api_Get := Got cr'\<rparr>\<rparr>) =
      does [AddFinalizer device_finalizer None] (finish noResult None)"
    using assms(3,4,10) param by (simp add: device_Reconcile_def Let_def)
  then show ?thesis using first no param assms(1,9,10) by simp
qed

end
