(* ===== verification/NetworkController.thy ===== *)
theory NetworkController
  imports Readiness Reconcile
begin

text \<open>
  The network controller (\<open>reconcilers/network/reconciler.go\<close>), which supervises the other two: it resets
  their conditions when the network or its design has changed, deploys the device configurations once both
  conditions hold, and reports on the whole.

  A configuration is of a package outside the program, the type \<open>'c\<close>; so are the hash of the spec and the
  JSON parser.
\<close>

section \<open>What the controller reads\<close>

text \<open>A network device that was listed, with the raw bytes of its provider configuration.\<close>

record listedDevice =
  lid_OwnerUIDs :: "string list"
  lid_ProviderConfig :: "string option option"  \<comment> \<open>\<open>ProviderConfig\<close>, and its \<open>Raw\<close>\<close>

record 'c network_env =
  ne_api :: "(Network, 'c) api"
  ne_conditions :: conditions
  ne_design :: "NamespacedName \<Rightarrow> string + NetworkDesign"
  ne_CalculateHash :: "NetworkSpec \<Rightarrow> string option"  \<comment> \<open>in base64; \<open>None\<close> for an error\<close>
  ne_ListNetworkDevices :: "string + listedDevice list"
  ne_Unmarshal :: "string \<Rightarrow> string + 'c"
  ne_ListConfigs :: "string + listed list"

definition network_finalizer :: string where
  "network_finalizer = ''network.network.app.kuid.dev/finalizer''"

definition network_crName :: string where "network_crName = ''network''"

definition network_kinds :: "Kind list" where "network_kinds = [ConfigKind]"

definition network_designKey :: "Network \<Rightarrow> NamespacedName" where
  "network_designKey cr = \<lparr>nsn_Namespace = net_Namespace cr, nsn_Name = dot (ns_Topology (net_Spec cr)) DefaultNetwork\<rparr>"

section \<open>Changes of the configuration\<close>

definition usedReferences :: "string \<Rightarrow> NetworkDesign \<Rightarrow> NetworkStatusUsedReferences" where
  "usedReferences hash networkDesign =
     \<lparr>nsur_NetworkSpecHash = hash, nsur_NetworkDesignResourceVersion = nd_ResourceVersion networkDesign\<rparr>"

text \<open>Whether it has changed, and the network with the references updated. An error of the hash keeps them.\<close>

definition hasConfigChanged :: "'c network_env \<Rightarrow> Network \<Rightarrow> NetworkDesign \<Rightarrow> bool \<times> Network" where
  "hasConfigChanged n network networkDesign =
     (case ne_CalculateHash n (net_Spec network) of
        None \<Rightarrow> (True, network)
      | Some newSpecHash \<Rightarrow>
          if (case nst_UsedReferences (net_Status network) of
                None \<Rightarrow> False
              | Some u \<Rightarrow> nsur_NetworkSpecHash u = newSpecHash \<and>
                  nsur_NetworkDesignResourceVersion u = nd_ResourceVersion networkDesign)
          then (False, network)
          else (True, network\<lparr>net_Status := (net_Status network)\<lparr>nst_UsedReferences :=
                 Some (usedReferences newSpecHash networkDesign)\<rparr>\<rparr>))"

section \<open>Deployment\<close>

text \<open>An item is taken once for every owner reference to the network.\<close>

definition getNetworkDeviceConfigs :: "'c network_env \<Rightarrow> Network \<Rightarrow> string + listedDevice list" where
  "getNetworkDeviceConfigs n cr = (case ne_ListNetworkDevices n of
      Inl e \<Rightarrow> Inl e
    | Inr items \<Rightarrow> Inr (concat (map (\<lambda>nd. map (\<lambda>_. nd) (filter (\<lambda>ref. ref = net_UID cr) (lid_OwnerUIDs nd))) items)))"

definition deviceConfig :: "'c network_env \<Rightarrow> listedDevice \<Rightarrow> string + 'c" where
  "deviceConfig n nd = (case Option.bind (lid_ProviderConfig nd) (\<lambda>raw. raw) of
      None \<Rightarrow> Inl ''something went wrong, cannot not apply configs with emoty config''
    | Some raw \<Rightarrow> ne_Unmarshal n raw)"

fun deviceConfigs :: "'c network_env \<Rightarrow> listedDevice list \<Rightarrow> string + 'c list" where
  "deviceConfigs n [] = Inr []"
| "deviceConfigs n (nd # nds) = (case deviceConfig n nd of
      Inl e \<Rightarrow> Inl e
    | Inr config \<Rightarrow> (case deviceConfigs n nds of Inl e \<Rightarrow> Inl e | Inr configs \<Rightarrow> Inr (config # configs)))"

definition network_apply :: "'c network_env \<Rightarrow> Network \<Rightarrow> (Network, 'c) action list \<times> string option" where
  "network_apply n cr =
     (case getNetworkDeviceConfigs n cr of Inl e \<Rightarrow> ([], Some e) | Inr nds \<Rightarrow>
     (case deviceConfigs n nds of Inl e \<Rightarrow> ([], Some e) | Inr configs \<Rightarrow>
       let err = api_APIApply (ne_api n) network_kinds configs cr
       in ([APIApply network_kinds configs err], err)))"

definition network_AreAllDeviceConfigsReady :: "'c network_env \<Rightarrow> Network \<Rightarrow> string + bool \<times> bool \<times> Network" where
  "network_AreAllDeviceConfigsReady n cr =
     (case ne_ListConfigs n of
        Inl e \<Rightarrow> Inl e
      | Inr items \<Rightarrow>
          (case AreAllDeviceConfigsReady (ne_conditions n) (net_UID cr) items of (ready, failures, devicesStatus) \<Rightarrow>
             Inr (ready, failures, cr\<lparr>net_Status := (net_Status cr)\<lparr>nst_DevicesDeployStatus := devicesStatus\<rparr>\<rparr>)))"

section \<open>The controller\<close>

definition network_handleError ::
  "conditions \<Rightarrow> Network \<Rightarrow> string \<Rightarrow> string option \<Rightarrow> Network \<times> (Network, 'c) action" where
  "network_handleError cs cr msg err =
     (SetOverallStatus cs (SetConditions cs [cnd_Failed cs (failureMessage msg err)] cr),
      warning network_crName msg err)"

text \<open>The conditions of the children are not ready: the network reports it and waits for an event.\<close>

definition network_wait :: "'c network_env \<Rightarrow> Network \<Rightarrow> (Network, 'c) outcome" where
  "network_wait n cr =
     (let cs = ne_conditions n;
          cr1 = (if DidAChildConditionFail cr then SetConditions cs [cnd_Failed cs (GetFailedMessage cr)] cr
                 else SetConditions cs [cnd_Processing cs (GetProcessingMessage cr)] cr)
      in updateStatus (ne_api n) (SetOverallStatus cs cr1) noResult)"

definition network_report :: "'c network_env \<Rightarrow> Network \<Rightarrow> (Network, 'c) outcome" where
  "network_report n cr =
     (let a = ne_api n; cs = ne_conditions n in
      case network_AreAllDeviceConfigsReady n cr of
        Inl e \<Rightarrow> failed a (network_handleError cs cr ''cannot gather network device status'' (Some e)) requeueAfter2s
      | Inr (allDevicesready, failures, cr1) \<Rightarrow>
          if \<not> allDevicesready
          then updateStatus a (SetOverallStatus cs (SetConditions cs
                 [if failures then cnd_Failed cs ''some devices failed, see device status list''
                  else cnd_Processing cs ''some devices are still processing''] cr1)) noResult
          else does [Event EventTypeNormal network_crName ''ready'']
                 (updateStatus a (SetOverallStatus cs (SetConditions cs [cnd_Ready cs] cr1)) noResult))"

definition network_resetChildren :: "conditions \<Rightarrow> bool \<Rightarrow> Network \<Rightarrow> Network" where
  "network_resetChildren cs configChanged cr =
     (if configChanged
      then SetConditions cs [NetworkParamProcessing (cnd_ReasonProcessing cs) ''config changed'',
             NetworkDeviceProcessing (cnd_ReasonProcessing cs) ''config changed''] cr
      else cr)"

definition network_delete :: "'c network_env \<Rightarrow> Network \<Rightarrow> (Network, 'c) action list \<times> string option" where
  "network_delete n cr = deleteOwned (ne_api n) network_kinds cr"

definition network_getNetworkDesign :: "'c network_env \<Rightarrow> NamespacedName \<Rightarrow> string + NetworkDesign" where
  "network_getNetworkDesign n nsn = (case ne_design n nsn of Inl err \<Rightarrow> Inl err | Inr design \<Rightarrow> Inr design)"

lemma network_getNetworkDesign_eq [simp]: "network_getNetworkDesign n = ne_design n"
  by (simp add: network_getNetworkDesign_def fun_eq_iff split: sum.splits)

declare network_delete_def [simp]

definition network_Reconcile :: "'c network_env \<Rightarrow> (Network, 'c) outcome" where
  "network_Reconcile n =
     (let a = ne_api n; cs = ne_conditions n; handleError = network_handleError cs in
      readCr a (\<lambda>cr.
        if net_Annotations cr ''kuid.dev/gitops'' \<noteq> None then finish noResult None
        else if net_Deleting cr then reconcileDelete a (network_delete n) network_finalizer handleError cr
        else case api_AddFinalizer a cr of (cr1, err1) \<Rightarrow>
          does [AddFinalizer network_finalizer err1]
           (if err1 \<noteq> None then failed a (handleError cr1 ''cannot add finalizer'' err1) requeue
            else case network_getNetworkDesign n (network_designKey cr1) of
              Inl _ \<Rightarrow> failed a
                (handleError cr1 ''cannot reconcile a network without a default network design'' None) requeue
            | Inr nd \<Rightarrow>
                case hasConfigChanged n cr1 nd of (configChanged, cr2) \<Rightarrow>
                let cr3 = network_resetChildren cs configChanged cr2 in
                if \<not> AreChildConditionsReady cr3 then network_wait n cr3
                else case network_apply n cr3 of (as, err) \<Rightarrow>
                  does as
                   (if err \<noteq> None then failed a (handleError cr3 ''cannot apply resource'' err) requeueAfter2s
                    else network_report n cr3))))"

section \<open>The contract of a controller\<close>

lemma network_apply_acts:
  assumes "network_apply n cr = (as, err)"
  shows "guarded True deleted (as @ bs) = guarded True deleted bs"
    and "APIApply ks os e \<in> set as \<Longrightarrow> ks = network_kinds" and "APIDelete ks e \<notin> set as"
    and "StatusUpdate x y \<notin> set as"
  using assms by (auto simp: network_apply_def Let_def split: sum.splits)

lemma network_wait_acts [simp]:
  "guarded added deleted (out_Actions (network_wait n cr))"
  "APIApply ks os e \<notin> set (out_Actions (network_wait n cr))"
  "APIDelete ks e \<notin> set (out_Actions (network_wait n cr))"
  by (auto simp: network_wait_def Let_def)

lemma network_report_acts [simp]:
  "guarded added deleted (out_Actions (network_report n cr))"
  "APIApply ks os e \<notin> set (out_Actions (network_report n cr))"
  "APIDelete ks e \<notin> set (out_Actions (network_report n cr))"
  by (auto simp: network_report_def network_handleError_def Let_def split: sum.splits prod.splits if_splits)

interpretation network: controller network_Reconcile "set network_kinds"
proof
  fix n :: "'c network_env" and ks and os :: "'c list" and e
  note defs = network_Reconcile_def readCr_def reconcileDelete_def network_handleError_def Let_def
  show "guarded False False (out_Actions (network_Reconcile n))"
    by (auto simp: defs network_apply_acts split: got.splits prod.splits sum.splits option.splits if_splits)
  show "APIApply ks os e \<in> set (out_Actions (network_Reconcile n)) \<Longrightarrow> set ks \<subseteq> set network_kinds"
    by (auto simp: defs dest: network_apply_acts(2) split: got.splits prod.splits sum.splits option.splits if_splits)
  show "APIDelete ks e \<in> set (out_Actions (network_Reconcile n)) \<Longrightarrow> set network_kinds \<subseteq> set ks"
    by (auto simp: defs dest: network_apply_acts(3) split: got.splits prod.splits sum.splits option.splits if_splits)
qed

section \<open>A call on a live network\<close>

definition managed :: "Network \<Rightarrow> bool" where
  "managed cr \<longleftrightarrow> net_Annotations cr ''kuid.dev/gitops'' = None \<and> \<not> net_Deleting cr"

lemma network_step:
  assumes "api_Get (ne_api n) = Got cr" and "managed cr" and "api_AddFinalizer (ne_api n) cr = (cr1, None)"
    and "ne_design n (network_designKey cr1) = Inr nd" and "hasConfigChanged n cr1 nd = (changed, cr2)"
  shows "network_Reconcile n = does [AddFinalizer network_finalizer None]
     (let cr3 = network_resetChildren (ne_conditions n) changed cr2 in
      if \<not> AreChildConditionsReady cr3 then network_wait n cr3
      else case network_apply n cr3 of (as, err) \<Rightarrow>
        does as
         (if err \<noteq> None
          then failed (ne_api n) (network_handleError (ne_conditions n) cr3 ''cannot apply resource'' err) requeueAfter2s
          else network_report n cr3))"
  using assms by (simp add: network_Reconcile_def managed_def Let_def)

lemma AreChildConditionsReady_iff:
  "AreChildConditionsReady cr \<longleftrightarrow>
     cond_Status (GetCondition cr ConditionTypeNetworkParamReady) \<noteq> ConditionFalse \<and>
     cond_Status (GetCondition cr ConditionTypeNetworkDeviceReady) \<noteq> ConditionFalse"
  by (simp add: AreChildConditionsReady_def ChildConditions_def)

lemma reset_not_ready: "conditions_lawful cs \<Longrightarrow> \<not> AreChildConditionsReady (network_resetChildren cs True cr)"
  by (simp add: AreChildConditionsReady_iff network_resetChildren_def)

lemma reset_unchanged [simp]: "network_resetChildren cs False cr = cr"
  by (simp add: network_resetChildren_def)

text \<open>Conditions of other types do not decide the overall status.\<close>

definition other_condition :: "conditions \<Rightarrow> bool" where
  "other_condition cs \<longleftrightarrow> cnd_ConditionTypeReady cs \<noteq> ConditionTypeNetworkParamReady \<and>
     cnd_ConditionTypeReady cs \<noteq> ConditionTypeNetworkDeviceReady"

lemma children_SetConditions:
  assumes "conditions_lawful cs" and "other_condition cs" and "cond_Type c = cnd_ConditionTypeReady cs"
  shows "AreChildConditionsReady (SetConditions cs [c] cr) = AreChildConditionsReady cr"
  using assms by (auto simp: AreChildConditionsReady_iff other_condition_def)

lemma lawful_types:
  assumes "conditions_lawful cs"
  shows "cond_Type (cnd_Ready cs) = cnd_ConditionTypeReady cs" "cond_Type (cnd_Failed cs m) = cnd_ConditionTypeReady cs"
    "cond_Type (cnd_Processing cs m) = cnd_ConditionTypeReady cs"
    "cond_Status (cnd_Ready cs) = ConditionTrue" "cond_Status (cnd_Failed cs m) = ConditionFalse"
  using assms by (simp_all add: conditions_lawful_def)

lemma children_SetOverallStatus:
  assumes "conditions_lawful cs" and "other_condition cs"
  shows "AreChildConditionsReady (SetOverallStatus cs cr) = AreChildConditionsReady cr"
  unfolding overallStatus_cases
  by (rule children_SetConditions [OF assms]) (simp add: lawful_types [OF assms(1)])

lemma ready_SetOverallStatus:
  assumes "conditions_lawful cs"
  shows "cond_Status (GetCondition (SetOverallStatus cs cr) (cnd_ConditionTypeReady cs)) =
    (if AreChildConditionsReady cr then ConditionTrue else ConditionFalse)"
  using assms by (simp add: overallStatus_cases lawful_types)

lemma statuses_overall:
  assumes "StatusUpdate cr' e \<in> set (out_Actions (network_Reconcile n))"
  obtains cr0 where "cr' = SetOverallStatus (ne_conditions n) cr0"
  using assms
  by (auto simp: network_Reconcile_def readCr_def reconcileDelete_def network_handleError_def network_wait_def
      network_report_def Let_def dest: network_apply_acts(4)
      split: got.splits prod.splits sum.splits if_splits)

section \<open>Properties\<close>

text \<open>
  C6. A network is deployed only when it is complete: the object is managed by this controller, neither its
  spec nor its design has changed since the children last worked on it, and neither child condition is false.
\<close>

theorem deploys_only_complete_networks:
  assumes "conditions_lawful (ne_conditions n)"
    and "APIApply ks configs e \<in> set (out_Actions (network_Reconcile n))"
  shows "\<exists>cr cr1 nd. api_Get (ne_api n) = Got cr \<and> managed cr \<and> api_AddFinalizer (ne_api n) cr = (cr1, None) \<and>
     ne_design n (network_designKey cr1) = Inr nd \<and> hasConfigChanged n cr1 nd = (False, cr1) \<and>
     AreChildConditionsReady cr1 \<and> ks = network_kinds"
proof -
  from assms(2) obtain cr cr1 nd where *: "api_Get (ne_api n) = Got cr" "managed cr"
      "api_AddFinalizer (ne_api n) cr = (cr1, None)" "ne_design n (network_designKey cr1) = Inr nd"
    by (auto simp: network_Reconcile_def readCr_def reconcileDelete_def network_handleError_def managed_def Let_def
        split: got.splits prod.splits sum.splits if_splits)
  obtain changed cr2 where ch: "hasConfigChanged n cr1 nd = (changed, cr2)" by fastforce
  obtain as err where ap: "network_apply n cr2 = (as, err)" by fastforce
  have "\<not> changed"
    using assms(2) by (cases changed) (auto simp: network_step [OF * ch] reset_not_ready [OF assms(1)])
  moreover have "\<not> changed \<Longrightarrow> cr2 = cr1"
    using ch by (auto simp: hasConfigChanged_def split: option.splits if_splits)
  ultimately show ?thesis
    using assms(2) * ch ap network_apply_acts(2) [OF ap]
    by (auto simp: network_step [OF * ch] Let_def network_handleError_def split: if_splits)
qed

text \<open>
  The condition of the network reports the children and nothing else: whatever status a call writes, its
  Ready condition is true iff no child condition is false.
\<close>

theorem network_ready_iff_children:
  assumes "conditions_lawful (ne_conditions n)" and "other_condition (ne_conditions n)"
    and "StatusUpdate cr' e \<in> set (out_Actions (network_Reconcile n))"
  shows "(cond_Status (GetCondition cr' (cnd_ConditionTypeReady (ne_conditions n))) = ConditionTrue \<longleftrightarrow>
      AreChildConditionsReady cr') \<and>
    cond_Status (GetCondition cr' (cnd_ConditionTypeReady (ne_conditions n))) \<noteq> ConditionUnknown"
proof -
  obtain cr0 where "cr' = SetOverallStatus (ne_conditions n) cr0" using assms(3) by (rule statuses_overall)
  then show ?thesis
    using assms(1,2) by (simp add: children_SetOverallStatus ready_SetOverallStatus)
qed

text \<open>
  C16. Hence a deployment that fails is reported as a success: when the configurations cannot be applied, the
  failed condition is set and then overwritten, and the status that is written says the network is ready.
\<close>

theorem failed_deployment_reported_ready:
  assumes "conditions_lawful (ne_conditions n)" and "other_condition (ne_conditions n)"
    and "api_Get (ne_api n) = Got cr" and "managed cr" and "api_AddFinalizer (ne_api n) cr = (cr1, None)"
    and "ne_design n (network_designKey cr1) = Inr nd" and "hasConfigChanged n cr1 nd = (False, cr2)"
    and "AreChildConditionsReady cr2" and "network_apply n cr2 = (as, Some err)"
  shows "\<exists>cr'. statuses (out_Actions (network_Reconcile n)) = (if api_StatusUpdate (ne_api n) cr' = None then [cr'] else [])
     \<and> GetCondition cr' (cnd_ConditionTypeReady (ne_conditions n)) = cnd_Ready (ne_conditions n)
     \<and> out_Result (network_Reconcile n) = requeueAfter2s"
proof -
  let ?cs = "ne_conditions n"
  let ?cr = "SetOverallStatus ?cs (SetConditions ?cs [cnd_Failed ?cs (failureMessage ''cannot apply resource'' (Some err))] cr2)"
  have no: "statuses as = []"
    using assms(9) by (auto simp: network_apply_def Let_def split: sum.splits)
  have "AreChildConditionsReady (SetConditions ?cs [cnd_Failed ?cs (failureMessage ''cannot apply resource'' (Some err))] cr2)"
    using assms(1,2,8) by (simp add: children_SetConditions lawful_types)
  then have "GetCondition ?cr (cnd_ConditionTypeReady ?cs) = cnd_Ready ?cs"
    using assms(1) by (simp add: overallStatus_cases lawful_types)
  then show ?thesis
    using no assms(8,9)
    by (intro exI [of _ ?cr]) (simp add: network_step [OF assms(3-7)] network_handleError_def)
qed

end
