(* ===== verification/NetworkCluster.thy ===== *)
theory NetworkCluster
  imports NetworkParams DeviceController NetworkController "HOL-Library.Sublist"
begin

text \<open>
  The three controllers of a network together. They share one object and meet only through its status: a run
  of a controller reads the object that the last run left, and its status updates are the next state. Runs
  come in any order, since every write of the status triggers all three.
\<close>

section \<open>Runs\<close>

record 'c cluster =
  clu_params :: params_env
  clu_device :: device_env
  clu_network :: "'c network_env"

datatype who = N | P | D

definition writeBack :: "('cr, 'o) outcome \<Rightarrow> 'cr \<Rightarrow> 'cr" where
  "writeBack out cr = (case rev (statuses (out_Actions out)) of [] \<Rightarrow> cr | cr' # _ \<Rightarrow> cr')"

definition paramsSees :: "'c cluster \<Rightarrow> Network \<Rightarrow> params_env" where
  "paramsSees c cr = (clu_params c)\<lparr>pe_api := (pe_api (clu_params c))\<lparr>api_Get := Got cr\<rparr>\<rparr>"
definition deviceSees :: "'c cluster \<Rightarrow> Network \<Rightarrow> device_env" where
  "deviceSees c cr = (clu_device c)\<lparr>de_api := (de_api (clu_device c))\<lparr>api_Get := Got cr\<rparr>\<rparr>"
definition networkSees :: "'c cluster \<Rightarrow> Network \<Rightarrow> 'c network_env" where
  "networkSees c cr = (clu_network c)\<lparr>ne_api := (ne_api (clu_network c))\<lparr>api_Get := Got cr\<rparr>\<rparr>"

fun run :: "'c cluster \<Rightarrow> who \<Rightarrow> Network \<Rightarrow> Network" where
  "run c N cr = writeBack (network_Reconcile (networkSees c cr)) cr"
| "run c P cr = writeBack (params_Reconcile (paramsSees c cr)) cr"
| "run c D cr = writeBack (device_Reconcile (deviceSees c cr)) cr"

definition runs :: "'c cluster \<Rightarrow> who list \<Rightarrow> Network \<Rightarrow> Network" where
  "runs c ws cr = fold (run c) ws cr"

section \<open>A healthy cluster\<close>

text \<open>The parts of a network that the controllers do not write.\<close>

definition identity :: "Network \<Rightarrow> string \<times> string \<times> string \<times> (string \<rightharpoonup> string) \<times> bool \<times> NetworkSpec" where
  "identity cr = (net_Namespace cr, net_Name cr, net_UID cr, net_Annotations cr, net_Deleting cr, net_Spec cr)"

definition calm :: "(Network, 'o) api \<Rightarrow> bool" where
  "calm a \<longleftrightarrow> (\<forall>cr. api_AddFinalizer a cr = (cr, None) \<and> api_StatusUpdate a cr = None)"

text \<open>
  The environment works for the networks of one identity: there is a design, claims and devices are applied,
  the build succeeds, and what is listed is ready.
\<close>

definition healthy :: "'c cluster \<Rightarrow> conditions \<Rightarrow> Network \<Rightarrow> NetworkDesign \<Rightarrow> bool" where
  "healthy c cs cr0 nd \<longleftrightarrow>
     conditions_lawful cs \<and> other_condition cs \<and> managed cr0 \<and>
     pe_conditions (clu_params c) = cs \<and> de_conditions (clu_device c) = cs \<and> ne_conditions (clu_network c) = cs \<and>
     calm (pe_api (clu_params c)) \<and> calm (de_api (clu_device c)) \<and> calm (ne_api (clu_network c)) \<and>
     pe_design (clu_params c) (designKeyOf cr0) = Inr nd \<and> de_design (clu_device c) (designKeyOf cr0) = Inr nd \<and>
     ne_design (clu_network c) (designKeyOf cr0) = Inr nd \<and>
     ne_CalculateHash (clu_network c) (net_Spec cr0) \<noteq> None \<and>
     (\<forall>cr. identity cr = identity cr0 \<longrightarrow>
        snd (if IsDefaultNetwork cr then applyDefaultNetwork (clu_params c) cr nd
             else applyNetwork (clu_params c) cr nd) = None \<and>
        (\<exists>as. device_apply (clu_device c) cr nd = Inr (as, None)) \<and>
        snd (network_apply (clu_network c) cr) = None) \<and>
     (\<exists>items. de_ListNetworkDevices (clu_device c) = Inr items \<and> (\<forall>item \<in> set items. \<not> notReady item)) \<and>
     (\<exists>items. ne_ListConfigs (clu_network c) = Inr items \<and> (\<forall>item \<in> set items. \<not> notReady item))"

section \<open>The stages of a network\<close>

definition unchanged :: "'c cluster \<Rightarrow> NetworkDesign \<Rightarrow> Network \<Rightarrow> bool" where
  "unchanged c nd cr \<longleftrightarrow> hasConfigChanged (clu_network c) cr nd = (False, cr)"

definition isTrue :: "Network \<Rightarrow> string \<Rightarrow> bool" where
  "isTrue cr t \<longleftrightarrow> cond_Status (GetCondition cr t) = ConditionTrue"

text \<open>Nothing known; the references recorded; the parameters ready; the devices ready; the network ready.\<close>

definition stage :: "'c cluster \<Rightarrow> conditions \<Rightarrow> Network \<Rightarrow> NetworkDesign \<Rightarrow> nat \<Rightarrow> Network \<Rightarrow> bool" where
  "stage c cs cr0 nd k cr \<longleftrightarrow> identity cr = identity cr0 \<and>
     (1 \<le> k \<longrightarrow> unchanged c nd cr) \<and>
     (2 \<le> k \<longrightarrow> isTrue cr ConditionTypeNetworkParamReady) \<and>
     (3 \<le> k \<longrightarrow> isTrue cr ConditionTypeNetworkDeviceReady) \<and>
     (4 \<le> k \<longrightarrow> isTrue cr (cnd_ConditionTypeReady cs))"

text \<open>What decides the stage.\<close>

lemma unchanged_cong:
  assumes "identity cr' = identity cr"
    and "nst_UsedReferences (net_Status cr') = nst_UsedReferences (net_Status cr)"
  shows "unchanged c nd cr' \<longleftrightarrow> unchanged c nd cr"
  using assms
  by (auto simp: unchanged_def hasConfigChanged_def identity_def split: option.splits)

lemma identity_status [simp]: "identity (cr\<lparr>net_Status := st\<rparr>) = identity cr"
  by (simp add: identity_def)

lemma identity_SetConditions [simp]: "identity (SetConditions cs x cr) = identity cr"
  by (simp add: identity_def)

lemma identity_SetOverallStatus [simp]: "identity (SetOverallStatus cs cr) = identity cr"
  by (simp add: overallStatus_cases)

lemma UsedReferences_SetOverallStatus [simp]:
  "nst_UsedReferences (net_Status (SetOverallStatus cs cr)) = nst_UsedReferences (net_Status cr)"
  by (simp add: overallStatus_cases)

lemma identity_keys:
  "identity cr = identity cr0 \<Longrightarrow> designKeyOf cr = designKeyOf cr0"
  "identity cr = identity cr0 \<Longrightarrow> network_designKey cr = designKeyOf cr0"
  "identity cr = identity cr0 \<Longrightarrow> device_designKey cr = designKeyOf cr0"
  "identity cr = identity cr0 \<Longrightarrow> managed cr \<longleftrightarrow> managed cr0"
  "identity cr = identity cr0 \<Longrightarrow> net_Deleting cr \<longleftrightarrow> net_Deleting cr0"
  by (simp_all add: identity_def designKeyOf_def network_designKey_def device_designKey_def managed_def)

section \<open>One run of each controller\<close>

lemma healthyD:
  assumes "healthy c cs cr0 nd" and i: "identity cr = identity cr0"
  shows "managed cr" "\<not> net_Deleting cr" "conditions_lawful cs" "other_condition cs"
    "pe_conditions (clu_params c) = cs" "de_conditions (clu_device c) = cs" "ne_conditions (clu_network c) = cs"
    "api_AddFinalizer (pe_api (clu_params c)) cr = (cr, None)" "api_AddFinalizer (de_api (clu_device c)) cr = (cr, None)"
    "api_AddFinalizer (ne_api (clu_network c)) cr = (cr, None)"
    "api_StatusUpdate (pe_api (clu_params c)) x = None" "api_StatusUpdate (de_api (clu_device c)) x = None"
    "api_StatusUpdate (ne_api (clu_network c)) x = None"
    "pe_design (clu_params c) (designKeyOf cr) = Inr nd" "de_design (clu_device c) (device_designKey cr) = Inr nd"
    "ne_design (clu_network c) (network_designKey cr) = Inr nd"
    "ne_CalculateHash (clu_network c) (net_Spec cr) \<noteq> None"
    "snd (if IsDefaultNetwork cr then applyDefaultNetwork (clu_params c) cr nd
       else applyNetwork (clu_params c) cr nd) = None"
    "\<exists>as. device_apply (clu_device c) cr nd = Inr (as, None)"
    "snd (network_apply (clu_network c) cr) = None"
    "\<exists>items. de_ListNetworkDevices (clu_device c) = Inr items \<and> (\<forall>item \<in> set items. \<not> notReady item)"
    "\<exists>items. ne_ListConfigs (clu_network c) = Inr items \<and> (\<forall>item \<in> set items. \<not> notReady item)"
proof -
  have spec: "net_Spec cr = net_Spec cr0" using i by (simp add: identity_def)
  note h = assms(1) [unfolded healthy_def calm_def]
  show "managed cr" using h identity_keys(4) [OF i] by blast
  then show "\<not> net_Deleting cr" by (simp add: managed_def)
  show "conditions_lawful cs" "other_condition cs"
    "pe_conditions (clu_params c) = cs" "de_conditions (clu_device c) = cs" "ne_conditions (clu_network c) = cs"
    "api_AddFinalizer (pe_api (clu_params c)) cr = (cr, None)" "api_AddFinalizer (de_api (clu_device c)) cr = (cr, None)"
    "api_AddFinalizer (ne_api (clu_network c)) cr = (cr, None)"
    "api_StatusUpdate (pe_api (clu_params c)) x = None" "api_StatusUpdate (de_api (clu_device c)) x = None"
    "api_StatusUpdate (ne_api (clu_network c)) x = None"
    "\<exists>items. de_ListNetworkDevices (clu_device c) = Inr items \<and> (\<forall>item \<in> set items. \<not> notReady item)"
    "\<exists>items. ne_ListConfigs (clu_network c) = Inr items \<and> (\<forall>item \<in> set items. \<not> notReady item)"
    using h by blast+
  show "pe_design (clu_params c) (designKeyOf cr) = Inr nd" "de_design (clu_device c) (device_designKey cr) = Inr nd"
    "ne_design (clu_network c) (network_designKey cr) = Inr nd" "ne_CalculateHash (clu_network c) (net_Spec cr) \<noteq> None"
    unfolding identity_keys(1-3) [OF i] spec using h by blast+
  show "snd (if IsDefaultNetwork cr then applyDefaultNetwork (clu_params c) cr nd
       else applyNetwork (clu_params c) cr nd) = None"
    "\<exists>as. device_apply (clu_device c) cr nd = Inr (as, None)"
    "snd (network_apply (clu_network c) cr) = None"
    using h i by blast+
qed

lemma sees_simps [simp]:
  "api_Get (pe_api (paramsSees c cr)) = Got cr" "pe_conditions (paramsSees c cr) = pe_conditions (clu_params c)"
  "pe_design (paramsSees c cr) = pe_design (clu_params c)"
  "api_AddFinalizer (pe_api (paramsSees c cr)) = api_AddFinalizer (pe_api (clu_params c))"
  "api_StatusUpdate (pe_api (paramsSees c cr)) = api_StatusUpdate (pe_api (clu_params c))"
  "api_Get (de_api (deviceSees c cr)) = Got cr" "de_conditions (deviceSees c cr) = de_conditions (clu_device c)"
  "de_design (deviceSees c cr) = de_design (clu_device c)"
  "de_ListNetworkDevices (deviceSees c cr) = de_ListNetworkDevices (clu_device c)"
  "api_AddFinalizer (de_api (deviceSees c cr)) = api_AddFinalizer (de_api (clu_device c))"
  "api_StatusUpdate (de_api (deviceSees c cr)) = api_StatusUpdate (de_api (clu_device c))"
  "api_Get (ne_api (networkSees c cr)) = Got cr" "ne_conditions (networkSees c cr) = ne_conditions (clu_network c)"
  "ne_design (networkSees c cr) = ne_design (clu_network c)" "ne_ListConfigs (networkSees c cr) = ne_ListConfigs (clu_network c)"
  "api_AddFinalizer (ne_api (networkSees c cr)) = api_AddFinalizer (ne_api (clu_network c))"
  "api_StatusUpdate (ne_api (networkSees c cr)) = api_StatusUpdate (ne_api (clu_network c))"
  "hasConfigChanged (networkSees c cr) = hasConfigChanged (clu_network c)"
  by (simp_all add: paramsSees_def deviceSees_def networkSees_def hasConfigChanged_def fun_eq_iff)

lemma apply_sees [simp]:
  "applyDefaultNetwork (paramsSees c cr) = applyDefaultNetwork (clu_params c)"
  "applyNetwork (paramsSees c cr) = applyNetwork (clu_params c)"
  "device_apply (deviceSees c cr) = device_apply (clu_device c)"
  "network_apply (networkSees c cr) = network_apply (clu_network c)"
proof -
  show "applyDefaultNetwork (paramsSees c cr) = applyDefaultNetwork (clu_params c)"
    "applyNetwork (paramsSees c cr) = applyNetwork (clu_params c)"
    by (simp_all add: fun_eq_iff applyDefaultNetwork_def applyNetwork_def params_GetNodes_def params_GetLinks_def
        paramsSees_def cong: sum.case_cong)
  show "device_apply (deviceSees c cr) = device_apply (clu_device c)"
    by (simp add: fun_eq_iff device_apply_def buildDevices_def builderInputs_def deviceSees_def cong: sum.case_cong failure.case_cong)
  have "deviceConfig (networkSees c cr) = deviceConfig (clu_network c)"
    by (simp add: fun_eq_iff deviceConfig_def networkSees_def cong: option.case_cong)
  then have "deviceConfigs (networkSees c cr) nds = deviceConfigs (clu_network c) nds" for nds
    by (induction nds) (simp_all cong: sum.case_cong)
  then show "network_apply (networkSees c cr) = network_apply (clu_network c)"
    by (simp add: fun_eq_iff network_apply_def getNetworkDeviceConfigs_def) (simp add: networkSees_def cong: sum.case_cong)
qed

text \<open>A run of the parameters controller writes one condition, and makes it true.\<close>

lemma run_P:
  assumes h: "healthy c cs cr0 nd" and i: "identity cr = identity cr0"
  shows "run c P cr = (if isTrue cr ConditionTypeNetworkParamReady then cr else SetConditions cs [NetworkParamReady] cr)"
proof (cases "isTrue cr ConditionTypeNetworkParamReady")
  case True
  then show ?thesis
    using healthyD(2) [OF h i] by (simp add: params_Reconcile_def writeBack_def isTrue_def Let_def)
next
  case False
  let ?p = "paramsSees c cr"
  obtain as err where ap: "(if IsDefaultNetwork cr then applyDefaultNetwork ?p cr nd else applyNetwork ?p cr nd) = (as, err)"
    by fastforce
  have err: "err = None" using healthyD(18) [OF h i] ap unfolding apply_sees by simp
  have no: "statuses as = []"
    using ap by (auto simp: applyDefaultNetwork_def applyNetwork_def Let_def split: sum.splits if_splits)
  have "params_Reconcile ?p = does [AddFinalizer params_finalizer None] (does as
      (does [Event EventTypeNormal params_condition ''ready''] (updateStatus (pe_api ?p) (SetConditions cs [NetworkParamReady] cr) noResult)))"
    using False healthyD(2,5,8,14) [OF h i] ap err
    by (subst params_step [of _ cr cr None]) (simp_all add: isTrue_def del: apply_sees split del: if_split)
  then show ?thesis
    using False no healthyD(11) [OF h i] by (simp add: writeBack_def)
qed

text \<open>A run of the device controller waits for the parameters, and then makes its condition true.\<close>

lemma all_ready:
  assumes "\<forall>item \<in> set items. \<not> notReady item"
  shows "\<exists>ds. AreAllDeviceConfigsReady cs uid items = (True, False, ds)"
  using assms by (auto simp: AreAllDeviceConfigsReady_eq set_ownedItems)

lemma device_report_ready:
  assumes h: "healthy c cs cr0 nd" and i: "identity cr = identity cr0"
  shows "\<exists>ds. device_report (deviceSees c cr) cr = does [Event EventTypeNormal device_condition ''ready'']
    (updateStatus (de_api (deviceSees c cr))
      (SetConditions cs [NetworkDeviceReady] (cr\<lparr>net_Status := (net_Status cr)\<lparr>nst_DevicesConfigStatus := ds\<rparr>\<rparr>)) noResult)"
proof -
  obtain items where items: "de_ListNetworkDevices (clu_device c) = Inr items" "\<forall>item \<in> set items. \<not> notReady item"
    using healthyD(21) [OF h i] by blast
  obtain ds where "AreAllDeviceConfigsReady cs (net_UID cr) items = (True, False, ds)"
    using all_ready [OF items(2)] by blast
  then show ?thesis
    using items(1) healthyD(6) [OF h i]
    by (intro exI [of _ ds]) (simp add: device_report_def device_AreAllDeviceConfigsReady_def Let_def)
qed

lemma run_D:
  assumes h: "healthy c cs cr0 nd" and i: "identity cr = identity cr0"
  shows "\<exists>ds. run c D cr =
    (if cond_Status (GetCondition cr ConditionTypeNetworkParamReady) = ConditionFalse \<or> isTrue cr ConditionTypeNetworkDeviceReady
     then cr
     else SetConditions cs [NetworkDeviceReady] (cr\<lparr>net_Status := (net_Status cr)\<lparr>nst_DevicesConfigStatus := ds\<rparr>\<rparr>))"
proof -
  let ?d = "deviceSees c cr"
  obtain as where ap: "device_apply (clu_device c) cr nd = Inr (as, None)" using healthyD(19) [OF h i] by blast
  have no: "statuses as = []"
    using ap by (auto simp: device_apply_def Let_def split: sum.splits failure.splits)
  obtain ds where rep: "device_report ?d cr = does [Event EventTypeNormal device_condition ''ready'']
      (updateStatus (de_api ?d)
        (SetConditions cs [NetworkDeviceReady] (cr\<lparr>net_Status := (net_Status cr)\<lparr>nst_DevicesConfigStatus := ds\<rparr>\<rparr>)) noResult)"
    using device_report_ready [OF h i] by blast
  have "device_Reconcile ?d = does [AddFinalizer device_finalizer None]
      (if cond_Status (GetCondition cr ConditionTypeNetworkParamReady) = ConditionFalse \<or> isTrue cr ConditionTypeNetworkDeviceReady
       then finish noResult None else does as (device_report ?d cr))"
    using healthyD [OF h i] ap by (simp add: device_Reconcile_def Let_def isTrue_def)
  then show ?thesis
    using no rep healthyD(12) [OF h i] by (intro exI [of _ ds]) (simp add: writeBack_def)
qed

text \<open>
  A run of the network controller records what it saw, resets the children if that has changed, and then
  writes only its own condition.
\<close>

definition deployed :: "'c cluster \<Rightarrow> conditions \<Rightarrow> string \<Rightarrow> NetworkStatusDeviceStatus list" where
  "deployed c cs uid = (case ne_ListConfigs (clu_network c) of
      Inl _ \<Rightarrow> [] | Inr items \<Rightarrow> snd (snd (AreAllDeviceConfigsReady cs uid items)))"

lemma network_report_form:
  assumes h: "healthy c cs cr0 nd" and i: "identity cr = identity cr0"
  shows "statuses (out_Actions (network_report (networkSees c x) cr)) =
      [SetOverallStatus cs (SetConditions cs [cnd_Ready cs]
        (cr\<lparr>net_Status := (net_Status cr)\<lparr>nst_DevicesDeployStatus := deployed c cs (net_UID cr)\<rparr>\<rparr>))]"
    and "out_Result (network_report (networkSees c x) cr) = noResult" "out_Error (network_report (networkSees c x) cr) = None"
    "out_Panic (network_report (networkSees c x) cr) = None"
proof -
  obtain items where items: "ne_ListConfigs (clu_network c) = Inr items" "\<forall>item \<in> set items. \<not> notReady item"
    using healthyD(22) [OF h i] by blast
  obtain ds where "AreAllDeviceConfigsReady cs (net_UID cr) items = (True, False, ds)"
    using all_ready [OF items(2)] by blast
  then show "statuses (out_Actions (network_report (networkSees c x) cr)) =
      [SetOverallStatus cs (SetConditions cs [cnd_Ready cs]
        (cr\<lparr>net_Status := (net_Status cr)\<lparr>nst_DevicesDeployStatus := deployed c cs (net_UID cr)\<rparr>\<rparr>))]"
    and "out_Result (network_report (networkSees c x) cr) = noResult" "out_Error (network_report (networkSees c x) cr) = None"
    "out_Panic (network_report (networkSees c x) cr) = None"
    using items(1) healthyD(7,13) [OF h i]
    by (simp_all add: network_report_def network_AreAllDeviceConfigsReady_def deployed_def Let_def)
qed

lemma run_N:
  assumes h: "healthy c cs cr0 nd" and i: "identity cr = identity cr0"
    and ch: "hasConfigChanged (clu_network c) cr nd = (changed, cr2)"
  shows "\<exists>x ds. cond_Type x = cnd_ConditionTypeReady cs \<and>
    ds = (if AreChildConditionsReady (network_resetChildren cs changed cr2) then deployed c cs (net_UID cr)
          else nst_DevicesDeployStatus (net_Status (network_resetChildren cs changed cr2))) \<and>
    run c N cr = SetOverallStatus cs (SetConditions cs [x]
      ((network_resetChildren cs changed cr2)\<lparr>net_Status :=
         (net_Status (network_resetChildren cs changed cr2))\<lparr>nst_DevicesDeployStatus := ds\<rparr>\<rparr>))"
proof -
  let ?n = "networkSees c cr" and ?cr3 = "network_resetChildren cs changed cr2"
  have i3: "identity ?cr3 = identity cr0"
    using ch i by (auto simp: hasConfigChanged_def network_resetChildren_def split: option.splits if_splits)
  have law: "conditions_lawful cs" by (rule healthyD(3) [OF h i])
  note D = healthyD [OF h i]
  obtain as where ap: "network_apply (clu_network c) ?cr3 = (as, None)"
    using healthyD(20) [OF h i3] by (metis prod.collapse)
  have no: "statuses as = []"
    using ap by (auto simp: network_apply_def Let_def split: sum.splits)
  have step: "network_Reconcile ?n = does [AddFinalizer network_finalizer None]
     (if \<not> AreChildConditionsReady ?cr3 then network_wait ?n ?cr3 else does as (network_report ?n ?cr3))"
    using ap ch D by (subst network_step [of _ cr cr nd changed cr2]) (simp_all add: Let_def)
  show ?thesis
  proof (cases "AreChildConditionsReady ?cr3")
    case True
    have "net_UID ?cr3 = net_UID cr" using i i3 by (simp add: identity_def)
    then show ?thesis
      using True no step lawful_types(1) [OF law] network_report_form(1) [OF h i3, of cr]
      by (intro exI [of _ "cnd_Ready cs"] exI [of _ "deployed c cs (net_UID cr)"]) (simp add: writeBack_def)
  next
    case False
    then show ?thesis
      using step D(7,13) lawful_types(2,3) [OF law]
      by (intro exI [of _ "cnd_Failed cs (GetFailedMessage ?cr3)"] exI [of _ "nst_DevicesDeployStatus (net_Status ?cr3)"])
        (simp add: writeBack_def network_wait_def DidAChildConditionFail_def Let_def)
  qed
qed

section \<open>Progress\<close>

declare run.simps [simp del]

lemma changed_recorded:
  assumes "hasConfigChanged n cr nd = (True, cr2)" and "ne_CalculateHash n (net_Spec cr) \<noteq> None"
  shows "nst_UsedReferences (net_Status cr2) = Some (usedReferences (the (ne_CalculateHash n (net_Spec cr))) nd)"
    and "identity cr2 = identity cr"
  using assms by (auto simp: hasConfigChanged_def split: option.splits if_splits)

lemma unchanged_same: "hasConfigChanged n cr nd = (False, cr2) \<Longrightarrow> cr2 = cr"
  by (auto simp: hasConfigChanged_def split: option.splits if_splits)

lemma recorded_unchanged:
  assumes "nst_UsedReferences (net_Status cr) = Some (usedReferences h nd)" and "ne_CalculateHash (clu_network c) (net_Spec cr) = Some h"
  shows "unchanged c nd cr"
  using assms by (simp add: unchanged_def hasConfigChanged_def usedReferences_def)

lemma UsedReferences_reset [simp]:
  "nst_UsedReferences (net_Status (network_resetChildren cs b cr)) = nst_UsedReferences (net_Status cr)"
  "identity (network_resetChildren cs b cr) = identity cr"
  by (simp_all add: network_resetChildren_def)

lemma GetCondition_status_lists [simp]:
  "GetCondition (cr\<lparr>net_Status := (net_Status cr)\<lparr>nst_DevicesDeployStatus := ds\<rparr>\<rparr>) t = GetCondition cr t"
  "GetCondition (cr\<lparr>net_Status := (net_Status cr)\<lparr>nst_DevicesConfigStatus := ds\<rparr>\<rparr>) t = GetCondition cr t"
  by (simp_all add: GetCondition_def)

lemma children_status_lists [simp]:
  "AreChildConditionsReady (cr\<lparr>net_Status := (net_Status cr)\<lparr>nst_DevicesDeployStatus := ds\<rparr>\<rparr>) = AreChildConditionsReady cr"
  by (simp add: AreChildConditionsReady_iff)

text \<open>What a run of the network controller keeps and what it achieves.\<close>

lemma run_N_effect:
  assumes h: "healthy c cs cr0 nd" and i: "identity cr = identity cr0"
  shows "identity (run c N cr) = identity cr0" "unchanged c nd (run c N cr)"
    and "unchanged c nd cr \<Longrightarrow> t \<noteq> cnd_ConditionTypeReady cs \<Longrightarrow> GetCondition (run c N cr) t = GetCondition cr t"
    and "unchanged c nd cr \<Longrightarrow> AreChildConditionsReady cr \<Longrightarrow> isTrue (run c N cr) (cnd_ConditionTypeReady cs)"
proof -
  obtain changed cr2 where ch: "hasConfigChanged (clu_network c) cr nd = (changed, cr2)" by fastforce
  obtain x ds where x: "cond_Type x = cnd_ConditionTypeReady cs" and r: "run c N cr =
    SetOverallStatus cs (SetConditions cs [x]
      ((network_resetChildren cs changed cr2)\<lparr>net_Status :=
         (net_Status (network_resetChildren cs changed cr2))\<lparr>nst_DevicesDeployStatus := ds\<rparr>\<rparr>))"
    using run_N [OF h i ch] by blast
  note D = healthyD [OF h i]
  have i2: "identity cr2 = identity cr0"
    using ch i by (auto simp: hasConfigChanged_def split: option.splits if_splits)
  show id: "identity (run c N cr) = identity cr0" unfolding r by (simp add: i2)
  have used: "nst_UsedReferences (net_Status (run c N cr)) = nst_UsedReferences (net_Status cr2)"
    unfolding r by simp
  show "unchanged c nd (run c N cr)"
  proof (cases changed)
    case False
    then have "unchanged c nd cr2" "cr2 = cr" using ch unchanged_same by (auto simp: unchanged_def)
    then show ?thesis using used id i2 by (subst unchanged_cong [of _ cr2]) simp_all
  next
    case True
    obtain hash where hash: "ne_CalculateHash (clu_network c) (net_Spec cr) = Some hash" using D(17) by blast
    have "nst_UsedReferences (net_Status (run c N cr)) = Some (usedReferences hash nd)"
      using changed_recorded(1) [of "clu_network c" cr nd cr2] ch True hash used by simp
    moreover have "net_Spec (run c N cr) = net_Spec cr" using id i by (simp add: identity_def)
    ultimately show ?thesis using hash by (intro recorded_unchanged) simp_all
  qed
  have un: "run c N cr = SetOverallStatus cs (SetConditions cs [x]
      (cr\<lparr>net_Status := (net_Status cr)\<lparr>nst_DevicesDeployStatus := ds\<rparr>\<rparr>))" if "unchanged c nd cr"
    using r ch that by (simp add: unchanged_def)
  show "GetCondition (run c N cr) t = GetCondition cr t" if "unchanged c nd cr" "t \<noteq> cnd_ConditionTypeReady cs"
    unfolding un [OF that(1)] using that(2) x D(3) by (simp add: overallStatus_cases lawful_types)
  show "isTrue (run c N cr) (cnd_ConditionTypeReady cs)" if "unchanged c nd cr" "AreChildConditionsReady cr"
    unfolding un [OF that(1)] isTrue_def using that(2) x D(3,4)
    by (simp add: ready_SetOverallStatus children_SetConditions)
qed

lemma run_P_effect:
  assumes h: "healthy c cs cr0 nd" and i: "identity cr = identity cr0"
  shows "identity (run c P cr) = identity cr0" "unchanged c nd cr \<Longrightarrow> unchanged c nd (run c P cr)"
    and "isTrue (run c P cr) ConditionTypeNetworkParamReady" "isTrue cr t \<Longrightarrow> isTrue (run c P cr) t"
proof -
  show "identity (run c P cr) = identity cr0" using i by (simp add: run_P [OF h i])
  show "unchanged c nd cr \<Longrightarrow> unchanged c nd (run c P cr)"
    by (subst unchanged_cong [of _ cr]) (simp_all add: run_P [OF h i])
  show "isTrue (run c P cr) ConditionTypeNetworkParamReady" "isTrue cr t \<Longrightarrow> isTrue (run c P cr) t"
    using healthyD(3) [OF h i] by (simp_all add: run_P [OF h i] isTrue_def)
qed

lemma run_D_effect:
  assumes h: "healthy c cs cr0 nd" and i: "identity cr = identity cr0"
  shows "identity (run c D cr) = identity cr0" "unchanged c nd cr \<Longrightarrow> unchanged c nd (run c D cr)"
    and "isTrue cr ConditionTypeNetworkParamReady \<Longrightarrow> isTrue (run c D cr) ConditionTypeNetworkDeviceReady"
    and "isTrue cr t \<Longrightarrow> isTrue (run c D cr) t"
proof -
  obtain ds where r: "run c D cr =
    (if cond_Status (GetCondition cr ConditionTypeNetworkParamReady) = ConditionFalse \<or> isTrue cr ConditionTypeNetworkDeviceReady
     then cr
     else SetConditions cs [NetworkDeviceReady] (cr\<lparr>net_Status := (net_Status cr)\<lparr>nst_DevicesConfigStatus := ds\<rparr>\<rparr>))"
    using run_D [OF h i] by blast
  show "identity (run c D cr) = identity cr0" using i by (simp add: r)
  show "unchanged c nd cr \<Longrightarrow> unchanged c nd (run c D cr)"
    by (subst unchanged_cong [of _ cr]) (simp_all add: r)
  show "isTrue cr ConditionTypeNetworkParamReady \<Longrightarrow> isTrue (run c D cr) ConditionTypeNetworkDeviceReady"
    "isTrue cr t \<Longrightarrow> isTrue (run c D cr) t"
    using healthyD(3) [OF h i] by (auto simp: r isTrue_def)
qed

lemma identity_run: "healthy c cs cr0 nd \<Longrightarrow> identity cr = identity cr0 \<Longrightarrow> identity (run c w cr) = identity cr0"
  by (cases w) (simp_all add: run_N_effect run_P_effect run_D_effect)

lemma stage_children: "stage c cs cr0 nd 3 cr \<Longrightarrow> AreChildConditionsReady cr"
  by (simp add: stage_def isTrue_def AreChildConditionsReady_iff)

lemma ready_type_other:
  assumes "healthy c cs cr0 nd"
  shows "ConditionTypeNetworkParamReady \<noteq> cnd_ConditionTypeReady cs" "ConditionTypeNetworkDeviceReady \<noteq> cnd_ConditionTypeReady cs"
  using healthyD(4) [OF assms refl] by (auto simp: other_condition_def)

text \<open>No run takes a network back to an earlier stage.\<close>

lemma stage_kept:
  assumes h: "healthy c cs cr0 nd" and s: "stage c cs cr0 nd k cr" and k: "k \<le> 4"
  shows "stage c cs cr0 nd k (run c w cr)"
proof -
  have i: "identity cr = identity cr0" using s by (simp add: stage_def)
  have un: "1 \<le> k \<Longrightarrow> unchanged c nd cr" using s by (simp add: stage_def)
  show ?thesis
  proof (cases w)
    case N
    have keep: "1 \<le> k \<Longrightarrow> t \<noteq> cnd_ConditionTypeReady cs \<Longrightarrow> isTrue (run c N cr) t = isTrue cr t" for t
      using run_N_effect(3) [OF h i un] by (simp add: isTrue_def)
    have "4 \<le> k \<Longrightarrow> isTrue (run c N cr) (cnd_ConditionTypeReady cs)"
      using s un by (intro run_N_effect(4) [OF h i]) (auto simp: stage_def isTrue_def AreChildConditionsReady_iff)
    then show ?thesis
      using s keep run_N_effect(1,2) [OF h i] ready_type_other [OF h] unfolding N stage_def by auto
  next
    case P
    then show ?thesis using s un run_P_effect [OF h i] by (auto simp: stage_def)
  next
    case D
    then show ?thesis using s un run_D_effect [OF h i] by (auto simp: stage_def)
  qed
qed

definition script :: "who list" where "script = [N, P, D, N]"

text \<open>The controller that is due takes it to the next one.\<close>

lemma stage_reached:
  assumes h: "healthy c cs cr0 nd" and s: "stage c cs cr0 nd k cr" and k: "k < 4"
  shows "stage c cs cr0 nd (Suc k) (run c (script ! k) cr)"
proof -
  have i: "identity cr = identity cr0" using s by (simp add: stage_def)
  have kept: "stage c cs cr0 nd k (run c (script ! k) cr)" using stage_kept [OF h s] k by simp
  consider "k = 0" | "k = 1" | "k = 2" | "k = 3" using k by linarith
  then show ?thesis
  proof cases
    case 1
    then show ?thesis using kept run_N_effect(2) [OF h i] by (simp add: stage_def script_def)
  next
    case 2
    then show ?thesis using kept run_P_effect(3) [OF h i] by (simp add: stage_def script_def)
  next
    case 3
    then show ?thesis using s kept run_D_effect(3) [OF h i] by (simp add: stage_def script_def)
  next
    case 4
    then show ?thesis using s kept run_N_effect(4) [OF h i] stage_children [of c cs cr0 nd cr]
      by (simp add: stage_def script_def)
  qed
qed

lemma script_completes:
  assumes h: "healthy c cs cr0 nd"
  shows "stage c cs cr0 nd k cr \<Longrightarrow> k \<le> 4 \<Longrightarrow> subseq (drop k script) ws \<Longrightarrow> stage c cs cr0 nd 4 (runs c ws cr)"
proof (induction ws arbitrary: k cr)
  case Nil
  then have "drop k script = []" by (blast dest: list_emb_Nil2)
  then have "k = 4" using Nil(2) by (simp add: script_def)
  with Nil(1) show ?case by (simp add: runs_def)
next
  case (Cons w ws)
  show ?case
  proof (cases "subseq (drop k script) ws")
    case True
    then show ?thesis using Cons.IH [OF stage_kept [OF h Cons.prems(1,2)] Cons.prems(2)] by (simp add: runs_def)
  next
    case False
    have k: "k < 4"
    proof (rule ccontr)
      assume "\<not> k < 4"
      then have "drop k script = []" by (simp add: script_def)
      with False show False by simp
    qed
    then have d: "drop k script = script ! k # drop (Suc k) script"
      by (intro Cons_nth_drop_Suc [symmetric]) (simp add: script_def)
    with Cons.prems(3) False have "script ! k = w" and "subseq (drop (Suc k) script) ws"
      by (auto elim: list_emb.cases split: if_splits)
    then show ?thesis
      using Cons.IH [of "Suc k" "run c w cr"] stage_reached [OF h Cons.prems(1) k] k by (simp add: runs_def)
  qed
qed

section \<open>Properties\<close>

text \<open>
  The controllers bring a network up. In a healthy cluster, whatever the status of the network, every
  schedule of runs in which the network, the parameters, the device and again the network controller come in
  this order, with any other runs between them, ends with all three conditions true; and they stay true under
  all further runs.
\<close>

theorem network_becomes_ready:
  assumes "healthy c cs cr nd" and "subseq [N, P, D, N] ws"
  shows "isTrue (runs c (ws @ later) cr) (cnd_ConditionTypeReady cs) \<and>
    isTrue (runs c (ws @ later) cr) ConditionTypeNetworkParamReady \<and>
    isTrue (runs c (ws @ later) cr) ConditionTypeNetworkDeviceReady \<and>
    net_Spec (runs c (ws @ later) cr) = net_Spec cr"
proof -
  have "subseq (drop 0 script) (ws @ later)"
    using subseq_rev_drop_many [OF assms(2)] by (simp add: script_def)
  moreover have "stage c cs cr nd 0 cr" by (simp add: stage_def)
  ultimately have "stage c cs cr nd 4 (runs c (ws @ later) cr)"
    using script_completes [OF assms(1), of 0] by blast
  then show ?thesis by (simp add: stage_def identity_def)
qed


end
