(* ===== verification/DesignController.thy ===== *)
theory DesignController
  imports Claims Reconcile
begin

text \<open>
  The network design controller (\<open>reconcilers/networkdesign/reconciler.go\<close>): it claims the pools and AS
  numbers of a design once the topology is ready, and takes everything back when that fails.
\<close>

datatype designRes = ASIndexRes NamespacedName | DesignIPClaim IPClaim | DesignASClaim ASClaim

record design_env =
  dge_api :: "(NetworkDesign, designRes) api"
  dge_conditions :: conditions
  dge_claims :: claim_env
  dge_topology :: "NamespacedName \<Rightarrow> Condition got"  \<comment> \<open>the Ready condition of the topology\<close>

definition design_finalizer :: string where
  "design_finalizer = ''networkdesign.network.app.kuid.dev/finalizer''"

definition design_crName :: string where "design_crName = ''networkdesign''"

definition design_kinds1 :: "Kind list" where "design_kinds1 = [GENIDClaimKind, ASIndexKind]"
definition design_kinds2 :: "Kind list" where "design_kinds2 = [ASClaimKind, IPClaimKind]"

text \<open>The index is listed twice and the AS claim is not (\<open>reconciler.go:210-211\<close>).\<close>

definition design_deleteKinds :: "Kind list" where
  "design_deleteKinds = [GENIDClaimKind, ASIndexKind, ASIndexKind, IPClaimKind]"

definition isTopologyReady :: "design_env \<Rightarrow> NetworkDesign \<Rightarrow> bool" where
  "isTopologyReady d cr =
     (case dge_topology d \<lparr>nsn_Namespace = nd_Namespace cr, nsn_Name = nds_Topology (nd_Spec cr)\<rparr> of
        Got c \<Rightarrow> cond_Status c = ConditionTrue | NotFound \<Rightarrow> False | GetFailed _ \<Rightarrow> False)"

text \<open>
  The claims are derived after the index was applied; deriving them labels the prefixes of the object in
  hand, which is the third result.
\<close>

definition design_apply ::
  "design_env \<Rightarrow> NetworkDesign \<Rightarrow> (NetworkDesign, designRes) action list \<times> string option \<times> NetworkDesign" where
  "design_apply d cr =
     (let index = [ASIndexRes (GetASIndex cr)];
          err1 = api_APIApply (dge_api d) design_kinds1 index cr
      in if err1 \<noteq> None then ([APIApply design_kinds1 index err1], err1, cr)
         else case GetIPClaims (dge_claims d) cr of (ipClaims, cr1) \<Rightarrow>
           let claims = map DesignIPClaim ipClaims @ map DesignASClaim (GetASClaims cr1);
               err2 = api_APIApply (dge_api d) design_kinds2 claims cr1
           in ([APIApply design_kinds1 index err1, APIApply design_kinds2 claims err2], err2, cr1))"

definition design_handleError ::
  "conditions \<Rightarrow> NetworkDesign \<Rightarrow> string \<Rightarrow> string option \<Rightarrow> NetworkDesign \<times> (NetworkDesign, designRes) action" where
  "design_handleError cs cr msg err =
     (Design_SetConditions cs [cnd_Failed cs (failureMessage msg err)] cr, warning design_crName msg err)"

definition design_delete :: "design_env \<Rightarrow> NetworkDesign \<Rightarrow> (NetworkDesign, designRes) action list \<times> string option" where
  "design_delete d cr = deleteOwned (dge_api d) design_deleteKinds cr"

declare design_delete_def [simp]

definition design_Reconcile :: "design_env \<Rightarrow> (NetworkDesign, designRes) outcome" where
  "design_Reconcile d =
     (let a = dge_api d; cs = dge_conditions d; handleError = design_handleError cs in
      readCr a (\<lambda>cr.
        if nd_Deleting cr then reconcileDelete a (design_delete d) design_finalizer handleError cr
        else case api_AddFinalizer a cr of (cr1, err1) \<Rightarrow>
          does [AddFinalizer design_finalizer err1]
           (if err1 \<noteq> None then failed a (handleError cr1 ''cannot add finalizer'' err1) requeue
            else if \<not> isTopologyReady d cr1
            then does [Event EventTypeWarning design_crName ''topology not ready'']
                   (updateStatus a (Design_SetConditions cs [cnd_Failed cs ''topology not ready''] cr1) noResult)
            else case design_apply d cr1 of
              (as, None, cr2) \<Rightarrow>
                does (as @ [Event EventTypeNormal design_crName ''ready''])
                  (updateStatus a (Design_SetConditions cs [cnd_Ready cs] cr2) noResult)
            | (as, Some err, cr2) \<Rightarrow>
                case design_delete d cr2 of (deleted, errd) \<Rightarrow>
                does (as @ deleted)
                 (case errd of
                    Some e \<Rightarrow> failed a (handleError cr2 ''cannot delete resource after apply failed'' (errors_Join (Some err) e)) requeueAfter2s
                  | None \<Rightarrow> failed a (handleError cr2 ''cannot apply resource'' (Some err)) requeueAfter2s))))"

section \<open>The contract of a controller\<close>

lemma design_apply_acts:
  assumes "design_apply d cr = (as, err, cr')"
  shows "guarded True deleted (as @ bs) = guarded True deleted bs" and "APIDelete ks e \<notin> set as"
    and "RemoveFinalizer f e \<notin> set as"
  using assms by (auto simp: design_apply_def Let_def split: prod.splits if_splits)

interpretation design: finalized design_Reconcile
proof
  fix d
  show "guarded False False (out_Actions (design_Reconcile d))"
    by (auto simp: design_Reconcile_def readCr_def reconcileDelete_def design_handleError_def design_apply_acts Let_def
        split: got.splits prod.splits option.splits if_splits)
qed

lemma design_deletes:
  assumes "APIDelete ks e \<in> set (out_Actions (design_Reconcile d))"
  shows "ks = design_deleteKinds"
  using assms
  by (auto simp: design_Reconcile_def readCr_def reconcileDelete_def design_handleError_def Let_def
      dest: design_apply_acts(2) split: got.splits prod.splits option.splits if_splits)

section \<open>Properties\<close>


text \<open>
  C34. What a design applies. The topology is ready; first the AS index named after the design, then, once
  it was accepted, one claim per prefix of its loopbacks and links and the AS claims of its protocols; the
  status says ready iff both were accepted, and otherwise everything listed for deletion is taken back and
  the call is repeated after two seconds.
\<close>

theorem design_apply_or_rollback:
  assumes "api_Get (dge_api d) = Got cr" and "\<not> nd_Deleting cr" and "api_AddFinalizer (dge_api d) cr = (cr1, None)"
    and "isTopologyReady d cr1" and "design_apply d cr1 = (as, err, cr2)"
  shows "if err = None
    then out_Actions (design_Reconcile d) =
        [AddFinalizer design_finalizer None, APIApply design_kinds1 [ASIndexRes (GetASIndex cr1)] None,
         APIApply design_kinds2
           (map DesignIPClaim (fst (GetIPClaims (dge_claims d) cr1)) @ map DesignASClaim (GetASClaims cr2)) None,
         Event EventTypeNormal design_crName ''ready'',
         StatusUpdate (Design_SetConditions (dge_conditions d) [cnd_Ready (dge_conditions d)] cr2)
           (api_StatusUpdate (dge_api d) (Design_SetConditions (dge_conditions d) [cnd_Ready (dge_conditions d)] cr2))] \<and>
      out_Result (design_Reconcile d) = noResult
    else (\<exists>errd. APIDelete design_deleteKinds errd \<in> set (out_Actions (design_Reconcile d))) \<and>
      out_Result (design_Reconcile d) = requeueAfter2s \<and>
      (\<exists>m. StatusUpdate (Design_SetConditions (dge_conditions d) [cnd_Failed (dge_conditions d) m] cr2)
        (api_StatusUpdate (dge_api d) (Design_SetConditions (dge_conditions d) [cnd_Failed (dge_conditions d) m] cr2))
        \<in> set (out_Actions (design_Reconcile d)))"
proof (cases err)
  case None
  then have "as = [APIApply design_kinds1 [ASIndexRes (GetASIndex cr1)] None,
      APIApply design_kinds2 (map DesignIPClaim (fst (GetIPClaims (dge_claims d) cr1)) @ map DesignASClaim (GetASClaims cr2)) None]"
    using assms(5) by (auto simp: design_apply_def Let_def split: prod.splits if_splits)
  then show ?thesis using assms None by (simp add: design_Reconcile_def Let_def)
next
  case (Some e)
  then show ?thesis
    using assms by (auto simp: design_Reconcile_def design_handleError_def Let_def split: option.splits)
qed

end
