(* ===== verification/Clab.thy ===== *)
theory Clab
  imports External
begin

text \<open>
  The inventory that a containerlab topology describes (\<open>pkg/clab/clabkuid.go\<close>). The parsed file is of the
  containerlab package: a record of what the code reads of it, with the method \<open>GetNodeKindType\<close> as a
  function. Every entry of its maps and lists is taken to be present.
\<close>

section \<open>The parsed file and the objects\<close>

record clabNode =
  cn_Labels :: "string \<rightharpoonup> string"

record clabLink =
  clk_Endpoints :: "string list"
  clk_Labels :: "string \<rightharpoonup> string"

record clabConfig =
  cfg_Name :: string
  cfg_Nodes :: "string \<rightharpoonup> clabNode"
  cfg_Links :: "clabLink list"
  cfg_GetNodeKindType :: "string \<Rightarrow> string \<times> string"

record SiteID =
  sid_Region :: string
  sid_Site :: string

text \<open>The label keys of the backend and how its identifiers print.\<close>

record clab_env =
  cbe_KuidINVExclude :: string
  cbe_KuidINVNodeTypeKey :: string
  cbe_KuidINVSiteKey :: string
  cbe_KuidINVRegionKey :: string
  cbe_KuidINVPositionKey :: string
  cbe_KuidINVLocationKey :: string
  cbe_NodeKuidString :: "string \<times> NodeID \<Rightarrow> string"
  cbe_EndpointKuidString :: "NodeGroupEndpointID \<Rightarrow> string"
  cbe_EndpointSpecKuidString :: "string \<Rightarrow> NodeGroupEndpointID \<Rightarrow> string"  \<comment> \<open>of the provider and the id\<close>

record clabkuid =
  ck_env :: clab_env
  ck_siteID :: SiteID
  ck_cfg :: clabConfig

record Location =
  loc_Longitude :: string
  loc_Latitude :: string

text \<open>A node group node id is the pair of its group and its node id.\<close>

record clabNodeObject =
  cno_Name :: string
  cno_Namespace :: string
  cno_NodeGroupNodeID :: "string \<times> NodeID"
  cno_Rack :: "string option"
  cno_Position :: "string option"
  cno_Location :: "Location option"
  cno_Provider :: string
  cno_Labels :: "string \<rightharpoonup> string"

record EndpointSpec =
  eps_Provider :: string
  eps_ID :: NodeGroupEndpointID

record clabEndpointObject =
  ceo_Name :: string
  ceo_Namespace :: string
  ceo_Spec :: EndpointSpec

record clabLinkObject =
  clo_Name :: string
  clo_Namespace :: string
  clo_Endpoints :: "NodeGroupEndpointID list"
  clo_Labels :: "string \<rightharpoonup> string"

section \<open>Labels\<close>

definition getSite :: "clabkuid \<Rightarrow> (string \<rightharpoonup> string) \<Rightarrow> string" where
  "getSite r labels = (case labels (cbe_KuidINVSiteKey (ck_env r)) of Some site \<Rightarrow> site | None \<Rightarrow> sid_Site (ck_siteID r))"

definition getRegion :: "clabkuid \<Rightarrow> (string \<rightharpoonup> string) \<Rightarrow> string" where
  "getRegion r labels = (case labels (cbe_KuidINVRegionKey (ck_env r)) of Some region \<Rightarrow> region | None \<Rightarrow> sid_Region (ck_siteID r))"

text \<open>The key is the one of the region (\<open>clabkuid.go:217\<close>).\<close>

definition getRack :: "clabkuid \<Rightarrow> (string \<rightharpoonup> string) \<Rightarrow> string option" where
  "getRack r labels = labels (cbe_KuidINVRegionKey (ck_env r))"

definition getPosition :: "clabkuid \<Rightarrow> (string \<rightharpoonup> string) \<Rightarrow> string option" where
  "getPosition r labels = labels (cbe_KuidINVPositionKey (ck_env r))"

definition getLocation :: "clabkuid \<Rightarrow> (string \<rightharpoonup> string) \<Rightarrow> Location option" where
  "getLocation r labels = (case labels (cbe_KuidINVLocationKey (ck_env r)) of
      None \<Rightarrow> None
    | Some location \<Rightarrow>
        let parts = strings_Split CHR '':'' location
        in if length parts \<noteq> 2 then None else Some \<lparr>loc_Longitude = parts ! 0, loc_Latitude = parts ! 1\<rparr>)"

definition getProvider :: "string \<Rightarrow> string" where
  "getProvider nodeKind =
     (if nodeKind = ''nokia_srlinux'' then ''srlinux.nokia.com''
      else if nodeKind = ''nokia_sros'' then ''sros.nokia.com'' else '''')"

definition getNodeGroupNodeID :: "clabkuid \<Rightarrow> string \<Rightarrow> (string \<rightharpoonup> string) \<Rightarrow> string \<times> NodeID" where
  "getNodeGroupNodeID r nodeName labels =
     (cfg_Name (ck_cfg r), \<lparr>nid_Region = getRegion r labels, nid_Site = getSite r labels, nid_Node = nodeName\<rparr>)"

definition excluded :: "clabkuid \<Rightarrow> (string \<rightharpoonup> string) \<Rightarrow> bool" where
  "excluded r labels \<longleftrightarrow> labels (cbe_KuidINVExclude (ck_env r)) \<noteq> None"

section \<open>Nodes\<close>

definition clabNodeOf :: "clabkuid \<Rightarrow> string \<Rightarrow> clabNode \<Rightarrow> clabNodeObject" where
  "clabNodeOf r nodeName n =
     (case cfg_GetNodeKindType (ck_cfg r) nodeName of (nodeKind, nodeType) \<Rightarrow>
      let nodeGroupNodeID = getNodeGroupNodeID r nodeName (cn_Labels n)
      in \<lparr>cno_Name = cbe_NodeKuidString (ck_env r) nodeGroupNodeID, cno_Namespace = ''default'',
          cno_NodeGroupNodeID = nodeGroupNodeID, cno_Rack = getRack r (cn_Labels n),
          cno_Position = getPosition r (cn_Labels n), cno_Location = getLocation r (cn_Labels n),
          cno_Provider = getProvider nodeKind,
          cno_Labels = [cbe_KuidINVNodeTypeKey (ck_env r) \<mapsto> nodeType] ++ cn_Labels n\<rparr>)"

text \<open>The order in which Go ranges over the nodes is the parameter \<open>order\<close>.\<close>

definition clab_GetNodes :: "clabkuid \<Rightarrow> string list \<Rightarrow> clabNodeObject list" where
  "clab_GetNodes r order = List.map_filter (\<lambda>nodeName. case cfg_Nodes (ck_cfg r) nodeName of
      None \<Rightarrow> None
    | Some n \<Rightarrow> if excluded r (cn_Labels n) then None else Some (clabNodeOf r nodeName n)) order"

section \<open>Links and endpoints\<close>

text \<open>One end of a link, \<open>nodeName:epName\<close>; \<open>None\<close> for the nil that \<open>getEndpoints\<close> returns.\<close>

definition getEndpointSpec :: "clabkuid \<Rightarrow> string \<Rightarrow> EndpointSpec option" where
  "getEndpointSpec r nodeEPName =
     (let parts = strings_Split CHR '':'' nodeEPName
      in if length parts \<noteq> 2 then None
         else let nodeName = parts ! 0; epName = parts ! 1
              in case cfg_Nodes (ck_cfg r) nodeName of
                   None \<Rightarrow> None
                 | Some n \<Rightarrow> Some \<lparr>eps_Provider = getProvider (fst (cfg_GetNodeKindType (ck_cfg r) nodeName)),
                     eps_ID = \<lparr>ngep_NodeGroup = cfg_Name (ck_cfg r),
                       ngep_EndpointID = \<lparr>epid_Endpoint = epName,
                         epid_NodeID = snd (getNodeGroupNodeID r nodeName (cn_Labels n))\<rparr>\<rparr>\<rparr>)"

fun allSome :: "'a option list \<Rightarrow> 'a list option" where
  "allSome [] = Some []"
| "allSome (None # xs) = None"
| "allSome (Some x # xs) = map_option (Cons x) (allSome xs)"

definition getEndpoints :: "clabkuid \<Rightarrow> clabLink \<Rightarrow> EndpointSpec list option" where
  "getEndpoints r l =
     (if length (clk_Endpoints l) \<noteq> 2 then None else allSome (map (getEndpointSpec r) (clk_Endpoints l)))"

definition clabLinkOf :: "clabkuid \<Rightarrow> clabLink \<Rightarrow> EndpointSpec list \<Rightarrow> clabLinkObject" where
  "clabLinkOf r l epSpecs =
     \<lparr>clo_Name = dot (cbe_EndpointKuidString (ck_env r) (eps_ID (epSpecs ! 0))) (cbe_EndpointKuidString (ck_env r) (eps_ID (epSpecs ! 1))),
      clo_Namespace = ''default'', clo_Endpoints = [eps_ID (epSpecs ! 0), eps_ID (epSpecs ! 1)], clo_Labels = clk_Labels l\<rparr>"

text \<open>The loop over the links returns nil at the first link it cannot read.\<close>

fun linksLoop :: "clabkuid \<Rightarrow> clabLink list \<Rightarrow> clabLinkObject list \<Rightarrow> clabLinkObject list" where
  "linksLoop r [] links = links"
| "linksLoop r (l # ls) links =
     (if excluded r (clk_Labels l) then linksLoop r ls links
      else case getEndpoints r l of
        None \<Rightarrow> []
      | Some epSpecs \<Rightarrow> if length epSpecs \<noteq> 2 then [] else linksLoop r ls (links @ [clabLinkOf r l epSpecs]))"

definition clab_GetLinks :: "clabkuid \<Rightarrow> clabLinkObject list" where
  "clab_GetLinks r = linksLoop r (cfg_Links (ck_cfg r)) []"

fun endpointsLoop :: "clabkuid \<Rightarrow> clabLink list \<Rightarrow> clabEndpointObject list \<Rightarrow> clabEndpointObject list" where
  "endpointsLoop r [] endpoints = endpoints"
| "endpointsLoop r (l # ls) endpoints =
     (if excluded r (clk_Labels l) then endpointsLoop r ls endpoints
      else case getEndpoints r l of
        None \<Rightarrow> []
      | Some eps \<Rightarrow> if length eps \<noteq> 2 then []
          else endpointsLoop r ls (endpoints @ map (\<lambda>epSpec. \<lparr>ceo_Name = cbe_EndpointSpecKuidString (ck_env r) (eps_Provider epSpec) (eps_ID epSpec),
            ceo_Namespace = ''default'', ceo_Spec = epSpec\<rparr>) eps))"

definition clab_GetEndpoints :: "clabkuid \<Rightarrow> clabEndpointObject list" where
  "clab_GetEndpoints r = endpointsLoop r (cfg_Links (ck_cfg r)) []"

section \<open>What the loops compute\<close>

definition readable :: "clabkuid \<Rightarrow> clabLink \<Rightarrow> bool" where
  "readable r l \<longleftrightarrow> getEndpoints r l \<noteq> None"

lemma allSome_length: "allSome xs = Some ys \<Longrightarrow> length ys = length xs"
  by (induction xs arbitrary: ys rule: allSome.induct) auto

lemma allSome_nth: "allSome xs = Some ys \<Longrightarrow> i < length xs \<Longrightarrow> xs ! i = Some (ys ! i)"
  by (induction xs arbitrary: ys i rule: allSome.induct) (auto simp: nth_Cons split: nat.splits)

lemma getEndpoints_two: "getEndpoints r l = Some eps \<Longrightarrow> length eps = 2"
  by (auto simp: getEndpoints_def dest: allSome_length split: if_splits)

abbreviation included :: "clabkuid \<Rightarrow> clabLink list \<Rightarrow> clabLink list" where
  "included r ls \<equiv> filter (\<lambda>l. \<not> excluded r (clk_Labels l)) ls"

lemma linksLoop_eq:
  "linksLoop r ls links =
     (if \<forall>l \<in> set (included r ls). readable r l
      then links @ map (\<lambda>l. clabLinkOf r l (the (getEndpoints r l))) (included r ls) else [])"
  by (induction r ls links rule: linksLoop.induct) (auto simp: readable_def getEndpoints_two split: option.splits)

section \<open>Properties\<close>

text \<open>
  The links of a topology are read all or nothing: if every link that is not excluded can be read, each
  gives one link object, in order; a single one that cannot makes the result empty, without an error.
\<close>

theorem links_all_or_nothing:
  "clab_GetLinks r =
     (if list_all (readable r) (included r (cfg_Links (ck_cfg r)))
      then map (\<lambda>l. clabLinkOf r l (the (getEndpoints r l))) (included r (cfg_Links (ck_cfg r))) else [])"
  by (simp only: clab_GetLinks_def linksLoop_eq list_all_iff append_Nil)

lemma getEndpointSpec_node:
  assumes "getEndpointSpec r name = Some eps"
  obtains n where "cfg_Nodes (ck_cfg r) (nid_Node (epid_NodeID (ngep_EndpointID (eps_ID eps)))) = Some n"
    "cno_NodeGroupNodeID (clabNodeOf r (nid_Node (epid_NodeID (ngep_EndpointID (eps_ID eps)))) n) =
       (ngep_NodeGroup (eps_ID eps), epid_NodeID (ngep_EndpointID (eps_ID eps)))"
  using assms
  by (auto simp: getEndpointSpec_def clabNodeOf_def getNodeGroupNodeID_def Let_def split: if_splits option.splits prod.splits)

lemma link_end_spec:
  assumes "l \<in> set (clab_GetLinks r)" and "ep \<in> set (clo_Endpoints l)"
  obtains name eps where "getEndpointSpec r name = Some eps" "ep = eps_ID eps"
proof -
  obtain cl where cl: "readable r cl" and l: "l = clabLinkOf r cl (the (getEndpoints r cl))"
    using assms(1) by (auto simp: clab_GetLinks_def linksLoop_eq split: if_splits)
  obtain es where es: "getEndpoints r cl = Some es" using cl by (auto simp: readable_def)
  have two: "length es = 2" "length (clk_Endpoints cl) = 2"
    using es getEndpoints_two by (auto simp: getEndpoints_def split: if_splits)
  have nth: "getEndpointSpec r (clk_Endpoints cl ! i) = Some (es ! i)" if "i < 2" for i
    using es two allSome_nth [of "map (getEndpointSpec r) (clk_Endpoints cl)" es i] that
    by (simp add: getEndpoints_def)
  have "ep = eps_ID (es ! 0) \<or> ep = eps_ID (es ! 1)" using assms(2) es by (simp add: l clabLinkOf_def)
  then show ?thesis using nth [of 0] nth [of 1] that by fastforce
qed

text \<open>
  C37. A link joins nodes of the topology: the node of each end is in the parsed file under the name the end
  gives, with the same group, region and site as the node object; and that object is created, unless the node
  is excluded. The labels of the node are not looked at: a link to an excluded node is created all the same.
\<close>

theorem link_ends_name_nodes:
  assumes "l \<in> set (clab_GetLinks r)" and "ep \<in> set (clo_Endpoints l)"
    and "dom (cfg_Nodes (ck_cfg r)) \<subseteq> set order"
  shows "case cfg_Nodes (ck_cfg r) (nid_Node (epid_NodeID (ngep_EndpointID ep))) of
      None \<Rightarrow> False
    | Some n \<Rightarrow> (if excluded r (cn_Labels n) then True
        else \<exists>node \<in> set (clab_GetNodes r order).
          cno_NodeGroupNodeID node = (ngep_NodeGroup ep, epid_NodeID (ngep_EndpointID ep)))"
proof -
  obtain name eps where eps: "getEndpointSpec r name = Some eps" "ep = eps_ID eps"
    using assms(1,2) by (rule link_end_spec)
  let ?nm = "nid_Node (epid_NodeID (ngep_EndpointID ep))"
  obtain n where n: "cfg_Nodes (ck_cfg r) ?nm = Some n"
      "cno_NodeGroupNodeID (clabNodeOf r ?nm n) = (ngep_NodeGroup ep, epid_NodeID (ngep_EndpointID ep))"
    using getEndpointSpec_node [OF eps(1)] unfolding eps(2) [symmetric] by blast
  have "clabNodeOf r ?nm n \<in> set (clab_GetNodes r order)" if "\<not> excluded r (cn_Labels n)"
  proof -
    have "?nm \<in> set order" using n(1) assms(3) by blast
    then show ?thesis using n(1) that unfolding clab_GetNodes_def map_filter_def by force
  qed
  with n show ?thesis by auto
qed

text \<open>
  The rack of a node is its region: a rack is set exactly when the node has a region label, and then it
  is that label; the rack label of the inventory is never read.
\<close>

theorem rack_is_the_region:
  "case cno_Rack (clabNodeOf r nodeName n) of
     None \<Rightarrow> nid_Region (snd (cno_NodeGroupNodeID (clabNodeOf r nodeName n))) = sid_Region (ck_siteID r)
   | Some rack \<Rightarrow> nid_Region (snd (cno_NodeGroupNodeID (clabNodeOf r nodeName n))) = rack"
  by (auto simp: clabNodeOf_def getRack_def getNodeGroupNodeID_def getRegion_def Let_def split: option.splits prod.splits)

section \<open>A topology\<close>

text \<open>Two nodes, one of them excluded, and a link between them.\<close>

definition exClab :: clabkuid where
  "exClab = \<lparr>ck_env = \<lparr>cbe_KuidINVExclude = ''exclude'', cbe_KuidINVNodeTypeKey = ''type'', cbe_KuidINVSiteKey = ''site'',
       cbe_KuidINVRegionKey = ''region'', cbe_KuidINVPositionKey = ''position'', cbe_KuidINVLocationKey = ''location'',
       cbe_NodeKuidString = \<lambda>(g, n). dot g (nid_Node n),
       cbe_EndpointKuidString = \<lambda>e. dot (nid_Node (epid_NodeID (ngep_EndpointID e))) (epid_Endpoint (ngep_EndpointID e)),
       cbe_EndpointSpecKuidString = \<lambda>p e. epid_Endpoint (ngep_EndpointID e)\<rparr>,
     ck_siteID = \<lparr>sid_Region = ''r'', sid_Site = ''s''\<rparr>,
     ck_cfg = \<lparr>cfg_Name = ''topo'',
       cfg_Nodes = [''n0'' \<mapsto> \<lparr>cn_Labels = Map.empty\<rparr>, ''n1'' \<mapsto> \<lparr>cn_Labels = [''exclude'' \<mapsto> ''true'']\<rparr>],
       cfg_Links = [\<lparr>clk_Endpoints = [''n0:e1'', ''n1:e1''], clk_Labels = Map.empty\<rparr>],
       cfg_GetNodeKindType = \<lambda>_. (''nokia_srlinux'', ''ixrd2'')\<rparr>\<rparr>"

definition exEnd :: "string \<Rightarrow> NodeGroupEndpointID" where
  "exEnd n = \<lparr>ngep_NodeGroup = ''topo'', ngep_EndpointID = \<lparr>epid_Endpoint = ''e1'',
     epid_NodeID = \<lparr>nid_Region = ''r'', nid_Site = ''s'', nid_Node = n\<rparr>\<rparr>\<rparr>"

lemma exClab_links: "clab_GetLinks exClab =
  [\<lparr>clo_Name = ''n0.e1.n1.e1'', clo_Namespace = ''default'', clo_Endpoints = [exEnd ''n0'', exEnd ''n1''], clo_Labels = Map.empty\<rparr>]"
  by (simp add: clab_GetLinks_def exClab_def excluded_def getEndpoints_def getEndpointSpec_def clabLinkOf_def
      getNodeGroupNodeID_def getRegion_def getSite_def exEnd_def dot_def Let_def)

theorem link_ends_name_nodes_witness:
  "\<exists>node \<in> set (clab_GetNodes exClab [''n0'', ''n1'']). cno_NodeGroupNodeID node = (''topo'', epid_NodeID (ngep_EndpointID (exEnd ''n0'')))"
proof -
  have "dom (cfg_Nodes (ck_cfg exClab)) \<subseteq> set [''n0'', ''n1'']" by (auto simp: exClab_def)
  from link_ends_name_nodes [OF _ _ this, of _ "exEnd ''n0''"] show ?thesis
    unfolding exClab_links by (simp add: exClab_def exEnd_def excluded_def)
qed

end
