(* ===== verification/TopologyController.thy ===== *)
theory TopologyController
  imports Clab Reconcile
begin

text \<open>
  The topology (\<open>apis/topo/v1alpha1\<close>) and its controller (\<open>reconcilers/topology/reconciler.go\<close>), which turns
  the containerlab file of a topology into the inventory of nodes and links.
\<close>

record TopologySpec =
  tps_Region :: "string option"
  tps_Site :: "string option"
  tps_ContainerLab :: "string option"

record Topology =
  top_Namespace :: string
  top_Name :: string
  top_Deleting :: bool
  top_Spec :: TopologySpec
  top_Status_GetCondition :: "string \<Rightarrow> Condition"

definition Topology_GetCondition :: "Topology \<Rightarrow> string \<Rightarrow> Condition" where
  "Topology_GetCondition r t = top_Status_GetCondition r t"

definition Topology_SetConditions :: "conditions \<Rightarrow> Condition list \<Rightarrow> Topology \<Rightarrow> Topology" where
  "Topology_SetConditions cs c = top_Status_GetCondition_update (cnd_SetConditions cs c)"

definition BuildTopology ::
  "(string \<Rightarrow> Condition) \<Rightarrow> ObjectMeta \<Rightarrow> TopologySpec option \<Rightarrow> (string \<Rightarrow> Condition) option \<Rightarrow> Topology" where
  "BuildTopology none meta spec status =
     (let aspec = (case spec of None \<Rightarrow> \<lparr>tps_Region = None, tps_Site = None, tps_ContainerLab = None\<rparr> | Some s \<Rightarrow> s);
          astatus = (case status of None \<Rightarrow> none | Some s \<Rightarrow> s)
      in \<lparr>top_Namespace = om_Namespace meta, top_Name = om_Name meta, top_Deleting = om_Deleting meta,
          top_Spec = aspec, top_Status_GetCondition = astatus\<rparr>)"

definition GetRegion :: "Topology \<Rightarrow> string" where
  "GetRegion r = (case tps_Region (top_Spec r) of Some region \<Rightarrow> region | None \<Rightarrow> ''defaultRegion1'')"

definition GetSite :: "Topology \<Rightarrow> string" where
  "GetSite r = (case tps_Site (top_Spec r) of Some site \<Rightarrow> site | None \<Rightarrow> ''defaultSite1'')"

definition GetSiteID :: "Topology \<Rightarrow> SiteID" where
  "GetSiteID r = \<lparr>sid_Region = GetRegion r, sid_Site = GetSite r\<rparr>"

record GENIDIndex =
  gix_Namespace :: string
  gix_Name :: string
  gix_Type :: string

definition GetGENIDIndex :: "Topology \<Rightarrow> GENIDIndex" where
  "GetGENIDIndex r = \<lparr>gix_Namespace = top_Namespace r, gix_Name = dot ''network'' (top_Name r), gix_Type = ''16bit''\<rparr>"

section \<open>The controller\<close>

datatype topologyRes = NodeRes clabNodeObject | LinkRes clabLinkObject | GENIDIndexRes GENIDIndex

record topology_env =
  te_api :: "(Topology, topologyRes) api"
  te_conditions :: conditions
  te_clab :: clab_env
  te_Load :: "string \<Rightarrow> string + clabConfig"  \<comment> \<open>\<open>containerlab.LoadContainerlabConfig\<close>\<close>
  te_order :: "string list"                  \<comment> \<open>the order in which Go ranges over the nodes\<close>

definition topology_finalizer :: string where "topology_finalizer = ''topology.topo.app.kuid.dev/finalizer''"
definition topology_crName :: string where "topology_crName = ''topology''"
definition topology_kinds :: "Kind list" where "topology_kinds = [GENIDIndexKind, NodeKind, LinkKind]"

definition NewClabKuid :: "topology_env \<Rightarrow> SiteID \<Rightarrow> string \<Rightarrow> string + clabkuid" where
  "NewClabKuid t siteID yamlString = (case te_Load t yamlString of
      Inl e \<Rightarrow> Inl e
    | Inr cfg \<Rightarrow> Inr \<lparr>ck_env = te_clab t, ck_siteID = siteID, ck_cfg = cfg\<rparr>)"

definition topology_resources :: "topology_env \<Rightarrow> Topology \<Rightarrow> clabkuid \<Rightarrow> topologyRes list" where
  "topology_resources t cr clab =
     map NodeRes (clab_GetNodes clab (te_order t)) @ map LinkRes (clab_GetLinks clab) @ [GENIDIndexRes (GetGENIDIndex cr)]"

text \<open>The caller has tested that the file is there.\<close>

definition topology_apply ::
  "topology_env \<Rightarrow> Topology \<Rightarrow> string \<Rightarrow> (Topology, topologyRes) action list \<times> string option" where
  "topology_apply t cr containerLab =
     (case NewClabKuid t (GetSiteID cr) containerLab of
        Inl e \<Rightarrow> ([], Some (''parsing clab topo failed: '' @ e))
      | Inr clab \<Rightarrow>
          let objs = topology_resources t cr clab;
              err = api_APIApply (te_api t) topology_kinds objs cr
          in ([APIApply topology_kinds objs err], err))"

definition topology_handleError ::
  "conditions \<Rightarrow> Topology \<Rightarrow> string \<Rightarrow> string option \<Rightarrow> Topology \<times> (Topology, topologyRes) action" where
  "topology_handleError cs cr msg err =
     (Topology_SetConditions cs [cnd_Failed cs (failureMessage msg err)] cr, warning topology_crName msg err)"

definition topology_delete :: "topology_env \<Rightarrow> Topology \<Rightarrow> (Topology, topologyRes) action list \<times> string option" where
  "topology_delete t cr = deleteOwned (te_api t) topology_kinds cr"

declare topology_delete_def [simp]

definition topology_Reconcile :: "topology_env \<Rightarrow> (Topology, topologyRes) outcome" where
  "topology_Reconcile t =
     (let a = te_api t; cs = te_conditions t; handleError = topology_handleError cs in
      readCr a (\<lambda>cr.
        if top_Deleting cr then reconcileDelete a (topology_delete t) topology_finalizer handleError cr
        else case api_AddFinalizer a cr of (cr1, err1) \<Rightarrow>
          does [AddFinalizer topology_finalizer err1]
           (if err1 \<noteq> None then failed a (handleError cr1 ''cannot add finalizer'' err1) requeue
            else case tps_ContainerLab (top_Spec cr1) of
              None \<Rightarrow> failed a (handleError cr1 ''no containerlab topology provided'' None) noResult
            | Some containerLab \<Rightarrow>
                case topology_apply t cr1 containerLab of (as, err) \<Rightarrow>
                does as
                 (if err \<noteq> None then failed a (handleError cr1 ''cannot apply topology resources'' err) noResult
                  else does [Event EventTypeNormal topology_crName ''ready'']
                    (updateStatus a (Topology_SetConditions cs [cnd_Ready cs] cr1) noResult)))))"

section \<open>The contract of a controller\<close>

lemma topology_apply_acts:
  assumes "topology_apply t cr c = (as, err)"
  shows "guarded True deleted (as @ bs) = guarded True deleted bs"
    and "APIApply ks os e \<in> set as \<Longrightarrow> ks = topology_kinds" and "APIDelete ks e \<notin> set as"
  using assms by (auto simp: topology_apply_def Let_def split: sum.splits)

interpretation topology: controller topology_Reconcile "set topology_kinds"
proof
  fix t ks os e
  note defs = topology_Reconcile_def readCr_def reconcileDelete_def topology_handleError_def Let_def
  show "guarded False False (out_Actions (topology_Reconcile t))"
    by (auto simp: defs topology_apply_acts split: got.splits prod.splits option.splits if_splits)
  show "APIApply ks os e \<in> set (out_Actions (topology_Reconcile t)) \<Longrightarrow> set ks \<subseteq> set topology_kinds"
    by (auto simp: defs dest: topology_apply_acts(2) split: got.splits prod.splits option.splits if_splits)
  show "APIDelete ks e \<in> set (out_Actions (topology_Reconcile t)) \<Longrightarrow> set topology_kinds \<subseteq> set ks"
    by (auto simp: defs dest: topology_apply_acts(3) split: got.splits prod.splits option.splits if_splits)
qed

section \<open>Properties\<close>

text \<open>
  C38. A topology with one link that cannot be read is reported ready, with its nodes and without any link.
\<close>

theorem unreadable_link_drops_links:
  assumes "api_Get (te_api t) = Got cr" and "\<not> top_Deleting cr" and "api_AddFinalizer (te_api t) cr = (cr1, None)"
    and "tps_ContainerLab (top_Spec cr1) = Some yaml" and "te_Load t yaml = Inr cfg"
    and "\<And>os. api_APIApply (te_api t) topology_kinds os cr1 = None"
    and "l \<in> set (cfg_Links cfg)" and "clab = \<lparr>ck_env = te_clab t, ck_siteID = GetSiteID cr1, ck_cfg = cfg\<rparr>"
    and "\<not> excluded clab (clk_Labels l)" and "getEndpoints clab l = None"
  shows "out_Actions (topology_Reconcile t) =
    [AddFinalizer topology_finalizer None,
     APIApply topology_kinds (map NodeRes (clab_GetNodes clab (te_order t)) @ [GENIDIndexRes (GetGENIDIndex cr1)]) None,
     Event EventTypeNormal topology_crName ''ready'',
     StatusUpdate (Topology_SetConditions (te_conditions t) [cnd_Ready (te_conditions t)] cr1)
       (api_StatusUpdate (te_api t) (Topology_SetConditions (te_conditions t) [cnd_Ready (te_conditions t)] cr1))]"
proof -
  have "l \<in> set (included clab (cfg_Links (ck_cfg clab)))" "\<not> readable clab l"
    using assms(7-10) by (auto simp: readable_def)
  then have "clab_GetLinks clab = []" by (auto simp: clab_GetLinks_def linksLoop_eq)
  then show ?thesis
    using assms(1-6,8)
    by (simp add: topology_Reconcile_def topology_apply_def NewClabKuid_def topology_resources_def Let_def)
qed

definition exUnreadable :: clabConfig where
  "exUnreadable = (ck_cfg exClab)\<lparr>cfg_Links := cfg_Links (ck_cfg exClab) @
     [\<lparr>clk_Endpoints = [''n0:e2'', ''host:e1''], clk_Labels = Map.empty\<rparr>]\<rparr>"

definition exTopology :: Topology where
  "exTopology = \<lparr>top_Namespace = ''default'', top_Name = ''topo'', top_Deleting = False,
     top_Spec = \<lparr>tps_Region = Some ''r'', tps_Site = None, tps_ContainerLab = Some ''yaml''\<rparr>,
     top_Status_GetCondition = \<lambda>t. \<lparr>cond_Type = t, cond_Status = ConditionUnknown, cond_Reason = '''', cond_Message = ''''\<rparr>\<rparr>"

definition exTopologyEnv :: topology_env where
  "exTopologyEnv = \<lparr>te_api = \<lparr>api_Get = Got exTopology, api_AddFinalizer = \<lambda>x. (x, None), api_RemoveFinalizer = \<lambda>x. (x, None),
       api_APIApply = \<lambda>_ _ _. None, api_APIDelete = \<lambda>_ _. None, api_StatusUpdate = \<lambda>_. None\<rparr>,
     te_conditions = \<lparr>cnd_Ready = \<lparr>cond_Type = ''Ready'', cond_Status = ConditionTrue, cond_Reason = ''Ready'', cond_Message = ''''\<rparr>,
       cnd_Failed = \<lambda>m. \<lparr>cond_Type = ''Ready'', cond_Status = ConditionFalse, cond_Reason = ''Failed'', cond_Message = m\<rparr>,
       cnd_Processing = \<lambda>m. \<lparr>cond_Type = ''Ready'', cond_Status = ConditionFalse, cond_Reason = '''', cond_Message = m\<rparr>,
       cnd_SetConditions = \<lambda>cs g. foldl (\<lambda>g c. g(cond_Type c := c)) g cs,
       cnd_ConditionTypeReady = ''Ready'', cnd_ReasonProcessing = '''', cnd_ReasonFailed = ''Failed''\<rparr>,
     te_clab = ck_env exClab, te_Load = \<lambda>_. Inr exUnreadable, te_order = [''n0'', ''n1'']\<rparr>"

theorem unreadable_link_drops_links_witness:
  "\<exists>nodes st. nodes \<noteq> [] \<and> cond_Status (Topology_GetCondition st ''Ready'') = ConditionTrue \<and>
     out_Actions (topology_Reconcile exTopologyEnv) =
       [AddFinalizer topology_finalizer None,
        APIApply topology_kinds (map NodeRes nodes @ [GENIDIndexRes (GetGENIDIndex exTopology)]) None,
        Event EventTypeNormal topology_crName ''ready'', StatusUpdate st None]"
proof -
  let ?clab = "\<lparr>ck_env = te_clab exTopologyEnv, ck_siteID = GetSiteID exTopology, ck_cfg = exUnreadable\<rparr>"
  let ?l = "\<lparr>clk_Endpoints = [''n0:e2'', ''host:e1''], clk_Labels = Map.empty\<rparr>"
  have l: "?l \<in> set (cfg_Links exUnreadable)" by (simp add: exUnreadable_def)
  have ex: "\<not> excluded ?clab (clk_Labels ?l)" by (simp add: excluded_def)
  have no: "getEndpoints ?clab ?l = None"
    by (simp add: getEndpoints_def getEndpointSpec_def exUnreadable_def exClab_def Let_def)
  have "clab_GetNodes ?clab [''n0'', ''n1''] \<noteq> []"
    by (simp add: clab_GetNodes_def exUnreadable_def exClab_def excluded_def map_filter_def exTopologyEnv_def)
  moreover have "tps_ContainerLab (top_Spec exTopology) = Some ''yaml''" by (simp add: exTopology_def)
  ultimately show ?thesis
    using unreadable_link_drops_links [OF _ _ _ _ _ _ l refl ex no, of exTopology "''yaml''"]
    by (intro exI [of _ "clab_GetNodes ?clab [''n0'', ''n1'']"]
          exI [of _ "Topology_SetConditions (te_conditions exTopologyEnv) [cnd_Ready (te_conditions exTopologyEnv)] exTopology"])
      (simp add: exTopologyEnv_def Topology_GetCondition_def Topology_SetConditions_def exTopology_def)
qed

end
