(* ===== verification/EventHandlers.thy ===== *)
theory EventHandlers
  imports TopologyController DeviceTypes Network "HOL-Library.Sublist"
begin

text \<open>
  The event handlers (\<open>pkg/reconcilers/eventhandler\<close>): an event on a watched object enqueues a request for
  every resource it concerns. A handler takes the list call of the client as a parameter and gives the
  requests in the order in which they are added to the queue.
\<close>

section \<open>Events\<close>

record EndpointObject =
  epo_Namespace :: string
  epo_NodeGroupEndpointID :: NodeGroupEndpointID
  epo_Owners :: "NamespacedName set"  \<comment> \<open>the links \<open>IsOwnedBy\<close> answers yes for\<close>

text \<open>The objects that are watched; an event may carry any other.\<close>

datatype watched = WEndpoint EndpointObject | WNode InfraNode | WLink InfraLink | WNetworkDesign NetworkDesign
  | WNetworkDevice NetworkDevice | WTopology Topology | WOther

datatype 'a watch_event = Create 'a | Update 'a 'a | Delete 'a | Generic 'a

text \<open>Every handler has the same four methods over its \<open>add\<close>.\<close>

definition handleEvent :: "('a \<Rightarrow> NamespacedName list) \<Rightarrow> 'a watch_event \<Rightarrow> NamespacedName list" where
  "handleEvent add evt = (case evt of
      Create obj \<Rightarrow> add obj
    | Update objectOld objectNew \<Rightarrow> add objectOld @ add objectNew
    | Delete obj \<Rightarrow> add obj
    | Generic obj \<Rightarrow> add obj)"

section \<open>The handlers\<close>

type_synonym 'a lister = "string \<Rightarrow> string + 'a list"

text \<open>An error of the list call is logged and enqueues nothing.\<close>

definition selected :: "'a lister \<Rightarrow> string \<Rightarrow> ('a \<Rightarrow> bool) \<Rightarrow> ('a \<Rightarrow> NamespacedName) \<Rightarrow> NamespacedName list" where
  "selected list ns P key = (case list ns of Inl _ \<Rightarrow> [] | Inr items \<Rightarrow> map key (filter P items))"

definition NodeForNetwork_add :: "Network lister \<Rightarrow> watched \<Rightarrow> NamespacedName list" where
  "NodeForNetwork_add list obj = (case obj of
      WNode n \<Rightarrow> selected list (in_Namespace n) (\<lambda>obj. ns_Topology (net_Spec obj) = in_NodeGroup n) GetNamespacedName
    | _ \<Rightarrow> [])"

definition EndpointForNetwork_add :: "Network lister \<Rightarrow> watched \<Rightarrow> NamespacedName list" where
  "EndpointForNetwork_add list obj = (case obj of
      WEndpoint ep \<Rightarrow> selected list (epo_Namespace ep)
        (\<lambda>obj. ns_Topology (net_Spec obj) = ngep_NodeGroup (epo_NodeGroupEndpointID ep)) GetNamespacedName
    | _ \<Rightarrow> [])"

text \<open>The inner loop breaks at the first endpoint that matches.\<close>

definition LinkForNetwork_add :: "Network lister \<Rightarrow> watched \<Rightarrow> NamespacedName list" where
  "LinkForNetwork_add list obj = (case obj of
      WLink link \<Rightarrow> selected list (il_Namespace link)
        (\<lambda>obj. list_ex (\<lambda>ep. ns_Topology (net_Spec obj) = ngep_NodeGroup ep) (il_Endpoints link)) GetNamespacedName
    | _ \<Rightarrow> [])"

definition NetworkDesignForNetwork_add :: "Network lister \<Rightarrow> watched \<Rightarrow> NamespacedName list" where
  "NetworkDesignForNetwork_add list obj = (case obj of
      WNetworkDesign nd \<Rightarrow> selected list (nd_Namespace nd)
        (\<lambda>network. ns_Topology (net_Spec network) = nds_Topology (nd_Spec nd)) GetNamespacedName
    | _ \<Rightarrow> [])"

text \<open>\<open>strings.HasPrefix(cr.Name, obj.Name)\<close>\<close>

definition NetworkDeviceForNetwork_add :: "Network lister \<Rightarrow> watched \<Rightarrow> NamespacedName list" where
  "NetworkDeviceForNetwork_add list obj = (case obj of
      WNetworkDevice cr \<Rightarrow> selected list (dev_Namespace cr) (\<lambda>obj. strings_HasPrefix (dev_Name cr) (net_Name obj)) GetNamespacedName
    | _ \<Rightarrow> [])"

definition designName :: "NetworkDesign \<Rightarrow> NamespacedName" where
  "designName r = \<lparr>nsn_Namespace = nd_Namespace r, nsn_Name = nd_Name r\<rparr>"

definition Topology_add :: "NetworkDesign lister \<Rightarrow> watched \<Rightarrow> NamespacedName list" where
  "Topology_add list obj = (case obj of
      WTopology cr \<Rightarrow> selected list (top_Namespace cr) (\<lambda>obj. nds_Topology (nd_Spec obj) = top_Name cr) designName
    | _ \<Rightarrow> [])"

text \<open>Of a link the ids of its two endpoints are read (\<open>GetEndPointIDA\<close>, \<open>GetEndPointIDB\<close>).\<close>

record listedLink =
  ll_Name :: NamespacedName
  ll_GetEndPointIDA :: "NodeGroupEndpointID option"
  ll_GetEndPointIDB :: "NodeGroupEndpointID option"

definition Endpoint_add :: "listedLink lister \<Rightarrow> watched \<Rightarrow> NamespacedName list" where
  "Endpoint_add list obj = (case obj of
      WEndpoint cr \<Rightarrow> selected list (epo_Namespace cr)
        (\<lambda>obj. if ll_GetEndPointIDA obj = Some (epo_NodeGroupEndpointID cr) then True
               else if ll_GetEndPointIDB obj = Some (epo_NodeGroupEndpointID cr) then True
               else ll_Name obj \<in> epo_Owners cr) ll_Name
    | _ \<Rightarrow> [])"

lemma HasPrefix_prefix: "strings_HasPrefix s p \<longleftrightarrow> prefix p s"
  by (simp add: HasPrefix_iff prefix_def)

section \<open>Properties\<close>

text \<open>
  An event on a network device wakes its network; and any other network of the namespace whose name
  begins the device's name. Two networks of which one name begins the other are woken together.
\<close>

theorem device_event_wakes_networks:
  assumes "list (net_Namespace network) = Inr items" and "network \<in> set items"
    and "dev_Namespace dev = net_Namespace network" and "dev_Name dev = dot (net_Name network) nodeName"
  shows "GetNamespacedName network \<in> set (handleEvent (NetworkDeviceForNetwork_add list) (Update old (WNetworkDevice dev))) \<and>
    set (NetworkDeviceForNetwork_add list (WNetworkDevice dev)) =
      GetNamespacedName ` {n \<in> set items. prefix (net_Name n) (net_Name network) \<or>
        (\<exists>k. 0 < k \<and> net_Name n = net_Name network @ take k (CHR ''.'' # nodeName))}"
proof -
  have "prefix x (dot a b) \<longleftrightarrow> prefix x a \<or> (\<exists>k. 0 < k \<and> x = a @ take k (CHR ''.'' # b))" for x a b :: string
  proof -
    have "prefix x (a @ ys) \<longleftrightarrow> prefix x a \<or> (\<exists>k. 0 < k \<and> x = a @ take k ys)" if "ys \<noteq> []" for ys
    proof
      assume "prefix x (a @ ys)"
      then consider "prefix x a" | us where "x = a @ us" "prefix us ys" unfolding prefix_append by blast
      then show "prefix x a \<or> (\<exists>k. 0 < k \<and> x = a @ take k ys)"
      proof cases
        case 2
        then have "us = take (length us) ys" unfolding prefix_def by auto
        with 2 show ?thesis by (cases "us = []") (auto intro: exI [of _ "length us"])
      qed simp
    next
      assume "prefix x a \<or> (\<exists>k. 0 < k \<and> x = a @ take k ys)"
      then show "prefix x (a @ ys)" by (auto simp: take_is_prefix)
    qed
    then show ?thesis by (simp add: dot_def)
  qed
  then show ?thesis
    using assms by (auto simp: handleEvent_def NetworkDeviceForNetwork_add_def selected_def HasPrefix_prefix dot_def)
qed

end
