(* ===== verification/ControllersExample.thy ===== *)
theory ControllersExample
  imports NetworkCluster DesignController EventHandlers Example
begin

text \<open>
  The inventory of the example seen by the controllers: an API server on which every call succeeds, and
  claims that are always answered.
\<close>

definition exConditions :: conditions where
  "exConditions = \<lparr>cnd_Ready = \<lparr>cond_Type = ''Ready'', cond_Status = ConditionTrue, cond_Reason = ''Ready'', cond_Message = ''''\<rparr>,
     cnd_Failed = \<lambda>m. \<lparr>cond_Type = ''Ready'', cond_Status = ConditionFalse, cond_Reason = ''Failed'', cond_Message = m\<rparr>,
     cnd_Processing = \<lambda>m. \<lparr>cond_Type = ''Ready'', cond_Status = ConditionFalse, cond_Reason = ''Processing'', cond_Message = m\<rparr>,
     cnd_SetConditions = \<lambda>cs g. foldl (\<lambda>g c. g(cond_Type c := c)) g cs,
     cnd_ConditionTypeReady = ''Ready'', cnd_ReasonProcessing = ''Processing'', cnd_ReasonFailed = ''Failed''\<rparr>"

lemma ex_lawful [simp]: "conditions_lawful exConditions" "other_condition exConditions"
  by (simp_all add: conditions_lawful_def exConditions_def other_condition_def ConditionTypeNetworkParamReady_def
      ConditionTypeNetworkDeviceReady_def)

lemma ex_ready [simp]: "cnd_ConditionTypeReady exConditions = ''Ready''" "cond_Status (cnd_Ready exConditions) = ConditionTrue"
  by (simp_all add: exConditions_def)

definition exApi :: "Network \<Rightarrow> (Network, 'o) api" where
  "exApi cr = \<lparr>api_Get = Got cr, api_AddFinalizer = \<lambda>x. (x, None), api_RemoveFinalizer = \<lambda>x. (x, None),
     api_APIApply = \<lambda>_ _ _. None, api_APIDelete = \<lambda>_ _. None, api_StatusUpdate = \<lambda>_. None\<rparr>"

lemma exApi_simps [simp]:
  "api_Get (exApi cr) = Got cr" "api_AddFinalizer (exApi cr) x = (x, None)" "api_APIApply (exApi cr) ks os x = None"
  "api_StatusUpdate (exApi cr) x = None"
  by (simp_all add: exApi_def)

definition exStatusOf :: "ConditionStatus \<Rightarrow> ConditionStatus \<Rightarrow> NetworkStatus" where
  "exStatusOf param device = exStatus\<lparr>nst_GetCondition := \<lambda>t. \<lparr>cond_Type = t,
     cond_Status = (if t = ConditionTypeNetworkParamReady then param
       else if t = ConditionTypeNetworkDeviceReady then device else ConditionUnknown),
     cond_Reason = '''', cond_Message = ''''\<rparr>\<rparr>"

definition withStatus :: "ConditionStatus \<Rightarrow> ConditionStatus \<Rightarrow> Network \<Rightarrow> Network" where
  "withStatus param device cr = cr\<lparr>net_Status := exStatusOf param device\<rparr>"

lemma withStatus_simps [simp]:
  "net_Namespace (withStatus p d cr) = net_Namespace cr" "net_Name (withStatus p d cr) = net_Name cr"
  "net_UID (withStatus p d cr) = net_UID cr" "net_Spec (withStatus p d cr) = net_Spec cr"
  "net_Deleting (withStatus p d cr) = net_Deleting cr" "net_Annotations (withStatus p d cr) = net_Annotations cr"
  "cond_Status (GetCondition (withStatus p d cr) ConditionTypeNetworkParamReady) = p"
  "cond_Status (GetCondition (withStatus p d cr) ConditionTypeNetworkDeviceReady) = d"
  by (simp_all add: withStatus_def exStatusOf_def GetCondition_def)

section \<open>The parameters controller\<close>

definition exClaims :: claim_env where
  "exClaims = \<lparr>cle_KuidINVPurpose = ''purpose'', cle_KuidIPAMddressFamilyKey = ''af'', cle_KuidIPAMIPPrefixTypeKey = ''type'',
     cle_KuidClaimNameKey = ''claim'', cle_IPPrefixType = \<lambda>t. (case t of IPPrefixType_Pool \<Rightarrow> ''pool'' | IPPrefixType_Network \<Rightarrow> ''network''),
     cle_NodeOf = reconciler_getNodeName,
     cle_GetIPClaimFromPrefix = \<lambda>r p. \<lparr>ipcl_Key = designKey r '''', ipcl_Index = '''', ipcl_PrefixType = None,
       ipcl_AddressFamily = None, ipcl_CreatePrefix = None, ipcl_PrefixLength = None, ipcl_Owner = designOwner r,
       ipcl_MatchLabels = pfx_Labels p\<rparr>\<rparr>"

definition exNodeObjects :: "InfraNode list" where
  "exNodeObjects = [exInfraNode ''topo.r.s.n0'', exInfraNode ''topo.r.s.n1'']"

definition exAnswers :: client where
  "exAnswers = exClient\<lparr>cl_ListNodes := \<lambda>_. Inr exNodeObjects,
     cl_GetIPClaim := \<lambda>_. Inr \<lparr>ipc_Ready = ConditionTrue, ipc_Address = Some ''1.0.0.0''\<rparr>,
     cl_GetASClaim := \<lambda>_. Inr \<lparr>asc_Ready = ConditionTrue, asc_ID = Some 65000\<rparr>\<rparr>"

definition exParams :: "Network \<Rightarrow> NetworkDesign \<Rightarrow> params_env" where
  "exParams cr nd = \<lparr>pe_api = exApi cr, pe_conditions = exConditions, pe_claims = exClaims, pe_client = exAnswers,
     pe_env = exEnv, pe_design = \<lambda>_. Inr nd\<rparr>"

lemma exParams_simps [simp]:
  "pe_api (exParams cr nd) = exApi cr" "pe_conditions (exParams cr nd) = exConditions" "pe_claims (exParams cr nd) = exClaims"
  "pe_client (exParams cr nd) = exAnswers" "pe_env (exParams cr nd) = exEnv" "pe_design (exParams cr nd) k = Inr nd"
  by (simp_all add: exParams_def)

definition exFresh :: Network where "exFresh = withStatus ConditionFalse ConditionFalse exNetwork"

lemma exFresh_simps [simp]: "\<not> net_Deleting exFresh" "IsDefaultNetwork exFresh"
  "params_GetNodes (exParams cr nd) exFresh = Inr exNodeObjects"
  "params_GetLinks (exParams cr nd) exFresh = Inr [exLink]"
  by (simp_all add: exFresh_def exNetwork_def IsDefaultNetwork_def GetNetworkName_def params_GetNodes_def params_GetLinks_def
      exAnswers_def exClient_def exNodeObjects_def exInfraNode_def exLink_def exEnv_def) (code_simp)

lemma exParams_applies:
  "out_Actions (params_Reconcile (exParams exFresh nd)) =
    [AddFinalizer params_finalizer None,
     APIApply params_kinds (defaultNetworkResources exClaims nd exFresh exNodeObjects [exLink]) None,
     Event EventTypeNormal params_condition ''ready'',
     StatusUpdate (SetConditions exConditions [NetworkParamReady] exFresh) None]"
  by (subst params_step [of _ exFresh exFresh None])
    (simp_all add: applyDefaultNetwork_def, simp add: exFresh_def)

definition exGathered :: inputs where
  "exGathered = \<lparr>inp_client = exAnswers, inp_env = exEnv, inp_network = exFresh, inp_design = exDesign\<rparr>"

lemma exAnswered: "claims_answered exAnswers exEnv objs"
  by (simp add: claims_answered_def exAnswers_def exEnv_def)

lemma exKnown:
  assumes "ep \<in> set (il_Endpoints exLink)"
  shows "node_known exClaims exGathered exNodeObjects (epid_NodeID (ngep_EndpointID ep))"
  using assms
  by (auto simp: exLink_def exEndpoint_def exNode_def node_known_def exGathered_def exNodeObjects_def exInfraNode_def
      exClaims_def exAnswers_def exClient_def exEnv_def exFresh_def exNetwork_def key_def topologyOf_def dot_def
      reconciler_getNodeName_def)


definition exNoPool :: NetworkDesign where
  "exNoPool = exDesign\<lparr>nd_Spec := (nd_Spec exDesign)\<lparr>nds_Protocols :=
     Some (exProtocols\<lparr>ndp_EBGP := Some \<lparr>ndeb_ASPool = None, ndeb_BFD = True\<rparr>\<rparr>)\<rparr>\<rparr>"

definition exUnclaimed :: inputs where
  "exUnclaimed = exGathered\<lparr>inp_client := exAnswers\<lparr>cl_GetASClaim := \<lambda>_. Inl ''not found''\<rparr>, inp_design := exNoPool\<rparr>"


theorem params_condition_tracks_apply_witness:
  "out_Result (params_Reconcile (exParams exFresh exDesign)) = noResult \<and>
   cond_Status (GetCondition (SetConditions exConditions [NetworkParamReady] exFresh) ConditionTypeNetworkParamReady) = ConditionTrue"
proof -
  have up: "StatusUpdate (SetConditions exConditions [NetworkParamReady] exFresh) None
      \<in> set (out_Actions (params_Reconcile (exParams exFresh exDesign)))"
    by (simp add: exParams_applies)
  have "cond_Status (GetCondition exFresh ConditionTypeNetworkParamReady) \<noteq> ConditionTrue"
    by (simp add: exFresh_def)
  moreover have "api_AddFinalizer (pe_api (exParams exFresh exDesign)) exFresh = (exFresh, None)" by simp
  ultimately show ?thesis using params_condition_tracks_apply [OF _ _ _ _ _ up, of exFresh exFresh None] by simp
qed

section \<open>The network controller\<close>

definition exHash :: "NetworkSpec \<Rightarrow> string option" where "exHash sp = Some (ns_Topology sp)"

text \<open>One network device with a configuration, which the parser takes as it is.\<close>

definition exNet :: "Network \<Rightarrow> (Network \<Rightarrow> string option) \<Rightarrow> string network_env" where
  "exNet cr applyError = \<lparr>ne_api = (exApi cr)\<lparr>api_APIApply := \<lambda>_ _ x. applyError x\<rparr>, ne_conditions = exConditions,
     ne_design = \<lambda>_. Inr exDesign, ne_CalculateHash = exHash,
     ne_ListNetworkDevices = Inr [\<lparr>lid_OwnerUIDs = [''u0'', ''u1''], lid_ProviderConfig = Some (Some ''config'')\<rparr>],
     ne_Unmarshal = Inr,
     ne_ListConfigs = Inr [\<lparr>li_Name = ''topo.default.n0'', li_OwnerUIDs = [''u0'', ''u1''], li_Ready = cnd_Ready exConditions\<rparr>]\<rparr>"

lemma exNet_simps [simp]:
  "api_Get (ne_api (exNet cr e)) = Got cr" "api_AddFinalizer (ne_api (exNet cr e)) x = (x, None)"
  "api_StatusUpdate (ne_api (exNet cr e)) x = None" "ne_conditions (exNet cr e) = exConditions"
  "ne_design (exNet cr e) k = Inr exDesign"
  by (simp_all add: exNet_def)

definition exComplete :: Network where
  "exComplete = exNetwork\<lparr>net_Status := (exStatusOf ConditionTrue ConditionTrue)\<lparr>nst_UsedReferences :=
     Some (usedReferences ''topo'' exDesign)\<rparr>\<rparr>"

lemma exComplete_simps [simp]:
  "managed exComplete" "hasConfigChanged (exNet cr e) exComplete exDesign = (False, exComplete)"
  "AreChildConditionsReady exComplete"
  "network_apply (exNet cr e) exComplete = ([APIApply network_kinds [''config''] (e exComplete)], e exComplete)"
  by (simp_all add: managed_def exComplete_def exNetwork_def hasConfigChanged_def exNet_def exHash_def usedReferences_def
      AreChildConditionsReady_iff GetCondition_def exStatusOf_def network_apply_def getNetworkDeviceConfigs_def
      deviceConfig_def Let_def)

lemma exNet_step:
  "network_Reconcile (exNet exComplete e) = does [AddFinalizer network_finalizer None]
    (does [APIApply network_kinds [''config''] (e exComplete)]
      (if e exComplete \<noteq> None
       then failed (ne_api (exNet exComplete e)) (network_handleError exConditions exComplete ''cannot apply resource'' (e exComplete)) requeueAfter2s
       else network_report (exNet exComplete e) exComplete))"
  by (subst network_step [of _ exComplete exComplete exDesign False exComplete]) simp_all

theorem deploys_only_complete_networks_witness:
  "\<exists>cr cr1 nd. api_Get (ne_api (exNet exComplete (\<lambda>_. None))) = Got cr \<and> managed cr \<and>
     hasConfigChanged (exNet exComplete (\<lambda>_. None)) cr1 nd = (False, cr1) \<and> AreChildConditionsReady cr1"
proof -
  have "APIApply network_kinds [''config''] None \<in> set (out_Actions (network_Reconcile (exNet exComplete (\<lambda>_. None))))"
    by (simp add: exNet_step)
  from deploys_only_complete_networks [OF _ this] show ?thesis by (simp only: exNet_simps(4) ex_lawful) blast
qed

definition exRefused :: Network where
  "exRefused = SetOverallStatus exConditions (SetConditions exConditions [cnd_Failed exConditions ''refused''] exComplete)"

theorem network_ready_iff_children_witness:
  "cond_Status (GetCondition exRefused ''Ready'') = ConditionTrue \<longleftrightarrow> AreChildConditionsReady exRefused"
proof -
  have "StatusUpdate exRefused None \<in> set (out_Actions (network_Reconcile (exNet exComplete (\<lambda>_. Some ''refused''))))"
    by (simp add: exNet_step network_handleError_def failureMessage_def exRefused_def)
  from network_ready_iff_children [OF _ _ this] show ?thesis by simp
qed

theorem failed_deployment_reported_ready_witness:
  "\<exists>cr'. statuses (out_Actions (network_Reconcile (exNet exComplete (\<lambda>_. Some ''refused'')))) = [cr'] \<and>
     cond_Status (GetCondition cr' ''Ready'') = ConditionTrue"
proof -
  have "network_apply (exNet exComplete (\<lambda>_. Some ''refused'')) exComplete =
      ([APIApply network_kinds [''config''] (Some ''refused'')], Some ''refused'')" by simp
  from failed_deployment_reported_ready [OF _ _ _ _ _ _ _ _ this, of exComplete exComplete exDesign] show ?thesis by auto
qed

section \<open>The device controller\<close>

definition exDev :: "Network \<Rightarrow> string option \<Rightarrow> device_env" where
  "exDev cr applyError = \<lparr>de_api = (exApi cr)\<lparr>api_APIApply := \<lambda>_ _ _. applyError\<rparr>, de_conditions = exConditions,
     de_client = exClient, de_env = exEnv, de_design = \<lambda>_. Inr exDesign, de_heap = \<lambda>_. 0, de_schedule = exSchedule,
     de_order = [''n0'', ''n1''],
     de_ListNetworkDevices = Inr [\<lparr>li_Name = ''topo.blue.n0'', li_OwnerUIDs = [''u1''], li_Ready = cnd_Ready exConditions\<rparr>]\<rparr>"

lemma exDev_simps [simp]:
  "api_Get (de_api (exDev cr e)) = Got cr" "api_AddFinalizer (de_api (exDev cr e)) x = (x, None)"
  "api_APIApply (de_api (exDev cr e)) ks os x = e"
  "api_StatusUpdate (de_api (exDev cr e)) x = None" "de_conditions (exDev cr e) = exConditions"
  "de_design (exDev cr e) k = Inr exDesign" "de_order (exDev cr e) = [''n0'', ''n1'']"
  by (simp_all add: exDev_def)

lemma exDev_builds:
  "\<exists>devices. device_apply (exDev cr e) (exOverlay\<lparr>net_Status := st\<rparr>) exDesign = Inr ([APIApply device_kinds devices e], e)"
proof -
  let ?inp = "builderInputs (exDev cr e) (exOverlay\<lparr>net_Status := st\<rparr>) exDesign"
  have "?inp = exInputs\<lparr>inp_network := exOverlay\<lparr>net_Status := st\<rparr>\<rparr>"
    by (simp add: builderInputs_def exDev_def exInputs_def)
  from ex_Build_overlay_status [OF this] obtain b where
    "Build ?inp (de_schedule (exDev cr e)) (NewBuilder ?inp (de_heap (exDev cr e))) = Inr b" by blast
  then show ?thesis by (simp add: device_apply_def buildDevices_def Let_def)
qed

definition exBlue :: Network where "exBlue = withStatus ConditionTrue ConditionUnknown exOverlay"

lemma exBlue_status [simp]:
  "cond_Status (GetCondition exBlue ConditionTypeNetworkParamReady) = ConditionTrue"
  "cond_Status (GetCondition exBlue ConditionTypeNetworkDeviceReady) = ConditionUnknown" "\<not> net_Deleting exBlue"
  "net_Name exBlue = net_Name exOverlay"
  by (simp_all add: exBlue_def) (simp add: exOverlay_def)

lemma exDev_step:
  assumes "device_apply (exDev exBlue e) exBlue exDesign = Inr (as, e)"
  shows "device_Reconcile (exDev exBlue e) = does [AddFinalizer device_finalizer None] (does as
    (if e \<noteq> None then failed (de_api (exDev exBlue e)) (device_handleError exConditions exBlue ''cannot apply resource'' e) requeueAfter2s
     else device_report (exDev exBlue e) exBlue))"
  using assms by (simp add: device_Reconcile_def Let_def)

lemma exBlue_same: "exOverlay\<lparr>net_Status := net_Status exBlue\<rparr> = exBlue"
  by (simp add: exBlue_def withStatus_def)

theorem applied_devices_witness:
  "\<exists>devices. Ball (set devices) device_wf \<and> (reconciler_getNodeName \<circ> dev_Name) ` set devices = {''n0''}"
proof -
  obtain devices where ap: "device_apply (exDev exBlue None) exBlue exDesign = Inr ([APIApply device_kinds devices None], None)"
    using exDev_builds [of exBlue None "net_Status exBlue"] unfolding exBlue_same by blast
  have "APIApply device_kinds devices None \<in> set (out_Actions (device_Reconcile (exDev exBlue None)))"
    by (simp add: exDev_step [OF ap])
  moreover have "buildNodes (builderInputs (exDev exBlue None) exBlue exDesign) = buildNodes exOverlayInputs"
    by (simp add: builderInputs_def exOverlayInputs_def buildNodes_def overlayNodes_def exBlue_def withStatus_def
        IsDefaultNetwork_def GetNetworkName_def exInputs_def exDev_def GetLinks_def key_def)
  ultimately show ?thesis
    using applied_devices [of device_kinds devices None "exDev exBlue None" exBlue exBlue None exDesign]
    by (auto simp: ex_buildNodes_overlay)
qed

theorem device_failure_blocks_retry_witness:
  "\<exists>cr'. cond_Status (GetCondition cr' ConditionTypeNetworkParamReady) = ConditionFalse \<and>
     statuses (out_Actions (device_Reconcile (exDev exBlue (Some ''refused'')))) = [cr'] \<and>
     out_Actions (device_Reconcile (exDev cr' (Some ''refused''))) = [AddFinalizer device_finalizer None]"
proof -
  let ?d = "exDev exBlue (Some ''refused'')"
  let ?cr = "SetConditions exConditions [NetworkDeviceFailed ''refused''] exBlue"
  obtain devices where ap: "device_apply ?d exBlue exDesign = Inr ([APIApply device_kinds devices (Some ''refused'')], Some ''refused'')"
    using exDev_builds [of exBlue "Some ''refused''" "net_Status exBlue"] unfolding exBlue_same by blast
  have sees: "?d\<lparr>de_api := (de_api ?d)\<lparr>api_Get := Got ?cr\<rparr>\<rparr> = exDev ?cr (Some ''refused'')"
    by (simp add: exDev_def exApi_def)
  from device_failure_blocks_retry [OF _ _ _ _ _ _ _ ap _ refl] show ?thesis
    by (intro exI [of _ ?cr]) (simp add: sees)
qed

section \<open>The three together\<close>

definition exCluster :: "string cluster" where
  "exCluster = \<lparr>clu_params = exParams exBlue exDesign, clu_device = exDev exBlue None, clu_network = exNet exBlue (\<lambda>_. None)\<rparr>"

lemma identity_exBlue:
  assumes "identity cr = identity exBlue"
  shows "cr = exOverlay\<lparr>net_Status := net_Status cr\<rparr>"
  using assms by (cases cr; cases exOverlay) (simp add: identity_def exBlue_def withStatus_def)

lemma exCluster_healthy: "healthy exCluster exConditions exBlue exDesign"
proof -
  have "snd (if IsDefaultNetwork cr then applyDefaultNetwork (clu_params exCluster) cr exDesign
             else applyNetwork (clu_params exCluster) cr exDesign) = None \<and>
        (\<exists>as. device_apply (clu_device exCluster) cr exDesign = Inr (as, None)) \<and>
        snd (network_apply (clu_network exCluster) cr) = None"
    if "identity cr = identity exBlue" for cr
  proof -
    have "net_Name cr = net_Name exBlue" using that by (simp add: identity_def)
    then have "\<not> IsDefaultNetwork cr" using ex_networks(7) exBlue_status(4) by (simp add: IsDefaultNetwork_def GetNetworkName_def)
    moreover have "\<exists>as. device_apply (clu_device exCluster) cr exDesign = Inr (as, None)"
      using exDev_builds [of exBlue None "net_Status cr"] identity_exBlue [OF that] by (auto simp: exCluster_def)
    moreover have "snd (network_apply (clu_network exCluster) cr) = None"
      by (simp add: exCluster_def network_apply_def getNetworkDeviceConfigs_def deviceConfig_def exNet_def Let_def)
    ultimately show ?thesis by (simp add: applyNetwork_def)
  qed
  moreover have "managed exBlue" by (simp add: managed_def exBlue_def exOverlay_def)
  moreover have "\<not> notReady \<lparr>li_Name = nm, li_OwnerUIDs = us, li_Ready = cnd_Ready exConditions\<rparr>" for nm us
    by (simp add: notReady_def)
  ultimately show ?thesis
    unfolding healthy_def
    by (simp add: exCluster_def calm_def) (simp add: exDev_def exNet_def exHash_def)
qed

theorem network_becomes_ready_witness:
  "isTrue (runs exCluster [D, N, P, N, D, P, N, N] exBlue) ''Ready''"
proof -
  have "subseq [N, P, D, N] [D, N, P, N, D, P, N]" by code_simp
  from network_becomes_ready [OF exCluster_healthy this, of "[N]"] show ?thesis by simp
qed

text \<open>The network of the parameters controller is deleted.\<close>

definition exGone :: params_env where
  "exGone = (exParams exFresh exDesign)\<lparr>pe_api := (exApi (exFresh\<lparr>net_Deleting := True\<rparr>))\<rparr>"


section \<open>The design controller\<close>

definition exDesignEnv :: "NetworkDesign \<Rightarrow> design_env" where
  "exDesignEnv cr = \<lparr>dge_api = \<lparr>api_Get = Got cr, api_AddFinalizer = \<lambda>x. (x, None), api_RemoveFinalizer = \<lambda>x. (x, None),
       api_APIApply = \<lambda>_ _ _. None, api_APIDelete = \<lambda>_ _. None, api_StatusUpdate = \<lambda>_. None\<rparr>,
     dge_conditions = exConditions, dge_claims = exClaims, dge_topology = \<lambda>_. Got (cnd_Ready exConditions)\<rparr>"


theorem design_apply_or_rollback_witness:
  "\<exists>cr2 claims. out_Actions (design_Reconcile (exDesignEnv exDesign)) =
     [AddFinalizer design_finalizer None, APIApply design_kinds1 [ASIndexRes (GetASIndex exDesign)] None,
      APIApply design_kinds2 claims None, Event EventTypeNormal design_crName ''ready'',
      StatusUpdate (Design_SetConditions exConditions [cnd_Ready exConditions] cr2) None]"
proof -
  let ?d = "exDesignEnv exDesign"
  obtain as err cr2 where ap: "design_apply ?d exDesign = (as, err, cr2)" by (metis prod_cases3)
  then have "err = None" by (auto simp: design_apply_def exDesignEnv_def Let_def split: prod.splits)
  moreover have "isTopologyReady ?d exDesign" by (simp add: isTopologyReady_def exDesignEnv_def)
  moreover have "\<not> nd_Deleting exDesign" by (simp add: exDesign_def)
  ultimately show ?thesis
    using design_apply_or_rollback [of ?d exDesign exDesign as err cr2] ap by (auto simp: exDesignEnv_def)
qed

section \<open>The handler of device events\<close>

text \<open>A network of topology \<open>topo\<close> is named \<open>topo.b\<close>, beside the example's \<open>topo.blue\<close>.\<close>

theorem device_event_wakes_networks_witness:
  "{GetNamespacedName exBlue, GetNamespacedName (exBlue\<lparr>net_Name := ''topo.b''\<rparr>)} \<subseteq>
     set (NetworkDeviceForNetwork_add (\<lambda>_. Inr [exBlue, exBlue\<lparr>net_Name := ''topo.b''\<rparr>])
       (WNetworkDevice (NewDevice (GetNamespacedName exBlue) ''n0'')))"
proof -
  let ?list = "\<lambda>_. Inr [exBlue, exBlue\<lparr>net_Name := ''topo.b''\<rparr>]" and ?dev = "NewDevice (GetNamespacedName exBlue) ''n0''"
  have dev: "dev_Namespace ?dev = net_Namespace exBlue" "dev_Name ?dev = dot (net_Name exBlue) ''n0''"
    by (simp_all add: NewDevice_def BuildNetworkDevice_def GetNamespacedName_def Let_def)
  have "prefix ''topo.b'' (net_Name exBlue)" by (simp add: exOverlay_def)
  with device_event_wakes_networks [of ?list exBlue _ ?dev "''n0''", OF refl _ dev, of WOther]
  show ?thesis by (simp only: list.set) auto
qed

end
