(* ===== verification/Lease.thy ===== *)
theory Lease
  imports External Reconcile
begin

text \<open>
  The lease with which a controller takes hold of a resource (\<open>reconcilers/lease/lease.go\<close>): one attempt as a
  function of the answers it gets, and any number of concurrent attempts as a step relation.

  Of the API server the relation uses what it documents: a creation fails when the object exists, and an
  update fails when the object has changed since it was read (the resource version). Times are in
  nanoseconds; no clock is assumed to be monotonic or shared.
\<close>

section \<open>Leases\<close>

record LeaseSpec =
  ls_HolderIdentity :: "string option"
  ls_LeaseDurationSeconds :: "32 word option"
  ls_AcquireTime :: "int option"
  ls_RenewTime :: "int option"

record lease =
  leasName :: string
  leaseNamespace :: string

definition NewLease :: "NamespacedName \<Rightarrow> lease" where
  "NewLease nsn = \<lparr>leasName = strings_ReplaceAll1 CHR '':'' CHR ''-'' (nsn_Name nsn),
     leaseNamespace = nsn_Namespace nsn\<rparr>"

definition leaseKey :: "lease \<Rightarrow> NamespacedName" where
  "leaseKey r = \<lparr>nsn_Namespace = leaseNamespace r, nsn_Name = leasName r\<rparr>"

definition defaultLeaseInterval :: int where "defaultLeaseInterval = 1 * time_Second"

text \<open>\<open>int32(defaultLeaseInterval / time.Second)\<close>\<close>

definition leaseSpecOf :: "string \<Rightarrow> int \<Rightarrow> LeaseSpec" where
  "leaseSpecOf holderIdentity now = \<lparr>ls_HolderIdentity = Some holderIdentity,
     ls_LeaseDurationSeconds = Some (word_of_int (defaultLeaseInterval div time_Second)),
     ls_AcquireTime = Some now, ls_RenewTime = Some now\<rparr>"

definition getLease :: "lease \<Rightarrow> string \<Rightarrow> int \<Rightarrow> NamespacedName \<times> LeaseSpec" where
  "getLease r holderIdentity now = (leaseKey r, leaseSpecOf holderIdentity now)"

text \<open>\<open>lease.Spec.RenewTime.Add(time.Duration(*lease.Spec.LeaseDurationSeconds) * time.Second)\<close>\<close>

definition expectedRenewTime :: "int \<Rightarrow> 32 word \<Rightarrow> int" where
  "expectedRenewTime renewTime duration = renewTime + sint duration * time_Second"

text \<open>What is decided on a lease that was read: the spec to write, or the error.\<close>

definition takeOver :: "string \<Rightarrow> int \<Rightarrow> LeaseSpec \<Rightarrow> LeaseSpec res" where
  "takeOver holderIdentity now spec =
     (case ls_HolderIdentity spec of
        None \<Rightarrow> Inl (Err ''lease nil or holderidentity nil'')
      | Some holder \<Rightarrow>
          if holder \<noteq> holderIdentity then
            (case ls_RenewTime spec of
               None \<Rightarrow> Inr (leaseSpecOf holderIdentity now)
             | Some renewTime \<Rightarrow>
                 (case ls_LeaseDurationSeconds spec of
                    None \<Rightarrow> Inl nilDereference
                  | Some duration \<Rightarrow>
                      if \<not> expectedRenewTime renewTime duration < now
                      then Inl (Err (''cannot acquire lease, lease held by another identity: '' @ holder))
                      else Inr (leaseSpecOf holderIdentity now)))
          else Inr (leaseSpecOf holderIdentity now))"

section \<open>One attempt\<close>

record lease_api =
  la_Get :: "LeaseSpec got"
  la_Create :: "string option"
  la_GetAgain :: "string + LeaseSpec"
  la_Update :: "string option"
  la_now1 :: int
  la_now2 :: int

datatype lease_call = CreateLease NamespacedName LeaseSpec | UpdateLease NamespacedName LeaseSpec

definition AcquireLease :: "lease \<Rightarrow> string \<Rightarrow> lease_api \<Rightarrow> lease_call list \<times> unit res" where
  "AcquireLease r holderIdentity a =
     (let again = (case la_GetAgain a of
            Inl e \<Rightarrow> ([], Inl (Err e))
          | Inr spec \<Rightarrow> (case takeOver holderIdentity (la_now2 a) spec of
              Inl e \<Rightarrow> ([], Inl e)
            | Inr spec' \<Rightarrow> ([UpdateLease (leaseKey r) spec'],
                case la_Update a of Some e \<Rightarrow> Inl (Err e) | None \<Rightarrow> Inr ())))
      in case la_Get a of
           GetFailed e \<Rightarrow> ([], Inl (Err e))
         | Got _ \<Rightarrow> again
         | NotFound \<Rightarrow>
             let (k, spec) = getLease r holderIdentity (la_now1 a) in
             (case la_Create a of
                Some e \<Rightarrow> ([CreateLease k spec], Inl (Err e))
              | None \<Rightarrow> (CreateLease k spec # fst again, snd again)))"

section \<open>Concurrent attempts\<close>

text \<open>
  The server holds the lease with its resource version. A process has read it or not; \<open>ident\<close> gives the
  identity a process uses. The history lists who wrote the lease, and the time each took for now.
\<close>

record lstate =
  lst_server :: "(nat \<times> LeaseSpec) option"
  lst_read :: "nat \<Rightarrow> (nat \<times> LeaseSpec) option"
  lst_history :: "(string \<times> int) list"

inductive lease_step :: "(nat \<Rightarrow> string) \<Rightarrow> lstate \<Rightarrow> lstate \<Rightarrow> bool" for ident where
  creates: "lst_server s = None \<Longrightarrow>
    lease_step ident s (s\<lparr>lst_server := Some (0, leaseSpecOf (ident p) now), lst_history := lst_history s @ [(ident p, now)]\<rparr>)"
| reads: "lst_server s = Some r \<Longrightarrow> lease_step ident s (s\<lparr>lst_read := (lst_read s)(p := Some r)\<rparr>)"
| updates: "lst_read s p = Some (v, spec) \<Longrightarrow> takeOver (ident p) now spec = Inr spec' \<Longrightarrow> lst_server s = Some (v, cur) \<Longrightarrow>
    lease_step ident s (s\<lparr>lst_server := Some (Suc v, spec'), lst_read := (lst_read s)(p := None),
      lst_history := lst_history s @ [(ident p, now)]\<rparr>)"
| abandons: "lease_step ident s (s\<lparr>lst_read := (lst_read s)(p := None)\<rparr>)"

inductive lease_reachable :: "(nat \<Rightarrow> string) \<Rightarrow> lstate \<Rightarrow> bool" for ident where
  init: "lease_reachable ident \<lparr>lst_server = None, lst_read = \<lambda>_. None, lst_history = []\<rparr>"
| step: "lease_reachable ident s \<Longrightarrow> lease_step ident s s' \<Longrightarrow> lease_reachable ident s'"

inductive_cases lease_stepE: "lease_step ident s s'"

text \<open>A write by another identity comes more than a second after the write before it.\<close>

fun handed_over :: "(string \<times> int) list \<Rightarrow> bool" where
  "handed_over ((a, t) # (b, u) # h) = ((a = b \<or> t + time_Second < u) \<and> handed_over ((b, u) # h))"
| "handed_over h = True"

lemma handed_over_snoc:
  "handed_over (h @ [(a, t)]) \<Longrightarrow> (a = b \<or> t + time_Second < u) \<Longrightarrow> handed_over (h @ [(a, t), (b, u)])"
  by (induction h rule: handed_over.induct) auto

lemma takeOver_result: "takeOver i now spec = Inr spec' \<Longrightarrow> spec' = leaseSpecOf i now"
  by (auto simp: takeOver_def split: option.splits if_splits)

lemma takeOver_other:
  assumes "takeOver i now (leaseSpecOf j t) = Inr spec'" and "i \<noteq> j"
  shows "t + time_Second < now"
proof -
  have "sint (1 :: 32 word) = 1" by simp
  then show ?thesis
    using assms by (auto simp: takeOver_def leaseSpecOf_def expectedRenewTime_def defaultLeaseInterval_def time_Second_def
        split: if_splits)
qed

text \<open>What is read under the version of the server is what the server has.\<close>

definition lease_inv :: "lstate \<Rightarrow> bool" where
  "lease_inv s \<longleftrightarrow> handed_over (lst_history s) \<and>
     (case lst_server s of
        None \<Rightarrow> lst_history s = [] \<and> (\<forall>p. lst_read s p = None)
      | Some (v, spec) \<Rightarrow> lst_history s \<noteq> [] \<and>
          spec = leaseSpecOf (fst (last (lst_history s))) (snd (last (lst_history s))) \<and>
          (\<forall>p v' spec'. lst_read s p = Some (v', spec') \<longrightarrow> v' \<le> v \<and> (v' = v \<longrightarrow> spec' = spec)))"

lemma lease_inv_step:
  assumes "lease_step ident s s'" and "lease_inv s"
  shows "lease_inv s'"
  using assms
proof (cases rule: lease_step.cases)
  case (creates p now)
  then show ?thesis using assms(2) by (simp add: lease_inv_def)
next
  case (reads r p)
  then show ?thesis using assms(2) by (cases r) (auto simp: lease_inv_def)
next
  case (updates p v spec now spec' cur)
  obtain h a t where h: "lst_history s = h @ [(a, t)]"
    using assms(2) updates(4) by (cases "lst_history s" rule: rev_cases) (auto simp: lease_inv_def)
  have spec: "spec = leaseSpecOf a t"
    using assms(2) updates(2,4) h by (auto simp: lease_inv_def)
  have "a = ident p \<or> t + time_Second < now"
    using takeOver_other [of "ident p" now a t spec'] updates(3) spec by auto
  then have "handed_over (h @ [(a, t), (ident p, now)])"
    using assms(2) h by (intro handed_over_snoc) (auto simp: lease_inv_def)
  then show ?thesis
    using assms(2) updates takeOver_result [OF updates(3)] h
    by (auto simp: lease_inv_def le_SucI split: if_splits) (meson le_SucI Suc_n_not_le_n)+
next
  case (abandons p)
  then show ?thesis using assms(2) by (auto simp: lease_inv_def split: option.splits)
qed

lemma lease_inv_reachable: "lease_reachable ident s \<Longrightarrow> lease_inv s"
proof (induction rule: lease_reachable.induct)
  case init
  show ?case by (simp add: lease_inv_def)
next
  case (step s s')
  then show ?case by (blast intro: lease_inv_step)
qed

lemma handed_over_tl: "handed_over (x # h) \<Longrightarrow> handed_over h"
  by (cases x; cases h) auto

lemma handed_over_nth: "handed_over (xs @ (a, t) # (b, u) # ys) \<Longrightarrow> a = b \<or> t + time_Second < u"
proof (induction xs)
  case (Cons x xs)
  then show ?case using handed_over_tl [of x "xs @ (a, t) # (b, u) # ys"] by simp
qed simp

section \<open>Properties\<close>

text \<open>
  C9. However many attempts run at once, and whatever their clocks say, the lease changes hands only after it
  has run out: of two successive writes by different identities, the later one is dated more than a second
  after the earlier, and the lease on the server is the one the last of them wrote.
\<close>

theorem lease_handed_over_after_expiry:
  assumes "lease_reachable ident s" and "lst_history s = xs @ [(a, t), (b, u)] @ ys"
  shows "(if a = b then True else t + time_Second < u) \<and>
    map_option snd (lst_server s) = Some (leaseSpecOf (fst (last (lst_history s))) (snd (last (lst_history s))))"
proof -
  have inv: "lease_inv s" using assms(1) by (rule lease_inv_reachable)
  then have "handed_over (xs @ (a, t) # (b, u) # ys)" using assms(2) by (simp add: lease_inv_def)
  then have "a = b \<or> t + time_Second < u" by (rule handed_over_nth)
  then show ?thesis using inv assms(2) by (auto simp: lease_inv_def split: option.splits)
qed

text \<open>
  The result of one attempt. It succeeds iff the lease was found or created, could be read again, is held
  by the caller, never renewed, or past its renew time, and the update was accepted. A lease of another holder
  that has a renew time but no duration makes it panic.
\<close>

theorem acquire_lease_result:
  "(snd (AcquireLease r i a) = Inr () \<longleftrightarrow>
      ((\<exists>x. la_Get a = Got x) \<or> la_Get a = NotFound \<and> la_Create a = None) \<and> la_Update a = None \<and>
      (\<exists>spec holder. la_GetAgain a = Inr spec \<and> ls_HolderIdentity spec = Some holder \<and>
        (holder = i \<or> ls_RenewTime spec = None \<or>
         (\<exists>t d. ls_RenewTime spec = Some t \<and> ls_LeaseDurationSeconds spec = Some d \<and>
            t + sint d * time_Second < la_now2 a)))) \<and>
   ((\<exists>m. snd (AcquireLease r i a) = Inl (Panic m)) \<longleftrightarrow>
      ((\<exists>x. la_Get a = Got x) \<or> la_Get a = NotFound \<and> la_Create a = None) \<and>
      (\<exists>spec holder t. la_GetAgain a = Inr spec \<and> ls_HolderIdentity spec = Some holder \<and> holder \<noteq> i \<and>
        ls_RenewTime spec = Some t \<and> ls_LeaseDurationSeconds spec = None))"
proof -
  have to: "(\<exists>s. takeOver i now spec = Inr s) \<longleftrightarrow> (\<exists>holder. ls_HolderIdentity spec = Some holder \<and>
      (holder = i \<or> ls_RenewTime spec = None \<or> (\<exists>t d. ls_RenewTime spec = Some t \<and> ls_LeaseDurationSeconds spec = Some d \<and>
        t + sint d * time_Second < now)))" for now spec
    by (auto simp: takeOver_def expectedRenewTime_def split: option.splits)
  have pa: "(\<exists>m. takeOver i now spec = Inl (Panic m)) \<longleftrightarrow> (\<exists>holder t. ls_HolderIdentity spec = Some holder \<and> holder \<noteq> i \<and>
      ls_RenewTime spec = Some t \<and> ls_LeaseDurationSeconds spec = None)" for now spec
    by (auto simp: takeOver_def nilDereference_def split: option.splits)
  let ?reached = "(\<exists>x. la_Get a = Got x) \<or> la_Get a = NotFound \<and> la_Create a = None"
  have "snd (AcquireLease r i a) = Inr () \<longleftrightarrow>
      ?reached \<and> la_Update a = None \<and> (\<exists>spec. la_GetAgain a = Inr spec \<and> (\<exists>s. takeOver i (la_now2 a) spec = Inr s))"
    by (auto simp: AcquireLease_def getLease_def Let_def split: sum.splits got.splits option.splits)
  moreover have "(\<exists>m. snd (AcquireLease r i a) = Inl (Panic m)) \<longleftrightarrow>
      ?reached \<and> (\<exists>spec. la_GetAgain a = Inr spec \<and> (\<exists>m. takeOver i (la_now2 a) spec = Inl (Panic m)))"
    by (auto simp: AcquireLease_def getLease_def Let_def split: sum.splits got.splits option.splits)
  ultimately show ?thesis unfolding to pa by blast
qed

section \<open>A run\<close>

text \<open>The first process creates the lease; the second reads it and takes it after two seconds.\<close>

definition exIdent :: "nat \<Rightarrow> string" where "exIdent p = (if p = 0 then ''params'' else ''devices'')"

theorem lease_handed_over_after_expiry_witness:
  "\<exists>s. lease_reachable exIdent s \<and> lst_history s = [(''params'', 0), (''devices'', 2 * time_Second)] \<and>
     map_option snd (lst_server s) = Some (leaseSpecOf ''devices'' (2 * time_Second)) \<and> (0 :: int) + time_Second < 2 * time_Second"
proof -
  define s0 :: lstate where "s0 = \<lparr>lst_server = None, lst_read = \<lambda>_. None, lst_history = []\<rparr>"
  define s1 where "s1 = s0\<lparr>lst_server := Some (0, leaseSpecOf (exIdent 0) 0), lst_history := lst_history s0 @ [(exIdent 0, 0)]\<rparr>"
  define s2 where "s2 = s1\<lparr>lst_read := (lst_read s1)(1 := Some (0, leaseSpecOf (exIdent 0) 0))\<rparr>"
  define s3 where "s3 = s2\<lparr>lst_server := Some (Suc 0, leaseSpecOf (exIdent 1) (2 * time_Second)),
     lst_read := (lst_read s2)(1 := None), lst_history := lst_history s2 @ [(exIdent 1, 2 * time_Second)]\<rparr>"
  have "lease_reachable exIdent s0" unfolding s0_def by (rule lease_reachable.init)
  moreover have "lease_step exIdent s0 s1" unfolding s1_def by (rule lease_step.creates) (simp add: s0_def)
  moreover have "lease_step exIdent s1 s2" unfolding s2_def by (rule lease_step.reads) (simp add: s1_def)
  moreover have "lease_step exIdent s2 s3" unfolding s3_def
  proof (rule lease_step.updates)
    have "sint (1 :: 32 word) = 1" by simp
    then show "takeOver (exIdent 1) (2 * time_Second) (leaseSpecOf (exIdent 0) 0) = Inr (leaseSpecOf (exIdent 1) (2 * time_Second))"
      by (simp add: takeOver_def leaseSpecOf_def exIdent_def expectedRenewTime_def defaultLeaseInterval_def time_Second_def)
  qed (simp_all add: s2_def s1_def)
  ultimately have r: "lease_reachable exIdent s3" by (blast intro: lease_reachable.step)
  have h: "lst_history s3 = [] @ [(''params'', 0), (''devices'', 2 * time_Second)] @ []"
    by (simp add: s3_def s2_def s1_def s0_def exIdent_def)
  from lease_handed_over_after_expiry [OF r h] show ?thesis using r h by (intro exI [of _ s3]) simp
qed

end
