(* ===== verification/PackageController.thy ===== *)
theory PackageController
  imports Lease NetworkParams DeviceController NetworkController "HOL-Library.Sublist"
begin

text \<open>
  The network package controller (\<open>reconcilers/networkpackage/reconciler.go\<close>): a network that comes in a
  package revision is put on the cluster, and when its devices are configured, their configurations become
  the resources of the revision.

  Package revisions (the type \<open>'p\<close>), configurations (\<open>'c\<close>), the YAML reader and the JSON parser are of
  packages outside the program. The calls on the network and on the resources are not those of the
  resource inventory, so the controller has actions of its own.
\<close>

section \<open>What the controller meets\<close>

record RNode =
  rn_ApiVersion :: string
  rn_Kind :: string
  rn_MustString :: string

text \<open>The methods of a package revision, and the constructors of its conditions.\<close>

record 'p revision =
  rev_Key :: "'p \<Rightarrow> NamespacedName"
  rev_Deleting :: "'p \<Rightarrow> bool"
  rev_HasReadinessGate :: "'p \<Rightarrow> string \<Rightarrow> bool"
  rev_GetCondition :: "'p \<Rightarrow> string \<Rightarrow> ConditionStatus"
  rev_GetPreviousCondition :: "'p \<Rightarrow> string \<Rightarrow> ConditionStatus"
  rev_NextReadinessGate :: "'p \<Rightarrow> string \<Rightarrow> string"
  rev_HasCondition :: "'p \<Rightarrow> string \<Rightarrow> bool"
  rev_SetReady :: "string \<Rightarrow> 'p \<Rightarrow> 'p"  \<comment> \<open>\<open>SetConditions(ConditionReady(t))\<close>\<close>
  rev_SetUpdate :: "string \<Rightarrow> string \<Rightarrow> string \<Rightarrow> 'p \<Rightarrow> 'p"  \<comment> \<open>\<open>SetConditions(ConditionUpdate(t, reason, message))\<close>\<close>
  rev_ConditionTypeReady :: string
  rev_ConditionTypeEnd :: string
  rev_PkgTarget_Catalog :: string

text \<open>
  The answers to the calls of one run. The resources of the revision are its map of paths to contents, in
  the order of the iteration; \<open>pae_Create\<close> gives the network as the server has filled it in.
\<close>

record ('p, 'c) package_env =
  pae_api :: "('p, unit) api"
  pae_revision :: "'p revision"
  pae_conditions :: conditions
  pae_lease :: lease_api
  pae_GetResources :: "string + (string \<times> string) list"
  pae_ShouldSkipFile :: "string \<Rightarrow> string + bool"
  pae_Read :: "string \<Rightarrow> string \<Rightarrow> string + RNode list"
  pae_UnmarshalNetwork :: "string \<Rightarrow> Network"
  pae_APIVersion :: string
  pae_GetNetwork :: "NamespacedName \<Rightarrow> Network got"
  pae_Create :: "Network \<Rightarrow> Network \<times> string option"
  pae_Update :: "Network \<Rightarrow> string option"
  pae_GetNetworkAgain :: "NamespacedName \<Rightarrow> string + Network"
  pae_Delete :: "Network \<Rightarrow> string option"
  pae_NetworkStatusUpdate :: "Network \<Rightarrow> string option"
  pae_NoConditions :: "string \<Rightarrow> Condition"  \<comment> \<open>\<open>GetCondition\<close> of an empty status\<close>
  pae_ListNetworkDevices :: "string + listedDevice list"
  pae_Unmarshal :: "string \<Rightarrow> string + 'c"
  pae_Marshal :: "'c \<Rightarrow> string + string"
  pae_ConfigID :: "'c \<Rightarrow> string \<times> string \<times> string \<times> string"  \<comment> \<open>API version, kind, namespace, name\<close>
  pae_UpdateResources :: "(string \<rightharpoonup> string) \<Rightarrow> string option"

datatype 'p package_action =
    AcquiredLease "lease_call list"
  | PackageAddFinalizer "string option"
  | PackageRemoveFinalizer "string option"
  | CreateNetwork Network "string option"
  | UpdateNetwork Network "string option"
  | DeleteNetwork Network "string option"
  | UpdateNetworkStatus Network "string option"
  | UpdateResources "string \<rightharpoonup> string" "string option"
  | PackageEvent EventType string string
  | PackageStatusUpdate 'p "string option"

text \<open>The calls, and the result and error, or the panic of the lease.\<close>

type_synonym 'p package_outcome = "'p package_action list \<times> (Result \<times> wrapped) res"

definition and_then :: "'p package_action list \<Rightarrow> 'p package_outcome \<Rightarrow> 'p package_outcome" where
  "and_then as out = (as @ fst out, snd out)"

lemma and_then_fields [simp]: "fst (and_then as out) = as @ fst out" "snd (and_then as out) = snd out"
  by (simp_all add: and_then_def)

definition package_finalizer :: string where "package_finalizer = ''networkpackage.network.app.kuid.dev/finalizer''"
definition package_controllerName :: string where "package_controllerName = ''NetworkPackageController''"
definition readinessCondition :: string where "readinessCondition = ''pkg.pkgserver.dev/network''"
definition package_condition :: string where "package_condition = ''NetworkDeployReady.networkpackage''"

section \<open>The network of the package\<close>

text \<open>
  One file: a path in a subdirectory, one that the glob cannot judge and one that is to be skipped give
  nothing. A resource that does not unmarshal is logged and kept, as far as it was read.
\<close>

definition networksOf :: "('p, 'c) package_env \<Rightarrow> string \<times> string \<Rightarrow> string + Network list" where
  "networksOf k = (\<lambda>(path, v).
     if CHR ''/'' \<in> set path then Inr []
     else case pae_ShouldSkipFile k path of
       Inl _ \<Rightarrow> Inr []
     | Inr match \<Rightarrow>
         if match then Inr []
         else case pae_Read k path v of
           Inl e \<Rightarrow> Inl e
         | Inr rns \<Rightarrow> Inr (map (pae_UnmarshalNetwork k \<circ> rn_MustString)
             (filter (\<lambda>rn. rn_ApiVersion rn = pae_APIVersion k \<and> rn_Kind rn = ''Network'') rns)))"

fun gatherNetworks :: "('p, 'c) package_env \<Rightarrow> (string \<times> string) list \<Rightarrow> string + Network list" where
  "gatherNetworks k [] = Inr []"
| "gatherNetworks k (f # fs) = (case networksOf k f of
      Inl e \<Rightarrow> Inl e
    | Inr ns \<Rightarrow> (case gatherNetworks k fs of Inl e \<Rightarrow> Inl e | Inr ns' \<Rightarrow> Inr (ns @ ns')))"

definition gatherNetworkInPRR :: "('p, 'c) package_env \<Rightarrow> string + Network" where
  "gatherNetworkInPRR k = (case pae_GetResources k of Inl e \<Rightarrow> Inl e | Inr files \<Rightarrow>
     (case gatherNetworks k files of
        Inl e \<Rightarrow> Inl e
      | Inr [] \<Rightarrow> Inl ''no network found in package''
      | Inr (network # _) \<Rightarrow> Inr network))"

text \<open>
  The network is put on the cluster. \<open>existingNetwork\<close> is the struct that was read, or the empty one when
  there was none to read: it is what is updated, also right after the creation (\<open>reconciler.go:264-270\<close>).
\<close>

definition zero_Network :: "(string \<Rightarrow> Condition) \<Rightarrow> Network" where
  "zero_Network none = \<lparr>net_Namespace = [], net_Name = [], net_UID = [], net_Annotations = Map.empty,
     net_Deleting = False, net_Spec = zero_NetworkSpec, net_Status = zero_NetworkStatus none\<rparr>"

definition gitopsNetwork :: "Network \<Rightarrow> Network" where
  "gitopsNetwork network = network\<lparr>net_Annotations := (net_Annotations network)(''kuid.dev/gitops'' \<mapsto> ''true'')\<rparr>"

text \<open>The update and the second read.\<close>

definition updateSpec ::
  "('p, 'c) package_env \<Rightarrow> NamespacedName \<Rightarrow> Network \<Rightarrow> Network \<Rightarrow> 'p package_action list \<times> (string + Network)" where
  "updateSpec k nsn existing network =
     (let updated = existing\<lparr>net_Spec := net_Spec network\<rparr>;
          err = pae_Update k updated
      in ([UpdateNetwork updated err],
          case err of Some e \<Rightarrow> Inl e | None \<Rightarrow> pae_GetNetworkAgain k nsn))"

definition applyNetworkCR :: "('p, 'c) package_env \<Rightarrow> Network \<Rightarrow> 'p package_action list \<times> (string + Network)" where
  "applyNetworkCR k network =
     (let nsn = GetNamespacedName network; network1 = gitopsNetwork network in
      case pae_GetNetwork k nsn of
        GetFailed e \<Rightarrow> ([], Inl e)
      | Got existing \<Rightarrow> updateSpec k nsn existing network1
      | NotFound \<Rightarrow> (case pae_Create k network1 of
          (network2, Some e) \<Rightarrow> ([CreateNetwork network1 (Some e)], Inl e)
        | (network2, None) \<Rightarrow>
            (case updateSpec k nsn (zero_Network (pae_NoConditions k)) network2 of
               (as, r) \<Rightarrow> (CreateNetwork network1 None # as, r))))"

section \<open>The resources of the package\<close>

definition package_getNetworkDeviceConfigs :: "('p, 'c) package_env \<Rightarrow> Network \<Rightarrow> string + listedDevice list" where
  "package_getNetworkDeviceConfigs k cr = (case pae_ListNetworkDevices k of
      Inl e \<Rightarrow> Inl e
    | Inr items \<Rightarrow> Inr (concat (map (\<lambda>nd. map (\<lambda>_. nd) (filter (\<lambda>ref. ref = net_UID cr) (lid_OwnerUIDs nd))) items)))"

definition resourceName :: "string \<times> string \<times> string \<times> string \<Rightarrow> string" where
  "resourceName = (\<lambda>(apiVersion, kind, ns, name).
     ''out/'' @ dot (dot (dot (dot (strings_ReplaceAll1 CHR ''/'' CHR ''_'' apiVersion) kind) ns) name) ''yaml'')"

definition deviceResource :: "('p, 'c) package_env \<Rightarrow> listedDevice \<Rightarrow> string + (string \<times> string)" where
  "deviceResource k nd = (case Option.bind (lid_ProviderConfig nd) (\<lambda>raw. raw) of
      None \<Rightarrow> Inl ''something went wrong, cannot apply configs with empty config''
    | Some raw \<Rightarrow> (case pae_Unmarshal k raw of Inl e \<Rightarrow> Inl e | Inr config \<Rightarrow>
        (case pae_Marshal k config of Inl e \<Rightarrow> Inl e | Inr b \<Rightarrow> Inr (resourceName (pae_ConfigID k config), b))))"

fun deviceResources ::
  "('p, 'c) package_env \<Rightarrow> listedDevice list \<Rightarrow> (string \<rightharpoonup> string) \<Rightarrow> string + (string \<rightharpoonup> string)" where
  "deviceResources k [] m = Inr m"
| "deviceResources k (nd # nds) m = (case deviceResource k nd of
      Inl e \<Rightarrow> Inl e
    | Inr (path, b) \<Rightarrow> deviceResources k nds (m(path \<mapsto> b)))"

definition applyResourcesToPRR :: "('p, 'c) package_env \<Rightarrow> Network \<Rightarrow> 'p package_action list \<times> string option" where
  "applyResourcesToPRR k network =
     (case package_getNetworkDeviceConfigs k network of Inl e \<Rightarrow> ([], Some e) | Inr nds \<Rightarrow>
     (case deviceResources k nds Map.empty of Inl e \<Rightarrow> ([], Some e) | Inr m \<Rightarrow>
       ([UpdateResources m (pae_UpdateResources k m)], pae_UpdateResources k m)))"

text \<open>
  The controller has a copy of the network controller's readiness of the devices, and of the name of a node;
  no caller is left in its file. It does not sort.
\<close>

definition package_AreAllDeviceConfigsReady ::
  "conditions \<Rightarrow> string + listed list \<Rightarrow> Network \<Rightarrow> string + bool \<times> bool \<times> Network" where
  "package_AreAllDeviceConfigsReady cs list cr = (case list of
      Inl e \<Rightarrow> Inl e
    | Inr items \<Rightarrow>
        (case fold (readyItem cs (net_UID cr)) items (True, False, []) of (ready, failures, devicesStatus) \<Rightarrow>
           Inr (ready, failures, cr\<lparr>net_Status := (net_Status cr)\<lparr>nst_DevicesDeployStatus := devicesStatus\<rparr>\<rparr>)))"

lemma package_AreAllDeviceConfigsReady_unsorted:
  "network_AreAllDeviceConfigsReady n cr =
     map_sum id (map_prod id (map_prod id (\<lambda>cr. cr\<lparr>net_Status := (net_Status cr)\<lparr>nst_DevicesDeployStatus :=
         sort_key nsds_Node (nst_DevicesDeployStatus (net_Status cr))\<rparr>\<rparr>)))
       (package_AreAllDeviceConfigsReady (ne_conditions n) (ne_ListConfigs n) cr)"
  by (simp add: network_AreAllDeviceConfigsReady_def package_AreAllDeviceConfigsReady_def AreAllDeviceConfigsReady_def
      split: sum.splits prod.splits)

section \<open>The controller\<close>

definition package_handleError ::
  "'p revision \<Rightarrow> 'p \<Rightarrow> string \<Rightarrow> string option \<Rightarrow> 'p \<times> 'p package_action" where
  "package_handleError r cr msg err =
     (rev_SetUpdate r readinessCondition ''failed'' (failureMessage msg err) cr,
      PackageEvent EventTypeWarning package_condition (case err of None \<Rightarrow> msg | Some e \<Rightarrow> msg @ '', err: '' @ e))"

definition package_updateStatus :: "('p, 'c) package_env \<Rightarrow> 'p \<Rightarrow> Result \<Rightarrow> 'p package_outcome" where
  "package_updateStatus k cr res =
     (let err = api_StatusUpdate (pae_api k) cr in ([PackageStatusUpdate cr err], Inr (res, Wrap err errUpdateStatus)))"

definition package_failed :: "('p, 'c) package_env \<Rightarrow> 'p \<Rightarrow> string \<Rightarrow> string option \<Rightarrow> Result \<Rightarrow> 'p package_outcome" where
  "package_failed k cr msg err res =
     (case package_handleError (pae_revision k) cr msg err of (cr', event) \<Rightarrow>
        and_then [event] (package_updateStatus k cr' res))"

definition package_delete :: "('p, 'c) package_env \<Rightarrow> 'p \<Rightarrow> 'p package_outcome" where
  "package_delete k cr = (case gatherNetworkInPRR k of
      Inl e \<Rightarrow> package_failed k cr ''delete, cannot get network resource in package'' (Some e) requeue
    | Inr network \<Rightarrow>
        let err = pae_Delete k network in
        and_then [DeleteNetwork network err]
         (if (case err of None \<Rightarrow> False | Some e \<Rightarrow> \<not> sublist ''not found'' e)
          then package_failed k cr ''cannot delete network resource from package'' err requeue
          else case api_RemoveFinalizer (pae_api k) cr of (cr1, err1) \<Rightarrow>
            and_then [PackageRemoveFinalizer err1]
             (if err1 \<noteq> None then package_failed k cr1 ''cannot remove finalizer'' err1 requeue
              else ([], Inr (noResult, None)))))"

text \<open>The condition of the next gate is set up, unless there is none or it is there already.\<close>

definition package_complete :: "'p revision \<Rightarrow> 'p \<Rightarrow> 'p" where
  "package_complete r cr =
     (let cr1 = rev_SetReady r readinessCondition cr;
          cType = rev_NextReadinessGate r cr1 readinessCondition
      in if cType \<noteq> rev_ConditionTypeEnd r \<and> \<not> rev_HasCondition r cr1 cType
         then rev_SetUpdate r cType ''init'' [] cr1 else cr1)"

text \<open>
  When the children are not ready, a condition is set on the network in hand, and only the status of the
  revision is written (\<open>reconciler.go:196-203\<close>).
\<close>

definition package_deliver :: "('p, 'c) package_env \<Rightarrow> 'p \<Rightarrow> Network \<Rightarrow> 'p package_outcome" where
  "package_deliver k cr network =
     (if \<not> AreChildConditionsReady network then package_updateStatus k cr requeueAfter2s
      else
        let network1 = SetConditions (pae_conditions k) [cnd_Ready (pae_conditions k)] network;
            err = pae_NetworkStatusUpdate k network1
        in and_then [UpdateNetworkStatus network1 err]
          (if err \<noteq> None then package_failed k cr ''cannot update network cr'' err requeueAfter2s
           else case applyResourcesToPRR k network1 of (as, err2) \<Rightarrow>
             and_then as
              (if err2 \<noteq> None then package_failed k cr ''cannot apply resource'' err2 requeueAfter2s
               else and_then [PackageEvent EventTypeNormal package_condition ''ready'']
                 (package_updateStatus k (package_complete (pae_revision k) cr) noResult))))"

definition package_process :: "('p, 'c) package_env \<Rightarrow> 'p \<Rightarrow> 'p package_outcome" where
  "package_process k cr =
     (if rev_GetCondition (pae_revision k) cr readinessCondition \<noteq> ConditionFalse then ([], Inr (noResult, None))
      else case gatherNetworkInPRR k of
        Inl e \<Rightarrow> package_failed k cr ''cannot get network resource in package'' (Some e) requeue
      | Inr network \<Rightarrow> (case applyNetworkCR k network of (as, r) \<Rightarrow>
          and_then as (case r of
              Inl e \<Rightarrow> package_failed k cr ''cannot apply resource'' (Some e) requeueAfter2s
            | Inr network1 \<Rightarrow> package_deliver k cr network1)))"

definition relevant :: "'p revision \<Rightarrow> 'p \<Rightarrow> bool" where
  "relevant r cr \<longleftrightarrow> \<not> (strings_HasPrefix (nsn_Name (rev_Key r cr)) (rev_PkgTarget_Catalog r) \<or>
     \<not> rev_HasReadinessGate r cr readinessCondition)"

definition its_turn :: "'p revision \<Rightarrow> 'p \<Rightarrow> bool" where
  "its_turn r cr \<longleftrightarrow> \<not> (\<not> rev_Deleting r cr \<and>
     (rev_GetCondition r cr (rev_ConditionTypeReady r) = ConditionFalse \<or>
      rev_GetPreviousCondition r cr readinessCondition = ConditionFalse))"

definition package_leased :: "('p, 'c) package_env \<Rightarrow> 'p \<Rightarrow> 'p package_outcome" where
  "package_leased k cr =
     (if rev_Deleting (pae_revision k) cr then package_delete k cr
      else case api_AddFinalizer (pae_api k) cr of (cr1, err1) \<Rightarrow>
        and_then [PackageAddFinalizer err1]
         (if err1 \<noteq> None then package_failed k cr1 ''cannot add finalizer'' err1 requeue
          else package_process k cr1))"

definition package_Reconcile :: "('p, 'c) package_env \<Rightarrow> 'p package_outcome" where
  "package_Reconcile k = (case api_Get (pae_api k) of
      NotFound \<Rightarrow> ([], Inr (noResult, None))
    | GetFailed e \<Rightarrow> ([], Inr (noResult, Wrap (Some e) errGetCr))
    | Got cr \<Rightarrow>
        if \<not> relevant (pae_revision k) cr \<or> \<not> its_turn (pae_revision k) cr then ([], Inr (noResult, None))
        else case AcquireLease (NewLease (rev_Key (pae_revision k) cr)) package_controllerName (pae_lease k) of
          (calls, Inl (Panic m)) \<Rightarrow> ([AcquiredLease calls], Inl (Panic m))
        | (calls, Inl (Err e)) \<Rightarrow>
            ([AcquiredLease calls, PackageEvent EventTypeWarning ''lease'' (''error '' @ e)],
             Inr (\<lparr>res_Requeue = True, res_RequeueAfter = 2 * defaultLeaseInterval\<rparr>, None))
        | (calls, Inr _) \<Rightarrow>
            and_then [AcquiredLease calls, PackageEvent EventTypeWarning ''lease'' ''acquired'']
              (package_leased k cr))"

section \<open>What a call leads to\<close>

text \<open>
  The call gets to the network of the package: the revision concerns the controller and it is its turn, the
  lease is held, the finalizer is on, and the condition of the controller is not met yet.
\<close>

definition reaches ::
  "('p, 'c) package_env \<Rightarrow> 'p \<Rightarrow> lease_call list \<Rightarrow> 'p \<Rightarrow> Network \<Rightarrow> bool" where
  "reaches k cr calls cr1 network \<longleftrightarrow>
     api_Get (pae_api k) = Got cr \<and> relevant (pae_revision k) cr \<and> its_turn (pae_revision k) cr \<and>
     AcquireLease (NewLease (rev_Key (pae_revision k) cr)) package_controllerName (pae_lease k) = (calls, Inr ()) \<and>
     \<not> rev_Deleting (pae_revision k) cr \<and> api_AddFinalizer (pae_api k) cr = (cr1, None) \<and>
     rev_GetCondition (pae_revision k) cr1 readinessCondition = ConditionFalse \<and> gatherNetworkInPRR k = Inr network"

lemma package_step:
  assumes "reaches k cr calls cr1 network"
  shows "package_Reconcile k =
    and_then [AcquiredLease calls, PackageEvent EventTypeWarning ''lease'' ''acquired'', PackageAddFinalizer None]
      (case applyNetworkCR k network of (as, r) \<Rightarrow>
         and_then as (case r of
             Inl e \<Rightarrow> package_failed k cr1 ''cannot apply resource'' (Some e) requeueAfter2s
           | Inr network1 \<Rightarrow> package_deliver k cr1 network1))"
  using assms by (simp add: reaches_def package_Reconcile_def package_leased_def package_process_def and_then_def)

lemma failed_delivers_nothing [simp]: "UpdateResources m e \<notin> set (fst (package_failed k cr msg err res))"
  "UpdateResources m e \<notin> set (fst (package_updateStatus k cr res))"
  by (auto simp: package_failed_def package_handleError_def package_updateStatus_def Let_def)

lemma delete_delivers_nothing [simp]: "UpdateResources m e \<notin> set (fst (package_delete k cr))"
  by (auto simp: package_delete_def Let_def split: sum.splits prod.splits option.splits)

lemma apply_delivers_nothing [simp]: "UpdateResources m e \<notin> set (fst (applyNetworkCR k network))"
  by (auto simp: applyNetworkCR_def updateSpec_def Let_def split: got.splits prod.splits option.splits)

lemma deviceResources_result:
  assumes "deviceResources k nds m0 = Inr m"
  shows "\<exists>rs. list_all2 (\<lambda>nd r. deviceResource k nd = Inr r) nds rs \<and> m = m0 ++ map_of (rev rs)"
  using assms
proof (induction nds arbitrary: m0)
  case (Cons nd nds)
  then obtain path b where d: "deviceResource k nd = Inr (path, b)" and
      rest: "deviceResources k nds (m0(path \<mapsto> b)) = Inr m"
    by (auto split: sum.splits)
  from Cons.IH [OF rest] obtain rs where "list_all2 (\<lambda>nd r. deviceResource k nd = Inr r) nds rs"
      "m = m0(path \<mapsto> b) ++ map_of (rev rs)" by blast
  with d show ?case by (intro exI [of _ "(path, b) # rs"]) simp
qed simp

lemma UID_SetConditions [simp]: "net_UID (SetConditions cs c cr) = net_UID cr"
  by (simp add: SetConditions_def)

lemma owned_same:
  "net_UID a = net_UID b \<Longrightarrow> package_getNetworkDeviceConfigs k a = package_getNetworkDeviceConfigs k b"
  unfolding package_getNetworkDeviceConfigs_def by (erule arg_cong)

lemma apply_result:
  assumes "UpdateResources m e \<in> set (fst (applyResourcesToPRR k network))"
  shows "\<exists>nds. package_getNetworkDeviceConfigs k network = Inr nds \<and> deviceResources k nds Map.empty = Inr m"
  using assms by (auto simp: applyResourcesToPRR_def split: sum.splits)

text \<open>
  C26. When a package is delivered. Resources are written only for a revision that concerns the controller,
  whose turn it is and whose condition is not met, under the lease and with the finalizer on, and only when
  the network of the package was put on the cluster and none of its child conditions is false; and they are
  the configurations of the devices the network owns, one each.
\<close>

theorem package_delivers_when_ready:
  assumes "UpdateResources m e \<in> set (fst (package_Reconcile k))"
  shows "\<exists>cr calls cr1 network as network1 nds rs. reaches k cr calls cr1 network \<and>
    applyNetworkCR k network = (as, Inr network1) \<and> AreChildConditionsReady network1 \<and>
    package_getNetworkDeviceConfigs k network1 = Inr nds \<and>
    list_all2 (\<lambda>nd r. deviceResource k nd = Inr r) nds rs \<and> m = map_of (rev rs)"
proof -
  have "\<exists>cr calls cr1 network. reaches k cr calls cr1 network"
    using assms
    by (auto simp: package_Reconcile_def package_leased_def package_process_def reaches_def
        split: got.splits prod.splits sum.splits failure.splits if_splits)
  then obtain cr calls cr1 network where r: "reaches k cr calls cr1 network" by blast
  obtain as res where ap: "applyNetworkCR k network = (as, res)" by fastforce
  have "UpdateResources m e \<notin> set as" using apply_delivers_nothing [of m e k network] ap by simp
  then obtain network1 where n1: "res = Inr network1" and "UpdateResources m e \<in> set (fst (package_deliver k cr1 network1))"
    using assms ap by (auto simp: package_step [OF r] split: sum.splits)
  then have ready: "AreChildConditionsReady network1" and
      up: "UpdateResources m e \<in> set (fst (applyResourcesToPRR k (SetConditions (pae_conditions k) [cnd_Ready (pae_conditions k)] network1)))"
    by (auto simp: package_deliver_def Let_def split: if_splits prod.splits)
  obtain nds where "package_getNetworkDeviceConfigs k network1 = Inr nds" "deviceResources k nds Map.empty = Inr m"
    using apply_result [OF up] unfolding owned_same [OF UID_SetConditions] by blast
  moreover from this(2) obtain rs where "list_all2 (\<lambda>nd r. deviceResource k nd = Inr r) nds rs" "m = map_of (rev rs)"
    using deviceResources_result [of k nds Map.empty m] by auto
  ultimately show ?thesis using r ap n1 ready by blast
qed

text \<open>
  C27. A network that is not on the cluster yet is created, and then the empty network is updated in its
  place. A server that refuses an object without a name makes the call fail: the condition of the revision is
  set to failed, nothing is delivered, and the call is repeated after two seconds.
\<close>

theorem created_network_fails_the_call:
  assumes "reaches k cr calls cr1 network" and "pae_GetNetwork k (GetNamespacedName network) = NotFound"
    and "pae_Create k (gitopsNetwork network) = (network2, None)"
    and "\<And>x. net_Name x = [] \<Longrightarrow> pae_Update k x = Some refused"
  shows "\<exists>x cr2. fst (package_Reconcile k) =
      [AcquiredLease calls, PackageEvent EventTypeWarning ''lease'' ''acquired'', PackageAddFinalizer None,
       CreateNetwork (gitopsNetwork network) None, UpdateNetwork x (Some refused),
       PackageEvent EventTypeWarning package_condition (''cannot apply resource, err: '' @ refused),
       PackageStatusUpdate cr2 (api_StatusUpdate (pae_api k) cr2)] \<and>
     net_Name x = [] \<and> net_Spec x = net_Spec network2 \<and>
     cr2 = rev_SetUpdate (pae_revision k) readinessCondition ''failed'' refused cr1 \<and>
     snd (package_Reconcile k) = Inr (requeueAfter2s, Wrap (api_StatusUpdate (pae_api k) cr2) errUpdateStatus)"
proof -
  let ?x = "(zero_Network (pae_NoConditions k))\<lparr>net_Spec := net_Spec network2\<rparr>"
  have x: "net_Name ?x = []" by (simp add: zero_Network_def)
  with assms(4) [OF x] show ?thesis
    by (intro exI [of _ ?x])
      (simp add: package_step [OF assms(1)] applyNetworkCR_def updateSpec_def assms(2,3) package_failed_def
        package_handleError_def package_updateStatus_def failureMessage_def Let_def)
qed

text \<open>
  C20. A package that changes a network delivers the configurations of the network as it was. The network is on
  the cluster and complete; its spec is replaced, but its conditions stay, so the configurations of its
  devices are delivered at once and the revision is reported ready. No controller makes new ones: the network
  controller leaves a network from a package alone, and the other two see their conditions met.
\<close>

theorem package_delivers_stale_devices:
  assumes r: "reaches k cr calls cr1 network" and "pae_GetNetwork k (GetNamespacedName network) = Got old"
    and "pae_Update k (old\<lparr>net_Spec := net_Spec network\<rparr>) = None"
    and "pae_GetNetworkAgain k (GetNamespacedName network) = Inr (old\<lparr>net_Spec := net_Spec network\<rparr>)"
    and "cond_Status (GetCondition old ConditionTypeNetworkParamReady) = ConditionTrue"
    and "cond_Status (GetCondition old ConditionTypeNetworkDeviceReady) = ConditionTrue"
    and "net_Annotations old ''kuid.dev/gitops'' = Some v" and "\<not> net_Deleting old"
    and "conditions_lawful (pae_conditions k)" and "other_condition (pae_conditions k)"
    and "new = SetConditions (pae_conditions k) [cnd_Ready (pae_conditions k)] (old\<lparr>net_Spec := net_Spec network\<rparr>)"
    and "pae_NetworkStatusUpdate k new = None"
    and "package_getNetworkDeviceConfigs k old = Inr nds" and "deviceResources k nds Map.empty = Inr m"
    and "pae_UpdateResources k m = None"
    and "api_Get (pe_api p) = Got new" and "api_Get (de_api d) = Got new" and "api_AddFinalizer (de_api d) new = (new, None)"
    and "api_Get (ne_api n) = Got new"
  shows "UpdateResources m None \<in> set (fst (package_Reconcile k)) \<and>
    PackageStatusUpdate (package_complete (pae_revision k) cr1)
      (api_StatusUpdate (pae_api k) (package_complete (pae_revision k) cr1)) \<in> set (fst (package_Reconcile k)) \<and>
    net_Spec new = net_Spec network \<and> params_Reconcile p = finish noResult None \<and>
    device_Reconcile d = does [AddFinalizer device_finalizer None] (finish noResult None) \<and>
    network_Reconcile n = finish noResult None"
proof -
  let ?n = "old\<lparr>net_Spec := net_Spec network\<rparr>"
  have same: "GetCondition ?n t = GetCondition old t" for t by (simp add: GetCondition_def)
  have conds: "cond_Status (GetCondition new ConditionTypeNetworkParamReady) = ConditionTrue"
      "cond_Status (GetCondition new ConditionTypeNetworkDeviceReady) = ConditionTrue"
    using assms(5,6,9,10) by (auto simp: assms(11) same lawful_types other_condition_def)
  have meta: "\<not> net_Deleting new" "net_Annotations new ''kuid.dev/gitops'' = Some v" "net_Spec new = net_Spec network"
    using assms(7,8) by (simp_all add: assms(11) SetConditions_def)
  have "AreChildConditionsReady ?n" using assms(5,6) by (simp add: AreChildConditionsReady_iff same)
  moreover have "applyNetworkCR k network = ([UpdateNetwork ?n None], Inr ?n)"
    using assms(2-4) by (simp add: applyNetworkCR_def updateSpec_def gitopsNetwork_def Let_def)
  moreover have "applyResourcesToPRR k new = ([UpdateResources m None], None)"
    using assms(13-15) owned_same [of new old k] by (simp add: applyResourcesToPRR_def assms(11))
  ultimately have "fst (package_Reconcile k) =
      [AcquiredLease calls, PackageEvent EventTypeWarning ''lease'' ''acquired'', PackageAddFinalizer None,
       UpdateNetwork ?n None, UpdateNetworkStatus new None, UpdateResources m None,
       PackageEvent EventTypeNormal package_condition ''ready'',
       PackageStatusUpdate (package_complete (pae_revision k) cr1)
         (api_StatusUpdate (pae_api k) (package_complete (pae_revision k) cr1))]"
    using assms(12) by (simp add: package_step [OF r] package_deliver_def package_updateStatus_def assms(11) [symmetric] Let_def)
  then show ?thesis
    using assms(16-19) conds meta
    by (simp add: params_Reconcile_def device_Reconcile_def network_Reconcile_def Let_def)
qed

end
