(* ===== verification/PackageExample.thy ===== *)
theory PackageExample
  imports PackageController ControllersExample
begin

text \<open>
  A package with the overlay network of the example, whose routers it leaves out; the network is on the
  cluster already and complete, or it is not there. A revision is the list of the conditions it was given.
\<close>

definition exRevision :: "string list revision" where
  "exRevision = \<lparr>rev_Key = \<lambda>_. \<lparr>nsn_Namespace = ''default'', nsn_Name = ''repo.pkg.ws1''\<rparr>, rev_Deleting = \<lambda>_. False,
     rev_HasReadinessGate = \<lambda>_ _. True,
     rev_GetCondition = \<lambda>p t. (if t = readinessCondition \<and> ''ready'' \<notin> set p then ConditionFalse else ConditionTrue),
     rev_GetPreviousCondition = \<lambda>_ _. ConditionTrue, rev_NextReadinessGate = \<lambda>_ _. ''end'', rev_HasCondition = \<lambda>_ _. False,
     rev_SetReady = \<lambda>_ p. ''ready'' # p, rev_SetUpdate = \<lambda>_ r _ p. r # p,
     rev_ConditionTypeReady = ''Ready'', rev_ConditionTypeEnd = ''end'', rev_PkgTarget_Catalog = ''catalog''\<rparr>"

definition exPackaged :: Network where
  "exPackaged = exOverlay\<lparr>net_Spec := (net_Spec exOverlay)\<lparr>ns_Routers := []\<rparr>\<rparr>"

definition exOld :: Network where
  "exOld = (withStatus ConditionTrue ConditionTrue exOverlay)\<lparr>net_Annotations := [''kuid.dev/gitops'' \<mapsto> ''true'']\<rparr>"

definition exOnCluster :: listedDevice where
  "exOnCluster = \<lparr>lid_OwnerUIDs = [net_UID exOverlay], lid_ProviderConfig = Some (Some ''n0'')\<rparr>"

definition exPackage :: "Network got \<Rightarrow> (string list, string) package_env" where
  "exPackage existing = \<lparr>
     pae_api = \<lparr>api_Get = Got [], api_AddFinalizer = \<lambda>x. (x, None), api_RemoveFinalizer = \<lambda>x. (x, None),
       api_APIApply = \<lambda>_ _ _. None, api_APIDelete = \<lambda>_ _. None, api_StatusUpdate = \<lambda>_. None\<rparr>,
     pae_revision = exRevision, pae_conditions = exConditions,
     pae_lease = \<lparr>la_Get = Got (leaseSpecOf package_controllerName 0), la_Create = None,
       la_GetAgain = Inr (leaseSpecOf package_controllerName 0), la_Update = None, la_now1 = 0, la_now2 = 0\<rparr>,
     pae_GetResources = Inr [(''out/old.yaml'', []), (''network.yaml'', [])], pae_ShouldSkipFile = \<lambda>_. Inr False,
     pae_Read = \<lambda>_ _. Inr [\<lparr>rn_ApiVersion = ''v1'', rn_Kind = ''Network'', rn_MustString = []\<rparr>],
     pae_UnmarshalNetwork = \<lambda>_. exPackaged, pae_APIVersion = ''v1'',
     pae_GetNetwork = \<lambda>_. existing, pae_Create = \<lambda>x. (x, None),
     pae_Update = \<lambda>x. (if net_Name x = [] then Some ''no name'' else None),
     pae_GetNetworkAgain = \<lambda>_. Inr (exOld\<lparr>net_Spec := net_Spec exPackaged\<rparr>),
     pae_Delete = \<lambda>_. None, pae_NetworkStatusUpdate = \<lambda>_. None,
     pae_NoConditions = \<lambda>t. \<lparr>cond_Type = t, cond_Status = ConditionUnknown, cond_Reason = [], cond_Message = []\<rparr>,
     pae_ListNetworkDevices = Inr [exOnCluster], pae_Unmarshal = Inr, pae_Marshal = Inr,
     pae_ConfigID = \<lambda>c. (''config/v1'', ''Config'', ''default'', c), pae_UpdateResources = \<lambda>_. None\<rparr>"

lemma exPackage_simps [simp]:
  "pae_GetNetwork (exPackage existing) nsn = existing" "pae_conditions (exPackage existing) = exConditions"
  "pae_Update (exPackage existing) x = (if net_Name x = [] then Some ''no name'' else None)"
  "pae_GetNetworkAgain (exPackage existing) nsn = Inr (exOld\<lparr>net_Spec := net_Spec exPackaged\<rparr>)"
  "pae_NetworkStatusUpdate (exPackage existing) x = None" "pae_UpdateResources (exPackage existing) m = None"
  "pae_Create (exPackage existing) x = (x, None)"
  by (simp_all add: exPackage_def)

lemma exOld_simps [simp]:
  "net_Name exOld \<noteq> []" "net_Annotations exOld ''kuid.dev/gitops'' = Some ''true''" "\<not> net_Deleting exOld"
  "cond_Status (GetCondition exOld ConditionTypeNetworkParamReady) = ConditionTrue"
  "cond_Status (GetCondition exOld ConditionTypeNetworkDeviceReady) = ConditionTrue" "net_UID exOld = net_UID exOverlay"
  by (simp_all add: exOld_def withStatus_def exStatusOf_def GetCondition_def exOverlay_def)

definition exCalls :: "lease_call list" where
  "exCalls = fst (AcquireLease (NewLease \<lparr>nsn_Namespace = ''default'', nsn_Name = ''repo.pkg.ws1''\<rparr>)
     package_controllerName (pae_lease (exPackage NotFound)))"

lemma exPackage_reaches: "reaches (exPackage existing) [] exCalls [] exPackaged"
  by (simp add: reaches_def exCalls_def exPackage_def exRevision_def relevant_def its_turn_def gatherNetworkInPRR_def
      networksOf_def AcquireLease_def takeOver_def leaseSpecOf_def readinessCondition_def Let_def)

definition exResources :: "string \<rightharpoonup> string" where
  "exResources = [''out/config_v1.Config.default.n0.yaml'' \<mapsto> ''n0'']"

lemma exPackage_resources:
  "package_getNetworkDeviceConfigs (exPackage existing) exOld = Inr [exOnCluster]"
  "deviceResource (exPackage existing) exOnCluster = Inr (''out/config_v1.Config.default.n0.yaml'', ''n0'')"
  by (simp_all add: package_getNetworkDeviceConfigs_def exPackage_def exOnCluster_def deviceResource_def resourceName_def
      strings_ReplaceAll1_def dot_def exResources_def)

lemma exPackage_update:
  "applyNetworkCR (exPackage (Got exOld)) exPackaged =
     ([UpdateNetwork (exOld\<lparr>net_Spec := net_Spec exPackaged\<rparr>) None], Inr (exOld\<lparr>net_Spec := net_Spec exPackaged\<rparr>))"
  by (simp add: applyNetworkCR_def updateSpec_def gitopsNetwork_def exPackage_def Let_def)

theorem package_delivers_when_ready_witness:
  "\<exists>network1 nds rs. AreChildConditionsReady network1 \<and>
     package_getNetworkDeviceConfigs (exPackage (Got exOld)) network1 = Inr nds \<and>
     list_all2 (\<lambda>nd r. deviceResource (exPackage (Got exOld)) nd = Inr r) nds rs \<and> exResources = map_of (rev rs)"
proof -
  let ?n = "exOld\<lparr>net_Spec := net_Spec exPackaged\<rparr>"
  have "AreChildConditionsReady ?n"
    by (simp add: AreChildConditionsReady_iff) (simp add: GetCondition_def exOld_def withStatus_def exStatusOf_def)
  moreover have "package_getNetworkDeviceConfigs (exPackage (Got exOld)) (SetConditions c cs ?n) = Inr [exOnCluster]" for c cs
    by (rule trans [OF owned_same exPackage_resources(1)]) simp
  ultimately have "UpdateResources exResources None \<in> set (fst (package_Reconcile (exPackage (Got exOld))))"
    by (simp add: package_step [OF exPackage_reaches] exPackage_update package_deliver_def applyResourcesToPRR_def
        exPackage_resources(2) exResources_def Let_def)
  from package_delivers_when_ready [OF this] show ?thesis by blast
qed

theorem created_network_fails_the_call_witness:
  "\<exists>x. UpdateNetwork x (Some ''no name'') \<in> set (fst (package_Reconcile (exPackage NotFound))) \<and> net_Name x = []"
proof -
  from created_network_fails_the_call [OF exPackage_reaches, of NotFound "gitopsNetwork exPackaged" "''no name''"]
  show ?thesis by fastforce
qed

theorem package_delivers_stale_devices_witness:
  "\<exists>new. net_Spec new = net_Spec exPackaged \<and> UpdateResources exResources None \<in> set (fst (package_Reconcile (exPackage (Got exOld)))) \<and>
     params_Reconcile (exParams new exDesign) = finish noResult None \<and>
     network_Reconcile (exNet new (\<lambda>_. None)) = finish noResult None"
proof -
  let ?new = "SetConditions exConditions [cnd_Ready exConditions] (exOld\<lparr>net_Spec := net_Spec exPackaged\<rparr>)"
  from package_delivers_stale_devices [OF exPackage_reaches, of "Got exOld" exOld "''true''" ?new "[exOnCluster]" exResources
      "exParams ?new exDesign" "exDev ?new None" "exNet ?new (\<lambda>_. None)"]
  show ?thesis by (intro exI [of _ ?new]) (simp add: exPackage_resources exResources_def)
qed

end
