(* ===== verification/LinkController.thy ===== *)
theory LinkController
  imports External Reconcile
begin

text \<open>
  The link controller (\<open>reconcilers/link/reconciler.go\<close>): a link claims the two endpoints it joins, and
  releases them when it is deleted or when it cannot have both.

  The endpoints are the state: a map from names to endpoints, which every call reads and writes. An endpoint
  is of the backend (the type \<open>'e\<close>); \<open>endpoint_ops\<close> are its methods, of which \<open>ownership\<close> states what
  the claims of different links mean to each other.
\<close>

section \<open>Endpoints\<close>

datatype owner_status = Free | Owned | Claimed | OtherStatus string

record 'e endpoint_ops =
  eo_IsClaimed :: "'e \<Rightarrow> NamespacedName \<Rightarrow> owner_status \<times> string"  \<comment> \<open>and how the reference prints\<close>
  eo_Claim :: "'e \<Rightarrow> NamespacedName \<Rightarrow> 'e"
  eo_Release :: "'e \<Rightarrow> NamespacedName \<Rightarrow> 'e"

definition ownership :: "'e endpoint_ops \<Rightarrow> bool" where
  "ownership ops \<longleftrightarrow>
     (\<forall>ep l. fst (eo_IsClaimed ops (eo_Claim ops ep l) l) = Owned) \<and>
     (\<forall>ep l. fst (eo_IsClaimed ops ep l) = Owned \<longrightarrow> fst (eo_IsClaimed ops (eo_Release ops ep l) l) = Free) \<and>
     (\<forall>ep l l'. l \<noteq> l' \<longrightarrow> fst (eo_IsClaimed ops ep l) = Owned \<longrightarrow> fst (eo_IsClaimed ops ep l') = Claimed)"

record Link =
  lnk_Name :: NamespacedName
  lnk_Deleting :: bool
  lnk_EndPointIDA :: "NodeGroupEndpointID option"
  lnk_EndPointIDB :: "NodeGroupEndpointID option"
  lnk_Status_GetCondition :: "string \<Rightarrow> Condition"

text \<open>The failures of the API server, beside those of the link itself (\<open>lke_api\<close>, whose status call is \<open>Update\<close>).\<close>

record 'e link_env =
  lke_api :: "(Link, unit) api"
  lke_conditions :: conditions
  lke_ops :: "'e endpoint_ops"
  lke_KuidString :: "NodeGroupEndpointID \<Rightarrow> string"
  lke_GetError :: "NamespacedName \<Rightarrow> string option"
  lke_NotFound :: "NamespacedName \<Rightarrow> string"
  lke_UpdateError :: "NamespacedName \<Rightarrow> 'e \<Rightarrow> string option"

type_synonym 'e endpoints = "NamespacedName \<rightharpoonup> 'e"

definition endpointKey :: "'e link_env \<Rightarrow> Link \<Rightarrow> NodeGroupEndpointID \<Rightarrow> NamespacedName" where
  "endpointKey x cr epID = \<lparr>nsn_Namespace = nsn_Namespace (lnk_Name cr), nsn_Name = lke_KuidString x epID\<rparr>"

definition link_getEndpoint :: "'e link_env \<Rightarrow> 'e endpoints \<Rightarrow> NamespacedName \<Rightarrow> 'e got" where
  "link_getEndpoint x eps k = (case lke_GetError x k of
      Some e \<Rightarrow> GetFailed e
    | None \<Rightarrow> (case eps k of None \<Rightarrow> NotFound | Some ep \<Rightarrow> Got ep))"

section \<open>Claiming\<close>

text \<open>One end: it is added to the endpoints to claim, or to the errors.\<close>

definition checkEnd ::
  "'e link_env \<Rightarrow> 'e endpoints \<Rightarrow> Link \<Rightarrow> NodeGroupEndpointID option \<Rightarrow>
   (NamespacedName \<times> 'e) list \<times> bool \<times> string option \<Rightarrow> (NamespacedName \<times> 'e) list \<times> bool \<times> string option" where
  "checkEnd x eps cr epID = (\<lambda>(endpoints, rq, errm). case epID of
      None \<Rightarrow> (endpoints, rq, errm)
    | Some i \<Rightarrow>
        let k = endpointKey x cr i in
        (case link_getEndpoint x eps k of
           NotFound \<Rightarrow> (endpoints, rq, errors_Join errm (lke_NotFound x k))
         | GetFailed e \<Rightarrow> (endpoints, rq, errors_Join errm e)
         | Got ep \<Rightarrow>
             (case eo_IsClaimed (lke_ops x) ep (lnk_Name cr) of
                (Free, _) \<Rightarrow> (endpoints @ [(k, ep)], rq, errm)
              | (Owned, _) \<Rightarrow> (endpoints @ [(k, ep)], rq, errm)
              | (Claimed, ref) \<Rightarrow> (endpoints, False, errors_Join errm (''owned by another reference, ref : '' @ ref))
              | (OtherStatus s, _) \<Rightarrow> (endpoints, False, errors_Join errm (''unexpected owner status got '' @ s)))))"

definition link_getEndpoints ::
  "'e link_env \<Rightarrow> 'e endpoints \<Rightarrow> Link \<Rightarrow> (NamespacedName \<times> 'e) list \<times> bool \<times> string option" where
  "link_getEndpoints x eps cr =
     checkEnd x eps cr (lnk_EndPointIDB cr) (checkEnd x eps cr (lnk_EndPointIDA cr) ([], True, None))"

fun link_apply :: "'e link_env \<Rightarrow> Link \<Rightarrow> (NamespacedName \<times> 'e) list \<Rightarrow> 'e endpoints \<Rightarrow> 'e endpoints \<times> string option" where
  "link_apply x cr [] eps = (eps, None)"
| "link_apply x cr ((k, ep) # rest) eps =
     (let ep' = eo_Claim (lke_ops x) ep (lnk_Name cr) in
      case lke_UpdateError x k ep' of
        Some e \<Rightarrow> (eps, Some e)
      | None \<Rightarrow> link_apply x cr rest (eps(k \<mapsto> ep')))"

section \<open>Releasing\<close>

definition releaseEndpoint ::
  "'e link_env \<Rightarrow> Link \<Rightarrow> NodeGroupEndpointID \<Rightarrow> 'e endpoints \<Rightarrow> 'e endpoints \<times> string option \<times> bool" where
  "releaseEndpoint x cr epID eps =
     (let k = endpointKey x cr epID in
      case link_getEndpoint x eps k of
        GetFailed e \<Rightarrow> (eps, Some e, True)
      | NotFound \<Rightarrow> (eps, None, False)
      | Got ep \<Rightarrow>
          (case fst (eo_IsClaimed (lke_ops x) ep (lnk_Name cr)) of
             Free \<Rightarrow> (eps, None, False)
           | Owned \<Rightarrow>
               let ep' = eo_Release (lke_ops x) ep (lnk_Name cr) in
               (case lke_UpdateError x k ep' of
                  Some e \<Rightarrow> (eps, Some e, True)
                | None \<Rightarrow> (eps(k \<mapsto> ep'), None, False))
           | Claimed \<Rightarrow> (eps, None, False)
           | OtherStatus s \<Rightarrow> (eps, Some (''unexpected owner status got '' @ s), False)))"

definition releaseEnd ::
  "'e link_env \<Rightarrow> Link \<Rightarrow> NodeGroupEndpointID option \<Rightarrow> 'e endpoints \<times> string option \<times> bool \<Rightarrow>
   'e endpoints \<times> string option \<times> bool" where
  "releaseEnd x cr epID = (\<lambda>(eps, errm, rq). case epID of
      None \<Rightarrow> (eps, errm, rq)
    | Some i \<Rightarrow> (case releaseEndpoint x cr i eps of
        (eps', None, _) \<Rightarrow> (eps', errm, rq)
      | (eps', Some e, rq') \<Rightarrow> (eps', errors_Join errm e, if rq' then True else rq)))"

definition link_delete :: "'e link_env \<Rightarrow> Link \<Rightarrow> 'e endpoints \<Rightarrow> 'e endpoints \<times> string option \<times> bool" where
  "link_delete x cr eps =
     releaseEnd x cr (lnk_EndPointIDB cr) (releaseEnd x cr (lnk_EndPointIDA cr) (eps, None, False))"

section \<open>The controller\<close>

definition link_finalizer :: string where "link_finalizer = ''link.be.kuid.dev/finalizer''"
definition link_crName :: string where "link_crName = ''link''"

definition Link_SetConditions :: "conditions \<Rightarrow> Condition list \<Rightarrow> Link \<Rightarrow> Link" where
  "Link_SetConditions cs c = lnk_Status_GetCondition_update (cnd_SetConditions cs c)"

definition link_handleError :: "conditions \<Rightarrow> Link \<Rightarrow> string \<Rightarrow> string option \<Rightarrow> Link \<times> (Link, unit) action" where
  "link_handleError cs cr msg err =
     (Link_SetConditions cs [cnd_Failed cs (failureMessage msg err)] cr, warning link_crName msg err)"

definition after :: "int \<Rightarrow> Result" where "after seconds = \<lparr>res_Requeue = False, res_RequeueAfter = seconds * time_Second\<rparr>"

definition link_Reconcile :: "'e link_env \<Rightarrow> 'e endpoints \<Rightarrow> 'e endpoints \<times> (Link, unit) outcome" where
  "link_Reconcile x eps =
     (let a = lke_api x; cs = lke_conditions x; handleError = link_handleError cs in
      case api_Get a of
        NotFound \<Rightarrow> (eps, finish noResult None)
      | GetFailed e \<Rightarrow> (eps, finish noResult (Wrap (Some e) errGetCr))
      | Got cr \<Rightarrow>
          if lnk_Deleting cr then
            (case link_delete x cr eps of
               (eps1, Some err, rq) \<Rightarrow>
                 (eps1, failed a (handleError cr ''canot delete resources'' (Some err)) \<lparr>res_Requeue = rq, res_RequeueAfter = 0\<rparr>)
             | (eps1, None, _) \<Rightarrow>
                 (case api_RemoveFinalizer a cr of (cr1, err1) \<Rightarrow>
                    (eps1, does [RemoveFinalizer link_finalizer err1]
                      (if err1 \<noteq> None then failed a (handleError cr1 ''cannot remove finalizer'' err1) requeue
                       else finish noResult None))))
          else
            (case api_AddFinalizer a cr of (cr1, err1) \<Rightarrow>
             if err1 \<noteq> None
             then (eps, does [AddFinalizer link_finalizer err1] (failed a (handleError cr1 ''cannot add finalizer'' err1) requeue))
             else
               (case link_getEndpoints x eps cr1 of
                  (endpoints, rq, Some err) \<Rightarrow>
                    (eps, does [AddFinalizer link_finalizer None]
                      (failed a (handleError cr1 ''endpoints not found'' (Some err)) (if rq then after 5 else noResult)))
                | (endpoints, rq, None) \<Rightarrow>
                    (case link_apply x cr1 endpoints eps of
                       (eps1, Some err) \<Rightarrow>
                         (case link_delete x cr1 eps1 of
                            (eps2, Some errd, _) \<Rightarrow>
                              (eps2, does [AddFinalizer link_finalizer None]
                                (failed a (handleError cr1 ''cannot delete resource after apply failed'' (errors_Join (Some err) errd)) (after 1)))
                          | (eps2, None, _) \<Rightarrow>
                              (eps2, does [AddFinalizer link_finalizer None]
                                (failed a (handleError cr1 ''cannot apply resource'' (Some err)) (after 1))))
                     | (eps1, None) \<Rightarrow>
                         (eps1, does [AddFinalizer link_finalizer None, Event EventTypeNormal link_crName ''ready'']
                           (updateStatus a (Link_SetConditions cs [cnd_Ready cs] cr1) noResult))))))"

section \<open>What each step changes\<close>

text \<open>An endpoint is held by a link when it answers the link that it is owned.\<close>

definition heldBy :: "'e link_env \<Rightarrow> NamespacedName \<Rightarrow> 'e \<Rightarrow> bool" where
  "heldBy x l ep \<longleftrightarrow> fst (eo_IsClaimed (lke_ops x) ep l) = Owned"

definition takeable :: "'e link_env \<Rightarrow> Link \<Rightarrow> 'e \<Rightarrow> bool" where
  "takeable x cr ep \<longleftrightarrow> fst (eo_IsClaimed (lke_ops x) ep (lnk_Name cr)) \<in> {Free, Owned}"

definition endKey :: "'e link_env \<Rightarrow> Link \<Rightarrow> NodeGroupEndpointID option \<Rightarrow> NamespacedName set" where
  "endKey x cr epID = (case epID of None \<Rightarrow> {} | Some i \<Rightarrow> {endpointKey x cr i})"

lemma checkEnd_result:
  assumes "checkEnd x eps cr epID (endpoints, rq, errm) = (endpoints', rq', errm')"
  shows "(\<exists>new. endpoints' = endpoints @ new \<and> (\<forall>(k, ep) \<in> set new. k \<in> endKey x cr epID \<and> eps k = Some ep \<and> takeable x cr ep) \<and>
      (errm' = None \<longrightarrow> errm = None \<and> fst ` set new = endKey x cr epID))"
  using assms
  by (cases epID)
    (auto simp: checkEnd_def link_getEndpoint_def takeable_def endKey_def errors_Join_def Let_def
      split: got.splits option.splits prod.splits owner_status.splits if_splits, metis+)

lemma getEndpoints_result:
  assumes "link_getEndpoints x eps cr = (endpoints, rq, errm)"
  shows "\<forall>(k, ep) \<in> set endpoints. eps k = Some ep \<and> takeable x cr ep"
    and "errm = None \<Longrightarrow> fst ` set endpoints = endKey x cr (lnk_EndPointIDA cr) \<union> endKey x cr (lnk_EndPointIDB cr)"
proof -
  obtain e1 r1 m1 where 1: "checkEnd x eps cr (lnk_EndPointIDA cr) ([], True, None) = (e1, r1, m1)" by (metis prod_cases3)
  have 2: "checkEnd x eps cr (lnk_EndPointIDB cr) (e1, r1, m1) = (endpoints, rq, errm)"
    using assms 1 by (simp add: link_getEndpoints_def)
  show "\<forall>(k, ep) \<in> set endpoints. eps k = Some ep \<and> takeable x cr ep"
    using checkEnd_result [OF 1] checkEnd_result [OF 2] by auto
  show "errm = None \<Longrightarrow> fst ` set endpoints = endKey x cr (lnk_EndPointIDA cr) \<union> endKey x cr (lnk_EndPointIDB cr)"
    using checkEnd_result [OF 1] checkEnd_result [OF 2] by (auto simp: image_Un)
qed

lemma link_apply_other: "link_apply x cr endpoints eps = (eps', err) \<Longrightarrow> k \<notin> fst ` set endpoints \<Longrightarrow> eps' k = eps k"
  by (induction x cr endpoints eps rule: link_apply.induct) (auto simp: Let_def split: option.splits)

lemma link_apply_held:
  assumes "ownership (lke_ops x)"
  shows "link_apply x cr endpoints eps = (eps', None) \<Longrightarrow> k \<in> fst ` set endpoints \<Longrightarrow>
    \<exists>ep. eps' k = Some ep \<and> heldBy x (lnk_Name cr) ep"
proof (induction endpoints arbitrary: eps)
  case (Cons e rest)
  obtain k' ep where e: "e = (k', ep)" by fastforce
  let ?ep = "eo_Claim (lke_ops x) ep (lnk_Name cr)"
  have rest: "link_apply x cr rest (eps(k' \<mapsto> ?ep)) = (eps', None)"
    using Cons.prems(1) e by (auto simp: Let_def split: option.splits)
  show ?case
  proof (cases "k \<in> fst ` set rest")
    case True
    then show ?thesis using Cons.IH [OF rest] by blast
  next
    case False
    then have "eps' k = Some ?ep" using link_apply_other [OF rest] Cons.prems(2) e by auto
    moreover have "heldBy x (lnk_Name cr) ?ep" using assms by (simp add: heldBy_def ownership_def)
    ultimately show ?thesis by blast
  qed
qed simp

text \<open>A failed claim leaves every endpoint as it was, or claimed by the link.\<close>

lemma link_apply_changes:
  assumes "ownership (lke_ops x)"
  shows "link_apply x cr endpoints eps = (eps', err) \<Longrightarrow> eps' k = eps k \<or> (\<exists>ep. eps' k = Some ep \<and> heldBy x (lnk_Name cr) ep)"
proof (induction endpoints arbitrary: eps)
  case (Cons e rest)
  obtain k' ep where e: "e = (k', ep)" by fastforce
  let ?ep = "eo_Claim (lke_ops x) ep (lnk_Name cr)"
  have held: "heldBy x (lnk_Name cr) ?ep" using assms by (simp add: heldBy_def ownership_def)
  show ?case
  proof (cases "lke_UpdateError x k' ?ep")
    case None
    then have "link_apply x cr rest (eps(k' \<mapsto> ?ep)) = (eps', err)" using Cons.prems e by (simp add: Let_def)
    from Cons.IH [OF this] held show ?thesis by (auto split: if_splits)
  next
    case (Some m)
    then show ?thesis using Cons.prems e by (simp add: Let_def)
  qed
qed simp

lemma releaseEndpoint_other:
  assumes "releaseEndpoint x cr i eps = (eps', err, rq)" and "eps k = Some ep" and "\<not> heldBy x (lnk_Name cr) ep"
  shows "eps' k = Some ep"
  using assms
  by (auto simp: releaseEndpoint_def link_getEndpoint_def heldBy_def Let_def
      split: got.splits option.splits owner_status.splits if_splits)

lemma releaseEnd_other:
  assumes "releaseEnd x cr epID (eps, m, r) = (eps', err, rq)" and "eps k = Some ep" and "\<not> heldBy x (lnk_Name cr) ep"
  shows "eps' k = Some ep"
  using assms releaseEndpoint_other by (fastforce simp: releaseEnd_def split: option.splits prod.splits if_splits)

lemma link_delete_other:
  assumes "link_delete x cr eps = (eps', err, rq)" and "eps k = Some ep" and "\<not> heldBy x (lnk_Name cr) ep"
  shows "eps' k = Some ep"
proof -
  obtain e1 m1 r1 where 1: "releaseEnd x cr (lnk_EndPointIDA cr) (eps, None, False) = (e1, m1, r1)" by (metis prod_cases3)
  have 2: "releaseEnd x cr (lnk_EndPointIDB cr) (e1, m1, r1) = (eps', err, rq)" using assms(1) 1 by (simp add: link_delete_def)
  show ?thesis by (rule releaseEnd_other [OF 2 releaseEnd_other [OF 1 assms(2,3)] assms(3)])
qed

text \<open>Releasing without an error leaves the end to others.\<close>

lemma releaseEnd_released:
  assumes "ownership (lke_ops x)" and "releaseEnd x cr epID (eps, m, r) = (eps', None, rq)"
  shows "m = None" and "k \<in> endKey x cr epID \<Longrightarrow> eps' k = Some ep \<Longrightarrow> \<not> heldBy x (lnk_Name cr) ep"
    and "eps' k = eps k \<or> (\<exists>ep. eps' k = Some ep \<and> \<not> heldBy x (lnk_Name cr) ep)"
  using assms
  by (auto simp: releaseEnd_def releaseEndpoint_def link_getEndpoint_def heldBy_def endKey_def ownership_def errors_Join_def Let_def
      split: got.splits option.splits prod.splits owner_status.splits if_splits)

lemma link_delete_released:
  assumes "ownership (lke_ops x)" and "link_delete x cr eps = (eps', None, rq)"
    and "k \<in> endKey x cr (lnk_EndPointIDA cr) \<union> endKey x cr (lnk_EndPointIDB cr)" and "eps' k = Some ep"
  shows "\<not> heldBy x (lnk_Name cr) ep"
proof -
  obtain e1 m1 r1 where 1: "releaseEnd x cr (lnk_EndPointIDA cr) (eps, None, False) = (e1, m1, r1)" by (metis prod_cases3)
  have B: "releaseEnd x cr (lnk_EndPointIDB cr) (e1, m1, r1) = (eps', None, rq)" using assms(2) 1 by (simp add: link_delete_def)
  have 1: "releaseEnd x cr (lnk_EndPointIDA cr) (eps, None, False) = (e1, None, r1)"
    using 1 releaseEnd_released(1) [OF assms(1) B] by simp
  consider "k \<in> endKey x cr (lnk_EndPointIDB cr)" | "k \<in> endKey x cr (lnk_EndPointIDA cr)" using assms(3) by blast
  then show ?thesis
  proof cases
    case 1
    then show ?thesis by (rule releaseEnd_released(2) [OF assms(1) B _ assms(4)])
  next
    case 2
    note A = this
    show ?thesis
      using releaseEnd_released(3) [OF assms(1) B, of k] assms(4) releaseEnd_released(2) [OF assms(1) 1 A, of ep] by auto
  qed
qed

section \<open>Properties\<close>

text \<open>
  C19. No link touches an endpoint that another link holds: whatever the call of its controller does, and
  whichever calls fail, the endpoint is the same afterwards.
\<close>

theorem held_endpoints_untouched:
  assumes "ownership (lke_ops x)" and "\<And>cr. lnk_Name (fst (api_AddFinalizer (lke_api x) cr)) = lnk_Name cr"
    and "api_Get (lke_api x) = Got cr" and "lnk_Name cr \<noteq> other"
    and "eps k = Some ep" and "heldBy x other ep"
  shows "fst (link_Reconcile x eps) k = Some ep"
proof -
  have not: "\<not> heldBy x l ep" "\<not> takeable x c ep" if "l \<noteq> other" "lnk_Name c \<noteq> other" for l c
  proof -
    have "fst (eo_IsClaimed (lke_ops x) ep l') = Claimed" if "l' \<noteq> other" for l'
      using assms(1,6) that unfolding heldBy_def ownership_def by metis
    then show "\<not> heldBy x l ep" "\<not> takeable x c ep" using that by (simp_all add: heldBy_def takeable_def)
  qed
  have del: "fst (link_delete x c es) k = Some ep" if "lnk_Name c \<noteq> other" "es k = Some ep" for c es
    using link_delete_other [of x c es _ _ _ k ep] not that by (metis prod.collapse)
  obtain cr1 e1 where fin: "api_AddFinalizer (lke_api x) cr = (cr1, e1)" by fastforce
  have n1: "lnk_Name cr1 \<noteq> other" using assms(2) [of cr] assms(4) fin by simp
  obtain endpoints rq errm where get: "link_getEndpoints x eps cr1 = (endpoints, rq, errm)" by (metis prod_cases3)
  obtain eps1 err where ap: "link_apply x cr1 endpoints eps = (eps1, err)" by fastforce
  have "k \<notin> fst ` set endpoints"
    using getEndpoints_result(1) [OF get] not(2) [OF n1 n1] assms(5) by fastforce
  then have eps1: "eps1 k = Some ep" using link_apply_other [OF ap] assms(5) by simp
  show ?thesis
    using del [of cr eps] del [of cr1 eps1] n1 assms(3-5) fin get ap eps1
    by (auto simp: link_Reconcile_def Let_def split: prod.splits option.splits)
qed


section \<open>Two links at one endpoint\<close>

text \<open>An endpoint as the link that owns it.\<close>

definition exOps :: "NamespacedName option endpoint_ops" where
  "exOps = \<lparr>eo_IsClaimed = \<lambda>ep l. (case ep of None \<Rightarrow> (Free, []) | Some l' \<Rightarrow> (if l' = l then Owned else Claimed, nsn_Name l')),
     eo_Claim = \<lambda>ep l. Some l, eo_Release = \<lambda>ep l. None\<rparr>"

lemma exOps_ownership: "ownership exOps"
  unfolding ownership_def
  by (intro conjI allI impI; simp add: exOps_def split: option.split_asm if_split_asm)

definition exName :: "string \<Rightarrow> NamespacedName" where "exName n = \<lparr>nsn_Namespace = ''default'', nsn_Name = n\<rparr>"

definition exEndOf :: "string \<Rightarrow> NodeGroupEndpointID" where
  "exEndOf n = \<lparr>ngep_NodeGroup = ''topo'', ngep_EndpointID = \<lparr>epid_Endpoint = n,
     epid_NodeID = \<lparr>nid_Region = ''r'', nid_Site = ''s'', nid_Node = ''n0''\<rparr>\<rparr>\<rparr>"

definition exLinkCr :: Link where
  "exLinkCr = \<lparr>lnk_Name = exName ''link'', lnk_Deleting = False, lnk_EndPointIDA = Some (exEndOf ''e1''),
     lnk_EndPointIDB = Some (exEndOf ''e2''), lnk_Status_GetCondition = \<lambda>t. \<lparr>cond_Type = t, cond_Status = ConditionUnknown,
       cond_Reason = [], cond_Message = []\<rparr>\<rparr>"

definition exLinkEnv :: "(NamespacedName \<Rightarrow> NamespacedName option \<Rightarrow> string option) \<Rightarrow> NamespacedName option link_env" where
  "exLinkEnv updateError = \<lparr>lke_api = \<lparr>api_Get = Got exLinkCr, api_AddFinalizer = \<lambda>c. (c, None),
       api_RemoveFinalizer = \<lambda>c. (c, None), api_APIApply = \<lambda>_ _ _. None, api_APIDelete = \<lambda>_ _. None, api_StatusUpdate = \<lambda>_. None\<rparr>,
     lke_conditions = \<lparr>cnd_Ready = \<lparr>cond_Type = ''Ready'', cond_Status = ConditionTrue, cond_Reason = ''Ready'', cond_Message = []\<rparr>,
       cnd_Failed = \<lambda>m. \<lparr>cond_Type = ''Ready'', cond_Status = ConditionFalse, cond_Reason = ''Failed'', cond_Message = m\<rparr>,
       cnd_Processing = \<lambda>m. \<lparr>cond_Type = ''Ready'', cond_Status = ConditionFalse, cond_Reason = [], cond_Message = m\<rparr>,
       cnd_SetConditions = \<lambda>cs g. foldl (\<lambda>g c. g(cond_Type c := c)) g cs,
       cnd_ConditionTypeReady = ''Ready'', cnd_ReasonProcessing = [], cnd_ReasonFailed = ''Failed''\<rparr>,
     lke_ops = exOps, lke_KuidString = \<lambda>i. epid_Endpoint (ngep_EndpointID i), lke_GetError = \<lambda>_. None,
     lke_NotFound = \<lambda>k. nsn_Name k @ '' not found'', lke_UpdateError = updateError\<rparr>"

lemma exLinkEnv_simps [simp]:
  "lke_ops (exLinkEnv u) = exOps" "api_Get (lke_api (exLinkEnv u)) = Got exLinkCr"
  "api_AddFinalizer (lke_api (exLinkEnv u)) c = (c, None)" "lke_UpdateError (exLinkEnv u) = u"
  "endpointKey (exLinkEnv u) exLinkCr (exEndOf n) = exName n"
  by (simp_all add: exLinkEnv_def endpointKey_def exLinkCr_def exEndOf_def exName_def)

theorem held_endpoints_untouched_witness:
  "fst (link_Reconcile (exLinkEnv (\<lambda>_ _. None)) [exName ''e1'' \<mapsto> None, exName ''e2'' \<mapsto> Some (exName ''other'')]) (exName ''e2'')
    = Some (Some (exName ''other''))"
  by (rule held_endpoints_untouched [where cr = exLinkCr and other = "exName ''other''"])
    (simp_all add: exOps_ownership [unfolded exOps_def] exLinkCr_def exName_def heldBy_def exOps_def)

text \<open>The claim of the second endpoint is refused: the first is free again.\<close>

definition exRefuse :: "NamespacedName \<Rightarrow> NamespacedName option \<Rightarrow> string option" where
  "exRefuse k ep = (if k = exName ''e2'' \<and> ep \<noteq> None then Some ''conflict'' else None)"

definition exFree :: "NamespacedName option endpoints" where
  "exFree = [exName ''e1'' \<mapsto> None, exName ''e2'' \<mapsto> None]"


end
