(* ===== verification/Wiring.thy ===== *)
theory Wiring
  imports EventHandlers
begin

text \<open>
  How the process is put together (\<open>main.go\<close>, \<open>reconcilers.go\<close>, \<open>all.go\<close> and the \<open>SetupWithManager\<close> of
  every controller): the registry of controllers, which of them are started, and which events wake which.

  The manager of the framework is a parameter: of a controller it is told the kind it is for, the kinds it
  owns and the kinds it watches, and it enqueues the key of an object of the first, the key of the
  controlling owner of an object of the second, and what the handler gives for an object of the third.
\<close>

section \<open>The set-up of a controller\<close>

datatype handler = EndpointEventHandler | NodeForNetworkEventHandler | EndpointForNetworkEventHandler
  | LinkForNetworkEventHandler | NetworkDesignForNetworkEventHandler | NetworkDeviceForNetworkEventHandler
  | TopologyEventHandler

record controllerSetup =
  su_Named :: string
  su_For :: Kind
  su_Owns :: "Kind list"
  su_Watches :: "(Kind \<times> handler) list"

definition link_setup :: controllerSetup where
  "link_setup = \<lparr>su_Named = ''LinkController'', su_For = LinkKind, su_Owns = [],
     su_Watches = [(EndpointKind, EndpointEventHandler)]\<rparr>"

definition topology_setup :: controllerSetup where
  "topology_setup = \<lparr>su_Named = ''TopologyController'', su_For = TopologyKind,
     su_Owns = [NodeKind, LinkKind, GENIDIndexKind], su_Watches = []\<rparr>"

definition design_setup :: controllerSetup where
  "design_setup = \<lparr>su_Named = ''NetworkDesignController'', su_For = NetworkDesignKind,
     su_Owns = [IPClaimKind, ASClaimKind, ASIndexKind, GENIDClaimKind],
     su_Watches = [(TopologyKind, TopologyEventHandler)]\<rparr>"

text \<open>Links are given the handler of nodes (\<open>networkparams/reconciler.go:92-93\<close>).\<close>

definition params_setup :: controllerSetup where
  "params_setup = \<lparr>su_Named = ''NetworkParametersController'', su_For = NetworkKind, su_Owns = [IPClaimKind, ASClaimKind],
     su_Watches = [(NodeKind, NodeForNetworkEventHandler), (LinkKind, NodeForNetworkEventHandler)]\<rparr>"

definition device_setup :: controllerSetup where
  "device_setup = \<lparr>su_Named = ''NetworkDeviceController'', su_For = NetworkKind, su_Owns = [NetworkDeviceKind],
     su_Watches = []\<rparr>"

definition network_setup :: controllerSetup where
  "network_setup = \<lparr>su_Named = ''NetworkController'', su_For = NetworkKind, su_Owns = [ConfigKind],
     su_Watches = [(NetworkDeviceKind, NetworkDeviceForNetworkEventHandler),
       (NetworkDesignKind, NetworkDesignForNetworkEventHandler)]\<rparr>"

definition package_setup :: controllerSetup where
  "package_setup = \<lparr>su_Named = ''NetworkPackageController'', su_For = PackageRevisionKind, su_Owns = [], su_Watches = []\<rparr>"

text \<open>
  Every \<open>SetupWithManager\<close> first checks the type of its configuration; \<open>None\<close> is the expected one. The manager may
  refuse the controller (\<open>Complete\<close>).
\<close>

definition SetupWithManager ::
  "(controllerSetup \<Rightarrow> string option) \<Rightarrow> string option \<Rightarrow> controllerSetup \<Rightarrow> string + controllerSetup" where
  "SetupWithManager Complete configType s = (case configType of
      Some name \<Rightarrow> Inl (''cannot initialize, expecting controllerConfig, got: '' @ name)
    | None \<Rightarrow> (case Complete s of Some e \<Rightarrow> Inl e | None \<Rightarrow> Inr s))"

section \<open>The registry\<close>

type_synonym registry = "string \<rightharpoonup> controllerSetup"

definition Register :: "string \<Rightarrow> controllerSetup \<Rightarrow> registry \<Rightarrow> registry" where
  "Register name r reconcilers = reconcilers(name \<mapsto> r)"

text \<open>The \<open>init\<close> functions run in the order of the imports of \<open>all.go\<close>.\<close>

definition Reconcilers :: registry where
  "Reconcilers = fold (\<lambda>(name, s). Register name s)
     [(''link'', link_setup), (''network'', network_setup), (''networkdesign'', design_setup),
      (''networkdevice'', device_setup), (''networkpackage'', package_setup), (''networkparams'', params_setup),
      (''topology'', topology_setup)] Map.empty"

text \<open>\<open>strings.ToUpper\<close> of a name in ASCII, and \<open>strings.ToLower\<close> as far as a comparison with ASCII letters.\<close>

definition ToUpper :: "string \<Rightarrow> string" where
  "ToUpper s = map (\<lambda>c. let n = of_char c :: nat in if 97 \<le> n \<and> n \<le> 122 then char_of (n - 32) else c) s"

definition ToLower :: "string \<Rightarrow> string" where
  "ToLower s = map (\<lambda>c. let n = of_char c :: nat in if 65 \<le> n \<and> n \<le> 90 then char_of (n + 32) else c) s"

definition IsReconcilerEnabled :: "(string \<rightharpoonup> string) \<Rightarrow> string \<Rightarrow> bool" where
  "IsReconcilerEnabled LookupEnv reconcilerName =
     (case LookupEnv (''ENABLE_'' @ ToUpper reconcilerName) of
        None \<Rightarrow> False
      | Some val \<Rightarrow> ToLower val \<noteq> ''false'')"

text \<open>The loop of \<open>main\<close> over the registry, in the order of the iteration; the first error ends the process.\<close>

fun startControllers :: "(controllerSetup \<Rightarrow> string option) \<Rightarrow> (string \<rightharpoonup> string) \<Rightarrow> string option \<Rightarrow> registry \<Rightarrow>
  string list \<Rightarrow> string + controllerSetup list" where
  "startControllers Complete LookupEnv cfg reconcilers [] = Inr []"
| "startControllers Complete LookupEnv cfg reconcilers (name # names) =
     (if IsReconcilerEnabled LookupEnv name
      then case reconcilers name of
          None \<Rightarrow> startControllers Complete LookupEnv cfg reconcilers names
        | Some s \<Rightarrow> (case SetupWithManager Complete cfg s of
            Inl e \<Rightarrow> Inl e
          | Inr s' \<Rightarrow> (case startControllers Complete LookupEnv cfg reconcilers names of
              Inl e \<Rightarrow> Inl e
            | Inr ss \<Rightarrow> Inr (s' # ss)))
      else startControllers Complete LookupEnv cfg reconcilers names)"

lemma startControllers_set:
  "startControllers Complete env None r names = Inr ss \<Longrightarrow>
    set ss = {s. \<exists>n \<in> set names. r n = Some s \<and> IsReconcilerEnabled env n}"
  by (induction names arbitrary: ss) (auto simp: SetupWithManager_def split: if_splits option.splits sum.splits)

lemma startControllers_ok: "\<exists>ss. startControllers (\<lambda>_. None) env None r names = Inr ss"
  by (induction names) (auto simp: SetupWithManager_def split: option.splits)

text \<open>
  The process (\<open>main\<close>): the steps before and after the loop are calls of the framework, each with the error it
  returned (\<open>GetConfigOrDie\<close> ends the process itself); \<open>names\<close> is the order in which Go ranges over the registry.
\<close>

record main_env =
  me_AddToScheme :: "string option list"
  me_GetConfig :: "string option"
  me_NewManager :: "string option"
  me_NewForConfig :: "string option"
  me_Complete :: "controllerSetup \<Rightarrow> string option"
  me_AddHealthzCheck :: "string option"
  me_AddReadyzCheck :: "string option"
  me_Start :: "string option"

datatype main_end = Exit1 string string | MainPanics string | MainReturns "controllerSetup list"

fun firstError :: "string option list \<Rightarrow> string option" where
  "firstError [] = None"
| "firstError (Some e # es) = Some e"
| "firstError (None # es) = firstError es"

definition exits :: "string option \<Rightarrow> string \<Rightarrow> main_end \<Rightarrow> main_end" where
  "exits err msg k = (case err of Some e \<Rightarrow> Exit1 msg e | None \<Rightarrow> k)"

definition main_process :: "main_env \<Rightarrow> (string \<rightharpoonup> string) \<Rightarrow> string list \<Rightarrow> main_end" where
  "main_process m LookupEnv names =
     exits (firstError (me_AddToScheme m)) ''cannot add scheme''
     (exits (me_GetConfig m) ''unable to get kubeconfig''
     (exits (me_NewManager m) ''cannot start manager''
     (case me_NewForConfig m of
        Some e \<Rightarrow> MainPanics e
      | None \<Rightarrow> (case startControllers (me_Complete m) LookupEnv None Reconcilers names of
          Inl e \<Rightarrow> Exit1 ''cannot add controllers to manager'' e
        | Inr ss \<Rightarrow>
            exits (me_AddHealthzCheck m) ''unable to set up health check''
            (exits (me_AddReadyzCheck m) ''unable to set up ready check''
            (exits (me_Start m) ''problem running manager'' (MainReturns ss)))))))"

text \<open>A process that runs its manager has set up the controllers that are enabled, and no other.\<close>

lemma main_process_controllers:
  assumes "main_process m LookupEnv names = MainReturns ss" and "set names = dom Reconcilers"
  shows "set ss = {s. \<exists>n. Reconcilers n = Some s \<and> IsReconcilerEnabled LookupEnv n}"
proof -
  have "startControllers (me_Complete m) LookupEnv None Reconcilers names = Inr ss"
    using assms(1) by (simp add: main_process_def exits_def split: option.splits sum.splits)
  from startControllers_set [OF this] assms(2) show ?thesis by auto
qed

section \<open>Events\<close>

text \<open>An object of an event: its kind and key, the owner that controls it, and what the handlers see of it.\<close>

record object =
  ob_Kind :: Kind
  ob_Key :: NamespacedName
  ob_Controller :: "(Kind \<times> NamespacedName) option"
  ob_Value :: watched

text \<open>What the list calls of the handlers give.\<close>

record listers =
  lst_Networks :: "Network lister"
  lst_Designs :: "NetworkDesign lister"
  lst_Links :: "listedLink lister"

fun addOf :: "listers \<Rightarrow> handler \<Rightarrow> watched \<Rightarrow> NamespacedName list" where
  "addOf l EndpointEventHandler = Endpoint_add (lst_Links l)"
| "addOf l NodeForNetworkEventHandler = NodeForNetwork_add (lst_Networks l)"
| "addOf l EndpointForNetworkEventHandler = EndpointForNetwork_add (lst_Networks l)"
| "addOf l LinkForNetworkEventHandler = LinkForNetwork_add (lst_Networks l)"
| "addOf l NetworkDesignForNetworkEventHandler = NetworkDesignForNetwork_add (lst_Networks l)"
| "addOf l NetworkDeviceForNetworkEventHandler = NetworkDeviceForNetwork_add (lst_Networks l)"
| "addOf l TopologyEventHandler = Topology_add (lst_Designs l)"

definition enqueueOwner :: "controllerSetup \<Rightarrow> object \<Rightarrow> NamespacedName list" where
  "enqueueOwner s x = (case ob_Controller x of None \<Rightarrow> [] | Some (kind, key) \<Rightarrow> if kind = su_For s then [key] else [])"

definition enqueue :: "listers \<Rightarrow> controllerSetup \<Rightarrow> object \<Rightarrow> NamespacedName list" where
  "enqueue l s x =
     (if ob_Kind x = su_For s then [ob_Key x] else []) @
     (if ob_Kind x \<in> set (su_Owns s) then enqueueOwner s x else []) @
     concat (map (\<lambda>(kind, h). if ob_Kind x = kind then addOf l h (ob_Value x) else []) (su_Watches s))"

definition requests :: "listers \<Rightarrow> controllerSetup \<Rightarrow> object watch_event \<Rightarrow> NamespacedName list" where
  "requests l s = handleEvent (enqueue l s)"

text \<open>Each of the three controllers of a network is for networks.\<close>

definition networkSetups :: "controllerSetup set" where
  "networkSetups = {s \<in> ran Reconcilers. su_For s = NetworkKind}"

lemma ran_Reconcilers:
  "ran Reconcilers = {link_setup, network_setup, design_setup, device_setup, package_setup, params_setup, topology_setup}"
  by (simp add: Reconcilers_def Register_def ran_map_upd insert_commute)

lemmas setup_defs = link_setup_def network_setup_def design_setup_def device_setup_def package_setup_def params_setup_def
  topology_setup_def

lemma networkSetups: "networkSetups = {params_setup, device_setup, network_setup}"
proof -
  have "su_For link_setup = LinkKind" "su_For design_setup = NetworkDesignKind" "su_For package_setup = PackageRevisionKind"
    "su_For topology_setup = TopologyKind" "su_For params_setup = NetworkKind" "su_For device_setup = NetworkKind"
    "su_For network_setup = NetworkKind"
    by (simp_all add: setup_defs)
  then show ?thesis unfolding networkSetups_def ran_Reconcilers by auto
qed

text \<open>Every change of a network wakes all three.\<close>

lemma network_event_wakes:
  assumes "s \<in> networkSetups" and "ob_Kind x = NetworkKind"
  shows "ob_Key x \<in> set (requests l s (Update old x))"
  using assms by (auto simp: networkSetups_def requests_def handleEvent_def enqueue_def)

section \<open>Properties\<close>


end
