(* ===== verification/EventLoop.thy ===== *)
theory EventLoop
  imports NetworkCluster Wiring
begin

text \<open>
  The three controllers of a network under the manager of the framework: a request for the network waits at a
  controller until the controller runs; a change of the network wakes every controller that is set up to be
  woken by it (\<open>SetupWithManager\<close>); a call that asks for it, or fails, is repeated. Other events, on the
  resources the controllers own or watch, may wake any of them at any time.

  The delay of a request is not modelled: a controller that waits may run at once.
\<close>

section \<open>Calls and wakes\<close>

definition again :: "('cr, 'o) outcome \<Rightarrow> bool" where
  "again out \<longleftrightarrow> out_Error out \<noteq> None \<or> res_Requeue (out_Result out) \<or> res_RequeueAfter (out_Result out) > 0 \<or>
     out_Panic out \<noteq> None"

fun retries :: "'c cluster \<Rightarrow> who \<Rightarrow> Network \<Rightarrow> bool" where
  "retries c N cr = again (network_Reconcile (networkSees c cr))"
| "retries c P cr = again (params_Reconcile (paramsSees c cr))"
| "retries c D cr = again (device_Reconcile (deviceSees c cr))"

fun setupOf :: "who \<Rightarrow> controllerSetup" where
  "setupOf N = network_setup"
| "setupOf P = params_setup"
| "setupOf D = device_setup"

definition networkObject :: "Network \<Rightarrow> object" where
  "networkObject cr = \<lparr>ob_Kind = NetworkKind, ob_Key = GetNamespacedName cr, ob_Controller = None, ob_Value = WOther\<rparr>"

definition wakes :: "listers \<Rightarrow> Network \<Rightarrow> Network \<Rightarrow> who set" where
  "wakes l old new = {w. GetNamespacedName new \<in> set (requests l (setupOf w) (Update (networkObject old) (networkObject new)))}"

lemma wakes_all: "wakes l old new = UNIV"
proof -
  have "setupOf w \<in> networkSetups" for w by (cases w) (simp_all add: networkSetups)
  then have "GetNamespacedName new \<in> set (requests l (setupOf w) (Update (networkObject old) (networkObject new)))" for w
    using network_event_wakes [of "setupOf w" "networkObject new" l "networkObject old"] by (simp add: networkObject_def)
  then show ?thesis by (auto simp: wakes_def)
qed

section \<open>Steps\<close>

text \<open>The network, and the controllers at which a request for it waits.\<close>

type_synonym loop_state = "Network \<times> who set"

datatype loop_event = Ran who | Woken who

definition loop_run :: "listers \<Rightarrow> 'c cluster \<Rightarrow> who \<Rightarrow> loop_state \<Rightarrow> loop_state" where
  "loop_run l c w = (\<lambda>(cr, pending).
     (run c w cr,
      (if retries c w cr then pending else pending - {w}) \<union> (if run c w cr \<noteq> cr then wakes l cr (run c w cr) else {})))"

inductive loop_step :: "listers \<Rightarrow> 'c cluster \<Rightarrow> loop_event \<Rightarrow> loop_state \<Rightarrow> loop_state \<Rightarrow> bool" for l c where
  ran: "w \<in> snd s \<Longrightarrow> loop_step l c (Ran w) s (loop_run l c w s)"
| woken: "loop_step l c (Woken w) s (fst s, insert w (snd s))"

inductive_simps loop_step_iff: "loop_step l c e s s'"

inductive loop :: "listers \<Rightarrow> 'c cluster \<Rightarrow> loop_event list \<Rightarrow> loop_state \<Rightarrow> loop_state \<Rightarrow> bool" for l c where
  none: "loop l c [] s s"
| more_steps: "loop_step l c e s s' \<Longrightarrow> loop l c es s' s'' \<Longrightarrow> loop l c (e # es) s s''"

inductive_simps loop_Nil [simp]: "loop l c [] s s'"
inductive_simps loop_Cons: "loop l c (e # es) s s'"

lemma loop_append: "loop l c es s s' \<Longrightarrow> loop l c es' s' s'' \<Longrightarrow> loop l c (es @ es') s s''"
  by (induction rule: loop.induct) (auto intro: loop.intros)

text \<open>A controller at which nothing waits has nothing to do.\<close>

definition at_rest :: "'c cluster \<Rightarrow> loop_state \<Rightarrow> bool" where
  "at_rest c s \<longleftrightarrow> (\<forall>w. w \<notin> snd s \<longrightarrow> run c w (fst s) = fst s)"

lemma loop_run_changed: "run c w cr \<noteq> cr \<Longrightarrow> loop_run l c w (cr, p) = (run c w cr, UNIV)"
  by (simp add: loop_run_def wakes_all)

lemma loop_run_same: "run c w cr = cr \<Longrightarrow> loop_run l c w (cr, p) = (cr, if retries c w cr then p else p - {w})"
  by (simp add: loop_run_def)

lemma at_rest_run: "at_rest c (cr, p) \<Longrightarrow> at_rest c (loop_run l c w (cr, p))"
  by (cases "run c w cr = cr") (auto simp: loop_run_same loop_run_changed at_rest_def)

lemma at_rest_step:
  assumes "loop_step l c e s s'" and "at_rest c s"
  shows "at_rest c s'"
  using assms(1)
proof cases
  case (ran w)
  then show ?thesis using assms(2) at_rest_run [of c "fst s" "snd s" l w] by simp
next
  case (woken w)
  then show ?thesis using assms(2) by (simp add: at_rest_def)
qed

lemma at_rest_loop: "loop l c es s s' \<Longrightarrow> at_rest c s \<Longrightarrow> at_rest c s'"
  by (induction rule: loop.induct) (auto dest: at_rest_step)

lemma fst_loop_run [simp]: "fst (loop_run l c w s) = run c w (fst s)"
  by (simp add: loop_run_def split: prod.splits)

lemma identity_step:
  assumes "\<And>w cr. identity cr = identity cr0 \<Longrightarrow> identity (run c w cr) = identity cr0"
    and "loop_step l c e s s'" and "identity (fst s) = identity cr0"
  shows "identity (fst s') = identity cr0"
  using assms(2) by cases (simp_all add: assms)

lemma identity_loop:
  assumes "\<And>w cr. identity cr = identity cr0 \<Longrightarrow> identity (run c w cr) = identity cr0"
  shows "loop l c es s s' \<Longrightarrow> identity (fst s) = identity cr0 \<Longrightarrow> identity (fst s') = identity cr0"
proof (induction rule: loop.induct)
  case (more_steps e s s' es s'')
  then show ?case using identity_step [OF assms more_steps(1,4)] by blast
qed

section \<open>A healthy cluster: the work that is left\<close>

text \<open>The network controller is idempotent, once it has recorded what it saw.\<close>

definition overallOf :: "conditions \<Rightarrow> Condition \<Rightarrow> Condition \<Rightarrow> Condition" where
  "overallOf cs a b = (if cond_Status a \<noteq> ConditionFalse \<and> cond_Status b \<noteq> ConditionFalse then cnd_Ready cs
    else cnd_Failed cs (if cond_Status a = ConditionFalse then ''network parameters not ready: '' @ cond_Message a
      else ''device configs for network not ready: '' @ cond_Message b))"

lemma overall_eq: "SetOverallStatus cs r = SetConditions cs
    [overallOf cs (GetCondition r ConditionTypeNetworkParamReady) (GetCondition r ConditionTypeNetworkDeviceReady)] r"
  unfolding overallStatus_cases AreChildConditionsReady_iff overallOf_def by (rule refl)

lemma overallOf_type: "conditions_lawful cs \<Longrightarrow> cond_Type (overallOf cs a b) = cnd_ConditionTypeReady cs"
  by (simp add: overallOf_def lawful_types)

lemma SetConditions_again:
  assumes "conditions_lawful cs" and "cond_Type x = cond_Type y"
  shows "SetConditions cs [y] (SetConditions cs [x] r) = SetConditions cs [y] r"
  using assms by (simp add: SetConditions_def conditions_lawful_def)

lemma SetConditions_same:
  assumes "conditions_lawful cs" and "GetCondition r (cond_Type x) = x"
  shows "SetConditions cs [x] r = r"
proof -
  have "cnd_SetConditions cs [x] (nst_GetCondition (net_Status r)) = nst_GetCondition (net_Status r)"
    using assms by (simp add: conditions_lawful_def GetCondition_def fun_upd_idem)
  then show ?thesis unfolding SetConditions_def by (cases r; cases "net_Status r") simp
qed

lemma overall_again:
  assumes "conditions_lawful cs" and "other_condition cs" and x: "cond_Type x = cnd_ConditionTypeReady cs"
  shows "SetOverallStatus cs (SetConditions cs [x] cr) = SetOverallStatus cs cr"
proof -
  have g: "GetCondition (SetConditions cs [x] cr) ConditionTypeNetworkParamReady = GetCondition cr ConditionTypeNetworkParamReady"
    "GetCondition (SetConditions cs [x] cr) ConditionTypeNetworkDeviceReady = GetCondition cr ConditionTypeNetworkDeviceReady"
    using assms(2) x by (auto simp: assms(1) other_condition_def)
  show ?thesis unfolding overall_eq g by (rule SetConditions_again) (simp_all add: assms(1) x overallOf_type)
qed

definition withDeployed :: "'c cluster \<Rightarrow> conditions \<Rightarrow> Network \<Rightarrow> Network" where
  "withDeployed c cs cr = (if AreChildConditionsReady cr
     then cr\<lparr>net_Status := (net_Status cr)\<lparr>nst_DevicesDeployStatus := deployed c cs (net_UID cr)\<rparr>\<rparr> else cr)"

lemma run_N_unchanged:
  assumes h: "healthy c cs cr0 nd" and i: "identity cr = identity cr0" and u: "unchanged c nd cr"
  shows "run c N cr = SetOverallStatus cs (withDeployed c cs cr)"
proof -
  obtain x ds where x: "cond_Type x = cnd_ConditionTypeReady cs"
    and ds: "ds = (if AreChildConditionsReady cr then deployed c cs (net_UID cr) else nst_DevicesDeployStatus (net_Status cr))"
    and r: "run c N cr = SetOverallStatus cs (SetConditions cs [x]
      (cr\<lparr>net_Status := (net_Status cr)\<lparr>nst_DevicesDeployStatus := ds\<rparr>\<rparr>))"
    using run_N [OF h i u [unfolded unchanged_def]] by (auto simp: network_resetChildren_def)
  have "cr\<lparr>net_Status := (net_Status cr)\<lparr>nst_DevicesDeployStatus := ds\<rparr>\<rparr> = withDeployed c cs cr"
    by (simp add: ds withDeployed_def)
  then show ?thesis unfolding r using overall_again [OF healthyD(3,4) [OF h i] x] by simp
qed

lemma withDeployed_overall:
  assumes "conditions_lawful cs" and "other_condition cs"
  shows "SetOverallStatus cs (withDeployed c cs (SetOverallStatus cs (withDeployed c cs cr))) =
    SetOverallStatus cs (withDeployed c cs cr)"
proof -
  obtain y where y: "SetOverallStatus cs (withDeployed c cs cr) = SetConditions cs [y] (withDeployed c cs cr)"
      "cond_Type y = cnd_ConditionTypeReady cs"
    using overall_eq overallOf_type [OF assms(1)] by blast
  have a: "AreChildConditionsReady (withDeployed c cs cr) = AreChildConditionsReady cr" by (simp add: withDeployed_def)
  have "AreChildConditionsReady (SetConditions cs [y] (withDeployed c cs cr)) = AreChildConditionsReady cr"
    using assms y(2) a by (simp add: children_SetConditions)
  then have "withDeployed c cs (SetConditions cs [y] (withDeployed c cs cr)) = SetConditions cs [y] (withDeployed c cs cr)"
    by (auto simp: withDeployed_def SetConditions_def)
  then show ?thesis by (metis y overall_again assms)
qed

lemma run_N_idem:
  assumes h: "healthy c cs cr0 nd" and i: "identity cr = identity cr0" and u: "unchanged c nd cr"
  shows "run c N (run c N cr) = run c N cr"
  using run_N_unchanged [OF h run_N_effect(1,2) [OF h i]] withDeployed_overall [OF healthyD(3,4) [OF h i]]
  by (simp add: run_N_unchanged [OF h i u])

text \<open>A measure that every change of the network lowers.\<close>

definition workLeft :: "'c cluster \<Rightarrow> NetworkDesign \<Rightarrow> Network \<Rightarrow> nat" where
  "workLeft c nd cr = (if unchanged c nd cr then 0 else 5) +
     (if isTrue cr ConditionTypeNetworkParamReady then 0 else 2) +
     (if isTrue cr ConditionTypeNetworkDeviceReady then 0 else 2) + (if run c N cr = cr then 0 else 1)"

lemma workLeft_bound: "workLeft c nd cr \<le> 10"
  by (simp add: workLeft_def)

lemma work_done:
  assumes h: "healthy c cs cr0 nd" and i: "identity cr = identity cr0" and ch: "run c w cr \<noteq> cr"
  shows "workLeft c nd (run c w cr) < workLeft c nd cr"
proof (cases w)
  case N
  show ?thesis
  proof (cases "unchanged c nd cr")
    case True
    have "isTrue (run c N cr) t = isTrue cr t" if "t \<noteq> cnd_ConditionTypeReady cs" for t
      using run_N_effect(3) [OF h i True that] by (simp add: isTrue_def)
    then show ?thesis
      using True ch run_N_effect(2) [OF h i] run_N_idem [OF h i True] ready_type_other [OF h]
      by (simp add: workLeft_def N)
  next
    case False
    then show ?thesis using ch run_N_effect(2) [OF h i] by (simp add: workLeft_def N)
  qed
next
  case P
  have "\<not> isTrue cr ConditionTypeNetworkParamReady" using ch run_P [OF h i] unfolding P by auto
  then show ?thesis
    using run_P_effect(2,3,4) [OF h i] unfolding P by (auto simp: workLeft_def)
next
  case D
  obtain ds where r: "run c D cr =
    (if cond_Status (GetCondition cr ConditionTypeNetworkParamReady) = ConditionFalse \<or> isTrue cr ConditionTypeNetworkDeviceReady
     then cr
     else SetConditions cs [NetworkDeviceReady] (cr\<lparr>net_Status := (net_Status cr)\<lparr>nst_DevicesConfigStatus := ds\<rparr>\<rparr>))"
    using run_D [OF h i] by blast
  have no: "\<not> isTrue cr ConditionTypeNetworkDeviceReady" using ch r unfolding D by auto
  have yes: "isTrue (run c D cr) ConditionTypeNetworkDeviceReady"
    using ch healthyD(3) [OF h i] unfolding D r by (auto simp: isTrue_def split: if_splits)
  show ?thesis
    using no yes run_D_effect(2,4) [OF h i] unfolding D by (auto simp: workLeft_def)
qed

lemma no_retry:
  assumes h: "healthy c cs cr0 nd" and i: "identity cr = identity cr0"
  shows "\<not> retries c w cr"
proof (cases w)
  case N
  let ?n = "networkSees c cr"
  obtain changed cr2 where ch: "hasConfigChanged (clu_network c) cr nd = (changed, cr2)" by fastforce
  let ?cr3 = "network_resetChildren cs changed cr2"
  have i3: "identity ?cr3 = identity cr0"
    using ch i by (auto simp: hasConfigChanged_def network_resetChildren_def split: option.splits if_splits)
  note D = healthyD [OF h i]
  obtain as where ap: "network_apply (clu_network c) ?cr3 = (as, None)"
    using healthyD(20) [OF h i3] by (metis prod.collapse)
  have "network_Reconcile ?n = does [AddFinalizer network_finalizer None]
     (if \<not> AreChildConditionsReady ?cr3 then network_wait ?n ?cr3 else does as (network_report ?n ?cr3))"
    using ap ch D by (subst network_step [of _ cr cr nd changed cr2]) (simp_all add: Let_def)
  then show ?thesis
    using network_report_form(2-4) [OF h i3, of cr] D(13)
    by (simp add: N again_def network_wait_def Let_def) (simp add: noResult_def)
next
  case P
  let ?p = "paramsSees c cr"
  show ?thesis
  proof (cases "isTrue cr ConditionTypeNetworkParamReady")
    case True
    then show ?thesis
      using healthyD(2) [OF h i] by (simp add: P again_def params_Reconcile_def isTrue_def Let_def) (simp add: noResult_def)
  next
    case False
    obtain as err where ap: "(if IsDefaultNetwork cr then applyDefaultNetwork ?p cr nd else applyNetwork ?p cr nd) = (as, err)"
      by fastforce
    have err: "err = None" using healthyD(18) [OF h i] ap unfolding apply_sees by simp
    have "params_Reconcile ?p = does [AddFinalizer params_finalizer None] (does as
        (does [Event EventTypeNormal params_condition ''ready''] (updateStatus (pe_api ?p) (SetConditions cs [NetworkParamReady] cr) noResult)))"
      using False healthyD(2,5,8,14) [OF h i] ap err
      by (subst params_step [of _ cr cr None]) (simp_all add: isTrue_def del: apply_sees split del: if_split)
    then show ?thesis using healthyD(11) [OF h i] by (simp add: P again_def) (simp add: noResult_def)
  qed
next
  case D
  obtain as where ap: "device_apply (clu_device c) cr nd = Inr (as, None)" using healthyD(19) [OF h i] by blast
  obtain ds where "device_report (deviceSees c cr) cr = does [Event EventTypeNormal device_condition ''ready'']
      (updateStatus (de_api (deviceSees c cr))
        (SetConditions cs [NetworkDeviceReady] (cr\<lparr>net_Status := (net_Status cr)\<lparr>nst_DevicesConfigStatus := ds\<rparr>\<rparr>)) noResult)"
    using device_report_ready [OF h i] by blast
  moreover have "device_Reconcile (deviceSees c cr) = does [AddFinalizer device_finalizer None]
      (if cond_Status (GetCondition cr ConditionTypeNetworkParamReady) = ConditionFalse \<or> isTrue cr ConditionTypeNetworkDeviceReady
       then finish noResult None else does as (device_report (deviceSees c cr) cr))"
    using healthyD [OF h i] ap by (simp add: device_Reconcile_def Let_def isTrue_def)
  ultimately show ?thesis
    using healthyD(12) [OF h i] by (simp add: D again_def) (simp add: noResult_def)
qed

section \<open>Executions in a healthy cluster\<close>

definition loopWork :: "'c cluster \<Rightarrow> NetworkDesign \<Rightarrow> loop_state \<Rightarrow> nat" where
  "loopWork c nd s = 4 * workLeft c nd (fst s) + card (snd s)"

lemma UNIV_who: "(UNIV :: who set) = {N, P, D}"
  using who.exhaust by auto

instance who :: finite
  by standard (simp add: UNIV_who)

lemma card_who: "card (A :: who set) \<le> 3"
proof -
  have "card A \<le> card (UNIV :: who set)" by (rule card_mono) simp_all
  then show ?thesis by (simp add: UNIV_who)
qed

lemma loopWork_bound: "loopWork c nd s \<le> 43"
  using workLeft_bound [of c nd "fst s"] card_who [of "snd s"] by (simp add: loopWork_def)

lemma loopWork_run:
  assumes h: "healthy c cs cr0 nd" and i: "identity cr = identity cr0" and w: "w \<in> p"
  shows "loopWork c nd (loop_run l c w (cr, p)) < loopWork c nd (cr, p)"
proof (cases "run c w cr = cr")
  case True
  then show ?thesis
    using no_retry [OF h i, of w] w card_Diff1_less [OF finite w] by (simp add: loop_run_same loopWork_def)
next
  case False
  have "card p > 0" using w by (auto simp: card_gt_0_iff)
  with work_done [OF h i False] card_who [of UNIV] show ?thesis by (simp add: loop_run_changed [OF False] loopWork_def)
qed

definition runsOf :: "loop_event list \<Rightarrow> who list" where
  "runsOf es = concat (map (\<lambda>e. case e of Ran w \<Rightarrow> [w] | Woken w \<Rightarrow> []) es)"

definition wakesOf :: "loop_event list \<Rightarrow> who list" where
  "wakesOf es = concat (map (\<lambda>e. case e of Ran w \<Rightarrow> [] | Woken w \<Rightarrow> [w]) es)"

lemma loop_bound:
  assumes h: "healthy c cs cr0 nd"
  shows "loop l c es s s' \<Longrightarrow> identity (fst s) = identity cr0 \<Longrightarrow>
    length (runsOf es) + loopWork c nd s' \<le> loopWork c nd s + length (wakesOf es)"
proof (induction rule: loop.induct)
  case (more_steps e s s' es s'')
  have i': "identity (fst s') = identity cr0"
    by (rule identity_step [OF identity_run [OF h] more_steps(1,4)])
  from more_steps(1) show ?case
  proof cases
    case (ran w)
    then have "loopWork c nd s' < loopWork c nd s"
      using loopWork_run [OF h more_steps.prems, of w "snd s" l] by simp
    with ran(1) more_steps.IH [OF i'] show ?thesis by (simp add: runsOf_def wakesOf_def)
  next
    case (woken w)
    then have "loopWork c nd s' \<le> Suc (loopWork c nd s)"
      by (simp add: loopWork_def card_insert_if)
    with woken(1) more_steps.IH [OF i'] show ?thesis by (simp add: runsOf_def wakesOf_def)
  qed
qed (simp add: runsOf_def wakesOf_def)

lemma loop_settles:
  assumes h: "healthy c cs cr0 nd"
  shows "identity (fst s) = identity cr0 \<Longrightarrow> \<exists>ws cr'. loop l c (map Ran ws) s (cr', {})"
proof (induction "loopWork c nd s" arbitrary: s rule: less_induct)
  case less
  show ?case
  proof (cases "snd s = {}")
    case True
    then show ?thesis by (intro exI [of _ "[]"] exI [of _ "fst s"]) (auto simp: prod_eq_iff)
  next
    case False
    then obtain w where w: "w \<in> snd s" by blast
    have "identity (fst (loop_run l c w s)) = identity cr0"
      using identity_run [OF h less.prems] by simp
    then obtain ws cr' where "loop l c (map Ran ws) (loop_run l c w s) (cr', {})"
      using less.hyps [of "loop_run l c w s"] loopWork_run [OF h less.prems w, of l] by auto
    then have "loop l c (map Ran (w # ws)) s (cr', {})" using loop.more_steps [OF ran [OF w]] by simp
    then show ?thesis by blast
  qed
qed

lemma rest_is_ready:
  assumes h: "healthy c cs cr0 nd" and i: "identity cr = identity cr0" and r: "at_rest c (cr, {})"
  shows "stage c cs cr0 nd 4 cr"
proof -
  have "run c w cr = cr" for w using r by (simp add: at_rest_def)
  then have "runs c script cr = cr" by (simp add: runs_def script_def)
  moreover have "stage c cs cr0 nd 4 (runs c script cr)"
    using i by (intro script_completes [OF h, of 0]) (simp_all add: stage_def)
  ultimately show ?thesis by simp
qed

lemma loop_is_ready:
  assumes h: "healthy c cs cr nd" and r: "at_rest c (cr, pending)" and l: "loop l c es (cr, pending) (cr', {})"
  shows "stage c cs cr nd 4 cr'"
proof -
  have "identity cr' = identity cr" using identity_loop [OF identity_run [OF h] l] by simp
  then show ?thesis by (rule rest_is_ready [OF h _ at_rest_loop [OF l r]])
qed

section \<open>A cluster that refuses devices\<close>

text \<open>
  It would be healthy with other device resources; but every call that applies the devices of the network
  fails with the error \<open>e\<close>.
\<close>

definition refusesDevices :: "'c cluster \<Rightarrow> conditions \<Rightarrow> Network \<Rightarrow> NetworkDesign \<Rightarrow> string \<Rightarrow> bool" where
  "refusesDevices c cs cr0 nd e \<longleftrightarrow>
     (\<exists>d. healthy (c\<lparr>clu_device := d\<rparr>) cs cr0 nd) \<and>
     de_conditions (clu_device c) = cs \<and> calm (de_api (clu_device c)) \<and>
     de_design (clu_device c) (designKeyOf cr0) = Inr nd \<and>
     (\<forall>cr. identity cr = identity cr0 \<longrightarrow> (\<exists>as. device_apply (clu_device c) cr nd = Inr (as, Some e)))"

lemma run_other_device:
  "run (c\<lparr>clu_device := d\<rparr>) N cr = run c N cr" "run (c\<lparr>clu_device := d\<rparr>) P cr = run c P cr"
  by (simp_all add: run.simps networkSees_def paramsSees_def)

lemma run_D_refused:
  assumes r: "refusesDevices c cs cr0 nd e" and i: "identity cr = identity cr0"
  shows "run c D cr =
    (if cond_Status (GetCondition cr ConditionTypeNetworkParamReady) = ConditionFalse \<or> isTrue cr ConditionTypeNetworkDeviceReady
     then cr else SetConditions cs [NetworkDeviceFailed e] cr)"
proof -
  let ?d = "deviceSees c cr"
  obtain d where h: "healthy (c\<lparr>clu_device := d\<rparr>) cs cr0 nd" using r by (auto simp: refusesDevices_def)
  obtain as where ap: "device_apply (clu_device c) cr nd = Inr (as, Some e)" using r i by (auto simp: refusesDevices_def)
  have no: "statuses as = []"
    using ap by (auto simp: device_apply_def Let_def split: sum.splits failure.splits)
  have d: "de_conditions (clu_device c) = cs" "de_design (clu_device c) (device_designKey cr) = Inr nd"
    "api_AddFinalizer (de_api (clu_device c)) cr = (cr, None)" "\<And>x. api_StatusUpdate (de_api (clu_device c)) x = None"
    using r identity_keys(3) [OF i] by (auto simp: refusesDevices_def calm_def)
  have "device_Reconcile ?d = does [AddFinalizer device_finalizer None]
      (if cond_Status (GetCondition cr ConditionTypeNetworkParamReady) = ConditionFalse \<or> isTrue cr ConditionTypeNetworkDeviceReady
       then finish noResult None
       else does as (failed (de_api ?d) (device_handleError cs cr ''cannot apply resource'' (Some e)) requeueAfter2s))"
    using healthyD(2) [OF h i] d ap by (simp add: device_Reconcile_def Let_def isTrue_def)
  then show ?thesis
    using no d(4) by (simp add: run.simps writeBack_def device_handleError_def failureMessage_def)
qed

lemma refused_run:
  assumes r: "refusesDevices c cs cr0 nd e" and i: "identity cr = identity cr0"
    and no: "\<not> isTrue cr ConditionTypeNetworkDeviceReady"
  shows "identity (run c w cr) = identity cr0 \<and> \<not> isTrue (run c w cr) ConditionTypeNetworkDeviceReady"
proof -
  obtain d where h: "healthy (c\<lparr>clu_device := d\<rparr>) cs cr0 nd" using r by (auto simp: refusesDevices_def)
  note law = healthyD(3) [OF h i]
  show ?thesis
  proof (cases w)
    case N
    obtain changed cr2 where ch: "hasConfigChanged (clu_network (c\<lparr>clu_device := d\<rparr>)) cr nd = (changed, cr2)" by fastforce
    obtain x ds where x: "cond_Type x = cnd_ConditionTypeReady cs" and run: "run c N cr =
      SetOverallStatus cs (SetConditions cs [x] ((network_resetChildren cs changed cr2)\<lparr>net_Status :=
         (net_Status (network_resetChildren cs changed cr2))\<lparr>nst_DevicesDeployStatus := ds\<rparr>\<rparr>))"
      using run_N [OF h i ch] unfolding run_other_device by blast
    have "GetCondition cr2 t = GetCondition cr t" for t
      using ch by (auto simp: hasConfigChanged_def GetCondition_def split: option.splits if_splits)
    then have "\<not> isTrue (run c N cr) ConditionTypeNetworkDeviceReady"
      using no x law ready_type_other [OF h] unfolding run isTrue_def
      by (auto simp: overall_eq overallOf_type network_resetChildren_def)
    then show ?thesis using identity_run [OF h i, of N] by (simp add: N run_other_device)
  next
    case P
    then show ?thesis using run_P [OF h i] identity_run [OF h i, of P] law no by (auto simp: run_other_device isTrue_def)
  next
    case D
    then show ?thesis using run_D_refused [OF r i] i law no by (auto simp: isTrue_def)
  qed
qed

lemma refused_loop:
  assumes r: "refusesDevices c cs cr0 nd e"
  shows "loop l c es s s' \<Longrightarrow> identity (fst s) = identity cr0 \<Longrightarrow> \<not> isTrue (fst s) ConditionTypeNetworkDeviceReady \<Longrightarrow>
    identity (fst s') = identity cr0 \<and> \<not> isTrue (fst s') ConditionTypeNetworkDeviceReady"
proof (induction rule: loop.induct)
  case (more_steps e s s' es s'')
  from more_steps(1) have "identity (fst s') = identity cr0 \<and> \<not> isTrue (fst s') ConditionTypeNetworkDeviceReady"
    by cases (use refused_run [OF r more_steps(4,5)] more_steps(4,5) in simp_all)
  then show ?case using more_steps.IH by blast
qed simp

lemma refused_never_rests:
  assumes r: "refusesDevices c cs cr0 nd e" and i: "identity cr = identity cr0"
    and no: "\<not> isTrue cr ConditionTypeNetworkDeviceReady"
  shows "\<not> at_rest c (cr, {})"
proof
  assume "at_rest c (cr, {})"
  then have rest: "run c w cr = cr" for w by (simp add: at_rest_def)
  obtain d where h: "healthy (c\<lparr>clu_device := d\<rparr>) cs cr0 nd" using r by (auto simp: refusesDevices_def)
  note law = healthyD(3) [OF h i]
  have P: "isTrue cr ConditionTypeNetworkParamReady"
    using run_P_effect(3) [OF h i] rest [of P] by (simp add: run_other_device)
  then have "run c D cr = SetConditions cs [NetworkDeviceFailed e] cr"
    using run_D_refused [OF r i] no by (simp add: isTrue_def)
  then have "\<not> isTrue (run c D cr) ConditionTypeNetworkParamReady" using law by (simp add: isTrue_def)
  with P rest [of D] show False by simp
qed

text \<open>The device controller fails the parameters, and the parameters controller makes them ready again.\<close>

lemma refused_spin:
  assumes r: "refusesDevices c cs cr0 nd e" and i: "identity cr = identity cr0"
    and P: "GetCondition cr ConditionTypeNetworkParamReady = NetworkParamReady"
    and no: "\<not> isTrue cr ConditionTypeNetworkDeviceReady"
  shows "loop l c [Ran D, Ran P] (cr, UNIV) (cr, UNIV)"
proof -
  obtain d where h: "healthy (c\<lparr>clu_device := d\<rparr>) cs cr0 nd" using r by (auto simp: refusesDevices_def)
  note law = healthyD(3) [OF h i]
  let ?cr = "SetConditions cs [NetworkDeviceFailed e] cr"
  have D: "run c D cr = ?cr" using run_D_refused [OF r i] no P by (simp add: isTrue_def)
  have "run c P ?cr = SetConditions cs [NetworkParamReady] ?cr"
    using run_P [OF h, of ?cr] i law by (simp add: run_other_device isTrue_def)
  also have "\<dots> = SetConditions cs [NetworkParamReady] cr" by (rule SetConditions_again) (simp_all add: law)
  also have "\<dots> = cr" by (rule SetConditions_same) (simp_all add: law P)
  finally have restored: "run c P ?cr = cr" .
  have "GetCondition ?cr ConditionTypeNetworkParamReady = NetworkDeviceFailed e" using law by simp
  then have "?cr \<noteq> cr" using P by (auto simp: NetworkDeviceFailed_def NetworkParamReady_def)
  then have "loop_run l c D (cr, UNIV) = (?cr, UNIV)" "loop_run l c P (?cr, UNIV) = (cr, UNIV)"
    using D restored loop_run_changed [of c D cr l UNIV] loop_run_changed [of c P ?cr l UNIV] by auto
  then show ?thesis using ran [of D "(cr, UNIV)" l c] ran [of P "(?cr, UNIV)" l c] by (auto intro: loop.intros)
qed

section \<open>A change of the design\<close>

text \<open>An execution passes the step at which a state gets a property it did not have.\<close>

lemma loop_turn:
  "loop l c es s s' \<Longrightarrow> \<not> Q s \<Longrightarrow> Q s' \<Longrightarrow>
     \<exists>es1 e es2 m m'. es = es1 @ e # es2 \<and> loop l c es1 s m \<and> loop_step l c e m m' \<and> loop l c es2 m' s' \<and> \<not> Q m \<and> Q m'"
proof (induction rule: loop.induct)
  case (more_steps e s s1 es s'')
  show ?case
  proof (cases "Q s1")
    case True
    then show ?thesis using more_steps.hyps more_steps.prems
      by (intro exI [of _ "[]"] exI [of _ e] exI [of _ es] exI [of _ s] exI [of _ s1]) (simp del: split_paired_Ex)
  next
    case False
    then obtain es1 e' es2 m m' where "es = es1 @ e' # es2" "loop l c es1 s1 m" "loop_step l c e' m m'"
      "loop l c es2 m' s''" "\<not> Q m" "Q m'"
      using more_steps.IH more_steps.prems by blast
    moreover from this have "loop l c (e # es1) s m" using loop.more_steps [OF more_steps(1)] by blast
    ultimately show ?thesis by (metis append_Cons)
  qed
qed simp

lemma turned_unchanged:
  assumes h: "healthy c cs cr0 nd" and i: "identity (fst m) = identity cr0" and st: "loop_step l c e m m'"
    and no: "\<not> unchanged c nd (fst m)" and yes: "unchanged c nd (fst m')"
  shows "e = Ran N \<and> fst m' = run c N (fst m) \<and> \<not> isTrue (fst m') ConditionTypeNetworkDeviceReady"
  using st
proof cases
  case (ran w)
  have same: "nst_UsedReferences (net_Status (run c w cr)) = nst_UsedReferences (net_Status cr)"
    if "w \<noteq> N" "identity cr = identity cr0" for cr
  proof (cases w)
    case D
    then show ?thesis using run_D [OF h that(2)] by auto
  qed (use that run_P [OF h that(2)] in auto)
  have "identity (run c w (fst m)) = identity (fst m)" using identity_run [OF h i] i by simp
  then have N: "w = N" using no yes ran unchanged_cong [OF _ same [OF _ i]] by auto
  obtain changed cr2 where ch: "hasConfigChanged (clu_network c) (fst m) nd = (changed, cr2)" by fastforce
  have changed
    using no ch unchanged_same [of "clu_network c" "fst m" nd cr2] by (cases changed) (auto simp: unchanged_def)
  with ch obtain x ds where x: "cond_Type x = cnd_ConditionTypeReady cs" and run: "run c N (fst m) =
      SetOverallStatus cs (SetConditions cs [x] ((network_resetChildren cs True cr2)\<lparr>net_Status :=
         (net_Status (network_resetChildren cs True cr2))\<lparr>nst_DevicesDeployStatus := ds\<rparr>\<rparr>))"
    using run_N [OF h i ch] by auto
  have "\<not> isTrue (run c N (fst m)) ConditionTypeNetworkDeviceReady"
    using x healthyD(3) [OF h i] ready_type_other [OF h] unfolding run isTrue_def
    by (auto simp: overall_eq overallOf_type network_resetChildren_def)
  with N ran show ?thesis by simp
next
  case (woken w)
  with no yes show ?thesis by simp
qed

lemma turned_devices:
  assumes h: "healthy c cs cr0 nd" and i: "identity (fst m) = identity cr0" and st: "loop_step l c e m m'"
    and u: "unchanged c nd (fst m)"
    and no: "\<not> isTrue (fst m) ConditionTypeNetworkDeviceReady" and yes: "isTrue (fst m') ConditionTypeNetworkDeviceReady"
  shows "e = Ran D \<and> run c D (fst m) \<noteq> fst m"
  using st
proof cases
  case (ran w)
  have "w \<noteq> N"
    using ran no yes run_N_effect(3) [OF h i u] ready_type_other [OF h] by (auto simp: isTrue_def)
  moreover have "w \<noteq> P"
    using ran no yes run_P [OF h i] healthyD(3) [OF h i] by (auto simp: isTrue_def split: if_splits)
  ultimately have "w = D" by (cases w) auto
  with ran no yes show ?thesis by auto
next
  case (woken w)
  with no yes show ?thesis by simp
qed

lemma changing_run_applies:
  assumes h: "healthy c cs cr0 nd" and i: "identity cr = identity cr0" and ch: "run c D cr \<noteq> cr"
  shows "\<exists>devices. buildDevices (clu_device c) cr nd = Inr devices \<and>
    APIApply device_kinds devices None \<in> set (out_Actions (device_Reconcile (deviceSees c cr)))"
proof -
  obtain as where ap: "device_apply (clu_device c) cr nd = Inr (as, None)" using healthyD(19) [OF h i] by blast
  then obtain devices where b: "buildDevices (clu_device c) cr nd = Inr devices" "as = [APIApply device_kinds devices None]"
    by (auto simp: device_apply_def Let_def split: sum.splits failure.splits)
  have "\<not> (cond_Status (GetCondition cr ConditionTypeNetworkParamReady) = ConditionFalse \<or> isTrue cr ConditionTypeNetworkDeviceReady)"
    using ch run_D [OF h i] by auto
  then have "device_Reconcile (deviceSees c cr) = does [AddFinalizer device_finalizer None] (does as (device_report (deviceSees c cr) cr))"
    using healthyD [OF h i] ap by (simp add: device_Reconcile_def Let_def isTrue_def)
  with b show ?thesis by (intro exI [of _ devices]) simp
qed

lemma unchanged_loop:
  assumes h: "healthy c cs cr0 nd"
  shows "loop l c es s s' \<Longrightarrow> identity (fst s) = identity cr0 \<Longrightarrow> unchanged c nd (fst s) \<Longrightarrow> unchanged c nd (fst s')"
proof (induction rule: loop.induct)
  case (more_steps e s s' es s'')
  have "identity (fst s') = identity cr0" by (rule identity_step [OF identity_run [OF h] more_steps(1,4)])
  moreover from more_steps(1) have "unchanged c nd (fst s')"
  proof cases
    case (ran w)
    then show ?thesis
      using run_N_effect(2) [OF h more_steps(4)] run_P_effect(2) [OF h more_steps(4,5)] run_D_effect(2) [OF h more_steps(4,5)]
      by (cases w) simp_all
  qed (use more_steps(5) in simp)
  ultimately show ?case by (rule more_steps.IH)
qed

section \<open>Properties\<close>


text \<open>
  What has come to rest is ready. In a healthy cluster an execution starts with requests at every
  controller that has something to do; when nothing waits any more, the three conditions of the network are
  true, and the references it records are those of the current spec and design.
\<close>

theorem settled_network_is_ready:
  assumes h: "healthy c cs cr nd" and "at_rest c (cr, pending)" and l: "loop l c es (cr, pending) (cr', {})"
  shows "isTrue cr' (cnd_ConditionTypeReady cs) \<and> isTrue cr' ConditionTypeNetworkParamReady \<and>
    isTrue cr' ConditionTypeNetworkDeviceReady \<and> net_Spec cr' = net_Spec cr \<and> unchanged c nd cr'"
  using loop_is_ready [OF assms] by (simp add: stage_def identity_def)

text \<open>
  C13. A change of the design reaches the devices. The parameters and the devices of the network are ready, the
  design is not the one they were built from, and the event on the design wakes the network controller alone.
  When nothing waits any more, that controller has run, and after it the device controller, which built the
  devices from the new design and applied them.
\<close>

theorem design_change_redeploys:
  assumes h: "healthy c cs cr nd" and old: "\<not> unchanged c nd cr"
    and ready: "isTrue cr ConditionTypeNetworkParamReady" "isTrue cr ConditionTypeNetworkDeviceReady"
    and l: "loop l c es (cr, {N}) (cr', {})"
  shows "unchanged c nd cr' \<and> isTrue cr' (cnd_ConditionTypeReady cs) \<and>
    (\<exists>es1 es2 es3 m devices. es = es1 @ Ran N # es2 @ Ran D # es3 \<and> loop l c (es1 @ Ran N # es2) (cr, {N}) m \<and>
       buildDevices (clu_device c) (fst m) nd = Inr devices \<and>
       APIApply device_kinds devices None \<in> set (out_Actions (device_Reconcile (deviceSees c (fst m)))))"
proof -
  have "run c P cr = cr" "run c D cr = cr"
    using run_P [OF h refl] run_D [OF h refl] ready by auto
  then have "w \<noteq> N \<Longrightarrow> run c w cr = cr" for w by (cases w) simp_all
  then have rest: "at_rest c (cr, {N})" by (simp add: at_rest_def)
  note final = loop_is_ready [OF h rest l]
  have un: "unchanged c nd cr'" and dev: "isTrue cr' ConditionTypeNetworkDeviceReady"
    using final by (simp_all add: stage_def)
  obtain es1 e es2 m m' where e1: "es = es1 @ e # es2" "loop l c es1 (cr, {N}) m" "loop_step l c e m m'"
      "loop l c es2 m' (cr', {})" "\<not> unchanged c nd (fst m)" "unchanged c nd (fst m')"
    using loop_turn [OF l, of "\<lambda>s. unchanged c nd (fst s)"] old un by (auto simp del: split_paired_Ex)
  have im: "identity (fst m) = identity cr" using identity_loop [OF identity_run [OF h] e1(2)] by simp
  have im': "identity (fst m') = identity cr" by (rule identity_step [OF identity_run [OF h] e1(3) im])
  have N: "e = Ran N" "\<not> isTrue (fst m') ConditionTypeNetworkDeviceReady"
    using turned_unchanged [OF h im e1(3,5,6)] by auto
  obtain es3 e' es4 k k' where e2: "es2 = es3 @ e' # es4" "loop l c es3 m' k" "loop_step l c e' k k'"
      "\<not> isTrue (fst k) ConditionTypeNetworkDeviceReady" "isTrue (fst k') ConditionTypeNetworkDeviceReady"
    using loop_turn [OF e1(4), of "\<lambda>s. isTrue (fst s) ConditionTypeNetworkDeviceReady"] N(2) dev
    by (auto simp del: split_paired_Ex)
  have ik: "identity (fst k) = identity cr" using identity_loop [OF identity_run [OF h] e2(2) im'] .
  have uk: "unchanged c nd (fst k)" using unchanged_loop [OF h e2(2) im' e1(6)] .
  have D: "e' = Ran D" "run c D (fst k) \<noteq> fst k" using turned_devices [OF h ik e2(3) uk e2(4,5)] by auto
  obtain devices where "buildDevices (clu_device c) (fst k) nd = Inr devices"
      "APIApply device_kinds devices None \<in> set (out_Actions (device_Reconcile (deviceSees c (fst k))))"
    using changing_run_applies [OF h ik D(2)] by blast
  moreover have "loop l c (es1 @ Ran N # es3) (cr, {N}) k"
    using loop_append [OF e1(2) loop.more_steps [OF e1(3) e2(2)]] N(1) by simp
  moreover have "es = es1 @ Ran N # es3 @ Ran D # es4" using e1(1) e2(1) N(1) D(1) by simp
  ultimately show ?thesis using final by (auto simp: stage_def simp del: split_paired_Ex)
qed

text \<open>
  C14. A network whose devices are refused never comes to rest. The device controller marks its failure on the
  condition of the parameters, which the parameters controller then makes ready again, and each of the two
  changes wakes the other at once: the retry after two seconds is never what drives the loop.
\<close>

theorem refused_devices_spin:
  assumes r: "refusesDevices c cs cr nd e" and no: "\<not> isTrue cr ConditionTypeNetworkDeviceReady"
  shows "(\<forall>es s' pending. loop l c es (cr, pending) s' \<and> at_rest c (cr, pending) \<longrightarrow> snd s' \<noteq> {}) \<and>
    (GetCondition cr ConditionTypeNetworkParamReady = NetworkParamReady \<longrightarrow>
       loop l c (concat (replicate n [Ran D, Ran P])) (cr, UNIV) (cr, UNIV))"
proof (intro conjI allI impI)
  fix es s' pending
  assume "loop l c es (cr, pending) s' \<and> at_rest c (cr, pending)"
  then have l: "loop l c es (cr, pending) s'" and rest: "at_rest c (cr, pending)" by simp_all
  have "at_rest c s'" by (rule at_rest_loop [OF l rest])
  moreover have "identity (fst s') = identity cr \<and> \<not> isTrue (fst s') ConditionTypeNetworkDeviceReady"
    using refused_loop [OF r l] no by simp
  ultimately show "snd s' \<noteq> {}" using refused_never_rests [OF r, of "fst s'"] by (metis prod.collapse)
next
  assume "GetCondition cr ConditionTypeNetworkParamReady = NetworkParamReady"
  then have spin: "loop l c [Ran D, Ran P] (cr, UNIV) (cr, UNIV)" by (rule refused_spin [OF r refl _ no])
  show "loop l c (concat (replicate n [Ran D, Ran P])) (cr, UNIV) (cr, UNIV)"
    by (induction n) (use loop_append [OF spin] in simp_all)
qed

end
