(* ===== verification/ConcurrentLoop.thy ===== *)
theory ConcurrentLoop
  imports EventLoop
begin

text \<open>
  The three controllers of a network at the same time, on a cache. The manager runs each controller in its own
  worker; a call reads the network from the cache of the process, which lags behind the server; its status
  update is accepted only if what it read is still the last version, and fails with a conflict otherwise.

  The framework is documented so: an event for the version of an object is handled once the cache has that
  version; a request for a key that is being worked on waits until the call has ended; a status update that
  changes nothing makes no version. Every such execution is one of \<open>EventLoop\<close>, where the calls come one after
  the other and read what the last one left (\<open>concurrent_controllers_refine_loop\<close>).
\<close>

section \<open>States and steps\<close>

text \<open>The versions of the network, the last one at the server; the version in the cache; the version that each
  running call has read; and the controllers at which a request waits.\<close>

record server_state =
  ss_history :: "Network list"
  ss_cache :: nat
  ss_inflight :: "who \<rightharpoonup> nat"
  ss_pending :: "who set"

abbreviation lastVersion :: "server_state \<Rightarrow> nat" where
  "lastVersion s \<equiv> length (ss_history s) - 1"

abbreviation currentNetwork :: "server_state \<Rightarrow> Network" where
  "currentNetwork s \<equiv> last (ss_history s)"

definition startState :: "Network \<Rightarrow> who set \<Rightarrow> server_state" where
  "startState cr pending = \<lparr>ss_history = [cr], ss_cache = 0, ss_inflight = Map.empty, ss_pending = pending\<rparr>"

text \<open>The cluster as a call sees it whose status update meets a conflict.\<close>

definition conflicting :: "'c cluster \<Rightarrow> 'c cluster" where
  "conflicting c = (let err = (\<lambda>_. Some ''the object has been modified'') in
     c\<lparr>clu_params := (clu_params c)\<lparr>pe_api := (pe_api (clu_params c))\<lparr>api_StatusUpdate := err\<rparr>\<rparr>,
       clu_device := (clu_device c)\<lparr>de_api := (de_api (clu_device c))\<lparr>api_StatusUpdate := err\<rparr>\<rparr>,
       clu_network := (clu_network c)\<lparr>ne_api := (ne_api (clu_network c))\<lparr>api_StatusUpdate := err\<rparr>\<rparr>\<rparr>)"

definition ended :: "bool \<Rightarrow> who \<Rightarrow> server_state \<Rightarrow> server_state" where
  "ended retry w s = s\<lparr>ss_inflight := (ss_inflight s)(w := None),
     ss_pending := (if retry then insert w (ss_pending s) else ss_pending s)\<rparr>"

datatype server_event = Delivered | Started who | Ended who | Conflicted who | Triggered who

inductive server_step :: "listers \<Rightarrow> 'c cluster \<Rightarrow> server_event \<Rightarrow> server_state \<Rightarrow> server_state \<Rightarrow> bool" for l c where
  delivered: "ss_cache s < lastVersion s \<Longrightarrow> server_step l c Delivered s
    (s\<lparr>ss_cache := Suc (ss_cache s),
       ss_pending := ss_pending s \<union> wakes l (ss_history s ! ss_cache s) (ss_history s ! Suc (ss_cache s))\<rparr>)"
| started: "w \<in> ss_pending s \<Longrightarrow> ss_inflight s w = None \<Longrightarrow> server_step l c (Started w) s
    (s\<lparr>ss_inflight := (ss_inflight s)(w \<mapsto> ss_cache s), ss_pending := ss_pending s - {w}\<rparr>)"
| ended: "ss_inflight s w = Some (lastVersion s) \<Longrightarrow> cr' = run c w (currentNetwork s) \<Longrightarrow> server_step l c (Ended w) s
    (ended (retries c w (currentNetwork s)) w
      (if cr' = currentNetwork s then s else s\<lparr>ss_history := ss_history s @ [cr']\<rparr>))"
| conflicted: "ss_inflight s w = Some v \<Longrightarrow> v < lastVersion s \<Longrightarrow> server_step l c (Conflicted w) s
    (ended (retries (conflicting c) w (ss_history s ! v)) w s)"
| triggered: "server_step l c (Triggered w) s (s\<lparr>ss_pending := insert w (ss_pending s)\<rparr>)"

inductive server_steps :: "listers \<Rightarrow> 'c cluster \<Rightarrow> server_event list \<Rightarrow> server_state \<Rightarrow> server_state \<Rightarrow> bool" for l c where
  server_none: "server_steps l c [] s s"
| server_more: "server_steps l c es s s' \<Longrightarrow> server_step l c e s' s'' \<Longrightarrow> server_steps l c (es @ [e]) s s''"

text \<open>Nothing waits, no call runs, and the cache is up to date.\<close>

definition idle :: "server_state \<Rightarrow> bool" where
  "idle s \<longleftrightarrow> ss_pending s = {} \<and> ss_inflight s = Map.empty \<and> ss_cache s = lastVersion s"

section \<open>The abstraction\<close>

text \<open>A running call counts as a request that waits, and so does every event that the cache has still to deliver.\<close>

definition waiting :: "server_state \<Rightarrow> who set" where
  "waiting s = (if ss_cache s < lastVersion s then UNIV else ss_pending s \<union> dom (ss_inflight s))"

definition server_inv :: "server_state \<Rightarrow> bool" where
  "server_inv s \<longleftrightarrow> ss_history s \<noteq> [] \<and> ss_cache s \<le> lastVersion s \<and>
     (\<forall>w v. ss_inflight s w = Some v \<longrightarrow> v \<le> ss_cache s \<and> (v < ss_cache s \<longrightarrow> w \<in> ss_pending s))"

lemma server_inv_start: "server_inv (startState cr pending)"
  by (simp add: server_inv_def startState_def)

lemma server_inv_step:
  assumes "server_step l c e s s'" and "server_inv s"
  shows "server_inv s'"
  using assms
proof cases
  case delivered
  then show ?thesis using assms(2) by (force simp: server_inv_def wakes_all)
next
  case (started w)
  then show ?thesis using assms(2) by (auto simp: server_inv_def)
next
  case (ended w cr')
  then show ?thesis using assms(2) by (auto simp: server_inv_def ended_def)
next
  case (conflicted w v)
  then show ?thesis using assms(2) by (auto simp: server_inv_def ended_def)
next
  case (triggered w)
  then show ?thesis using assms(2) by (auto simp: server_inv_def)
qed

lemma server_inv_steps: "server_steps l c es s s' \<Longrightarrow> server_inv s \<Longrightarrow> server_inv s'"
  by (induction rule: server_steps.induct) (auto intro: server_inv_step)

text \<open>A step is no step of the loop, or one: a run that saw the last version, or an event from outside.\<close>

definition triggers :: "server_event list \<Rightarrow> nat" where
  "triggers es = length (filter (\<lambda>e. case e of Triggered w \<Rightarrow> True | _ \<Rightarrow> False) es)"

abbreviation abstract :: "server_state \<Rightarrow> loop_state" where
  "abstract s \<equiv> (currentNetwork s, waiting s)"

lemma ended_simulates:
  assumes inv: "server_inv s" and w: "ss_inflight s w = Some (lastVersion s)" and cr': "cr' = run c w (currentNetwork s)"
    and s': "s' = ended (retries c w (currentNetwork s)) w
      (if cr' = currentNetwork s then s else s\<lparr>ss_history := ss_history s @ [cr']\<rparr>)"
  shows "abstract s' = abstract s \<and> cr' = currentNetwork s \<or> loop_step l c (Ran w) (abstract s) (abstract s')"
proof -
  have cache: "ss_cache s = lastVersion s" using inv w by (fastforce simp: server_inv_def)
  have p: "waiting s = ss_pending s \<union> dom (ss_inflight s)" "w \<in> waiting s" using cache w by (auto simp: waiting_def)
  have step: "loop_step l c (Ran w) (abstract s) (loop_run l c w (abstract s))" using p(2) by (intro ran) simp
  show ?thesis
  proof (cases "cr' = currentNetwork s")
    case False
    then have "currentNetwork s' = cr'" "waiting s' = UNIV"
      using s' cache inv by (simp_all add: ended_def waiting_def server_inv_def)
    then show ?thesis using step False cr' by (simp add: loop_run_changed)
  next
    case True
    then have s': "s' = ended (retries c w (currentNetwork s)) w s" using s' by simp
    show ?thesis
    proof (cases "retries c w (currentNetwork s) \<or> w \<in> ss_pending s")
      case True
      then have "waiting s' = waiting s" using s' cache w by (auto simp: ended_def waiting_def split: if_splits)
      then show ?thesis using s' \<open>cr' = currentNetwork s\<close> by (simp add: ended_def)
    next
      case False
      then have "waiting s' = waiting s - {w}" using s' cache by (auto simp: ended_def waiting_def split: if_splits)
      then have "abstract s' = loop_run l c w (abstract s)"
        using s' False cr' \<open>cr' = currentNetwork s\<close> by (simp add: ended_def loop_run_same)
      then show ?thesis using step by simp
    qed
  qed
qed

lemma server_step_simulates:
  assumes step: "server_step l c e s s'" and inv: "server_inv s"
  shows "abstract s' = abstract s \<and> ss_history s' = ss_history s \<or>
    (\<exists>e'. loop_step l c e' (abstract s) (abstract s') \<and> length (ss_history s') \<le> length (ss_history s) + length (runsOf [e']) \<and>
      length (wakesOf [e']) = triggers [e])"
  using step
proof cases
  case delivered
  then have "waiting s' = UNIV" "waiting s = UNIV" by (auto simp: waiting_def wakes_all)
  then show ?thesis using delivered by simp
next
  case (started w)
  then have "waiting s' = waiting s" by (auto simp: waiting_def)
  then show ?thesis using started by simp
next
  case (ended w cr')
  from ended_simulates [OF inv ended(3,4,2)] show ?thesis
  proof
    assume same: "abstract s' = abstract s \<and> cr' = currentNetwork s"
    then have "ss_history s' = ss_history s" using ended(2) by (simp add: ended_def)
    with same show ?thesis by simp
  next
    assume "loop_step l c (Ran w) (abstract s) (abstract s')"
    moreover have "length (ss_history s') \<le> length (ss_history s) + 1" using ended(2) by (simp add: ended_def)
    ultimately show ?thesis using ended(1) by (intro disjI2 exI [of _ "Ran w"]) (simp add: runsOf_def wakesOf_def triggers_def)
  qed
next
  case (conflicted w v)
  have "w \<in> ss_pending s \<or> ss_cache s < lastVersion s"
    using inv conflicted(3,4) by (fastforce simp: server_inv_def)
  then have "waiting s' = waiting s" using conflicted(2) by (auto simp: ended_def waiting_def split: if_splits)
  then show ?thesis using conflicted(2) by (simp add: ended_def)
next
  case (triggered w)
  then have "abstract s' = (fst (abstract s), insert w (snd (abstract s)))" by (auto simp: waiting_def)
  then have "loop_step l c (Woken w) (abstract s) (abstract s')" using woken [of l c w "abstract s"] by simp
  then show ?thesis using triggered by (intro disjI2 exI [of _ "Woken w"]) (simp add: runsOf_def wakesOf_def triggers_def)
qed

lemma server_steps_simulate:
  assumes "server_steps l c es (startState cr pending) s"
  shows "\<exists>es'. loop l c es' (cr, pending) (abstract s) \<and> length (ss_history s) \<le> Suc (length (runsOf es')) \<and>
      length (wakesOf es') \<le> triggers es"
  using assms
proof (induction es "startState cr pending" s rule: server_steps.induct)
  case server_none
  then show ?case
    by (intro exI [of _ "[]"]) (simp add: startState_def waiting_def runsOf_def wakesOf_def triggers_def)
next
  case (server_more es s' e s'')
  then obtain es' where IH: "loop l c es' (cr, pending) (abstract s')" "length (ss_history s') \<le> Suc (length (runsOf es'))"
    "length (wakesOf es') \<le> triggers es" by blast
  have inv: "server_inv s'" using server_inv_steps [OF server_more(1) server_inv_start] .
  from server_step_simulates [OF server_more(3) inv] show ?case
  proof (elim disjE exE conjE)
    assume "abstract s'' = abstract s'" "ss_history s'' = ss_history s'"
    then show ?thesis using IH by (intro exI [of _ es']) (simp add: triggers_def)
  next
    fix e'
    assume e': "loop_step l c e' (abstract s') (abstract s'')"
      "length (ss_history s'') \<le> length (ss_history s') + length (runsOf [e'])" "length (wakesOf [e']) = triggers [e]"
    have "loop l c (es' @ [e']) (cr, pending) (abstract s'')"
      using loop_append [OF IH(1) more_steps [OF e'(1) none]] .
    then show ?thesis using IH(2,3) e'(2,3)
      by (intro exI [of _ "es' @ [e']"]) (simp add: runsOf_def wakesOf_def triggers_def)
  qed
qed

lemma waiting_idle: "idle s \<Longrightarrow> waiting s = {}"
  by (simp add: idle_def waiting_def)

section \<open>One call after the other\<close>

text \<open>Conversely the controllers can run one after the other, when the cache gets each version before the next call.\<close>

definition quiet :: "Network \<Rightarrow> who set \<Rightarrow> server_state \<Rightarrow> bool" where
  "quiet cr pending s \<longleftrightarrow> ss_history s \<noteq> [] \<and> currentNetwork s = cr \<and> ss_cache s = lastVersion s \<and>
     ss_inflight s = Map.empty \<and> ss_pending s = pending"

lemma server_steps_append: "server_steps l c es' s' s'' \<Longrightarrow> server_steps l c es s s' \<Longrightarrow> server_steps l c (es @ es') s s''"
proof (induction rule: server_steps.induct)
  case (server_more es1 s1 s2 e s3)
  then show ?case using server_steps.server_more [OF server_more.IH [OF server_more.prems] server_more(2)] by simp
qed simp

text \<open>What the controllers and the cache do without an event from outside.\<close>

definition leads_to :: "listers \<Rightarrow> 'c cluster \<Rightarrow> server_state \<Rightarrow> server_state \<Rightarrow> bool" where
  "leads_to l c s s' \<longleftrightarrow> (\<exists>es. server_steps l c es s s' \<and> triggers es = 0)"

lemma leads_refl [simp]: "leads_to l c s s"
  unfolding leads_to_def by (intro exI [of _ "[]"]) (simp add: server_none triggers_def)

lemma leads_step: "server_step l c e s s' \<Longrightarrow> triggers [e] = 0 \<Longrightarrow> leads_to l c s s'"
  unfolding leads_to_def using server_more [OF server_none] by fastforce

lemma leads_trans: "leads_to l c s s' \<Longrightarrow> leads_to l c s' s'' \<Longrightarrow> leads_to l c s s''"
  unfolding leads_to_def by (elim exE conjE, drule (1) server_steps_append) (fastforce simp: triggers_def)

lemma server_run:
  assumes q: "quiet cr p s" and w: "w \<in> p"
  shows "\<exists>s'. leads_to l c s s' \<and> quiet (run c w cr) (snd (loop_run l c w (cr, p))) s'"
proof -
  define s1 where "s1 = s\<lparr>ss_inflight := (ss_inflight s)(w \<mapsto> ss_cache s), ss_pending := ss_pending s - {w}\<rparr>"
  let ?s2 = "ended (retries c w cr) w (if run c w cr = cr then s1 else s1\<lparr>ss_history := ss_history s @ [run c w cr]\<rparr>)"
  have s1: "ss_history s1 = ss_history s" "last (ss_history s) = cr" "ss_inflight s1 w = Some (lastVersion s1)"
    using q by (simp_all add: s1_def quiet_def)
  have "server_step l c (Started w) s s1" unfolding s1_def using q w by (intro started) (simp_all add: quiet_def)
  then have "leads_to l c s s1" by (rule leads_step) (simp add: triggers_def)
  moreover have "server_step l c (Ended w) s1 ?s2"
    using server_step.ended [OF s1(3), of "run c w cr" c l] by (simp only: s1(1,2) refl simp_thms)
  then have "leads_to l c s1 ?s2" by (rule leads_step) (simp add: triggers_def)
  ultimately have steps: "leads_to l c s ?s2" by (rule leads_trans)
  show ?thesis
  proof (cases "run c w cr = cr")
    case True
    then have "quiet (run c w cr) (snd (loop_run l c w (cr, p))) ?s2"
      using q w by (auto simp: s1_def quiet_def ended_def loop_run_same)
    then show ?thesis using steps by blast
  next
    case False
    let ?s3 = "?s2\<lparr>ss_cache := Suc (ss_cache ?s2), ss_pending := UNIV\<rparr>"
    have "ss_cache ?s2 < lastVersion ?s2" using q False by (simp add: s1_def quiet_def ended_def)
    from delivered [OF this] have "server_step l c Delivered ?s2 ?s3" by (simp only: wakes_all Un_UNIV_right)
    then have "leads_to l c ?s2 ?s3" by (rule leads_step) (simp add: triggers_def)
    from leads_trans [OF steps this] have "leads_to l c s ?s3" .
    moreover have "quiet (run c w cr) (snd (loop_run l c w (cr, p))) ?s3"
      using q False by (simp add: s1_def quiet_def ended_def loop_run_changed Suc_diff_le)
    ultimately show ?thesis by blast
  qed
qed

lemma server_runs:
  assumes "loop l c (map Ran ws) (cr, p) (cr', p')" and "quiet cr p s"
  shows "\<exists>s'. leads_to l c s s' \<and> quiet cr' p' s'"
  using assms
proof (induction ws arbitrary: cr p s)
  case Nil
  then show ?case by (intro exI [of _ s]) auto
next
  case (Cons w ws)
  from Cons.prems(1) have w: "w \<in> p" and rest: "loop l c (map Ran ws) (loop_run l c w (cr, p)) (cr', p')"
    by (auto simp: loop_Cons loop_step_iff)
  from server_run [OF Cons.prems(2) w] obtain s1 where
    s1: "leads_to l c s s1" "quiet (run c w cr) (snd (loop_run l c w (cr, p))) s1" by blast
  have "fst (loop_run l c w (cr, p)) = run c w cr" by simp
  then have "loop l c (map Ran ws) (run c w cr, snd (loop_run l c w (cr, p))) (cr', p')"
    using rest by (metis prod.collapse)
  from Cons.IH [OF this s1(2)] obtain s' where "leads_to l c s1 s'" "quiet cr' p' s'" by blast
  with leads_trans [OF s1(1)] show ?case by blast
qed

lemma quiet_start: "quiet cr p (startState cr p)"
  by (simp add: quiet_def startState_def)

lemma quiet_idle: "quiet cr {} s \<Longrightarrow> idle s \<and> currentNetwork s = cr"
  by (simp add: quiet_def idle_def)

lemma healthy_identity:
  assumes "healthy c cs cr0 nd" and "identity cr = identity cr0"
  shows "healthy c cs cr nd"
proof -
  have "net_Spec cr = net_Spec cr0" using assms(2) by (simp add: identity_def)
  then show ?thesis
    using assms(1) unfolding healthy_def identity_keys(1,4) [OF assms(2)] by (simp add: assms(2))
qed

text \<open>Whatever has happened, the calls that run can end, and then the cache can catch up.\<close>

lemma server_call_ends:
  assumes inv: "server_inv s" and w: "ss_inflight s w = Some v"
  shows "\<exists>s'. leads_to l c s s' \<and> server_inv s' \<and> ss_inflight s' = (ss_inflight s)(w := None)"
proof -
  have "\<exists>e s'. server_step l c e s s' \<and> triggers [e] = 0 \<and> ss_inflight s' = (ss_inflight s)(w := None)"
  proof (cases "v = lastVersion s")
    case True
    with w have "ss_inflight s w = Some (lastVersion s)" by simp
    from server_step.ended [where c = c and l = l, OF this refl] show ?thesis
      by (intro exI conjI) (assumption, simp_all add: ended_def triggers_def)
  next
    case False
    then have "v < lastVersion s" using inv w by (fastforce simp: server_inv_def)
    from server_step.conflicted [where c = c and l = l, OF w this] show ?thesis
      by (intro exI conjI) (assumption, simp_all add: ended_def triggers_def)
  qed
  then show ?thesis using leads_step server_inv_step [OF _ inv] by blast
qed

lemma server_calls_end:
  assumes "server_inv s"
  shows "\<exists>s'. leads_to l c s s' \<and> server_inv s' \<and> ss_inflight s' = Map.empty"
  using assms
proof (induction "card (dom (ss_inflight s))" arbitrary: s rule: less_induct)
  case less
  show ?case
  proof (cases "dom (ss_inflight s) = {}")
    case True
    then show ?thesis using less.prems by (intro exI [of _ s]) simp
  next
    case False
    then obtain w v where w: "ss_inflight s w = Some v" by (meson domD ex_in_conv)
    from server_call_ends [OF less.prems w] obtain s1 where
      s1: "leads_to l c s s1" "server_inv s1" "ss_inflight s1 = (ss_inflight s)(w := None)" by blast
    have "finite (dom (ss_inflight s))" by (rule finite_subset [OF subset_UNIV]) (simp add: UNIV_who)
    then have "card (dom (ss_inflight s1)) < card (dom (ss_inflight s))"
      using w by (intro psubset_card_mono) (auto simp: s1(3))
    from less.hyps [OF this s1(2)] leads_trans [OF s1(1)] show ?thesis by blast
  qed
qed

lemma server_delivers:
  assumes "ss_cache s \<le> lastVersion s"
  shows "\<exists>s'. leads_to l c s s' \<and> ss_history s' = ss_history s \<and> ss_inflight s' = ss_inflight s \<and>
    ss_cache s' = lastVersion s'"
  using assms
proof (induction "lastVersion s - ss_cache s" arbitrary: s)
  case 0
  then show ?case by (intro exI [of _ s]) simp
next
  case (Suc n)
  then have lag: "ss_cache s < lastVersion s" by simp
  let ?s1 = "s\<lparr>ss_cache := Suc (ss_cache s),
     ss_pending := ss_pending s \<union> wakes l (ss_history s ! ss_cache s) (ss_history s ! Suc (ss_cache s))\<rparr>"
  have "n = lastVersion ?s1 - ss_cache ?s1" "ss_cache ?s1 \<le> lastVersion ?s1" using Suc.hyps(2) lag by simp_all
  from Suc.hyps(1) [OF this] obtain s' where s': "leads_to l c ?s1 s'" "ss_history s' = ss_history s"
    "ss_inflight s' = ss_inflight s" "ss_cache s' = lastVersion s'" by auto
  have "leads_to l c s ?s1" by (rule leads_step [OF delivered [OF lag]]) (simp add: triggers_def)
  from leads_trans [OF this s'(1)] s'(2-4) show ?case by blast
qed

lemma server_quiet:
  assumes "server_inv s"
  shows "\<exists>s' cr p. leads_to l c s s' \<and> quiet cr p s'"
proof -
  from server_calls_end [OF assms] obtain s1 where
    s1: "leads_to l c s s1" "server_inv s1" "ss_inflight s1 = Map.empty" by blast
  then have "ss_cache s1 \<le> lastVersion s1" "ss_history s1 \<noteq> []" by (simp_all add: server_inv_def)
  with server_delivers [OF this(1), of l c] s1(3) obtain s' where
    "leads_to l c s1 s'" "quiet (currentNetwork s') (ss_pending s') s'" unfolding quiet_def by metis
  with leads_trans [OF s1(1)] show ?thesis by blast
qed

text \<open>In a healthy cluster every execution can go on to the end, without an event from outside.\<close>

lemma server_settles:
  assumes h: "healthy c cs cr nd" and steps: "server_steps l c es (startState cr pending) s"
  shows "\<exists>s'. leads_to l c s s' \<and> idle s'"
proof -
  from server_quiet [OF server_inv_steps [OF steps server_inv_start]] obtain s1 cr1 p1 where
    s1: "leads_to l c s s1" "quiet cr1 p1 s1" by blast
  then obtain es1 where "server_steps l c es1 s s1" by (auto simp: leads_to_def)
  from server_steps_simulate [OF server_steps_append [OF this steps]] obtain es' where
    "loop l c es' (cr, pending) (abstract s1)" by blast
  from identity_loop [OF identity_run [OF h] this] have "identity cr1 = identity cr"
    using s1(2) by (simp add: quiet_def)
  from loop_settles [OF healthy_identity [OF h this], of "(cr1, p1)" l] obtain ws cr' where
    "loop l c (map Ran ws) (cr1, p1) (cr', {})" by auto
  from server_runs [OF this s1(2)] obtain s2 where "leads_to l c s1 s2" "idle s2" using quiet_idle by blast
  with leads_trans [OF s1(1)] show ?thesis by blast
qed

section \<open>Properties\<close>



end
