(* ===== verification/References.thy ===== *)
theory References
  imports BuildResults
begin

text \<open>
  The names in a device configuration resolve: the sub interfaces that network instances, IGP interfaces, BFD
  and dynamic neighbors name exist, and a network instance has a type. \<open>device_refs S T V\<close> says that every name
  is in a given set; each operation keeps it when its own names are in the sets. Every function of the builder is
  then an \<open>extends\<close>: it takes away no name and keeps the names resolved, where the order of its operations counts.
\<close>

section \<open>The names of a device\<close>

definition itfceNames :: "NetworkDeviceInterface \<Rightarrow> NetworkDeviceNetworkInstanceInterface set" where
  "itfceNames x = (\<lambda>i. \<lparr>nii_Name = if_Name x, nii_ID = i\<rparr>) ` si_ID ` set (if_SubInterfaces x)"

definition tunnelNames :: "NetworkDeviceTunnelInterface \<Rightarrow> NetworkDeviceNetworkInstanceInterface set" where
  "tunnelNames x = (\<lambda>i. \<lparr>nii_Name = tun_Name x, nii_ID = i\<rparr>) ` tsi_ID ` set (tun_SubInterfaces x)"

definition subsOf :: "NetworkDevice \<Rightarrow> NetworkDeviceNetworkInstanceInterface set" where
  "subsOf d = \<Union> (itfceNames ` set (spec_Interfaces (dev_Spec d)))"

definition tunnelsOf :: "NetworkDevice \<Rightarrow> NetworkDeviceNetworkInstanceInterface set" where
  "tunnelsOf d = \<Union> (tunnelNames ` set (spec_TunnelInterfaces (dev_Spec d)))"

definition instanceTypes :: "string set" where
  "instanceTypes = {NetworkInstanceType_DEFAULT, NetworkInstanceType_MACVRF, NetworkInstanceType_IPVRF}"

definition typedOf :: "NetworkDevice \<Rightarrow> string set" where
  "typedOf d = ni_Name ` {ni \<in> set (spec_NetworkInstances (dev_Spec d)). ni_Type ni \<in> instanceTypes}"

text \<open>A write keeps or adds to what an element contributes to a union.\<close>

context keyed_slice
begin

lemma getOrCreate_elem:
  assumes "x \<in> set xs"
  shows "x \<in> set (getOrCreate key srt mk k f xs) \<or> key x = k \<and> f x \<in> set (getOrCreate key srt mk k f xs)"
proof -
  have upd: "y \<in> set ys \<Longrightarrow> y \<in> set (updFirst P f ys) \<or> P y \<and> f y \<in> set (updFirst P f ys)" for y ys P
    by (induction ys) auto
  have "x \<in> set (if find (\<lambda>x. key x = k) xs = None then sort_key srt (xs @ [mk k]) else xs)"
    using assms by auto
  from upd [OF this, of "\<lambda>x. key x = k"] show ?thesis unfolding getOrCreate_def .
qed

lemma getOrCreate_origin:
  assumes "x \<in> set (getOrCreate key srt mk k f xs)"
  shows "x \<in> set xs \<or> x = mk k \<or> (\<exists>y \<in> insert (mk k) (set xs). key y = k \<and> x = f y)"
proof -
  let ?ys = "if find (\<lambda>x. key x = k) xs = None then sort_key srt (xs @ [mk k]) else xs"
  have "set ?ys \<subseteq> insert (mk k) (set xs)" by auto
  moreover have "x \<in> set ?ys \<union> f ` {y \<in> set ?ys. key y = k}"
    using assms set_updFirst unfolding getOrCreate_def by fast
  ultimately show ?thesis by blast
qed

lemma getOrCreate_written: "\<exists>y \<in> insert (mk k) (set xs). key y = k \<and> f y \<in> set (getOrCreate key srt mk k f xs)"
proof -
  have upd: "(\<exists>y \<in> set ys. key y = k) \<Longrightarrow> \<exists>y \<in> set ys. key y = k \<and> f y \<in> set (updFirst (\<lambda>x. key x = k) f ys)" for ys
    by (induction ys) auto
  let ?ys = "if find (\<lambda>x. key x = k) xs = None then sort_key srt (xs @ [mk k]) else xs"
  have "\<exists>y \<in> set ?ys. key y = k" by (auto simp: find_None_iff' key_mk)
  from upd [OF this] obtain y where y: "y \<in> set ?ys" "key y = k" "f y \<in> set (getOrCreate key srt mk k f xs)"
    by (auto simp: getOrCreate_def)
  moreover have "y \<in> insert (mk k) (set xs)" using y(1) by (auto split: if_splits)
  ultimately show ?thesis by blast
qed

lemma Union_getOrCreate:
  assumes f: "\<And>x. key x = k \<Longrightarrow> g (f x) = g x \<union> A" and mk: "g (mk k) = {}"
  shows "\<Union> (g ` set (getOrCreate key srt mk k f xs)) = \<Union> (g ` set xs) \<union> A"
proof
  have "g x \<subseteq> \<Union> (g ` set xs) \<union> A" if "x \<in> set (getOrCreate key srt mk k f xs)" for x
    using getOrCreate_origin [OF that] f mk by auto
  then show "\<Union> (g ` set (getOrCreate key srt mk k f xs)) \<subseteq> \<Union> (g ` set xs) \<union> A" by blast
  have "g x \<subseteq> \<Union> (g ` set (getOrCreate key srt mk k f xs))" if "x \<in> set xs" for x
    using getOrCreate_elem [OF that, of k f] f [of x] by auto
  moreover obtain y where "key y = k" "f y \<in> set (getOrCreate key srt mk k f xs)"
    using getOrCreate_written [of k xs f] by blast
  then have "A \<subseteq> \<Union> (g ` set (getOrCreate key srt mk k f xs))" using f [of y] by blast
  ultimately show "\<Union> (g ` set xs) \<union> A \<subseteq> \<Union> (g ` set (getOrCreate key srt mk k f xs))" by blast
qed

end

lemma image_getOrCreate_si [simp]:
  assumes "\<And>x. si_ID (f x) = si_ID x"
  shows "si_ID ` set (getOrCreate si_ID si_ID fresh_SubInterface i f xs) = insert i (si_ID ` set xs)"
  by (rule subifs.keys_getOrCreate [OF assms])

lemma image_getOrCreate_tsi [simp]:
  assumes "\<And>x. tsi_ID (f x) = tsi_ID x"
  shows "tsi_ID ` set (getOrCreate tsi_ID tsi_ID fresh_TunnelSubInterface i f xs) = insert i (tsi_ID ` set xs)"
  by (rule tsubifs.keys_getOrCreate [OF assms])

lemma itfceNames_fresh [simp]: "itfceNames (fresh_Interface n) = {}" "tunnelNames (fresh_TunnelInterface n) = {}"
  by (simp_all add: itfceNames_def fresh_Interface_def tunnelNames_def fresh_TunnelInterface_def)

text \<open>Interfaces.\<close>

lemma subsOf_GetOrCreateInterface:
  assumes "\<And>x. if_Name x = k \<Longrightarrow> itfceNames (w x) = itfceNames x \<union> A"
  shows "subsOf (GetOrCreateInterface k w d) = subsOf d \<union> A"
  using assms by (simp add: subsOf_def GetOrCreateInterface_def ifs.Union_getOrCreate)

lemma tunnelsOf_GetOrCreateTunnelInterface:
  assumes "\<And>x. tun_Name x = k \<Longrightarrow> tunnelNames (w x) = tunnelNames x \<union> A"
  shows "tunnelsOf (GetOrCreateTunnelInterface k w d) = tunnelsOf d \<union> A"
  using assms by (simp add: tunnelsOf_def GetOrCreateTunnelInterface_def tuns.Union_getOrCreate)

lemma typedOf_GetOrCreateNetworkInstance:
  assumes "\<And>x. ni_Name x = k \<Longrightarrow> ni_Name (w x) = k \<and> ni_Type (w x) = ni_Type x"
  shows "typedOf (GetOrCreateNetworkInstance k w d) = typedOf d"
proof -
  let ?g = "\<lambda>ni. if ni_Type ni \<in> instanceTypes then {ni_Name ni} else {}"
  have t: "typedOf d = \<Union> (?g ` set (spec_NetworkInstances (dev_Spec d)))" for d by (auto simp: typedOf_def)
  let ?xs = "spec_NetworkInstances (dev_Spec d)"
  have fresh: "?g (fresh_NetworkInstance k) = {}"
    by (simp add: fresh_NetworkInstance_def instanceTypes_def NetworkInstanceType_DEFAULT_def
        NetworkInstanceType_MACVRF_def NetworkInstanceType_IPVRF_def)
  have "?g (w x) = ?g x \<union> {}" if "ni_Name x = k" for x using that assms by auto
  from nis.Union_getOrCreate [of k ?g w "{}" ?xs, OF this fresh]
  show ?thesis unfolding t GetOrCreateNetworkInstance_def by simp
qed

lemma typedOf_typed:
  assumes "ty \<in> instanceTypes"
  shows "typedOf (GetOrCreateNetworkInstance k (\<lambda>ni. ni\<lparr>ni_Type := ty\<rparr>) d) = insert k (typedOf d)"
proof -
  let ?g = "\<lambda>ni. if ni_Type ni \<in> instanceTypes then {ni_Name ni} else {}"
  let ?w = "\<lambda>ni :: NetworkDeviceNetworkInstance. ni\<lparr>ni_Type := ty\<rparr>"
  let ?xs = "spec_NetworkInstances (dev_Spec d)"
  have t: "typedOf d = \<Union> (?g ` set (spec_NetworkInstances (dev_Spec d)))" for d by (auto simp: typedOf_def)
  have fresh: "?g (fresh_NetworkInstance k) = {}"
    by (simp add: fresh_NetworkInstance_def instanceTypes_def NetworkInstanceType_DEFAULT_def
        NetworkInstanceType_MACVRF_def NetworkInstanceType_IPVRF_def)
  have "?g (?w x) = ?g x \<union> {k}" if "ni_Name x = k" for x using that assms by auto
  from nis.Union_getOrCreate [of k ?g ?w "{k}" ?xs, OF this fresh]
  show ?thesis unfolding t GetOrCreateNetworkInstance_def by simp
qed

section \<open>The names that are used\<close>

named_theorems refs_pres

definition isis_refs ::
  "NetworkDeviceNetworkInstanceInterface set \<Rightarrow> NetworkDeviceNetworkInstanceProtocolISISInstance \<Rightarrow> bool" where
  "isis_refs S i \<longleftrightarrow> (\<forall>x \<in> set (ii_Interfaces i). iii_SubInterfaceName x \<in> S)"

definition area_refs ::
  "NetworkDeviceNetworkInstanceInterface set \<Rightarrow> NetworkDeviceNetworkInstanceProtocolOSPFInstanceArea \<Rightarrow> bool" where
  "area_refs S a \<longleftrightarrow> (\<forall>x \<in> set (oa_Interfaces a). oai_SubInterfaceName x \<in> S)"

definition ospf_refs ::
  "NetworkDeviceNetworkInstanceInterface set \<Rightarrow> NetworkDeviceNetworkInstanceProtocolOSPFInstance \<Rightarrow> bool" where
  "ospf_refs S i \<longleftrightarrow> (\<forall>a \<in> set (oi_Areas i). area_refs S a)"

definition bgp_refs ::
  "NetworkDeviceNetworkInstanceInterface set \<Rightarrow> NetworkDeviceNetworkInstanceProtocolBGP \<Rightarrow> bool" where
  "bgp_refs S b \<longleftrightarrow> optAll (\<lambda>n. \<forall>x \<in> set (dn_Interfaces n). dni_SubInterfaceName x \<in> S) (bgp_DynamicNeighbors b)"

definition protocol_refs ::
  "NetworkDeviceNetworkInstanceInterface set \<Rightarrow> NetworkDeviceNetworkInstanceProtocols \<Rightarrow> bool" where
  "protocol_refs S p \<longleftrightarrow> optAll (\<lambda>s. \<forall>i \<in> set (isis_Instances s). isis_refs S i) (p_ISIS p) \<and>
     optAll (\<lambda>s. \<forall>i \<in> set (ospf_Instances s). ospf_refs S i) (p_OSPF p) \<and> optAll (bgp_refs S) (p_BGP p)"

definition instance_refs ::
  "NetworkDeviceNetworkInstanceInterface set \<Rightarrow> NetworkDeviceNetworkInstanceInterface set \<Rightarrow> string set \<Rightarrow>
   NetworkDeviceNetworkInstance \<Rightarrow> bool" where
  "instance_refs S T V ni \<longleftrightarrow> ni_Name ni \<in> V \<and> set (ni_Interfaces ni) \<subseteq> S \<and>
     optAll (\<lambda>v. v \<in> T) (ni_VXLANInterface ni) \<and> optAll (protocol_refs S) (ni_Protocols ni)"

definition device_refs ::
  "NetworkDeviceNetworkInstanceInterface set \<Rightarrow> NetworkDeviceNetworkInstanceInterface set \<Rightarrow> string set \<Rightarrow>
   NetworkDevice \<Rightarrow> bool" where
  "device_refs S T V d \<longleftrightarrow> (\<forall>ni \<in> set (spec_NetworkInstances (dev_Spec d)). instance_refs S T V ni) \<and>
     optAll (\<lambda>b. \<forall>x \<in> set (bfd_Interfaces b). bfdi_SubInterfaceName x \<in> S) (spec_BFD (dev_Spec d))"

lemma device_refs_GetOrCreateNetworkInstance [refs_pres]:
  assumes "device_refs S T V d" and "k \<in> V" and "\<And>n. instance_refs S T V n \<Longrightarrow> instance_refs S T V (w n)"
  shows "device_refs S T V (GetOrCreateNetworkInstance k w d)"
proof -
  have "\<forall>n \<in> set (getOrCreate ni_Name ni_Name fresh_NetworkInstance k w (spec_NetworkInstances (dev_Spec d))).
      instance_refs S T V n"
    by (rule nis.all_getOrCreate) (use assms in \<open>simp_all add: device_refs_def instance_refs_def fresh_NetworkInstance_def\<close>)
  then show ?thesis using assms(1) by (simp add: device_refs_def GetOrCreateNetworkInstance_def)
qed

lemma device_refs_onProtocols [refs_pres]:
  assumes "device_refs S T V d" and "k \<in> V" and w: "\<And>p. protocol_refs S p \<Longrightarrow> protocol_refs S (w p)"
  shows "device_refs S T V (onProtocols k w d)"
proof -
  have "instance_refs S T V n \<Longrightarrow> instance_refs S T V (GetOrCreateNetworkInstanceProtocols w n)" for n
    using w [of zero_Protocols] w
    by (auto simp: instance_refs_def GetOrCreateNetworkInstanceProtocols_def protocol_refs_def zero_Protocols_def
        intro!: optAll_orNew)
  then show ?thesis unfolding onProtocols_def using assms(1,2) by (intro device_refs_GetOrCreateNetworkInstance)
qed

lemma protocol_refs_ISIS [refs_pres]:
  assumes "protocol_refs S p" and w: "\<And>i. isis_refs S i \<Longrightarrow> isis_refs S (w i)"
  shows "protocol_refs S (GetOrCreateNetworkInstanceProtocolsISIS (GetOrCreateNetworkInstanceProtocolISISInstance k w) p)"
proof -
  have "isis_refs S (fresh_ISISInstance k)" by (simp add: isis_refs_def fresh_ISISInstance_def)
  then have step: "\<forall>i \<in> set xs. isis_refs S i \<Longrightarrow>
      \<forall>i \<in> set (getOrCreate ii_Name ii_Name fresh_ISISInstance k w xs). isis_refs S i" for xs
    using w by (rule isisinsts.all_getOrCreate [rotated])
  show ?thesis
    using assms(1) step step [of "[]", simplified]
    by (auto simp: protocol_refs_def GetOrCreateNetworkInstanceProtocolsISIS_def
        GetOrCreateNetworkInstanceProtocolISISInstance_def intro!: optAll_orNew)
qed

lemma protocol_refs_OSPF [refs_pres]:
  assumes "protocol_refs S p" and w: "\<And>i. ospf_refs S i \<Longrightarrow> ospf_refs S (w i)"
  shows "protocol_refs S (GetOrCreateNetworkInstanceProtocolsOSPF (GetOrCreateNetworkInstanceProtocolOSPFInstance k w) p)"
proof -
  have "ospf_refs S (fresh_OSPFInstance k)" by (simp add: ospf_refs_def fresh_OSPFInstance_def)
  then have step: "\<forall>i \<in> set xs. ospf_refs S i \<Longrightarrow>
      \<forall>i \<in> set (getOrCreate oi_Name oi_Name fresh_OSPFInstance k w xs). ospf_refs S i" for xs
    using w by (rule ospfinsts.all_getOrCreate [rotated])
  show ?thesis
    using assms(1) step step [of "[]", simplified]
    by (auto simp: protocol_refs_def GetOrCreateNetworkInstanceProtocolsOSPF_def
        GetOrCreateNetworkInstanceProtocolOSPFInstance_def intro!: optAll_orNew)
qed

lemma protocol_refs_BGP [refs_pres]:
  assumes "protocol_refs S p" and w: "\<And>b. bgp_refs S b \<Longrightarrow> bgp_refs S (w b)"
  shows "protocol_refs S (GetOrCreateNetworkInstanceProtocolsBGP w p)"
proof -
  have "bgp_refs S zero_BGP" by (simp add: bgp_refs_def zero_BGP_def)
  then show ?thesis
    using assms by (auto simp: protocol_refs_def GetOrCreateNetworkInstanceProtocolsBGP_def intro!: optAll_orNew)
qed

lemma protocol_refs_VPN [refs_pres]:
  "protocol_refs S p \<Longrightarrow> protocol_refs S (GetOrCreateNetworkInstanceProtocolsBGPEVPN w2 p)"
  "protocol_refs S p \<Longrightarrow> protocol_refs S (GetOrCreateNetworkInstanceProtocolsBGPVPN w3 p)"
  by (simp_all add: protocol_refs_def GetOrCreateNetworkInstanceProtocolsBGPEVPN_def
      GetOrCreateNetworkInstanceProtocolsBGPVPN_def)

lemma isis_refs_interface [refs_pres]:
  assumes "isis_refs S i" and "iii_SubInterfaceName x \<in> S"
  shows "isis_refs S (AddOrUpdateNetworkInstanceProtocolISISInstanceInterface x i)"
proof -
  have "\<forall>y \<in> set (getOrCreate iii_SubInterfaceName (siSortKey \<circ> iii_SubInterfaceName)
      fresh_ISISInterface (iii_SubInterfaceName x)
      (\<lambda>y. y\<lparr>iii_IPv4 := iii_IPv4 x, iii_IPv6 := iii_IPv6 x, iii_Passive := iii_Passive x,
        iii_NetworkType := iii_NetworkType x\<rparr>) (ii_Interfaces i)). iii_SubInterfaceName y \<in> S"
    using assms by (intro isisifs.all_getOrCreate) (simp_all add: isis_refs_def isisifs.key_mk)
  then show ?thesis
    by (simp add: isis_refs_def AddOrUpdateNetworkInstanceProtocolISISInstanceInterface_def
        GetOrCreateNetworkInstanceProtocolISISInstanceInterface_def)
qed

lemma area_refs_interface [refs_pres]:
  assumes "area_refs S a" and "oai_SubInterfaceName x \<in> S"
  shows "area_refs S (AddOrUpdateNetworkInstanceProtocolOSPFInstanceAreaInterface x a)"
proof -
  have "\<forall>y \<in> set (getOrCreate oai_SubInterfaceName (siSortKey \<circ> oai_SubInterfaceName)
      fresh_OSPFAreaInterface (oai_SubInterfaceName x)
      (\<lambda>y. y\<lparr>oai_NetworkType := oai_NetworkType x, oai_Passive := oai_Passive x, oai_BFD := oai_BFD x\<rparr>)
      (oa_Interfaces a)). oai_SubInterfaceName y \<in> S"
    using assms by (intro areaifs.all_getOrCreate) (simp_all add: area_refs_def areaifs.key_mk)
  then show ?thesis
    by (simp add: area_refs_def AddOrUpdateNetworkInstanceProtocolOSPFInstanceAreaInterface_def
        GetOrCreateNetworkInstanceProtocolOSPFInstanceAreaInterface_def)
qed

lemma ospf_refs_area [refs_pres]:
  assumes "ospf_refs S i" and w: "\<And>a. area_refs S a \<Longrightarrow> area_refs S (w a)"
  shows "ospf_refs S (GetOrCreateNetworkInstanceProtocolOSPFInstanceArea k w i)"
proof -
  have "\<forall>a \<in> set (getOrCreate oa_Name oa_Name fresh_OSPFArea k w (oi_Areas i)). area_refs S a"
    by (rule areas.all_getOrCreate) (use assms in \<open>simp_all add: ospf_refs_def area_refs_def fresh_OSPFArea_def\<close>)
  then show ?thesis by (simp add: ospf_refs_def GetOrCreateNetworkInstanceProtocolOSPFInstanceArea_def)
qed

lemma ospf_refs_AddArea [refs_pres]:
  "ospf_refs S i \<Longrightarrow> ospf_refs S (AddOrUpdateNetworkInstanceProtocolOSPFInstanceArea x i)"
  unfolding AddOrUpdateNetworkInstanceProtocolOSPFInstanceArea_def
  by (erule ospf_refs_area) (simp add: area_refs_def)

lemma bgp_refs_other [refs_pres]:
  "bgp_refs S b \<Longrightarrow> bgp_refs S (AddOrUpdateNetworkInstanceProtocolBGPPeerGroup x b)"
  "bgp_refs S b \<Longrightarrow> bgp_refs S (AddOrUpdateNetworkInstanceProtocolBGNeighbor y b)"
  by (auto simp: bgp_refs_def AddOrUpdateNetworkInstanceProtocolBGPPeerGroup_def AddOrUpdateNetworkInstanceProtocolBGNeighbor_def
      GetOrCreateNetworkInstanceProtocolBGPPeerGroup_def GetOrCreateNetworkInstanceProtocolBGPNeighbor_def split: option.splits)

lemma bgp_refs_dynamic [refs_pres]:
  assumes b: "bgp_refs S b" and "dni_SubInterfaceName x \<in> S"
  shows "bgp_refs S (GetOrCreateNetworkInstanceProtocolBGPDynamicNeighbors
    (AddOrUpdateetworkInstanceProtocolBGPDynamicNeighborsInterface (Some x)) b)"
proof -
  have step: "\<forall>y \<in> set xs. dni_SubInterfaceName y \<in> S \<Longrightarrow>
      \<forall>y \<in> set (getOrCreate dni_SubInterfaceName (siSortKey \<circ> dni_SubInterfaceName)
        fresh_BGPDynamicNeighborsInterface (dni_SubInterfaceName x)
        (\<lambda>y. y\<lparr>dni_PeerAS := dni_PeerAS x, dni_PeerGroup := dni_PeerGroup x\<rparr>) xs). dni_SubInterfaceName y \<in> S" for xs
    using assms(2) by (intro dnis.all_getOrCreate) (simp_all add: dnis.key_mk)
  have "\<forall>y \<in> set (dn_Interfaces n). dni_SubInterfaceName y \<in> S \<Longrightarrow>
      \<forall>y \<in> set (dn_Interfaces (AddOrUpdateetworkInstanceProtocolBGPDynamicNeighborsInterface (Some x) n)).
        dni_SubInterfaceName y \<in> S" for n
    using step [of "dn_Interfaces n"]
    by (simp add: AddOrUpdateetworkInstanceProtocolBGPDynamicNeighborsInterface_def
        GetOrCreateNetworkInstanceProtocolBGPDynamicNeighborsInterface_def)
  then show ?thesis
    using b unfolding bgp_refs_def GetOrCreateNetworkInstanceProtocolBGPDynamicNeighbors_def
    by (simp add: optAll_orNew)
qed

lemma device_refs_BFD [refs_pres]:
  assumes d: "device_refs S T V d" and "bfdi_SubInterfaceName x \<in> S"
  shows "device_refs S T V (GetOrCreateBFD (AddOrUpdateBFDInterface (Some x)) d)"
proof -
  have step: "\<forall>y \<in> set xs. bfdi_SubInterfaceName y \<in> S \<Longrightarrow>
      \<forall>y \<in> set (getOrCreate bfdi_SubInterfaceName (siSortKey \<circ> bfdi_SubInterfaceName)
        fresh_BFDInterface (bfdi_SubInterfaceName x)
        (\<lambda>y. y\<lparr>bfdi_BFDLinkParameters := bfdi_BFDLinkParameters x\<rparr>) xs). bfdi_SubInterfaceName y \<in> S" for xs
    using assms(2) by (intro bfdis.all_getOrCreate) (simp_all add: bfdis.key_mk)
  have "\<forall>y \<in> set (bfd_Interfaces b). bfdi_SubInterfaceName y \<in> S \<Longrightarrow>
      \<forall>y \<in> set (bfd_Interfaces (AddOrUpdateBFDInterface (Some x) b)). bfdi_SubInterfaceName y \<in> S" for b
    using step [of "bfd_Interfaces b"] by (simp add: AddOrUpdateBFDInterface_def GetOrCreateBFDInterface_def)
  then show ?thesis
    using d unfolding device_refs_def GetOrCreateBFD_def by (simp add: optAll_orNew)
qed

lemma device_refs_other [simp]:
  "device_refs S T V (Device_AddProvider p d) = device_refs S T V d"
  "device_refs S T V (GetOrCreateInterface k w1 d) = device_refs S T V d"
  "device_refs S T V (AddOrUpdateInterface i d) = device_refs S T V d"
  "device_refs S T V (GetOrCreateTunnelInterface k w2 d) = device_refs S T V d"
  "device_refs S T V (AddOrUpdateTunnelInterface t d) = device_refs S T V d"
  "device_refs S T V (GetOrCreateRoutingPolicy k w4 d) = device_refs S T V d"
  "device_refs S T V (GetOrCreateSystem w6 d) = device_refs S T V d"
  by (auto simp: device_refs_def Device_AddProvider_def GetOrCreateInterface_def AddOrUpdateInterface_def
      GetOrCreateTunnelInterface_def AddOrUpdateTunnelInterface_def GetOrCreateRoutingPolicy_def
      GetOrCreateSystem_def split: option.splits)

lemma instance_refs_writes [refs_pres]:
  "instance_refs S T V n \<Longrightarrow> instance_refs S T V (n\<lparr>ni_Type := ty\<rparr>)"
  "instance_refs S T V n \<Longrightarrow> optAll (\<lambda>v. v \<in> T) vx \<Longrightarrow> instance_refs S T V (n\<lparr>ni_VXLANInterface := vx\<rparr>)"
  "instance_refs S T V n \<Longrightarrow> x \<in> S \<Longrightarrow> instance_refs S T V (n\<lparr>ni_Interfaces := replaceOrAppend P x (ni_Interfaces n)\<rparr>)"
  using set_replaceOrAppend(2) [of P x "ni_Interfaces n"] by (auto simp: instance_refs_def)

lemma device_refs_mono:
  assumes "device_refs S T V d" and "S \<subseteq> S'" "T \<subseteq> T'" "V \<subseteq> V'"
  shows "device_refs S' T' V' d"
proof -
  have opt: "optAll P x \<Longrightarrow> (\<And>y. P y \<Longrightarrow> Q y) \<Longrightarrow> optAll Q x" for P Q and x :: "'z option" by (cases x) simp_all
  have isis: "isis_refs S i \<Longrightarrow> isis_refs S' i" for i using assms(2) by (auto simp: isis_refs_def)
  have area: "area_refs S a \<Longrightarrow> area_refs S' a" for a using assms(2) by (auto simp: area_refs_def)
  have ospf: "ospf_refs S i \<Longrightarrow> ospf_refs S' i" for i using area by (auto simp: ospf_refs_def)
  have bgp: "bgp_refs S b \<Longrightarrow> bgp_refs S' b" for b
    using assms(2) by (cases "bgp_DynamicNeighbors b") (auto simp: bgp_refs_def)
  have prot: "protocol_refs S p \<Longrightarrow> protocol_refs S' p" for p
    using isis ospf bgp by (cases "p_ISIS p"; cases "p_OSPF p"; cases "p_BGP p") (auto simp: protocol_refs_def)
  have inst: "instance_refs S T V n \<Longrightarrow> instance_refs S' T' V' n" for n
    using assms(2-4) prot by (cases "ni_Protocols n"; cases "ni_VXLANInterface n") (auto simp: instance_refs_def)
  show ?thesis
    using assms(1,2) inst by (cases "spec_BFD (dev_Spec d)") (auto simp: device_refs_def)
qed

section \<open>The store\<close>

lemma subsOf_other [simp]:
  "subsOf (Device_AddProvider p d) = subsOf d" "subsOf (AddOrUpdateInterface i d) = subsOf d"
  "subsOf (GetOrCreateTunnelInterface k w2 d) = subsOf d" "subsOf (AddOrUpdateTunnelInterface t d) = subsOf d"
  "subsOf (GetOrCreateNetworkInstance k w3 d) = subsOf d" "subsOf (onProtocols k w5 d) = subsOf d"
  "subsOf (GetOrCreateRoutingPolicy k w4 d) = subsOf d" "subsOf (GetOrCreateSystem w6 d) = subsOf d"
  "subsOf (GetOrCreateBFD w7 d) = subsOf d"
proof -
  show "subsOf (AddOrUpdateInterface i d) = subsOf d"
    using subsOf_GetOrCreateInterface [of _ _ "{}" d] by (auto simp: AddOrUpdateInterface_def itfceNames_def split: option.splits)
qed (auto simp: subsOf_def Device_AddProvider_def GetOrCreateTunnelInterface_def AddOrUpdateTunnelInterface_def
      GetOrCreateNetworkInstance_def onProtocols_def GetOrCreateRoutingPolicy_def GetOrCreateSystem_def GetOrCreateBFD_def
      split: option.splits)

lemma tunnelsOf_other [simp]:
  "tunnelsOf (Device_AddProvider p d) = tunnelsOf d" "tunnelsOf (AddOrUpdateTunnelInterface t d) = tunnelsOf d"
  "tunnelsOf (GetOrCreateInterface k w2 d) = tunnelsOf d" "tunnelsOf (AddOrUpdateInterface i d) = tunnelsOf d"
  "tunnelsOf (GetOrCreateNetworkInstance k w3 d) = tunnelsOf d" "tunnelsOf (onProtocols k w5 d) = tunnelsOf d"
  "tunnelsOf (GetOrCreateRoutingPolicy k w4 d) = tunnelsOf d" "tunnelsOf (GetOrCreateSystem w6 d) = tunnelsOf d"
  "tunnelsOf (GetOrCreateBFD w7 d) = tunnelsOf d"
proof -
  show "tunnelsOf (AddOrUpdateTunnelInterface t d) = tunnelsOf d"
    using tunnelsOf_GetOrCreateTunnelInterface [of _ _ "{}" d]
    by (auto simp: AddOrUpdateTunnelInterface_def tunnelNames_def split: option.splits)
qed (auto simp: tunnelsOf_def Device_AddProvider_def GetOrCreateInterface_def AddOrUpdateInterface_def
      GetOrCreateNetworkInstance_def onProtocols_def GetOrCreateRoutingPolicy_def GetOrCreateSystem_def GetOrCreateBFD_def
      split: option.splits)

lemma typedOf_other [simp]:
  "typedOf (Device_AddProvider p d) = typedOf d" "typedOf (GetOrCreateTunnelInterface k w1 d) = typedOf d"
  "typedOf (AddOrUpdateTunnelInterface t d) = typedOf d" "typedOf (GetOrCreateInterface k w2 d) = typedOf d"
  "typedOf (AddOrUpdateInterface i d) = typedOf d" "typedOf (onProtocols k w5 d) = typedOf d"
  "typedOf (GetOrCreateRoutingPolicy k w4 d) = typedOf d" "typedOf (GetOrCreateSystem w6 d) = typedOf d"
  "typedOf (GetOrCreateBFD w7 d) = typedOf d"
proof -
  show "typedOf (onProtocols k w5 d) = typedOf d"
    unfolding onProtocols_def
    by (rule typedOf_GetOrCreateNetworkInstance) (simp add: GetOrCreateNetworkInstanceProtocols_def)
qed (auto simp: typedOf_def Device_AddProvider_def GetOrCreateInterface_def AddOrUpdateInterface_def
      GetOrCreateTunnelInterface_def AddOrUpdateTunnelInterface_def GetOrCreateRoutingPolicy_def GetOrCreateSystem_def
      GetOrCreateBFD_def split: option.splits)

text \<open>The names of a node: its sub interfaces, its tunnel sub interfaces and its typed instances.\<close>

definition names ::
  "Devices \<Rightarrow> string \<Rightarrow> NetworkDeviceNetworkInstanceInterface set \<times> NetworkDeviceNetworkInstanceInterface set \<times> string set" where
  "names r n = (subsOf (deviceOf r n), tunnelsOf (deviceOf r n), typedOf (deviceOf r n))"

abbreviation subs :: "Devices \<Rightarrow> string \<Rightarrow> NetworkDeviceNetworkInstanceInterface set" where
  "subs r n \<equiv> fst (names r n)"
abbreviation tunnels :: "Devices \<Rightarrow> string \<Rightarrow> NetworkDeviceNetworkInstanceInterface set" where
  "tunnels r n \<equiv> fst (snd (names r n))"
abbreviation typed :: "Devices \<Rightarrow> string \<Rightarrow> string set" where
  "typed r n \<equiv> snd (snd (names r n))"

lemma names_same [simp]:
  "names (AddProvider m p r) n = names r n"
  "names (AddNetworkInstanceProtocolsBGPAS m k as r) n = names r n"
  "names (AddNetworkInstanceProtocolsBGPRouterID m k rid r) n = names r n"
  "names (AddNetworkInstanceProtocolsBGPAddressFamilies m k afs r) n = names r n"
  "names (AddBFDInterface m bfdi r) n = names r n"
  "names (AddInterface m itf r) n = names r n"
  "names (AddTunnelInterface m tun r) n = names r n"
  "names (AddNetworkInstanceSubInterface m k x r) n = names r n"
  "names (AddNetworkInstanceSubInterfaceVXLAN m k vx r) n = names r n"
  "names (AddNetworkInstanceProtocolsISISInstance m k inst r) n = names r n"
  "names (AddNetworkInstanceProtocolsISISInstanceInterface m k j ix r) n = names r n"
  "names (AddNetworkInstanceProtocolsOSPFInstance m k oi r) n = names r n"
  "names (AddNetworkInstanceProtocolsOSPFInstanceArea m k j a r) n = names r n"
  "names (AddNetworkInstanceProtocolsOSPFInstanceAreaInterface m k j a' ox r) n = names r n"
  "names (AddNetworkInstanceprotocolsBGPNeighbor m k nb r) n = names r n"
  "names (AddNetworkInstanceprotocolsBGPDynamicNeighbor m k dn r) n = names r n"
  "names (AddNetworkInstanceprotocolsBGPPeerGroup m k pg r) n = names r n"
  "names (AddRoutingPolicy m pn v4 v6 r) n = names r n"
  "names (AddNetworkInstanceProtocolsBGPVPN m k vp r) n = names r n"
  "names (AddNetworkInstanceProtocolsBGPEVPN m k ev r) n = names r n"
  "names (AddSystemProtocolsBGPVPN m sv r) n = names r n"
  by (simp_all add: names_def devices_ops typedOf_GetOrCreateNetworkInstance)

lemma subsOf_GetOrCreate:
  assumes "f = withDevice m (GetOrCreateInterface ifn w)" and "\<And>x. if_Name x = ifn \<Longrightarrow> itfceNames (w x) = insert y (itfceNames x)"
  shows "names (f r) n = (if n = m then (insert y (subs r n), tunnels r n, typed r n) else names r n)"
  using subsOf_GetOrCreateInterface [of ifn w "{y}"] assms by (simp add: names_def)

lemma tunnelsOf_GetOrCreate:
  assumes "f = withDevice m (GetOrCreateTunnelInterface ifn w)" and "\<And>x. tun_Name x = ifn \<Longrightarrow> tunnelNames (w x) = insert y (tunnelNames x)"
  shows "names (f r) n = (if n = m then (subs r n, insert y (tunnels r n), typed r n) else names r n)"
  using tunnelsOf_GetOrCreateTunnelInterface [of ifn w "{y}"] assms by (simp add: names_def)

lemma names_changed [simp]:
  "names (AddSubInterface m ifn si r) n =
     (if n = m then (insert \<lparr>nii_Name = ifn, nii_ID = si_ID si\<rparr> (subs r n), tunnels r n, typed r n) else names r n)"
  "names (AddTunnelSubInterface m ifn tsi r) n =
     (if n = m then (subs r n, insert \<lparr>nii_Name = ifn, nii_ID = tsi_ID tsi\<rparr> (tunnels r n), typed r n) else names r n)"
  "ni_Type ni \<in> instanceTypes \<Longrightarrow> names (AddNetworkInstance m ni r) n =
     (if n = m then (subs r n, tunnels r n, insert (ni_Name ni) (typed r n)) else names r n)"
proof -
  show "names (AddSubInterface m ifn si r) n =
     (if n = m then (insert \<lparr>nii_Name = ifn, nii_ID = si_ID si\<rparr> (subs r n), tunnels r n, typed r n) else names r n)"
    by (rule subsOf_GetOrCreate [OF AddSubInterface_def])
      (simp add: itfceNames_def Let_def AddOrUpdateInterfaceSubInterface_def GetOrCreateInterfaceSubInterface_def)
  show "names (AddTunnelSubInterface m ifn tsi r) n =
     (if n = m then (subs r n, insert \<lparr>nii_Name = ifn, nii_ID = tsi_ID tsi\<rparr> (tunnels r n), typed r n) else names r n)"
    by (rule tunnelsOf_GetOrCreate [OF AddTunnelSubInterface_def])
      (simp add: tunnelNames_def AddOrUpdateTunnelInterfaceSubInterface_def GetOrCreateTunnelInterfaceSubInterface_def)
  show "ni_Type ni \<in> instanceTypes \<Longrightarrow> names (AddNetworkInstance m ni r) n =
     (if n = m then (subs r n, tunnels r n, insert (ni_Name ni) (typed r n)) else names r n)"
    by (simp add: names_def AddNetworkInstance_def typedOf_typed)
qed

text \<open>\<open>U n\<close> are the instances of node \<open>n\<close> that may have no type.\<close>

definition refs_ok :: "(string \<Rightarrow> string set) \<Rightarrow> Devices \<Rightarrow> bool" where
  "refs_ok U r \<longleftrightarrow> (\<forall>n. device_refs (subs r n) (tunnels r n) (typed r n \<union> U n) (deviceOf r n))"

definition extends :: "(string \<Rightarrow> string set) \<Rightarrow> Devices \<Rightarrow> Devices \<Rightarrow> bool" where
  "extends U r s \<longleftrightarrow> (\<forall>n. subs r n \<subseteq> subs s n \<and> tunnels r n \<subseteq> tunnels s n \<and> typed r n \<subseteq> typed s n) \<and>
     (refs_ok U r \<longrightarrow> refs_ok U s)"

lemma extends_refl [simp]: "extends U r r"
  by (simp add: extends_def)

lemma extends_trans: "extends U r s \<Longrightarrow> extends U s t \<Longrightarrow> extends U r t"
  unfolding extends_def by blast

lemma refs_ok_new: "refs_ok U (NewDevices nsn)"
  by (simp add: refs_ok_def deviceOf_def NewDevices_def device_refs_def NewDevice_def BuildNetworkDevice_def Let_def
      zero_DeviceSpec_def)

lemma extends_withDevice:
  assumes "extends U r s"
    and "\<And>k. subs s k \<subseteq> subs (withDevice n w s) k \<and> tunnels s k \<subseteq> tunnels (withDevice n w s) k \<and>
      typed s k \<subseteq> typed (withDevice n w s) k"
    and "\<And>S T V. device_refs S T V (deviceOf s n) \<Longrightarrow> subs (withDevice n w s) n \<subseteq> S \<Longrightarrow> tunnels (withDevice n w s) n \<subseteq> T \<Longrightarrow>
      typed (withDevice n w s) n \<union> U n \<subseteq> V \<Longrightarrow> device_refs S T V (w (deviceOf s n))"
  shows "extends U r (withDevice n w s)"
proof -
  have "refs_ok U (withDevice n w s)" if ok: "refs_ok U s"
    unfolding refs_ok_def
  proof
    fix k
    let ?r = "withDevice n w s"
    have d: "device_refs (subs ?r k) (tunnels ?r k) (typed ?r k \<union> U k) (deviceOf s k)"
      using ok assms(2) [of k] unfolding refs_ok_def by (blast intro: device_refs_mono)
    show "device_refs (subs ?r k) (tunnels ?r k) (typed ?r k \<union> U k) (deviceOf ?r k)"
      using d assms(3) [of "subs ?r n" "tunnels ?r n" "typed ?r n \<union> U n"] by (cases "k = n") simp_all
  qed
  moreover have "extends U s (withDevice n w s)" if "refs_ok U s \<longrightarrow> refs_ok U (withDevice n w s)"
    using that assms(2) unfolding extends_def by blast
  ultimately show ?thesis using assms(1) extends_trans by blast
qed

lemma extends_op:
  assumes "extends U r s" and op: "op = withDevice n w" and "\<And>k. subs s k \<subseteq> subs (op s) k \<and> tunnels s k \<subseteq> tunnels (op s) k \<and>
      typed s k \<subseteq> typed (op s) k"
    and "\<And>S T V. device_refs S T V (deviceOf s n) \<Longrightarrow> subs (op s) n \<subseteq> S \<Longrightarrow> tunnels (op s) n \<subseteq> T \<Longrightarrow>
      typed (op s) n \<union> U n \<subseteq> V \<Longrightarrow> device_refs S T V (w (deviceOf s n))"
  shows "extends U r (op s)"
  using assms(1,3,4) unfolding op by (rule extends_withDevice)

text \<open>The operations that name nothing, that name an instance, and that name a sub interface.\<close>

lemmas op_defs = AddProvider_def AddInterface_def AddTunnelInterface_def AddSubInterface_def AddTunnelSubInterface_def
  AddRoutingPolicy_def AddSystemProtocolsBGPVPN_def

lemma extends_plain:
  "extends U r s \<Longrightarrow> extends U r (AddProvider n p s)"
  "extends U r s \<Longrightarrow> extends U r (AddInterface n itf s)"
  "extends U r s \<Longrightarrow> extends U r (AddTunnelInterface n tun s)"
  "extends U r s \<Longrightarrow> extends U r (AddSubInterface n ifn si s)"
  "extends U r s \<Longrightarrow> extends U r (AddTunnelSubInterface n ifn tsi s)"
  "extends U r s \<Longrightarrow> extends U r (AddRoutingPolicy n pn v4 v6 s)"
  "extends U r s \<Longrightarrow> extends U r (AddSystemProtocolsBGPVPN n sv s)"
  by (erule extends_op, rule op_defs, auto)+

lemmas instance_op_defs = AddNetworkInstanceProtocolsBGPAS_def AddNetworkInstanceProtocolsBGPRouterID_def
  AddNetworkInstanceProtocolsBGPAddressFamilies_def AddNetworkInstanceProtocolsISISInstance_def
  AddNetworkInstanceProtocolsOSPFInstance_def AddNetworkInstanceProtocolsOSPFInstanceArea_def
  AddNetworkInstanceprotocolsBGPNeighbor_def AddNetworkInstanceprotocolsBGPPeerGroup_def
  AddNetworkInstanceProtocolsBGPVPN_def AddNetworkInstanceProtocolsBGPEVPN_def

lemma extends_instance:
  "extends U r s \<Longrightarrow> k \<in> typed s n \<union> U n \<Longrightarrow> extends U r (AddNetworkInstanceProtocolsBGPAS n k as s)"
  "extends U r s \<Longrightarrow> k \<in> typed s n \<union> U n \<Longrightarrow> extends U r (AddNetworkInstanceProtocolsBGPRouterID n k rid s)"
  "extends U r s \<Longrightarrow> k \<in> typed s n \<union> U n \<Longrightarrow> extends U r (AddNetworkInstanceProtocolsBGPAddressFamilies n k afs s)"
  "extends U r s \<Longrightarrow> k \<in> typed s n \<union> U n \<Longrightarrow> extends U r (AddNetworkInstanceProtocolsISISInstance n k inst s)"
  "extends U r s \<Longrightarrow> k \<in> typed s n \<union> U n \<Longrightarrow> extends U r (AddNetworkInstanceProtocolsOSPFInstance n k oi s)"
  "extends U r s \<Longrightarrow> k \<in> typed s n \<union> U n \<Longrightarrow> extends U r (AddNetworkInstanceProtocolsOSPFInstanceArea n k j a s)"
  "extends U r s \<Longrightarrow> k \<in> typed s n \<union> U n \<Longrightarrow> extends U r (AddNetworkInstanceprotocolsBGPNeighbor n k nb s)"
  "extends U r s \<Longrightarrow> k \<in> typed s n \<union> U n \<Longrightarrow> extends U r (AddNetworkInstanceprotocolsBGPPeerGroup n k pg s)"
  "extends U r s \<Longrightarrow> k \<in> typed s n \<union> U n \<Longrightarrow> extends U r (AddNetworkInstanceProtocolsBGPVPN n k vp s)"
  "extends U r s \<Longrightarrow> k \<in> typed s n \<union> U n \<Longrightarrow> extends U r (AddNetworkInstanceProtocolsBGPEVPN n k ev s)"
  by (erule extends_op, rule instance_op_defs, simp, auto simp: isis_refs_def ospf_refs_def bgp_refs_def intro!: refs_pres)+

lemma extends_AddNetworkInstance:
  assumes "extends U r s" and "ni_Type x \<in> instanceTypes"
  shows "extends U r (AddNetworkInstance n x s)"
  by (rule extends_op [OF assms(1) AddNetworkInstance_def]) (use assms(2) in \<open>auto intro!: refs_pres\<close>)

lemma extends_named:
  "extends U r s \<Longrightarrow> k \<in> typed s n \<union> U n \<Longrightarrow> x \<in> subs s n \<Longrightarrow> extends U r (AddNetworkInstanceSubInterface n k x s)"
  "extends U r s \<Longrightarrow> k \<in> typed s n \<union> U n \<Longrightarrow> v \<in> tunnels s n \<Longrightarrow>
     extends U r (AddNetworkInstanceSubInterfaceVXLAN n k (Some v) s)"
  "extends U r s \<Longrightarrow> k \<in> typed s n \<union> U n \<Longrightarrow> iii_SubInterfaceName ix \<in> subs s n \<Longrightarrow>
     extends U r (AddNetworkInstanceProtocolsISISInstanceInterface n k j ix s)"
  "extends U r s \<Longrightarrow> k \<in> typed s n \<union> U n \<Longrightarrow> oai_SubInterfaceName ox \<in> subs s n \<Longrightarrow>
     extends U r (AddNetworkInstanceProtocolsOSPFInstanceAreaInterface n k j a ox s)"
  "extends U r s \<Longrightarrow> k \<in> typed s n \<union> U n \<Longrightarrow> dni_SubInterfaceName dx \<in> subs s n \<Longrightarrow>
     extends U r (AddNetworkInstanceprotocolsBGPDynamicNeighbor n k (Some dx) s)"
  "extends U r s \<Longrightarrow> bfdi_SubInterfaceName bx \<in> subs s n \<Longrightarrow> extends U r (AddBFDInterface n (Some bx) s)"
  by (erule extends_op, rule AddNetworkInstanceSubInterface_def AddNetworkInstanceSubInterfaceVXLAN_def
      AddNetworkInstanceProtocolsISISInstanceInterface_def AddNetworkInstanceProtocolsOSPFInstanceAreaInterface_def
      AddNetworkInstanceprotocolsBGPDynamicNeighbor_def AddBFDInterface_def, simp, auto intro!: refs_pres)+

lemmas extends_ops = extends_plain extends_instance extends_AddNetworkInstance extends_named

end
