(* ===== verification/NamesResolve.thy ===== *)
theory NamesResolve
  imports References
begin

text \<open>
  Every function of the builder extends the devices (\<open>extends\<close> of \<open>References\<close>): the sub interfaces are created
  before they are named and the network instances get their type before the protocols are written. The exception is
  an IRB, whose bridge may have no interface on the node.
\<close>

section \<open>The underlay\<close>

abbreviation sub0 :: "string \<Rightarrow> NetworkDeviceNetworkInstanceInterface" where
  "sub0 n \<equiv> \<lparr>nii_Name = n, nii_ID = 0\<rparr>"

lemma default_typed [simp]: "NetworkInstanceType_DEFAULT \<in> instanceTypes" "NetworkInstanceType_MACVRF \<in> instanceTypes"
  "NetworkInstanceType_IPVRF \<in> instanceTypes"
  by (simp_all add: instanceTypes_def)

lemma fresh_names [simp]: "ni_Name (fresh_NetworkInstance k) = k" "si_ID (fresh_SubInterface i) = i"
  "oai_SubInterfaceName (fresh_OSPFAreaInterface x) = x" "iii_SubInterfaceName (fresh_ISISInterface x) = x"
  by (simp_all add: fresh_NetworkInstance_def fresh_SubInterface_def fresh_OSPFAreaInterface_def fresh_ISISInterface_def)

lemma extends_updateBaseNode:
  assumes "updateBaseNode inp n nd ds = Inr ds'" and "extends U r ds"
  shows "extends U r ds' \<and> networkName inp \<in> typed ds' n"
proof -
  let ?d = "inp_design inp" and ?k = "networkName inp"
  let ?ds0 = "updateBaseNodeInterfaces inp n nd ds" and ?ds1 = "updateUnderlayNetworkInstance inp n (updateBaseNodeInterfaces inp n nd ds)"
  have 0: "extends U r ?ds0 \<and> sub0 SystemInterfaceName \<in> subs ?ds0 n"
    using assms(2) by (auto simp: updateBaseNodeInterfaces_def Let_def intro!: extends_plain)
  then have 1: "extends U r ?ds1 \<and> sub0 SystemInterfaceName \<in> subs ?ds1 n \<and> ?k \<in> typed ?ds1 n"
    by (auto simp: updateUnderlayNetworkInstance_def Let_def intro!: extends_ops)
  from assms(1) obtain ds2 ds3 where
    o: "(if IsOSPFEnabled ?d then updateUnderlayOSPFNodeDeviceConfig inp n (nn_routerID nd) ?ds1 else Inr ?ds1) = Inr ds2" and
    i: "(if IsISISEnabled ?d then updateUnderlayISISNodeDeviceConfig inp n (nn_systemID nd) ds2 else Inr ds2) = Inr ds3" and
    b: "ds' = (if IsIBGPEnabled ?d \<or> IsEBGPEnabled ?d
      then updateUnderlayBGPNodeDeviceConfig inp n (nn_routerID nd) (nn_as nd) ds3 else ds3)"
    by (auto simp: updateBaseNode_def bindR_Inr_iff Let_def)
  have 2: "extends U r ds2 \<and> sub0 SystemInterfaceName \<in> subs ds2 n \<and> ?k \<in> typed ds2 n"
    using 1 o by (auto simp: updateUnderlayOSPFNodeDeviceConfig_def bindR_Inr_iff Let_def UnderlaySubInterfaceID_def
        split: if_splits intro!: extends_ops)
  have 3: "extends U r ds3 \<and> ?k \<in> typed ds3 n"
    using 2 i by (auto simp: updateUnderlayISISNodeDeviceConfig_def bindR_Inr_iff Let_def UnderlaySubInterfaceID_def
        split_beta split: if_splits intro!: extends_ops)
  show ?thesis
    using 3 unfolding b
    by (auto simp: updateUnderlayBGPNodeDeviceConfig_def Let_def split: prod.splits intro!: extends_ops)
qed

text \<open>The end of a link: its sub interface exists before it is named.\<close>

lemma isis_interface_name [simp]: "iii_SubInterfaceName (getISISInterface i d x l) = \<lparr>nii_Name = getEPName i l, nii_ID = x\<rparr>"
  by (simp add: getISISInterface_def Let_def fresh_ISISInterface_def setMetric_def
      GetOrCreateNetworkInstanceProtocolISISInstanceInterfaceIPv4_def
      GetOrCreateNetworkInstanceProtocolISISInstanceInterfaceIPv6_def
      GetOrCreateNetworkInstanceProtocolISISInstanceInterfaceLevel1_def
      GetOrCreateNetworkInstanceProtocolISISInstanceInterfaceLevel2_def split: ISISLevel.splits)

lemma extends_addEBGPNeighbor:
  assumes "addEBGPNeighbor inp num getIP n ifn l i ds = Inr ds'" and "extends U r ds"
    and "networkName inp \<in> typed ds n" and "\<lparr>nii_Name = ifn, nii_ID = UnderlaySubInterfaceID\<rparr> \<in> subs ds n"
  shows "extends U r ds' \<and> names ds' = names ds"
  using assms by (auto simp: addEBGPNeighbor_def bindR_Inr_iff fun_eq_iff split: if_splits intro!: extends_ops)

lemma extends_updateUnderlayInterfaceEnd:
  assumes "updateUnderlayInterfaceEnd inp l i b = Inr b'" and b: "extends U r (db_devices b)"
    and k: "networkName inp = DefaultNetwork" and t: "DefaultNetwork \<in> typed (db_devices b) (getNodeName i l)"
  shows "extends U r (db_devices b')"
  using assms(1)
proof (rule updateUnderlayInterfaceEnd_Inr)
  let ?n = "getNodeName i l" and ?x = "\<lparr>nii_Name = getEPName i l, nii_ID = UnderlaySubInterfaceID\<rparr>" and ?d = "inp_design inp"
  let ?J = "\<lambda>b. extends U r (db_devices b) \<and> ?x \<in> subs (db_devices b) ?n \<and> DefaultNetwork \<in> typed (db_devices b) ?n"
  let ?b1 = "onDevices (updateEndInterface inp l i) b"
  fix b2 b3 b4
  assume s: "IsBFDEnabled ?d \<Longrightarrow> addLinkBFD inp ?n (getEPName i l) l ?b1 = Inr b2"
    "\<not> IsBFDEnabled ?d \<Longrightarrow> b2 = ?b1"
    "IsOSPFEnabled ?d \<Longrightarrow> tryDevices (updateUnderlayOSPFInterfaceDeviceConfig inp ?n (getEPName i l) l) b2 = Inr b3"
    "\<not> IsOSPFEnabled ?d \<Longrightarrow> b3 = b2"
    "IsISISEnabled ?d \<Longrightarrow> tryDevices (updateUnderlayISISInterfaceDeviceConfig inp ?n l i) b3 = Inr b4"
    "\<not> IsISISEnabled ?d \<Longrightarrow> b4 = b3"
    "IsEBGPEnabled ?d \<Longrightarrow> tryDevices (updateUnderlayEBGPInterfaceDeviceConfig inp ?n (getEPName i l) l i) b4 = Inr b'"
    "\<not> IsEBGPEnabled ?d \<Longrightarrow> b' = b4"
  have 1: "?J ?b1"
    using b t by (auto simp: updateEndInterface_def Let_def getUnderlaySubInterface_fields(1) intro!: extends_ops)
  have 2: "?J b2"
  proof (cases "IsBFDEnabled ?d")
    case True
    then show ?thesis
      using s(1) 1 by (auto simp: addLinkBFD_def bindR_Inr_iff Let_def split: if_splits intro!: extends_ops)
  qed (use s(2) 1 in simp)
  have 3: "?J b3"
  proof (cases "IsOSPFEnabled ?d")
    case True
    then show ?thesis
      using s(3) 2 by (auto elim!: tryDevices_Inr simp: k updateUnderlayOSPFInterfaceDeviceConfig_def bindR_Inr_iff Let_def
          intro!: extends_ops)
  qed (use s(4) 2 in simp)
  have 4: "?J b4"
  proof (cases "IsISISEnabled ?d")
    case True
    then show ?thesis
      using s(5) 3 by (auto elim!: tryDevices_Inr simp: k updateUnderlayISISInterfaceDeviceConfig_def bindR_Inr_iff Let_def
          intro!: extends_ops)
  qed (use s(6) 3 in simp)
  show ?thesis
  proof (cases "IsEBGPEnabled ?d")
    case True
    then obtain ds where ds: "updateUnderlayEBGPInterfaceDeviceConfig inp ?n (getEPName i l) l i (db_devices b4) = Inr ds"
      and b': "b' = b4\<lparr>db_devices := ds\<rparr>" using s(7) by (auto elim!: tryDevices_Inr)
    from ds obtain ds1 ds2 where
      "(if IsUnderlayIPv4Enabled ?d then addEBGPNeighbor inp (IsUnderlayIPv4Numbered ?d) getIpv4 ?n (getEPName i l) l i (db_devices b4)
        else Inr (db_devices b4)) = Inr ds1" and
      "(if IsUnderlayIPv6Enabled ?d then addEBGPNeighbor inp (IsUnderlayIPv6Numbered ?d) getIpv6 ?n (getEPName i l) l i ds1
        else Inr ds1) = Inr ds2" and
      d: "ds = AddNetworkInstanceprotocolsBGPPeerGroup ?n (networkName inp)
          (Some ((fresh_BGPPeerGroup BGPUnderlayPeerGroupName)
             \<lparr>pg_AddressFamilies := GetUnderlayAddressFamiliesToBeDisabled ?d, pg_BFD := getBGPBFD ?d l\<rparr>)) ds2"
      by (auto simp: updateUnderlayEBGPInterfaceDeviceConfig_def bindR_Inr_iff Let_def)
    moreover from this 4 have "extends U r ds1 \<and> names ds1 = names (db_devices b4)"
      by (auto simp: k dest: extends_addEBGPNeighbor split: if_splits)
    ultimately have "extends U r ds2 \<and> names ds2 = names (db_devices b4)"
      using 4 by (auto simp: k dest: extends_addEBGPNeighbor split: if_splits)
    then show ?thesis using 4 unfolding b' d by (auto simp: k intro!: extends_ops)
  qed (use s(8) 4 in simp)
qed

text \<open>The processed nodes have a default network instance.\<close>

definition base_ok :: "DeviceBuilder \<Rightarrow> bool" where
  "base_ok b \<longleftrightarrow> (\<forall>n \<in> db_nodeSet b. DefaultNetwork \<in> typed (db_devices b) n)"

lemma base_ok_extends:
  "base_ok b \<Longrightarrow> extends U (db_devices b) (db_devices b') \<Longrightarrow> db_nodeSet b' = db_nodeSet b \<Longrightarrow> base_ok b'"
  unfolding base_ok_def extends_def by blast

lemma extends_updateBaseEnd:
  assumes e: "updateBaseEnd inp l i b = Inr b'" and k: "networkName inp = DefaultNetwork" and ok: "base_ok b"
  shows "extends U (db_devices b) (db_devices b') \<and> base_ok b'"
proof (cases "getNodeName i l \<in> db_nodeSet b")
  case True
  then show ?thesis using e ok by (simp add: updateBaseEnd_def)
next
  case False
  with e obtain n ds where ds: "updateBaseNode inp (getNodeName i l) n (db_devices b) = Inr ds"
    and b': "b' = b\<lparr>db_devices := ds, db_nodeSet := insert (getNodeName i l) (db_nodeSet b)\<rparr>"
    by (auto simp: updateBaseEnd_def bindR_Inr_iff Let_def split: option.splits)
  have x: "extends U (db_devices b) ds" "DefaultNetwork \<in> typed ds (getNodeName i l)"
    using extends_updateBaseNode [OF ds, of U "db_devices b"] k by simp_all
  have "base_ok (b\<lparr>db_devices := ds\<rparr>)" by (rule base_ok_extends [OF ok]) (use x in simp_all)
  then show ?thesis using x unfolding b' base_ok_def by simp
qed

lemma extends_updateUnderlayInterfaceDeviceConfig:
  assumes u: "updateUnderlayInterfaceDeviceConfig inp l b = Inr b'" and k: "networkName inp = DefaultNetwork"
    and ok: "base_ok b" and n: "getNodeName 0 l \<in> db_nodeSet b" "getNodeName 1 l \<in> db_nodeSet b"
  shows "extends U (db_devices b) (db_devices b') \<and> base_ok b'"
proof -
  from u obtain c where c: "updateUnderlayInterfaceEnd inp l 0 b = Inr c" "updateUnderlayInterfaceEnd inp l 1 c = Inr b'"
    by (auto simp: updateUnderlayInterfaceDeviceConfig_def bindR_Inr_iff)
  note keep = keeps_updateUnderlayInterfaceEnd [OF c(1)] keeps_updateUnderlayInterfaceEnd [OF c(2)]
  have 1: "extends U (db_devices b) (db_devices c)"
    using extends_updateUnderlayInterfaceEnd [OF c(1) extends_refl k] ok n(1) by (simp add: base_ok_def)
  have okc: "base_ok c" using base_ok_extends [OF ok 1] keep by simp
  have 2: "extends U (db_devices c) (db_devices b')"
    using extends_updateUnderlayInterfaceEnd [OF c(2) extends_refl k] okc n(2) keep by (simp add: base_ok_def)
  have "base_ok b'" using base_ok_extends [OF okc 2] keep by simp
  then show ?thesis using extends_trans [OF 1 2] by simp
qed

lemma extends_buildLink:
  assumes b: "buildLink inp il b = Inr b'" and k: "networkName inp = DefaultNetwork"
    and inv: "nodes_ok inp b" and ok: "base_ok b"
  shows "extends U (db_devices b) (db_devices b') \<and> base_ok b'"
proof -
  from b obtain l b1 b2 where b1: "gatherLinkAndNodeInfo inp il b = Inr (l, b1)"
    and b2: "updateBaseDeviceConfig inp l b1 = Inr b2" and b': "updateUnderlayInterfaceDeviceConfig inp l b2 = Inr b'"
    by (auto simp: buildLink_def bindR_Inr_iff)
  note g = gatherLinkAndNodeInfo_result [OF b1 inv]
  have ok1: "base_ok b1" using ok g(5,6) by (simp add: base_ok_def)
  from b2 obtain c where c: "updateBaseEnd inp l 0 b1 = Inr c" "updateBaseEnd inp l 1 c = Inr b2"
    by (auto simp: updateBaseDeviceConfig_def bindR_Inr_iff)
  note 1 = extends_updateBaseEnd [OF c(1) k ok1, of U]
  note 2 = extends_updateBaseEnd [OF c(2) k conjunct2 [OF 1], of U]
  have n: "getNodeName 0 l \<in> db_nodeSet b2" "getNodeName 1 l \<in> db_nodeSet b2"
    using keeps_updateBaseEnd(2) [OF c(1)] keeps_updateBaseEnd(2) [OF c(2)] by simp_all
  note 3 = extends_updateUnderlayInterfaceDeviceConfig [OF b' k conjunct2 [OF 2] n, of U]
  from 1 2 3 show ?thesis using g(5) by (auto intro: extends_trans)
qed

lemma extends_buildLinks:
  assumes loop: "forE links (buildLink inp) b = Inr b'" and k: "networkName inp = DefaultNetwork"
    and inv: "underlay_inv inp (underlayNodes links) b" and ok: "base_ok b"
  shows "extends U (db_devices b) (db_devices b') \<and> base_ok b'"
proof -
  let ?I = "\<lambda>c. underlay_inv inp (underlayNodes links) c \<and> extends U (db_devices b) (db_devices c) \<and> base_ok c"
  have "?I b'"
  proof (rule forE_invariant [OF loop, of ?I])
    fix l s s'
    assume l: "l \<in> set links" and s: "?I s" and s': "buildLink inp l s = Inr s'"
    have "linkNodes l \<subseteq> underlayNodes links" using l by (auto simp: underlayNodes_def)
    from buildLink_result(1) [OF s' conjunct1 [OF s] this] extends_buildLink [OF s' k, of U] s
    show "?I s'" by (auto simp: underlay_inv_def intro: extends_trans)
  qed (use inv ok in simp)
  then show ?thesis by simp
qed

text \<open>The mesh writes to the default network of processed nodes.\<close>

definition mesh_ok :: "inputs \<Rightarrow> (string \<Rightarrow> string set) \<Rightarrow> string set \<Rightarrow> Devices \<Rightarrow> Devices \<Rightarrow> bool" where
  "mesh_ok inp U N r s \<longleftrightarrow> extends U r s \<and> (\<forall>n \<in> N. networkName inp \<in> typed s n)"

interpretation mesh_names: mesh_invariant inp N "mesh_ok inp U N r" for inp N U r
  by unfold_locales (auto simp: mesh_ok_def intro!: extends_ops)

lemma BuildUnderlay_names:
  assumes b: "BuildUnderlay inp sch (NewBuilder inp h) = Inr b" and k: "networkName inp = DefaultNetwork"
  shows "refs_ok U (db_devices b)"
proof -
  from b obtain links b1 where b1: "forE links (buildLink inp) (NewBuilder inp h) = Inr b1"
    and b: "(if IsIBGPEnabled (inp_design inp) then updateUnderlayRRConfig inp sch b1 else Inr b1) = Inr b"
    by (auto simp: BuildUnderlay_def bindR_Inr_iff)
  have new: "base_ok (NewBuilder inp h)" by (simp add: base_ok_def NewBuilder_def)
  have inv: "underlay_inv inp (underlayNodes links) b1" "underlayNodes links \<subseteq> db_nodeSet b1"
    using buildLinks_result [OF b1 underlay_inv_new subset_refl] by (auto simp: underlayNodes_def)
  note x = extends_buildLinks [OF b1 k underlay_inv_new new, of U]
  have 1: "mesh_ok inp U (underlayNodes links) (db_devices (NewBuilder inp h)) (db_devices b1)"
    using x inv(2) k by (auto simp: mesh_ok_def base_ok_def)
  have "mesh_ok inp U (underlayNodes links) (db_devices (NewBuilder inp h)) (db_devices b)"
  proof (cases "IsIBGPEnabled (inp_design inp)")
    case True
    then have "updateUnderlayRRConfig inp sch b1 = Inr b" using b by simp
    from mesh_names.updateUnderlayRRConfig [OF this 1] inv(1) show ?thesis by (simp add: underlay_inv_def)
  qed (use b 1 in simp)
  then show ?thesis using refs_ok_new by (simp add: mesh_ok_def extends_def NewBuilder_def)
qed

section \<open>The overlay\<close>

text \<open>The bridges that an IRB of a router names on a node.\<close>

definition irbBridges :: "inputs \<Rightarrow> string \<Rightarrow> string set" where
  "irbBridges inp n = {dot (networkName inp) bridge |bridge r i nodeID.
     r \<in> set (ns_Routers (net_Spec (inp_network inp))) \<and> i \<in> set (nrt_Interfaces r) \<and> \<not> IsDynamic i \<and>
     nif_NodeID i = Some nodeID \<and> nid_Node nodeID = n \<and> nif_Bridge i = Some bridge}"

lemma extends_addVXLAN:
  assumes "extends U r ds" and "ni \<in> typed ds n"
  shows "extends U r (addVXLAN inp n ni i ty ds) \<and> ni \<in> typed (addVXLAN inp n ni i ty ds) n \<and>
    subs (addVXLAN inp n ni i ty ds) = subs ds"
  using assms by (auto simp: addVXLAN_def fun_eq_iff intro!: extends_ops)

lemma extends_addVPN:
  assumes "extends U r ds" and "ni \<in> typed ds n"
  shows "extends U r (addVPN inp n ni i ds) \<and> ni \<in> typed (addVPN inp n ni i ds) n"
  using assms by (auto simp: addVPN_def intro!: extends_ops)

lemma extends_bridgeConfig:
  assumes "extends U r ds"
  shows "extends U r (bridgeConfig inp bd i itfce n ep ds)"
  unfolding bridgeConfig_def Let_def
  by (intro extends_addVPN [THEN conjunct1] extends_addVXLAN [THEN conjunct1] extends_addVXLAN [THEN conjunct2, THEN conjunct1])
    (use assms in \<open>auto intro!: extends_ops\<close>)

lemma extends_routerConfig:
  assumes "extends U r ds"
  shows "extends U r (routerConfig inp ni i n p ds) \<and> ni \<in> typed (routerConfig inp ni i n p ds) n"
  unfolding routerConfig_def Let_def
  by (intro extends_addVPN extends_addVXLAN [THEN conjunct1] extends_addVXLAN [THEN conjunct2, THEN conjunct1])
    (use assms in \<open>auto intro!: extends_ops\<close>)

lemma si_ID_routedSubInterface [simp]: "si_ID (routedSubInterface inp i itfce) = i"
  by (simp add: routedSubInterface_def split_beta)

lemma extends_routerInterface:
  assumes ds': "routerInterface inp ni i itfce ds = Inr ds'" and x: "extends U r ds"
    and U: "\<And>nodeID bridge. \<not> IsDynamic itfce \<Longrightarrow> nif_NodeID itfce = Some nodeID \<Longrightarrow> nif_Bridge itfce = Some bridge \<Longrightarrow>
      dot (networkName inp) bridge \<in> U (nid_Node nodeID)"
  shows "extends U r ds'"
proof (cases "IsDynamic itfce")
  case True
  then show ?thesis using ds' x by (simp add: routerInterface_def)
next
  case False
  note U' = U [OF False]
  show ?thesis
    using ds' False extends_routerConfig [OF x] U'
    by (auto simp: routerInterface_def routerEndpoint_def routerIRB_def bindR_Inr_iff Let_def
        split: if_splits option.splits intro!: extends_ops)
qed

lemma forE_extends:
  assumes "forE xs body r = Inr s" and "\<And>x s s'. x \<in> set xs \<Longrightarrow> extends U r s \<Longrightarrow> body x s = Inr s' \<Longrightarrow> extends U r s'"
  shows "extends U r s"
  using forE_invariant [OF assms(1), of "extends U r"] assms(2) by auto

lemma extends_buildBridge:
  assumes "buildBridge inp br r = Inr s"
  shows "extends U r s"
  by (rule forE_extends [OF assms [unfolded buildBridge_def Let_def]])
    (auto simp: bridgeInterface_def bindR_Inr_iff split: if_splits option.splits intro: extends_bridgeConfig)

lemma extends_buildRouter:
  assumes "buildRouter inp ro r = Inr s" and "ro \<in> set (ns_Routers (net_Spec (inp_network inp)))"
  shows "extends (irbBridges inp) r s"
proof (rule forE_extends [OF assms(1) [unfolded buildRouter_def Let_def]])
  fix x s s'
  assume x: "x \<in> set (nrt_Interfaces ro)" and s: "extends (irbBridges inp) r s"
    and "routerInterface inp (dot (networkName inp) (nrt_Name ro)) (ucast (nrt_NetworkID ro)) x s = Inr s'"
  from this(3) s show "extends (irbBridges inp) r s'"
    by (rule extends_routerInterface) (use assms(2) x in \<open>auto simp: irbBridges_def\<close>)
qed

lemma BuildOverlay_names:
  assumes "BuildOverlay inp (NewBuilder inp h) = Inr b"
  shows "refs_ok (irbBridges inp) (db_devices b)"
proof -
  let ?new = "NewDevices (GetNamespacedName (inp_network inp))" and ?spec = "net_Spec (inp_network inp)"
  from assms obtain ds1 where
    b1: "forE (ns_Bridges ?spec) (buildBridge inp) ?new = Inr ds1" and
    b2: "forE (ns_Routers ?spec) (buildRouter inp) ds1 = Inr (db_devices b)"
    by (auto simp: BuildOverlay_def bindR_Inr_iff NewBuilder_def elim!: tryDevices_Inr)
  have 1: "extends (irbBridges inp) ?new ds1"
    by (rule forE_extends [OF b1]) (blast intro: extends_trans extends_buildBridge)
  have 2: "extends (irbBridges inp) ds1 (db_devices b)"
    by (rule forE_extends [OF b2]) (blast intro: extends_trans extends_buildRouter)
  from extends_trans [OF 1 2] refs_ok_new show ?thesis by (simp add: extends_def)
qed

section \<open>Instances without a type\<close>

definition instanceNames :: "NetworkDevice \<Rightarrow> string set" where
  "instanceNames d = ni_Name ` set (spec_NetworkInstances (dev_Spec d))"

lemma instanceNames_GetOrCreate:
  assumes "\<And>x. ni_Name (w x) = ni_Name x"
  shows "instanceNames (GetOrCreateNetworkInstance k w d) = insert k (instanceNames d)"
  by (simp add: instanceNames_def GetOrCreateNetworkInstance_def nis.keys_getOrCreate [OF assms])

lemma instanceNames_other [simp]:
  "instanceNames (Device_AddProvider p d) = instanceNames d"
  "instanceNames (GetOrCreateInterface k w1 d) = instanceNames d"
  "instanceNames (AddOrUpdateInterface i d) = instanceNames d"
  "instanceNames (GetOrCreateTunnelInterface k w2 d) = instanceNames d"
  "instanceNames (AddOrUpdateTunnelInterface t d) = instanceNames d"
  "instanceNames (GetOrCreateRoutingPolicy k w4 d) = instanceNames d"
  "instanceNames (GetOrCreateBFD w5 d) = instanceNames d"
  "instanceNames (GetOrCreateSystem w6 d) = instanceNames d"
  by (auto simp: instanceNames_def Device_AddProvider_def GetOrCreateInterface_def AddOrUpdateInterface_def
      GetOrCreateTunnelInterface_def AddOrUpdateTunnelInterface_def GetOrCreateRoutingPolicy_def
      GetOrCreateBFD_def GetOrCreateSystem_def split: option.splits)

lemma instanceNames_step: "devices_step m r s \<Longrightarrow> instanceNames (deviceOf r n) \<subseteq> instanceNames (deviceOf s n)"
  by (cases "n = m"; erule devices_step.cases)
    (auto simp: devices_ops Let_def onProtocols_def instanceNames_GetOrCreate GetOrCreateNetworkInstanceProtocols_def)

lemma instanceNames_run: "devices_run N r s \<Longrightarrow> instanceNames (deviceOf r n) \<subseteq> instanceNames (deviceOf s n)"
  by (induction rule: devices_run_induct) (use instanceNames_step in blast)+

text \<open>An instance gets a type from the bridges with an interface on the node and from the routers of its name.\<close>

lemma typed_bridgeInterface:
  assumes "bridgeInterface inp bd i itfce ds = Inr ds'" and "X \<notin> typed ds n" and "bd = X \<Longrightarrow> n \<notin> staticNodes [itfce]"
  shows "X \<notin> typed ds' n"
  using assms
  by (auto simp: bridgeInterface_def bridgeConfig_def addVPN_def addVXLAN_def bindR_Inr_iff Let_def staticNodes_def
      split: if_splits option.splits)

lemma typed_routerInterface:
  assumes "routerInterface inp ni i itfce ds = Inr ds'" and "X \<notin> typed ds n" and "ni \<noteq> X"
  shows "X \<notin> typed ds' n"
  using assms
  by (auto simp: routerInterface_def routerConfig_def routerEndpoint_def routerIRB_def addVPN_def addVXLAN_def bindR_Inr_iff
      Let_def split: if_splits option.splits)

lemma typed_BuildOverlay:
  assumes "BuildOverlay inp (NewBuilder inp h) = Inr b"
    and br: "\<And>br. br \<in> set (ns_Bridges (net_Spec (inp_network inp))) \<Longrightarrow> nbr_Name br = x \<Longrightarrow> n \<notin> staticNodes (nbr_Interfaces br)"
    and rt: "\<And>rt. rt \<in> set (ns_Routers (net_Spec (inp_network inp))) \<Longrightarrow> nrt_Name rt \<noteq> x"
  shows "dot (networkName inp) x \<notin> typed (db_devices b) n"
proof -
  let ?X = "dot (networkName inp) x" and ?new = "NewDevices (GetNamespacedName (inp_network inp))"
    and ?spec = "net_Spec (inp_network inp)"
  from assms(1) obtain ds1 where
    b1: "forE (ns_Bridges ?spec) (buildBridge inp) ?new = Inr ds1" and
    b2: "forE (ns_Routers ?spec) (buildRouter inp) ds1 = Inr (db_devices b)"
    by (auto simp: BuildOverlay_def bindR_Inr_iff NewBuilder_def elim!: tryDevices_Inr)
  have new: "?X \<notin> typed ?new n"
    by (simp add: names_def deviceOf_def NewDevices_def typedOf_def NewDevice_def BuildNetworkDevice_def Let_def zero_DeviceSpec_def)
  have inj: "dot (networkName inp) a = ?X \<longleftrightarrow> a = x" for a by (simp add: dot_def)
  have 1: "?X \<notin> typed ds1 n"
  proof (rule forE_invariant [OF b1, of "\<lambda>s. ?X \<notin> typed s n"])
    fix y s s'
    assume y: "y \<in> set (ns_Bridges ?spec)" and s: "?X \<notin> typed s n" and "buildBridge inp y s = Inr s'"
    from this(3) show "?X \<notin> typed s' n" unfolding buildBridge_def Let_def
    proof (rule forE_invariant)
      fix i t t'
      assume i: "i \<in> set (nbr_Interfaces y)" and t: "?X \<notin> typed t n"
        and t': "bridgeInterface inp (dot (networkName inp) (nbr_Name y)) (ucast (nbr_NetworkID y)) i t = Inr t'"
      have "n \<notin> staticNodes [i]" if "nbr_Name y = x"
        using br [OF y that] i unfolding staticNodes_Union [of "nbr_Interfaces y"] by blast
      with t' t show "?X \<notin> typed t' n" by (intro typed_bridgeInterface [OF t' t]) (simp add: inj)
    qed (rule s)
  qed (rule new)
  show ?thesis
  proof (rule forE_invariant [OF b2, of "\<lambda>s. ?X \<notin> typed s n"])
    fix y s s'
    assume y: "y \<in> set (ns_Routers ?spec)" and s: "?X \<notin> typed s n" and "buildRouter inp y s = Inr s'"
    from this(3) show "?X \<notin> typed s' n" unfolding buildRouter_def Let_def
      by (rule forE_invariant) (use s rt [OF y] in \<open>auto dest: typed_routerInterface simp: inj\<close>)
  qed (rule 1)
qed

lemma routerInterface_names_bridge:
  assumes "routerInterface inp ni i itfce ds = Inr ds'" and "\<not> IsDynamic itfce" and "nif_NodeID itfce = Some nodeID"
    and "nif_Bridge itfce = Some bridge"
  shows "dot (networkName inp) bridge \<in> instanceNames (deviceOf ds' (nid_Node nodeID))"
  using assms
  by (auto simp: routerInterface_def routerIRB_def bindR_Inr_iff Let_def AddNetworkInstanceSubInterface_def
      instanceNames_GetOrCreate split: if_splits)

lemma BuildOverlay_names_bridge:
  assumes "BuildOverlay inp b = Inr b'" and r: "r \<in> set (ns_Routers (net_Spec (inp_network inp)))"
    and i: "i \<in> set (nrt_Interfaces r)" "\<not> IsDynamic i" "nif_NodeID i = Some nodeID" "nif_Bridge i = Some bridge"
  shows "dot (networkName inp) bridge \<in> instanceNames (deviceOf (db_devices b') (nid_Node nodeID))"
    (is "?X \<in> instanceNames (deviceOf _ ?n)")
proof -
  let ?named = "\<lambda>s. ?X \<in> instanceNames (deviceOf s ?n)"
  from assms(1) obtain ds1 where b2: "forE (ns_Routers (net_Spec (inp_network inp))) (buildRouter inp) ds1 = Inr (db_devices b')"
    by (auto simp: BuildOverlay_def bindR_Inr_iff elim!: tryDevices_Inr)
  have keep: "?named s'" if "?named s" "buildRouter inp y s = Inr s'" for y s s'
    using buildRouter_result [OF that(2) subset_refl] instanceNames_run that(1) by blast
  have "\<forall>y \<in> set (ns_Routers (net_Spec (inp_network inp))). y = r \<longrightarrow> ?named (db_devices b')"
  proof (rule forE_establishes [OF b2])
    fix y s s'
    assume "buildRouter inp y s = Inr s'"
    then have loop: "forE (nrt_Interfaces y) (routerInterface inp (dot (networkName inp) (nrt_Name y)) (ucast (nrt_NetworkID y))) s = Inr s'"
      by (simp add: buildRouter_def)
    have "\<forall>j \<in> set (nrt_Interfaces y). j = i \<longrightarrow> ?named s'"
    proof (rule forE_establishes [OF loop])
      fix j k t t'
      assume "j = i \<longrightarrow> ?named t" "routerInterface inp (dot (networkName inp) (nrt_Name y)) (ucast (nrt_NetworkID y)) k t = Inr t'"
      moreover from routerInterface_result(1) [OF this(2) subset_refl devices_run_refl] have
        "instanceNames (deviceOf t ?n) \<subseteq> instanceNames (deviceOf t' ?n)" by (rule instanceNames_run)
      ultimately show "j = i \<longrightarrow> ?named t'" by blast
    qed (use routerInterface_names_bridge i(2-4) in blast)
    with i(1) show "y = r \<longrightarrow> ?named s'" by blast
  qed (use keep in blast)
  with r show ?thesis by blast
qed

section \<open>Properties\<close>

text \<open>
  C2. In every device of a successful build the names resolve: the sub interfaces of its network instances, of its
  ISIS and OSPF interfaces, of its dynamic neighbors and of its BFD interfaces exist in the device, the VXLAN
  interface of an instance is a tunnel sub interface of it, and every network instance has one of the three types,
  save those that an IRB of the overlay names.
\<close>

theorem build_names_resolve:
  assumes "Build inp sch (NewBuilder inp h) = Inr b" and "dvs_devices (db_devices b) n = Some d"
  shows "device_refs (subsOf d) (tunnelsOf d)
    (typedOf d \<union> (if IsDefaultNetwork (inp_network inp) then {} else irbBridges inp n)) d"
proof -
  let ?U = "\<lambda>n. if IsDefaultNetwork (inp_network inp) then {} else irbBridges inp n"
  have "refs_ok ?U (db_devices b)"
  proof (cases "IsDefaultNetwork (inp_network inp)")
    case True
    then show ?thesis using assms(1) BuildUnderlay_names [of inp sch h b "\<lambda>_. {}"] by (simp add: Build_def IsDefaultNetwork_def)
  next
    case False
    then show ?thesis using assms(1) BuildOverlay_names [of inp h b] by (simp add: Build_def)
  qed
  then have "device_refs (subs (db_devices b) n) (tunnels (db_devices b) n) (typed (db_devices b) n \<union> ?U n)
      (deviceOf (db_devices b) n)"
    unfolding refs_ok_def by blast
  moreover have "deviceOf (db_devices b) n = d" using assms(2) by (simp add: deviceOf_def)
  ultimately show ?thesis by (simp add: names_def)
qed

text \<open>
  C22. An IRB of a router on a node where its bridge has no interface names a network instance that no operation
  gives a type: the build succeeds and the device has an instance that is none of the three types.
\<close>

theorem irb_without_bridge_interface:
  assumes "Build inp sch (NewBuilder inp h) = Inr b" and "\<not> IsDefaultNetwork (inp_network inp)"
    and "r \<in> set (ns_Routers (net_Spec (inp_network inp)))" and "i \<in> set (nrt_Interfaces r)"
    and "\<not> IsDynamic i" "nif_NodeID i = Some nodeID" "nif_Bridge i = Some bridge"
    and "\<And>br. br \<in> set (ns_Bridges (net_Spec (inp_network inp))) \<Longrightarrow> nbr_Name br = bridge \<Longrightarrow>
      nid_Node nodeID \<notin> staticNodes (nbr_Interfaces br)"
    and "\<And>rt. rt \<in> set (ns_Routers (net_Spec (inp_network inp))) \<Longrightarrow> nrt_Name rt \<noteq> bridge"
  shows "\<exists>d ni. dvs_devices (db_devices b) (nid_Node nodeID) = Some d \<and> ni \<in> set (spec_NetworkInstances (dev_Spec d)) \<and>
    ni_Name ni = dot (networkName inp) bridge \<and> ni_Type ni \<notin> instanceTypes"
proof -
  let ?n = "nid_Node nodeID"
  have o: "BuildOverlay inp (NewBuilder inp h) = Inr b" using assms(1,2) by (simp add: Build_def)
  have "?n \<in> overlayNodes (inp_network inp)"
    using assms(3-6) by (force simp: overlayNodes_def staticNodes_def)
  then obtain d where d: "dvs_devices (db_devices b) ?n = Some d" using BuildOverlay_result(2) [OF o] by blast
  then have dev: "deviceOf (db_devices b) ?n = d" by (simp add: deviceOf_def)
  from BuildOverlay_names_bridge [OF o assms(3-7)] obtain ni where
    ni: "ni \<in> set (spec_NetworkInstances (dev_Spec d))" "ni_Name ni = dot (networkName inp) bridge"
    unfolding dev instanceNames_def by auto
  from ni(1) have "ni_Type ni \<in> instanceTypes \<Longrightarrow> ni_Name ni \<in> typedOf d" by (simp add: typedOf_def)
  with typed_BuildOverlay [OF o assms(8,9)] have "ni_Type ni \<notin> instanceTypes" by (auto simp: names_def dev ni(2))
  with ni d show ?thesis by blast
qed

end
