(* ===== verification/LoopExample.thy ===== *)
theory LoopExample
  imports ControllersExample ConcurrentLoop NamesResolve
begin

text \<open>The executions of the three controllers on the inventory of the example.\<close>

definition exListers :: listers where
  "exListers = \<lparr>lst_Networks = \<lambda>_. Inr [exBlue], lst_Designs = \<lambda>_. Inr [exDesign], lst_Links = \<lambda>_. Inr []\<rparr>"


theorem settled_network_is_ready_witness:
  "\<exists>cr'. isTrue cr' ''Ready'' \<and> isTrue cr' ConditionTypeNetworkDeviceReady \<and> unchanged exCluster exDesign cr'"
proof -
  obtain ws cr' where "loop exListers exCluster (map Ran ws) (exBlue, UNIV) (cr', {})"
    using loop_settles [OF exCluster_healthy, of "(exBlue, UNIV)" exListers] by auto
  from settled_network_is_ready [OF exCluster_healthy _ this] show ?thesis
    by (intro exI [of _ cr']) (simp add: at_rest_def)
qed

lemma exConcurrent: "\<exists>es s. server_steps exListers exCluster es (startState exBlue UNIV) s \<and> idle s"
  using server_settles [OF exCluster_healthy server_none] unfolding leads_to_def by blast



text \<open>The network is complete, and has recorded no design.\<close>

definition exDeployed :: Network where "exDeployed = withStatus ConditionTrue ConditionTrue exOverlay"

lemma exDeployed_healthy: "healthy exCluster exConditions exDeployed exDesign"
  by (rule healthy_identity [OF exCluster_healthy]) (simp add: exDeployed_def exBlue_def withStatus_def)

theorem design_change_redeploys_witness:
  "\<exists>cr devices. buildDevices (clu_device exCluster) cr exDesign = Inr devices \<and>
    APIApply device_kinds devices None \<in> set (out_Actions (device_Reconcile (deviceSees exCluster cr)))"
proof -
  obtain ws cr' where l: "loop exListers exCluster (map Ran ws) (exDeployed, {N}) (cr', {})"
    using loop_settles [OF exDeployed_healthy, of "(exDeployed, {N})" exListers] by auto
  have "\<not> unchanged exCluster exDesign exDeployed"
    by (simp add: unchanged_def hasConfigChanged_def exCluster_def exNet_def exHash_def exDeployed_def withStatus_def
        exStatusOf_def exStatus_def)
  moreover have "isTrue exDeployed ConditionTypeNetworkParamReady" "isTrue exDeployed ConditionTypeNetworkDeviceReady"
    by (simp_all add: isTrue_def exDeployed_def)
  ultimately show ?thesis using design_change_redeploys [OF exDeployed_healthy _ _ _ l] by blast
qed

text \<open>The server refuses every device of the network.\<close>

definition exRefusing :: "string cluster" where
  "exRefusing = exCluster\<lparr>clu_device := exDev exBlue (Some ''refused'')\<rparr>"

definition exClaimed :: Network where "exClaimed = SetConditions exConditions [NetworkParamReady] exBlue"

lemma identity_exClaimed: "identity exClaimed = identity exBlue"
  by (simp add: exClaimed_def)

lemma exRefusing_refuses: "refusesDevices exRefusing exConditions exClaimed exDesign ''refused''"
proof -
  have "exRefusing\<lparr>clu_device := exDev exBlue None\<rparr> = exCluster" by (simp add: exRefusing_def exCluster_def)
  then have "\<exists>d. healthy (exRefusing\<lparr>clu_device := d\<rparr>) exConditions exClaimed exDesign"
    using healthy_identity [OF exCluster_healthy identity_exClaimed] by metis
  moreover have "\<exists>as. device_apply (exDev exBlue (Some ''refused'')) cr exDesign = Inr (as, Some ''refused'')"
    if "identity cr = identity exClaimed" for cr
    using exDev_builds [of exBlue "Some ''refused''" "net_Status cr"] identity_exBlue [of cr] that
    unfolding identity_exClaimed by metis
  ultimately show ?thesis
    by (simp add: refusesDevices_def calm_def) (simp add: exRefusing_def)
qed

theorem refused_devices_spin_witness:
  "loop exListers exRefusing (concat (replicate 100 [Ran D, Ran P])) (exClaimed, UNIV) (exClaimed, UNIV)"
proof -
  have "\<not> isTrue exClaimed ConditionTypeNetworkDeviceReady"
    "GetCondition exClaimed ConditionTypeNetworkParamReady = NetworkParamReady"
    by (simp_all add: exClaimed_def isTrue_def)
  then show ?thesis using refused_devices_spin [OF exRefusing_refuses] by blast
qed

section \<open>Events\<close>

definition exLinkEvent :: object where
  "exLinkEvent = \<lparr>ob_Kind = LinkKind, ob_Key = \<lparr>nsn_Namespace = ''default'', nsn_Name = ''link''\<rparr>, ob_Controller = None,
     ob_Value = WLink exLink\<rparr>"


section \<open>A design that the schema accepts\<close>

definition exIPv4Only :: inputs where
  "exIPv4Only = exInputs\<lparr>inp_design := exDesign\<lparr>nd_Spec := (nd_Spec exDesign)\<lparr>nds_Interfaces := Some
     \<lparr>ndi_Loopback = None, ndi_Underlay = Some \<lparr>ndip_Prefixes = [], ndip_Addressing = ''ipv4only'',
        ndiu_VLANTagging = False, ndiu_BFD = None\<rparr>\<rparr>\<rparr>\<rparr>\<rparr>"

theorem accepted_addressing_witness:
  "si_IPv4 (getUnderlaySubInterface 0 (inp_design exIPv4Only) 0 exLinkInfo) = None \<and>
   si_IPv6 (getUnderlaySubInterface 0 (inp_design exIPv4Only) 0 exLinkInfo) = None"
proof -
  have "Underlay (inp_design exIPv4Only) = Some \<lparr>ndip_Prefixes = [], ndip_Addressing = ''ipv4only'',
      ndiu_VLANTagging = False, ndiu_BFD = None\<rparr>"
    by (simp add: exIPv4Only_def Underlay_def)
  from accepted_addressing [OF this] show ?thesis by (simp add: Addressing_Enum_def)
qed

section \<open>An IRB without a bridge interface\<close>

theorem build_names_resolve_witness:
  "\<exists>b d. Build exInputs exSchedule exNew = Inr b \<and> dvs_devices (db_devices b) ''n0'' = Some d \<and>
     device_refs (subsOf d) (tunnelsOf d) (typedOf d) d"
proof -
  obtain b where b: "Build exInputs exSchedule exNew = Inr b" using ex_Build by blast
  have "''n0'' \<in> dom (dvs_devices (db_devices b))" unfolding Build_run(2) [OF b] ex_buildNodes by simp
  then obtain d where d: "dvs_devices (db_devices b) ''n0'' = Some d" by blast
  have "IsDefaultNetwork (inp_network exInputs)" by simp
  with build_names_resolve [OF b d] have "device_refs (subsOf d) (tunnelsOf d) (typedOf d) d" by simp
  with b d show ?thesis by blast
qed

definition exIRB :: inputs where
  "exIRB = exInputs\<lparr>inp_network := exOverlay\<lparr>net_Spec := \<lparr>ns_Topology = ''topo'',
     ns_Bridges = [\<lparr>nbr_Name = ''br'', nbr_NetworkID = 10, nbr_Interfaces = []\<rparr>],
     ns_Routers = [\<lparr>nrt_Name = ''rt'', nrt_NetworkID = 11,
       nrt_Interfaces = [exInterface\<lparr>nif_Bridge := Some ''br'', nif_EndPoint := None\<rparr>]\<rparr>]\<rparr>\<rparr>\<rparr>"

theorem irb_without_bridge_interface_witness:
  "\<exists>b d ni. Build exIRB exSchedule (NewBuilder exIRB (\<lambda>_. 0)) = Inr b \<and> dvs_devices (db_devices b) ''n0'' = Some d \<and>
     ni \<in> set (spec_NetworkInstances (dev_Spec d)) \<and> ni_Name ni = ''blue.br'' \<and> ni_Type ni \<notin> instanceTypes"
proof -
  let ?i = "exInterface\<lparr>nif_Bridge := Some ''br'', nif_EndPoint := None\<rparr>"
  have net: "\<not> IsDefaultNetwork (inp_network exIRB)" "networkName exIRB = ''blue''" "IsBridgePresent ''br'' (inp_network exIRB)"
    "inp_client exIRB = exClient"
    using ex_networks by (simp_all add: exIRB_def IsDefaultNetwork_def GetNetworkName_def IsBridgePresent_def)
  have spec: "net_Spec (inp_network exIRB) = \<lparr>ns_Topology = ''topo'',
     ns_Bridges = [\<lparr>nbr_Name = ''br'', nbr_NetworkID = 10, nbr_Interfaces = []\<rparr>],
     ns_Routers = [\<lparr>nrt_Name = ''rt'', nrt_NetworkID = 11, nrt_Interfaces = [?i]\<rparr>]\<rparr>"
    by (simp add: exIRB_def)
  have "\<exists>b. Build exIRB exSchedule (NewBuilder exIRB (\<lambda>_. 0)) = Inr b"
    by (simp add: net spec Build_def BuildOverlay_def tryDevices_def buildBridge_def exInterface_def exClient_def Let_def
        IsDynamic_def present_def routerInterface_def buildRouter_def lookupNode_def getNode_def routerIRB_def)
  then obtain b where b: "Build exIRB exSchedule (NewBuilder exIRB (\<lambda>_. 0)) = Inr b" by blast
  have "\<not> IsDynamic ?i" "nif_NodeID ?i = Some (exNode ''n0'')" "nif_Bridge ?i = Some ''br''"
    by (simp_all add: exInterface_def IsDynamic_def present_def)
  note x = irb_without_bridge_interface [OF b net(1) _ _ this, of "\<lparr>nrt_Name = ''rt'', nrt_NetworkID = 11, nrt_Interfaces = [?i]\<rparr>"]
  have "\<exists>d ni. dvs_devices (db_devices b) (nid_Node (exNode ''n0'')) = Some d \<and> ni \<in> set (spec_NetworkInstances (dev_Spec d)) \<and>
      ni_Name ni = dot (networkName exIRB) ''br'' \<and> ni_Type ni \<notin> instanceTypes"
    by (rule x) (simp_all add: spec staticNodes_def)
  then show ?thesis using b by (simp add: net(2) exNode_def dot_def)
qed

end
