(* ===== verification/GoHeap.thy ===== *)
theory GoHeap
  imports Prelude
begin

text \<open>
  Values of Go with their pointers, for the code in which sharing matters: the deep copies that the controllers
  take of what they read. A memory maps a location to the values stored there: one for a pointer, the elements for
  the array of a slice, one struct of entries for a map. A location below \<open>mem_next\<close> is in use.

  \<open>shape t m v d L\<close> says that \<open>v\<close> is a value of type \<open>t\<close> in \<open>m\<close>, that following its pointers gives the tree \<open>d\<close>, and
  that \<open>L\<close> are the locations it reaches. \<open>isolates t c\<close> says that \<open>c\<close> is a deep copy for type \<open>t\<close>: the tree of the
  copy is that of the original, its locations are new, and no location in use was written. There is one rule
  per statement that the generator of deep copies emits.
\<close>

section \<open>Values and memories\<close>

text \<open>Strings, numbers and booleans hold no pointer and are not told apart.\<close>

datatype goval = Scalar string | Ptr "nat option" | Slice "(nat \<times> nat) option" | GoMap "nat option"
  | Struct "(string \<times> goval) list"

datatype gotype = TScalar | TPtr gotype | TSlice gotype | TMap gotype | TStruct "(string \<times> gotype) list"

datatype gotree = Leaf string | NilTree | Elems "gotree list" | Fields "(string \<times> gotree) list"

record gomem =
  mem_cells :: "nat \<Rightarrow> goval list"
  mem_next :: nat

definition newCells :: "goval list \<Rightarrow> gomem \<Rightarrow> nat \<times> gomem" where
  "newCells vs m = (mem_next m, \<lparr>mem_cells = (mem_cells m)(mem_next m := vs), mem_next = Suc (mem_next m)\<rparr>)"

definition setCells :: "nat \<Rightarrow> goval list \<Rightarrow> gomem \<Rightarrow> gomem" where
  "setCells l vs m = m\<lparr>mem_cells := (mem_cells m)(l := vs)\<rparr>"

text \<open>A slice is its array from the first element on, and its length.\<close>

inductive shape :: "gotype \<Rightarrow> gomem \<Rightarrow> goval \<Rightarrow> gotree \<Rightarrow> nat set \<Rightarrow> bool"
  and shapes :: "gotype \<Rightarrow> gomem \<Rightarrow> goval list \<Rightarrow> gotree list \<Rightarrow> nat set \<Rightarrow> bool"
  and fieldsShape :: "(string \<times> gotype) list \<Rightarrow> gomem \<Rightarrow> (string \<times> goval) list \<Rightarrow> (string \<times> gotree) list \<Rightarrow> nat set \<Rightarrow> bool"
  where
  scalar: "shape TScalar m (Scalar s) (Leaf s) {}"
| ptr_nil: "shape (TPtr t) m (Ptr None) NilTree {}"
| ptr: "l < mem_next m \<Longrightarrow> mem_cells m l = [v] \<Longrightarrow> shape t m v d L \<Longrightarrow> shape (TPtr t) m (Ptr (Some l)) (Elems [d]) (insert l L)"
| slice_nil: "shape (TSlice t) m (Slice None) NilTree {}"
| slice: "l < mem_next m \<Longrightarrow> n \<le> length (mem_cells m l) \<Longrightarrow> shapes t m (take n (mem_cells m l)) ds L \<Longrightarrow>
    shape (TSlice t) m (Slice (Some (l, n))) (Elems ds) (insert l L)"
| map_nil: "shape (TMap t) m (GoMap None) NilTree {}"
| map: "l < mem_next m \<Longrightarrow> mem_cells m l = [Struct kvs] \<Longrightarrow> fieldsShape (map (\<lambda>(k, v). (k, t)) kvs) m kvs ds L \<Longrightarrow>
    shape (TMap t) m (GoMap (Some l)) (Fields ds) (insert l L)"
| struct: "fieldsShape ts m fs ds L \<Longrightarrow> shape (TStruct ts) m (Struct fs) (Fields ds) L"
| shapes_Nil: "shapes t m [] [] {}"
| shapes_Cons: "shape t m v d L \<Longrightarrow> shapes t m vs ds L' \<Longrightarrow> shapes t m (v # vs) (d # ds) (L \<union> L')"
| fields_Nil: "fieldsShape [] m [] [] {}"
| fields_Cons: "shape t m v d L \<Longrightarrow> fieldsShape ts m fs ds L' \<Longrightarrow>
    fieldsShape ((n, t) # ts) m ((n, v) # fs) ((n, d) # ds) (L \<union> L')"

inductive_cases shape_cases:
  "shape TScalar m v d L" "shape (TPtr t) m v d L" "shape (TSlice t) m v d L" "shape (TMap t) m v d L"
  "shape (TStruct ts) m v d L"
inductive_cases shapes_ConsE: "shapes t m (v # vs) ds L"
inductive_cases shapes_NilE [elim!]: "shapes t m [] ds L"
inductive_cases fieldsShape_ConsE: "fieldsShape ((n, t) # ts) m fs ds L"
inductive_cases fieldsShape_NilE [elim!]: "fieldsShape [] m fs ds L"

lemma shape_Ptr_nil: "shape (TPtr t) m v d L \<Longrightarrow> v = Ptr None \<longleftrightarrow> d = NilTree"
  by (erule shape_cases(2)) auto

section \<open>What a write leaves alone\<close>

lemma shape_used:
  "shape t m v d L \<Longrightarrow> \<forall>l \<in> L. l < mem_next m"
  "shapes t m vs ds L \<Longrightarrow> \<forall>l \<in> L. l < mem_next m"
  "fieldsShape ts m fs fds L \<Longrightarrow> \<forall>l \<in> L. l < mem_next m"
  by (induction rule: shape_shapes_fieldsShape.inducts) auto

lemma shape_frame:
  "shape t m v d L \<Longrightarrow> (\<forall>l \<in> L. mem_cells m' l = mem_cells m l) \<Longrightarrow> mem_next m \<le> mem_next m' \<Longrightarrow> shape t m' v d L"
  "shapes t m vs ds L \<Longrightarrow> (\<forall>l \<in> L. mem_cells m' l = mem_cells m l) \<Longrightarrow> mem_next m \<le> mem_next m' \<Longrightarrow> shapes t m' vs ds L"
  "fieldsShape ts m fs fds L \<Longrightarrow> (\<forall>l \<in> L. mem_cells m' l = mem_cells m l) \<Longrightarrow> mem_next m \<le> mem_next m' \<Longrightarrow>
    fieldsShape ts m' fs fds L"
  by (induction rule: shape_shapes_fieldsShape.inducts) (auto intro: shape_shapes_fieldsShape.intros)

text \<open>A memory grows when nothing that is in use changes.\<close>

definition grown :: "gomem \<Rightarrow> gomem \<Rightarrow> bool" where
  "grown m m' \<longleftrightarrow> mem_next m \<le> mem_next m' \<and> (\<forall>l < mem_next m. mem_cells m' l = mem_cells m l)"

lemma grown_refl [simp]: "grown m m"
  by (simp add: grown_def)

lemma grown_trans: "grown m m' \<Longrightarrow> grown m' m'' \<Longrightarrow> grown m m''"
  by (simp add: grown_def)

lemma grown_new: "newCells vs m = (l, m') \<Longrightarrow> grown m m'"
  by (auto simp: newCells_def grown_def)

lemma grown_store: "grown m m' \<Longrightarrow> mem_next m \<le> l \<Longrightarrow> grown m (setCells l vs m')"
  by (auto simp: grown_def setCells_def)

lemma shape_grown:
  "shape t m v d L \<Longrightarrow> grown m m' \<Longrightarrow> shape t m' v d L"
  "shapes t m vs ds L \<Longrightarrow> grown m m' \<Longrightarrow> shapes t m' vs ds L"
  "fieldsShape ts m fs fds L \<Longrightarrow> grown m m' \<Longrightarrow> fieldsShape ts m' fs fds L"
  using shape_used shape_frame by (auto simp: grown_def)

lemma shape_store:
  "shape t m v d L \<Longrightarrow> l \<notin> L \<Longrightarrow> shape t (setCells l vs m) v d L"
  "shapes t m xs ds L \<Longrightarrow> l \<notin> L \<Longrightarrow> shapes t (setCells l vs m) xs ds L"
  by (erule shape_frame; auto simp: setCells_def)+

section \<open>The statements of the generated code\<close>

type_synonym copier = "goval \<Rightarrow> gomem \<Rightarrow> goval \<times> gomem"

text \<open>\<open>*out = *in\<close>\<close>

definition assign :: copier where
  "assign v m = (v, m)"

text \<open>
  \<open>if in.X != nil { in, out := &in.X, &out.X; *out = new(T); (*in).DeepCopyInto(*out) }\<close>, and with \<open>**out = **in\<close> for
  a type without pointers. What \<open>new\<close> stores is overwritten before it is read.
\<close>

definition copyPtr :: "copier \<Rightarrow> copier" where
  "copyPtr c v m = (case v of
      Ptr (Some l) \<Rightarrow>
        (case newCells [Scalar ''''] m of (l', m1) \<Rightarrow>
         case c (hd (mem_cells m l)) m1 of (x, m2) \<Rightarrow> (Ptr (Some l'), setCells l' [x] m2))
    | _ \<Rightarrow> (v, m))"

text \<open>
  \<open>if in.X != nil { in, out := &in.X, &out.X; *out = make([]T, len(*in)); for i := range *in { \<dots> } }\<close>, and with
  \<open>copy(*out, *in)\<close> for elements without pointers. The elements of the new array are not read before its end.
\<close>

fun copyElems :: "copier \<Rightarrow> goval list \<Rightarrow> gomem \<Rightarrow> goval list \<times> gomem" where
  "copyElems c [] m = ([], m)"
| "copyElems c (v # vs) m = (case c v m of (x, m1) \<Rightarrow> case copyElems c vs m1 of (xs, m2) \<Rightarrow> (x # xs, m2))"

definition copySlice :: "copier \<Rightarrow> copier" where
  "copySlice c v m = (case v of
      Slice (Some (l, n)) \<Rightarrow>
        (case newCells (replicate n (Scalar '''')) m of (l', m1) \<Rightarrow>
         case copyElems c (take n (mem_cells m l)) m1 of (xs, m2) \<Rightarrow> (Slice (Some (l', n)), setCells l' xs m2))
    | _ \<Rightarrow> (v, m))"

text \<open>The body of a \<open>DeepCopyInto\<close>: \<open>*out = *in\<close>, then its statements, one for each field that is named.\<close>

fun copyFields :: "(string \<times> copier) list \<Rightarrow> (string \<times> goval) list \<Rightarrow> gomem \<Rightarrow> (string \<times> goval) list \<times> gomem" where
  "copyFields cs [] m = ([], m)"
| "copyFields cs ((n, v) # fs) m =
     (case (case map_of cs n of None \<Rightarrow> assign v m | Some c \<Rightarrow> c v m) of (x, m1) \<Rightarrow>
      case copyFields cs fs m1 of (xs, m2) \<Rightarrow> ((n, x) # xs, m2))"

definition copyStruct :: "(string \<times> copier) list \<Rightarrow> copier" where
  "copyStruct cs v m = (case v of
      Struct fs \<Rightarrow> (case copyFields cs fs m of (xs, m1) \<Rightarrow> (Struct xs, m1))
    | _ \<Rightarrow> (v, m))"

text \<open>
  \<open>DeepCopy\<close>: \<open>if in == nil { return nil }; out := new(T); in.DeepCopyInto(out); return out\<close>, and \<open>DeepCopyObject\<close>, whose
  result is an interface: \<open>None\<close> for nil.
\<close>

definition DeepCopy :: "copier \<Rightarrow> copier" where
  "DeepCopy into = copyPtr into"

definition DeepCopyObject :: "copier \<Rightarrow> goval \<Rightarrow> gomem \<Rightarrow> goval option \<times> gomem" where
  "DeepCopyObject copy v m = (case copy v m of (c, m') \<Rightarrow> (if c \<noteq> Ptr None then Some c else None, m'))"

section \<open>Deep copies\<close>

definition isolates :: "gotype \<Rightarrow> copier \<Rightarrow> bool" where
  "isolates t c \<longleftrightarrow> (\<forall>m v d L v' m'. shape t m v d L \<longrightarrow> c v m = (v', m') \<longrightarrow>
     grown m m' \<and> (\<exists>L'. shape t m' v' d L' \<and> (\<forall>l \<in> L'. mem_next m \<le> l)))"

lemma isolatesD:
  assumes "isolates t c" and "shape t m v d L" and "c v m = (v', m')"
  obtains L' where "grown m m'" "shape t m' v' d L'" "\<forall>l \<in> L'. mem_next m \<le> l"
  using assms unfolding isolates_def by metis

text \<open>A type without pointers, slices and maps.\<close>

fun flat :: "gotype \<Rightarrow> bool" where
  "flat TScalar = True"
| "flat (TStruct ts) = list_all flat (map snd ts)"
| "flat _ = False"

lemma shape_flat:
  "shape t m v d L \<Longrightarrow> flat t \<Longrightarrow> L = {}"
  "shapes t m vs ds L \<Longrightarrow> flat t \<Longrightarrow> L = {}"
  "fieldsShape ts m fs fds L \<Longrightarrow> list_all flat (map snd ts) \<Longrightarrow> L = {}"
  by (induction rule: shape_shapes_fieldsShape.inducts) auto

lemma isolates_assign [simp]: "flat t \<Longrightarrow> isolates t assign"
  unfolding isolates_def assign_def by (auto dest: shape_flat)

lemma isolates_copyPtr [simp]:
  assumes "isolates t c"
  shows "isolates (TPtr t) (copyPtr c)"
  unfolding isolates_def
proof (intro allI impI)
  fix m v d L v' m'
  assume v: "shape (TPtr t) m v d L" and c: "copyPtr c v m = (v', m')"
  from v consider "v = Ptr None" "d = NilTree"
    | l x d1 L1 where "v = Ptr (Some l)" "d = Elems [d1]" "l < mem_next m" "mem_cells m l = [x]" "shape t m x d1 L1"
    by (rule shape_cases(2)) blast+
  then show "grown m m' \<and> (\<exists>L'. shape (TPtr t) m' v' d L' \<and> (\<forall>l \<in> L'. mem_next m \<le> l))"
  proof cases
    case 1
    then show ?thesis using c ptr_nil [of t m] by (force simp: copyPtr_def)
  next
    case 2
    obtain l' m1 where n: "newCells [Scalar ''''] m = (l', m1)" by (cases "newCells [Scalar ''''] m")
    obtain y m2 where y: "c x m1 = (y, m2)" by (cases "c x m1")
    have m': "v' = Ptr (Some l')" "m' = setCells l' [y] m2" using c n y 2 by (simp_all add: copyPtr_def)
    have l': "l' = mem_next m" "mem_next m1 = Suc l'" "grown m m1" using n grown_new [OF n] by (auto simp: newCells_def)
    from isolatesD [OF assms shape_grown(1) [OF 2(5) l'(3)] y] obtain L2 where
      r: "grown m1 m2" "shape t m2 y d1 L2" "\<forall>l \<in> L2. mem_next m1 \<le> l" .
    have "l' \<notin> L2" using r(3) l'(2) by auto
    with r(2) have "shape t m' y d1 L2" unfolding m' by (rule shape_store)
    moreover have "l' < mem_next m'" using r(1) l'(2) by (simp add: m' setCells_def grown_def)
    moreover have "mem_cells m' l' = [y]" by (simp add: m' setCells_def)
    ultimately have "shape (TPtr t) m' v' d (insert l' L2)" unfolding m'(1) 2 by (intro ptr)
    moreover have "grown m m'" unfolding m' using grown_trans [OF l'(3) r(1)] l'(1) by (intro grown_store) auto
    moreover have "\<forall>l \<in> insert l' L2. mem_next m \<le> l" using r(3) l'(1,2) by fastforce
    ultimately show ?thesis by blast
  qed
qed

lemma copyElems_isolates:
  assumes "isolates t c" and "shapes t m vs ds L" and "copyElems c vs m = (xs, m')"
  shows "grown m m' \<and> length xs = length vs \<and> (\<exists>L'. shapes t m' xs ds L' \<and> (\<forall>l \<in> L'. mem_next m \<le> l))"
  using assms(2,3)
proof (induction vs arbitrary: m ds L xs)
  case Nil
  then show ?case by (auto intro!: exI [of _ "{}"] shapes_Nil)
next
  case (Cons v vs)
  from Cons.prems(1) obtain d ds1 L1 L2 where d: "ds = d # ds1" "shape t m v d L1" "shapes t m vs ds1 L2"
    by (rule shapes_ConsE)
  obtain x m1 where x: "c v m = (x, m1)" by (cases "c v m")
  obtain xs1 m2 where xs: "copyElems c vs m1 = (xs1, m2)" by (cases "copyElems c vs m1")
  have r: "xs = x # xs1" "m' = m2" using Cons.prems(2) x xs by simp_all
  from isolatesD [OF assms(1) d(2) x] obtain La where a: "grown m m1" "shape t m1 x d La" "\<forall>l \<in> La. mem_next m \<le> l" .
  from Cons.IH [OF shape_grown(2) [OF d(3) a(1)]] xs r(2) obtain Lb where
    b: "grown m1 m'" "length xs1 = length vs" "shapes t m' xs1 ds1 Lb" "\<forall>l \<in> Lb. mem_next m1 \<le> l" by auto
  have "shapes t m' xs ds (La \<union> Lb)" unfolding r(1) d(1) by (rule shapes_Cons [OF shape_grown(1) [OF a(2) b(1)] b(3)])
  moreover have "\<forall>l \<in> La \<union> Lb. mem_next m \<le> l" using a(1,3) b(4) by (fastforce simp: grown_def)
  moreover have "length xs = length (v # vs)" using r(1) b(2) by simp
  ultimately show ?case using grown_trans [OF a(1) b(1)] by blast
qed

lemma isolates_copySlice [simp]:
  assumes "isolates t c"
  shows "isolates (TSlice t) (copySlice c)"
  unfolding isolates_def
proof (intro allI impI)
  fix m v d L v' m'
  assume v: "shape (TSlice t) m v d L" and c: "copySlice c v m = (v', m')"
  from v consider "v = Slice None" "d = NilTree"
    | l n ds L1 where "v = Slice (Some (l, n))" "d = Elems ds" "l < mem_next m" "n \<le> length (mem_cells m l)"
        "shapes t m (take n (mem_cells m l)) ds L1"
    by (rule shape_cases(3)) blast+
  then show "grown m m' \<and> (\<exists>L'. shape (TSlice t) m' v' d L' \<and> (\<forall>l \<in> L'. mem_next m \<le> l))"
  proof cases
    case 1
    then show ?thesis using c slice_nil [of t m] by (force simp: copySlice_def)
  next
    case 2
    let ?vs = "take n (mem_cells m l)"
    obtain l' m1 where n: "newCells (replicate n (Scalar '''')) m = (l', m1)" by (cases "newCells (replicate n (Scalar '''')) m")
    obtain xs m2 where xs: "copyElems c ?vs m1 = (xs, m2)" by (cases "copyElems c ?vs m1")
    have m': "v' = Slice (Some (l', n))" "m' = setCells l' xs m2" using c n xs 2 by (simp_all add: copySlice_def)
    have l': "l' = mem_next m" "mem_next m1 = Suc l'" "grown m m1" using n grown_new [OF n] by (auto simp: newCells_def)
    have "shapes t m1 ?vs ds L1" using 2(5) l'(3) by (rule shape_grown)
    from copyElems_isolates [OF assms this xs] obtain L2 where
      r: "grown m1 m2" "length xs = n" "shapes t m2 xs ds L2" "\<forall>l \<in> L2. mem_next m1 \<le> l"
      using 2 by auto
    have "l' \<notin> L2" using r(4) l'(2) by auto
    with r(3) have "shapes t m' xs ds L2" unfolding m' by (rule shape_store)
    moreover have "l' < mem_next m'" using r(1) l'(2) by (simp add: m' setCells_def grown_def)
    moreover have "mem_cells m' l' = xs" by (simp add: m' setCells_def)
    ultimately have "shape (TSlice t) m' v' d (insert l' L2)" unfolding m'(1) 2 using r(2) by (intro slice) simp_all
    moreover have "grown m m'" unfolding m' using grown_trans [OF l'(3) r(1)] l'(1) by (intro grown_store) auto
    moreover have "\<forall>l \<in> insert l' L2. mem_next m \<le> l" using r(4) l'(1,2) by fastforce
    ultimately show ?thesis by blast
  qed
qed

text \<open>The field of a struct that no statement names must be of a type without pointers.\<close>

definition covers :: "(string \<times> gotype) list \<Rightarrow> (string \<times> copier) list \<Rightarrow> bool" where
  "covers ts cs \<longleftrightarrow> list_all (\<lambda>(n, t). case map_of cs n of None \<Rightarrow> flat t | Some c \<Rightarrow> isolates t c) ts"

lemma copyFields_isolates:
  assumes "covers ts cs" and "fieldsShape ts m fs ds L" and "copyFields cs fs m = (xs, m')"
  shows "grown m m' \<and> (\<exists>L'. fieldsShape ts m' xs ds L' \<and> (\<forall>l \<in> L'. mem_next m \<le> l))"
  using assms
proof (induction ts arbitrary: m fs ds L xs)
  case Nil
  then show ?case by (auto intro!: exI [of _ "{}"] fields_Nil)
next
  case (Cons nt ts)
  obtain n t where nt: "nt = (n, t)" by (cases nt)
  from Cons.prems(2) obtain v fs1 d ds1 L1 L2 where d: "fs = (n, v) # fs1" "ds = (n, d) # ds1"
    "shape t m v d L1" "fieldsShape ts m fs1 ds1 L2"
    unfolding nt by (rule fieldsShape_ConsE)
  let ?c = "case map_of cs n of None \<Rightarrow> assign | Some c \<Rightarrow> c"
  have c: "isolates t ?c" and cov: "covers ts cs" using Cons.prems(1) by (auto simp: covers_def nt split: option.splits)
  obtain x m1 where x: "?c v m = (x, m1)" by (cases "?c v m")
  obtain xs1 m2 where xs: "copyFields cs fs1 m1 = (xs1, m2)" by (cases "copyFields cs fs1 m1")
  have r: "xs = (n, x) # xs1" "m' = m2" using Cons.prems(3) x xs by (auto simp: d(1) split: option.splits)
  from isolatesD [OF c d(3) x] obtain La where a: "grown m m1" "shape t m1 x d La" "\<forall>l \<in> La. mem_next m \<le> l" .
  from Cons.IH [OF cov shape_grown(3) [OF d(4) a(1)]] xs r(2) obtain Lb where
    b: "grown m1 m'" "fieldsShape ts m' xs1 ds1 Lb" "\<forall>l \<in> Lb. mem_next m1 \<le> l" by auto
  have "fieldsShape (nt # ts) m' xs ds (La \<union> Lb)" unfolding r(1) d(2) nt
    by (rule fields_Cons [OF shape_grown(1) [OF a(2) b(1)] b(2)])
  moreover have "\<forall>l \<in> La \<union> Lb. mem_next m \<le> l" using a(1,3) b(3) by (fastforce simp: grown_def)
  ultimately show ?case using grown_trans [OF a(1) b(1)] by blast
qed

lemma isolates_copyStruct:
  assumes "covers ts cs"
  shows "isolates (TStruct ts) (copyStruct cs)"
  unfolding isolates_def
proof (intro allI impI)
  fix m v d L v' m'
  assume v: "shape (TStruct ts) m v d L" and c: "copyStruct cs v m = (v', m')"
  from v obtain fs ds where f: "v = Struct fs" "d = Fields ds" "fieldsShape ts m fs ds L" by (rule shape_cases(5))
  obtain xs m1 where xs: "copyFields cs fs m = (xs, m1)" by (cases "copyFields cs fs m")
  have "v' = Struct xs" "m' = m1" using c xs by (simp_all add: copyStruct_def f(1))
  then show "grown m m' \<and> (\<exists>L'. shape (TStruct ts) m' v' d L' \<and> (\<forall>l \<in> L'. mem_next m \<le> l))"
    using copyFields_isolates [OF assms f(3) xs] f(2) by (auto intro: struct)
qed

lemma isolates_DeepCopy [simp]: "isolates t c \<Longrightarrow> isolates (TPtr t) (DeepCopy c)"
  by (simp add: DeepCopy_def)

text \<open>
  What the caller of \<open>DeepCopy\<close> has: an equal object that reaches no location of the original, so whatever is
  written through the copy leaves the original as it was, and the other way round.
\<close>

lemma DeepCopy_separate:
  assumes "isolates t c" and v: "shape (TPtr t) m v d L" and r: "DeepCopy c v m = (r, m')"
  obtains L' where "shape (TPtr t) m' r d L'" "L \<inter> L' = {}" "shape (TPtr t) m' v d L"
    "\<And>m''. mem_next m' \<le> mem_next m'' \<Longrightarrow> (\<And>l. l \<notin> L' \<Longrightarrow> l < mem_next m' \<Longrightarrow> mem_cells m'' l = mem_cells m' l) \<Longrightarrow>
      shape (TPtr t) m'' v d L"
    "\<And>m''. mem_next m' \<le> mem_next m'' \<Longrightarrow> (\<And>l. l \<notin> L \<Longrightarrow> l < mem_next m' \<Longrightarrow> mem_cells m'' l = mem_cells m' l) \<Longrightarrow>
      shape (TPtr t) m'' r d L'"
proof -
  from isolatesD [OF isolates_DeepCopy [OF assms(1)] v r] obtain L' where
    a: "grown m m'" "shape (TPtr t) m' r d L'" "\<forall>l \<in> L'. mem_next m \<le> l" .
  have disj: "L \<inter> L' = {}" using a(3) shape_used(1) [OF v] by fastforce
  have v': "shape (TPtr t) m' v d L" by (rule shape_grown(1) [OF v a(1)])
  show thesis
  proof (rule that [OF a(2) disj v'])
    fix m'' :: gomem
    assume n: "mem_next m' \<le> mem_next m''"
    show "shape (TPtr t) m'' v d L" if "\<And>l. l \<notin> L' \<Longrightarrow> l < mem_next m' \<Longrightarrow> mem_cells m'' l = mem_cells m' l"
      using v' n disj shape_used(1) [OF v'] that by (intro shape_frame(1) [OF v' _ n]) blast
    show "shape (TPtr t) m'' r d L'" if "\<And>l. l \<notin> L \<Longrightarrow> l < mem_next m' \<Longrightarrow> mem_cells m'' l = mem_cells m' l"
      using a(2) n disj shape_used(1) [OF a(2)] that by (intro shape_frame(1) [OF a(2) _ n]) blast
  qed
qed

end
