(* ===== verification/CopyDesign.thy ===== *)
theory CopyDesign
  imports GoHeap
begin

text \<open>
  The types of \<open>networkdesign_types.go\<close> and their deep copies (\<open>zz_generated.deepcopy.go\<close>). A type \<open>T\<close> is
  \<open>T_type\<close>, the fields of the struct in their order; \<open>T_DeepCopyInto\<close> has the statements of the function of that name.
  Types of other modules are a parameter, with their deep copies: those whose value the code assigns must hold no
  pointer, and the others come with a deep copy of their own.
\<close>

section \<open>Types of other modules\<close>

type_synonym externals = "string \<Rightarrow> gotype \<times> copier"

definition extType :: "externals \<Rightarrow> string \<Rightarrow> gotype" where
  "extType x n = fst (x n)"

definition extDeepCopyInto :: "externals \<Rightarrow> string \<Rightarrow> copier" where
  "extDeepCopyInto x n = snd (x n)"

definition externals_ok :: "externals \<Rightarrow> bool" where
  "externals_ok x \<longleftrightarrow>
     list_all (\<lambda>n. flat (extType x n)) [''TypeMeta'', ''NodeID'', ''Location''] \<and>
     list_all (\<lambda>n. isolates (extType x n) (extDeepCopyInto x n))
       [''ObjectMeta'', ''ListMeta'', ''ConditionedStatus'', ''LabelSelector'', ''RawExtension'', ''Prefix'',
        ''BFDLinkParameters'']"

lemma externals_okD [simp]:
  assumes "externals_ok x"
  shows "flat (extType x ''TypeMeta'')" "flat (extType x ''NodeID'')" "flat (extType x ''Location'')"
    "isolates (extType x ''ObjectMeta'') (extDeepCopyInto x ''ObjectMeta'')"
    "isolates (extType x ''ListMeta'') (extDeepCopyInto x ''ListMeta'')"
    "isolates (extType x ''ConditionedStatus'') (extDeepCopyInto x ''ConditionedStatus'')"
    "isolates (extType x ''LabelSelector'') (extDeepCopyInto x ''LabelSelector'')"
    "isolates (extType x ''RawExtension'') (extDeepCopyInto x ''RawExtension'')"
    "isolates (extType x ''Prefix'') (extDeepCopyInto x ''Prefix'')"
    "isolates (extType x ''BFDLinkParameters'') (extDeepCopyInto x ''BFDLinkParameters'')"
  using assms by (simp_all add: externals_ok_def)

lemmas copy_struct = isolates_copyStruct covers_def

section \<open>Types and copies\<close>

definition NetworkDesignEncapsulationMPLSLDP_type :: gotype where
  "NetworkDesignEncapsulationMPLSLDP_type = TStruct []"

definition NetworkDesignEncapsulationMPLSLDP_DeepCopyInto :: copier where
  "NetworkDesignEncapsulationMPLSLDP_DeepCopyInto = copyStruct []"

definition NetworkDesignEncapsulationMPLSLDP_DeepCopy :: copier where
  "NetworkDesignEncapsulationMPLSLDP_DeepCopy = DeepCopy NetworkDesignEncapsulationMPLSLDP_DeepCopyInto"

definition NetworkDesignEncapsulationMPLSRSVP_type :: gotype where
  "NetworkDesignEncapsulationMPLSRSVP_type = TStruct []"

definition NetworkDesignEncapsulationMPLSRSVP_DeepCopyInto :: copier where
  "NetworkDesignEncapsulationMPLSRSVP_DeepCopyInto = copyStruct []"

definition NetworkDesignEncapsulationMPLSRSVP_DeepCopy :: copier where
  "NetworkDesignEncapsulationMPLSRSVP_DeepCopy = DeepCopy NetworkDesignEncapsulationMPLSRSVP_DeepCopyInto"

definition NetworkDesignEncapsulationMPLSSR_type :: gotype where
  "NetworkDesignEncapsulationMPLSSR_type = TStruct []"

definition NetworkDesignEncapsulationMPLSSR_DeepCopyInto :: copier where
  "NetworkDesignEncapsulationMPLSSR_DeepCopyInto = copyStruct []"

definition NetworkDesignEncapsulationMPLSSR_DeepCopy :: copier where
  "NetworkDesignEncapsulationMPLSSR_DeepCopy = DeepCopy NetworkDesignEncapsulationMPLSSR_DeepCopyInto"

definition NetworkDesignEncapsulationMPLSSRv6MicroSID_type :: gotype where
  "NetworkDesignEncapsulationMPLSSRv6MicroSID_type = TStruct []"

definition NetworkDesignEncapsulationMPLSSRv6MicroSID_DeepCopyInto :: copier where
  "NetworkDesignEncapsulationMPLSSRv6MicroSID_DeepCopyInto = copyStruct []"

definition NetworkDesignEncapsulationMPLSSRv6MicroSID_DeepCopy :: copier where
  "NetworkDesignEncapsulationMPLSSRv6MicroSID_DeepCopy = DeepCopy NetworkDesignEncapsulationMPLSSRv6MicroSID_DeepCopyInto"

definition NetworkDesignEncapsulationVXLAN_type :: gotype where
  "NetworkDesignEncapsulationVXLAN_type = TStruct []"

definition NetworkDesignEncapsulationVXLAN_DeepCopyInto :: copier where
  "NetworkDesignEncapsulationVXLAN_DeepCopyInto = copyStruct []"

definition NetworkDesignEncapsulationVXLAN_DeepCopy :: copier where
  "NetworkDesignEncapsulationVXLAN_DeepCopy = DeepCopy NetworkDesignEncapsulationVXLAN_DeepCopyInto"

definition NetworkDesignInterfaceParameters_type :: "externals \<Rightarrow> gotype" where
  "NetworkDesignInterfaceParameters_type x =
    TStruct [(''Prefixes'', TSlice (extType x ''Prefix'')), (''Addressing'', TScalar)]"

definition NetworkDesignInterfaceParameters_DeepCopyInto :: "externals \<Rightarrow> copier" where
  "NetworkDesignInterfaceParameters_DeepCopyInto x = copyStruct [(''Prefixes'', copySlice (extDeepCopyInto x ''Prefix''))]"

definition NetworkDesignInterfaceParameters_DeepCopy :: "externals \<Rightarrow> copier" where
  "NetworkDesignInterfaceParameters_DeepCopy x = DeepCopy (NetworkDesignInterfaceParameters_DeepCopyInto x)"

definition NetworkDesignProtocolsBGPEVPN_type :: gotype where
  "NetworkDesignProtocolsBGPEVPN_type = TStruct []"

definition NetworkDesignProtocolsBGPEVPN_DeepCopyInto :: copier where
  "NetworkDesignProtocolsBGPEVPN_DeepCopyInto = copyStruct []"

definition NetworkDesignProtocolsBGPEVPN_DeepCopy :: copier where
  "NetworkDesignProtocolsBGPEVPN_DeepCopy = DeepCopy NetworkDesignProtocolsBGPEVPN_DeepCopyInto"

definition NetworkDesignProtocolsBGPLabeledUnicastv4_type :: gotype where
  "NetworkDesignProtocolsBGPLabeledUnicastv4_type = TStruct []"

definition NetworkDesignProtocolsBGPLabeledUnicastv4_DeepCopyInto :: copier where
  "NetworkDesignProtocolsBGPLabeledUnicastv4_DeepCopyInto = copyStruct []"

definition NetworkDesignProtocolsBGPLabeledUnicastv4_DeepCopy :: copier where
  "NetworkDesignProtocolsBGPLabeledUnicastv4_DeepCopy = DeepCopy NetworkDesignProtocolsBGPLabeledUnicastv4_DeepCopyInto"

definition NetworkDesignProtocolsBGPLabeledUnicastv6_type :: gotype where
  "NetworkDesignProtocolsBGPLabeledUnicastv6_type = TStruct []"

definition NetworkDesignProtocolsBGPLabeledUnicastv6_DeepCopyInto :: copier where
  "NetworkDesignProtocolsBGPLabeledUnicastv6_DeepCopyInto = copyStruct []"

definition NetworkDesignProtocolsBGPLabeledUnicastv6_DeepCopy :: copier where
  "NetworkDesignProtocolsBGPLabeledUnicastv6_DeepCopy = DeepCopy NetworkDesignProtocolsBGPLabeledUnicastv6_DeepCopyInto"

definition NetworkDesignProtocolsBGPRouteTarget_type :: gotype where
  "NetworkDesignProtocolsBGPRouteTarget_type = TStruct []"

definition NetworkDesignProtocolsBGPRouteTarget_DeepCopyInto :: copier where
  "NetworkDesignProtocolsBGPRouteTarget_DeepCopyInto = copyStruct []"

definition NetworkDesignProtocolsBGPRouteTarget_DeepCopy :: copier where
  "NetworkDesignProtocolsBGPRouteTarget_DeepCopy = DeepCopy NetworkDesignProtocolsBGPRouteTarget_DeepCopyInto"

definition NetworkDesignProtocolsBGPVPNv4_type :: gotype where
  "NetworkDesignProtocolsBGPVPNv4_type = TStruct []"

definition NetworkDesignProtocolsBGPVPNv4_DeepCopyInto :: copier where
  "NetworkDesignProtocolsBGPVPNv4_DeepCopyInto = copyStruct []"

definition NetworkDesignProtocolsBGPVPNv4_DeepCopy :: copier where
  "NetworkDesignProtocolsBGPVPNv4_DeepCopy = DeepCopy NetworkDesignProtocolsBGPVPNv4_DeepCopyInto"

definition NetworkDesignProtocolsBGPVPNv6_type :: gotype where
  "NetworkDesignProtocolsBGPVPNv6_type = TStruct []"

definition NetworkDesignProtocolsBGPVPNv6_DeepCopyInto :: copier where
  "NetworkDesignProtocolsBGPVPNv6_DeepCopyInto = copyStruct []"

definition NetworkDesignProtocolsBGPVPNv6_DeepCopy :: copier where
  "NetworkDesignProtocolsBGPVPNv6_DeepCopy = DeepCopy NetworkDesignProtocolsBGPVPNv6_DeepCopyInto"

definition NetworkDesignProtocolsEBGP_type :: gotype where
  "NetworkDesignProtocolsEBGP_type = TStruct [(''ASPool'', TPtr TScalar), (''BFD'', TScalar)]"

definition NetworkDesignProtocolsEBGP_DeepCopyInto :: copier where
  "NetworkDesignProtocolsEBGP_DeepCopyInto = copyStruct [(''ASPool'', copyPtr assign)]"

definition NetworkDesignProtocolsEBGP_DeepCopy :: copier where
  "NetworkDesignProtocolsEBGP_DeepCopy = DeepCopy NetworkDesignProtocolsEBGP_DeepCopyInto"

definition NetworkDesignProtocolsIBGP_type :: gotype where
  "NetworkDesignProtocolsIBGP_type =
    TStruct [(''AS'', TPtr TScalar), (''LocalAS'', TScalar), (''RouteReflectors'', TSlice TScalar)]"

definition NetworkDesignProtocolsIBGP_DeepCopyInto :: copier where
  "NetworkDesignProtocolsIBGP_DeepCopyInto =
    copyStruct [(''AS'', copyPtr assign), (''RouteReflectors'', copySlice assign)]"

definition NetworkDesignProtocolsIBGP_DeepCopy :: copier where
  "NetworkDesignProtocolsIBGP_DeepCopy = DeepCopy NetworkDesignProtocolsIBGP_DeepCopyInto"

definition NetworkDesignProtocolsISIS_type :: gotype where
  "NetworkDesignProtocolsISIS_type =
    TStruct [(''Instance'', TPtr TScalar), (''Level'', TScalar), (''Areas'', TSlice TScalar), (''MaxECMPPaths'', TPtr TScalar),
     (''BFD'', TScalar)]"

definition NetworkDesignProtocolsISIS_DeepCopyInto :: copier where
  "NetworkDesignProtocolsISIS_DeepCopyInto =
    copyStruct [(''Instance'', copyPtr assign), (''Areas'', copySlice assign), (''MaxECMPPaths'', copyPtr assign)]"

definition NetworkDesignProtocolsISIS_DeepCopy :: copier where
  "NetworkDesignProtocolsISIS_DeepCopy = DeepCopy NetworkDesignProtocolsISIS_DeepCopyInto"

definition NetworkDesignProtocolsOSPF_type :: gotype where
  "NetworkDesignProtocolsOSPF_type =
    TStruct [(''Instance'', TPtr TScalar), (''Version'', TScalar), (''Area'', TScalar), (''MaxECMPPaths'', TPtr TScalar),
     (''BFD'', TScalar)]"

definition NetworkDesignProtocolsOSPF_DeepCopyInto :: copier where
  "NetworkDesignProtocolsOSPF_DeepCopyInto =
    copyStruct [(''Instance'', copyPtr assign), (''MaxECMPPaths'', copyPtr assign)]"

definition NetworkDesignProtocolsOSPF_DeepCopy :: copier where
  "NetworkDesignProtocolsOSPF_DeepCopy = DeepCopy NetworkDesignProtocolsOSPF_DeepCopyInto"

definition NetworkDesignStatus_type :: "externals \<Rightarrow> gotype" where
  "NetworkDesignStatus_type x = TStruct [(''ConditionedStatus'', extType x ''ConditionedStatus'')]"

definition NetworkDesignStatus_DeepCopyInto :: "externals \<Rightarrow> copier" where
  "NetworkDesignStatus_DeepCopyInto x =
    copyStruct [(''ConditionedStatus'', extDeepCopyInto x ''ConditionedStatus'')]"

definition NetworkDesignStatus_DeepCopy :: "externals \<Rightarrow> copier" where
  "NetworkDesignStatus_DeepCopy x = DeepCopy (NetworkDesignStatus_DeepCopyInto x)"

lemma flat_CopyDesign_1 [simp]:
  "flat NetworkDesignEncapsulationMPLSLDP_type"
  "flat NetworkDesignEncapsulationMPLSRSVP_type"
  "flat NetworkDesignEncapsulationMPLSSR_type"
  "flat NetworkDesignEncapsulationMPLSSRv6MicroSID_type"
  "flat NetworkDesignEncapsulationVXLAN_type"
  "flat NetworkDesignProtocolsBGPEVPN_type"
  "flat NetworkDesignProtocolsBGPLabeledUnicastv4_type"
  "flat NetworkDesignProtocolsBGPLabeledUnicastv6_type"
  "flat NetworkDesignProtocolsBGPRouteTarget_type"
  "flat NetworkDesignProtocolsBGPVPNv4_type"
  "flat NetworkDesignProtocolsBGPVPNv6_type"
  by (simp_all add: NetworkDesignEncapsulationMPLSLDP_type_def NetworkDesignEncapsulationMPLSRSVP_type_def
    NetworkDesignEncapsulationMPLSSR_type_def NetworkDesignEncapsulationMPLSSRv6MicroSID_type_def
    NetworkDesignEncapsulationVXLAN_type_def NetworkDesignProtocolsBGPEVPN_type_def
    NetworkDesignProtocolsBGPLabeledUnicastv4_type_def NetworkDesignProtocolsBGPLabeledUnicastv6_type_def
    NetworkDesignProtocolsBGPRouteTarget_type_def NetworkDesignProtocolsBGPVPNv4_type_def
    NetworkDesignProtocolsBGPVPNv6_type_def)

lemma isolates_CopyDesign_1 [simp]:
  "isolates NetworkDesignEncapsulationMPLSLDP_type NetworkDesignEncapsulationMPLSLDP_DeepCopyInto"
  "isolates NetworkDesignEncapsulationMPLSRSVP_type NetworkDesignEncapsulationMPLSRSVP_DeepCopyInto"
  "isolates NetworkDesignEncapsulationMPLSSR_type NetworkDesignEncapsulationMPLSSR_DeepCopyInto"
  "isolates NetworkDesignEncapsulationMPLSSRv6MicroSID_type NetworkDesignEncapsulationMPLSSRv6MicroSID_DeepCopyInto"
  "isolates NetworkDesignEncapsulationVXLAN_type NetworkDesignEncapsulationVXLAN_DeepCopyInto"
  "externals_ok x \<Longrightarrow> isolates (NetworkDesignInterfaceParameters_type x) (NetworkDesignInterfaceParameters_DeepCopyInto x)"
  "isolates NetworkDesignProtocolsBGPEVPN_type NetworkDesignProtocolsBGPEVPN_DeepCopyInto"
  "isolates NetworkDesignProtocolsBGPLabeledUnicastv4_type NetworkDesignProtocolsBGPLabeledUnicastv4_DeepCopyInto"
  "isolates NetworkDesignProtocolsBGPLabeledUnicastv6_type NetworkDesignProtocolsBGPLabeledUnicastv6_DeepCopyInto"
  "isolates NetworkDesignProtocolsBGPRouteTarget_type NetworkDesignProtocolsBGPRouteTarget_DeepCopyInto"
  "isolates NetworkDesignProtocolsBGPVPNv4_type NetworkDesignProtocolsBGPVPNv4_DeepCopyInto"
  "isolates NetworkDesignProtocolsBGPVPNv6_type NetworkDesignProtocolsBGPVPNv6_DeepCopyInto"
  "isolates NetworkDesignProtocolsEBGP_type NetworkDesignProtocolsEBGP_DeepCopyInto"
  "isolates NetworkDesignProtocolsIBGP_type NetworkDesignProtocolsIBGP_DeepCopyInto"
  "isolates NetworkDesignProtocolsISIS_type NetworkDesignProtocolsISIS_DeepCopyInto"
  "isolates NetworkDesignProtocolsOSPF_type NetworkDesignProtocolsOSPF_DeepCopyInto"
  "externals_ok x \<Longrightarrow> isolates (NetworkDesignStatus_type x) (NetworkDesignStatus_DeepCopyInto x)"
  by (simp_all add: copy_struct
    NetworkDesignEncapsulationMPLSLDP_type_def NetworkDesignEncapsulationMPLSLDP_DeepCopyInto_def
    NetworkDesignEncapsulationMPLSRSVP_type_def NetworkDesignEncapsulationMPLSRSVP_DeepCopyInto_def
    NetworkDesignEncapsulationMPLSSR_type_def NetworkDesignEncapsulationMPLSSR_DeepCopyInto_def
    NetworkDesignEncapsulationMPLSSRv6MicroSID_type_def NetworkDesignEncapsulationMPLSSRv6MicroSID_DeepCopyInto_def
    NetworkDesignEncapsulationVXLAN_type_def NetworkDesignEncapsulationVXLAN_DeepCopyInto_def
    NetworkDesignInterfaceParameters_type_def NetworkDesignInterfaceParameters_DeepCopyInto_def
    NetworkDesignProtocolsBGPEVPN_type_def NetworkDesignProtocolsBGPEVPN_DeepCopyInto_def
    NetworkDesignProtocolsBGPLabeledUnicastv4_type_def NetworkDesignProtocolsBGPLabeledUnicastv4_DeepCopyInto_def
    NetworkDesignProtocolsBGPLabeledUnicastv6_type_def NetworkDesignProtocolsBGPLabeledUnicastv6_DeepCopyInto_def
    NetworkDesignProtocolsBGPRouteTarget_type_def NetworkDesignProtocolsBGPRouteTarget_DeepCopyInto_def
    NetworkDesignProtocolsBGPVPNv4_type_def NetworkDesignProtocolsBGPVPNv4_DeepCopyInto_def
    NetworkDesignProtocolsBGPVPNv6_type_def NetworkDesignProtocolsBGPVPNv6_DeepCopyInto_def
    NetworkDesignProtocolsEBGP_type_def NetworkDesignProtocolsEBGP_DeepCopyInto_def
    NetworkDesignProtocolsIBGP_type_def NetworkDesignProtocolsIBGP_DeepCopyInto_def
    NetworkDesignProtocolsISIS_type_def NetworkDesignProtocolsISIS_DeepCopyInto_def
    NetworkDesignProtocolsOSPF_type_def NetworkDesignProtocolsOSPF_DeepCopyInto_def NetworkDesignStatus_type_def
    NetworkDesignStatus_DeepCopyInto_def)

definition NetworkDesignEncapsulationMPLS_type :: gotype where
  "NetworkDesignEncapsulationMPLS_type =
    TStruct [(''LDP'', TPtr NetworkDesignEncapsulationMPLSLDP_type), (''SR'', TPtr NetworkDesignEncapsulationMPLSSR_type),
     (''RSVP'', TPtr NetworkDesignEncapsulationMPLSRSVP_type)]"

definition NetworkDesignEncapsulationMPLS_DeepCopyInto :: copier where
  "NetworkDesignEncapsulationMPLS_DeepCopyInto =
    copyStruct [(''LDP'', copyPtr assign), (''SR'', copyPtr assign), (''RSVP'', copyPtr assign)]"

definition NetworkDesignEncapsulationMPLS_DeepCopy :: copier where
  "NetworkDesignEncapsulationMPLS_DeepCopy = DeepCopy NetworkDesignEncapsulationMPLS_DeepCopyInto"

definition NetworkDesignEncapsulationSRv6_type :: gotype where
  "NetworkDesignEncapsulationSRv6_type =
    TStruct [(''MicroSID'', TPtr NetworkDesignEncapsulationMPLSSRv6MicroSID_type)]"

definition NetworkDesignEncapsulationSRv6_DeepCopyInto :: copier where
  "NetworkDesignEncapsulationSRv6_DeepCopyInto = copyStruct [(''MicroSID'', copyPtr assign)]"

definition NetworkDesignEncapsulationSRv6_DeepCopy :: copier where
  "NetworkDesignEncapsulationSRv6_DeepCopy = DeepCopy NetworkDesignEncapsulationSRv6_DeepCopyInto"

definition NetworkDesignInterfacesLoopback_type :: "externals \<Rightarrow> gotype" where
  "NetworkDesignInterfacesLoopback_type x =
    TStruct [(''NetworkDesignInterfaceParameters'', NetworkDesignInterfaceParameters_type x)]"

definition NetworkDesignInterfacesLoopback_DeepCopyInto :: "externals \<Rightarrow> copier" where
  "NetworkDesignInterfacesLoopback_DeepCopyInto x =
    copyStruct [(''NetworkDesignInterfaceParameters'', NetworkDesignInterfaceParameters_DeepCopyInto x)]"

definition NetworkDesignInterfacesLoopback_DeepCopy :: "externals \<Rightarrow> copier" where
  "NetworkDesignInterfacesLoopback_DeepCopy x = DeepCopy (NetworkDesignInterfacesLoopback_DeepCopyInto x)"

definition NetworkDesignInterfacesUnderlay_type :: "externals \<Rightarrow> gotype" where
  "NetworkDesignInterfacesUnderlay_type x =
    TStruct [(''NetworkDesignInterfaceParameters'', NetworkDesignInterfaceParameters_type x), (''VLANTagging'', TScalar),
     (''BFD'', TPtr (extType x ''BFDLinkParameters''))]"

definition NetworkDesignInterfacesUnderlay_DeepCopyInto :: "externals \<Rightarrow> copier" where
  "NetworkDesignInterfacesUnderlay_DeepCopyInto x =
    copyStruct [(''NetworkDesignInterfaceParameters'', NetworkDesignInterfaceParameters_DeepCopyInto x),
     (''BFD'', copyPtr (extDeepCopyInto x ''BFDLinkParameters''))]"

definition NetworkDesignInterfacesUnderlay_DeepCopy :: "externals \<Rightarrow> copier" where
  "NetworkDesignInterfacesUnderlay_DeepCopy x = DeepCopy (NetworkDesignInterfacesUnderlay_DeepCopyInto x)"

definition NetworkDesignProtocols_type :: gotype where
  "NetworkDesignProtocols_type =
    TStruct [(''OSPF'', TPtr NetworkDesignProtocolsOSPF_type), (''ISIS'', TPtr NetworkDesignProtocolsISIS_type),
     (''IBGP'', TPtr NetworkDesignProtocolsIBGP_type), (''EBGP'', TPtr NetworkDesignProtocolsEBGP_type),
     (''BGPEVPN'', TPtr NetworkDesignProtocolsBGPEVPN_type), (''BGPVPNv4'', TPtr NetworkDesignProtocolsBGPVPNv4_type),
     (''BGPVPNv6'', TPtr NetworkDesignProtocolsBGPVPNv6_type),
     (''BGPRouteTarget'', TPtr NetworkDesignProtocolsBGPRouteTarget_type),
     (''BGPLabeledUnicastv4'', TPtr NetworkDesignProtocolsBGPLabeledUnicastv4_type),
     (''BGPLabeledUnicastv6'', TPtr NetworkDesignProtocolsBGPLabeledUnicastv6_type)]"

definition NetworkDesignProtocols_DeepCopyInto :: copier where
  "NetworkDesignProtocols_DeepCopyInto =
    copyStruct [(''OSPF'', copyPtr NetworkDesignProtocolsOSPF_DeepCopyInto),
     (''ISIS'', copyPtr NetworkDesignProtocolsISIS_DeepCopyInto),
     (''IBGP'', copyPtr NetworkDesignProtocolsIBGP_DeepCopyInto),
     (''EBGP'', copyPtr NetworkDesignProtocolsEBGP_DeepCopyInto), (''BGPEVPN'', copyPtr assign),
     (''BGPVPNv4'', copyPtr assign), (''BGPVPNv6'', copyPtr assign), (''BGPRouteTarget'', copyPtr assign),
     (''BGPLabeledUnicastv4'', copyPtr assign), (''BGPLabeledUnicastv6'', copyPtr assign)]"

definition NetworkDesignProtocols_DeepCopy :: copier where
  "NetworkDesignProtocols_DeepCopy = DeepCopy NetworkDesignProtocols_DeepCopyInto"

lemma isolates_CopyDesign_2 [simp]:
  "isolates NetworkDesignEncapsulationMPLS_type NetworkDesignEncapsulationMPLS_DeepCopyInto"
  "isolates NetworkDesignEncapsulationSRv6_type NetworkDesignEncapsulationSRv6_DeepCopyInto"
  "externals_ok x \<Longrightarrow> isolates (NetworkDesignInterfacesLoopback_type x) (NetworkDesignInterfacesLoopback_DeepCopyInto x)"
  "externals_ok x \<Longrightarrow> isolates (NetworkDesignInterfacesUnderlay_type x) (NetworkDesignInterfacesUnderlay_DeepCopyInto x)"
  "isolates NetworkDesignProtocols_type NetworkDesignProtocols_DeepCopyInto"
  by (simp_all add: copy_struct
    NetworkDesignEncapsulationMPLS_type_def NetworkDesignEncapsulationMPLS_DeepCopyInto_def
    NetworkDesignEncapsulationSRv6_type_def NetworkDesignEncapsulationSRv6_DeepCopyInto_def
    NetworkDesignInterfacesLoopback_type_def NetworkDesignInterfacesLoopback_DeepCopyInto_def
    NetworkDesignInterfacesUnderlay_type_def NetworkDesignInterfacesUnderlay_DeepCopyInto_def
    NetworkDesignProtocols_type_def NetworkDesignProtocols_DeepCopyInto_def)

definition NetworkDesignEncapsulation_type :: gotype where
  "NetworkDesignEncapsulation_type =
    TStruct [(''VXLAN'', TPtr NetworkDesignEncapsulationVXLAN_type), (''MPLS'', TPtr NetworkDesignEncapsulationMPLS_type),
     (''SRV6'', TPtr NetworkDesignEncapsulationSRv6_type)]"

definition NetworkDesignEncapsulation_DeepCopyInto :: copier where
  "NetworkDesignEncapsulation_DeepCopyInto =
    copyStruct [(''VXLAN'', copyPtr assign), (''MPLS'', copyPtr NetworkDesignEncapsulationMPLS_DeepCopyInto),
     (''SRV6'', copyPtr NetworkDesignEncapsulationSRv6_DeepCopyInto)]"

definition NetworkDesignEncapsulation_DeepCopy :: copier where
  "NetworkDesignEncapsulation_DeepCopy = DeepCopy NetworkDesignEncapsulation_DeepCopyInto"

definition NetworkDesignInterfaces_type :: "externals \<Rightarrow> gotype" where
  "NetworkDesignInterfaces_type x =
    TStruct [(''Loopback'', TPtr (NetworkDesignInterfacesLoopback_type x)),
     (''Underlay'', TPtr (NetworkDesignInterfacesUnderlay_type x))]"

definition NetworkDesignInterfaces_DeepCopyInto :: "externals \<Rightarrow> copier" where
  "NetworkDesignInterfaces_DeepCopyInto x =
    copyStruct [(''Loopback'', copyPtr (NetworkDesignInterfacesLoopback_DeepCopyInto x)),
     (''Underlay'', copyPtr (NetworkDesignInterfacesUnderlay_DeepCopyInto x))]"

definition NetworkDesignInterfaces_DeepCopy :: "externals \<Rightarrow> copier" where
  "NetworkDesignInterfaces_DeepCopy x = DeepCopy (NetworkDesignInterfaces_DeepCopyInto x)"

lemma isolates_CopyDesign_3 [simp]:
  "isolates NetworkDesignEncapsulation_type NetworkDesignEncapsulation_DeepCopyInto"
  "externals_ok x \<Longrightarrow> isolates (NetworkDesignInterfaces_type x) (NetworkDesignInterfaces_DeepCopyInto x)"
  by (simp_all add: copy_struct
    NetworkDesignEncapsulation_type_def NetworkDesignEncapsulation_DeepCopyInto_def NetworkDesignInterfaces_type_def
    NetworkDesignInterfaces_DeepCopyInto_def)

definition NetworkDesignSpec_type :: "externals \<Rightarrow> gotype" where
  "NetworkDesignSpec_type x =
    TStruct [(''Topology'', TScalar), (''Interfaces'', TPtr (NetworkDesignInterfaces_type x)),
     (''Protocols'', TPtr NetworkDesignProtocols_type), (''Encapsultation'', TPtr NetworkDesignEncapsulation_type)]"

definition NetworkDesignSpec_DeepCopyInto :: "externals \<Rightarrow> copier" where
  "NetworkDesignSpec_DeepCopyInto x =
    copyStruct [(''Interfaces'', copyPtr (NetworkDesignInterfaces_DeepCopyInto x)),
     (''Protocols'', copyPtr NetworkDesignProtocols_DeepCopyInto),
     (''Encapsultation'', copyPtr NetworkDesignEncapsulation_DeepCopyInto)]"

definition NetworkDesignSpec_DeepCopy :: "externals \<Rightarrow> copier" where
  "NetworkDesignSpec_DeepCopy x = DeepCopy (NetworkDesignSpec_DeepCopyInto x)"

lemma isolates_CopyDesign_4 [simp]:
  "externals_ok x \<Longrightarrow> isolates (NetworkDesignSpec_type x) (NetworkDesignSpec_DeepCopyInto x)"
  by (simp_all add: copy_struct
    NetworkDesignSpec_type_def NetworkDesignSpec_DeepCopyInto_def)

definition NetworkDesign_type :: "externals \<Rightarrow> gotype" where
  "NetworkDesign_type x =
    TStruct [(''TypeMeta'', extType x ''TypeMeta''), (''ObjectMeta'', extType x ''ObjectMeta''),
     (''Spec'', NetworkDesignSpec_type x), (''Status'', NetworkDesignStatus_type x)]"

definition NetworkDesign_DeepCopyInto :: "externals \<Rightarrow> copier" where
  "NetworkDesign_DeepCopyInto x =
    copyStruct [(''TypeMeta'', assign), (''ObjectMeta'', extDeepCopyInto x ''ObjectMeta''),
     (''Spec'', NetworkDesignSpec_DeepCopyInto x), (''Status'', NetworkDesignStatus_DeepCopyInto x)]"

definition NetworkDesign_DeepCopy :: "externals \<Rightarrow> copier" where
  "NetworkDesign_DeepCopy x = DeepCopy (NetworkDesign_DeepCopyInto x)"

definition NetworkDesign_DeepCopyObject :: "externals \<Rightarrow> goval \<Rightarrow> gomem \<Rightarrow> goval option \<times> gomem" where
  "NetworkDesign_DeepCopyObject x = DeepCopyObject (NetworkDesign_DeepCopy x)"

lemma isolates_CopyDesign_5 [simp]:
  "externals_ok x \<Longrightarrow> isolates (NetworkDesign_type x) (NetworkDesign_DeepCopyInto x)"
  by (simp_all add: copy_struct
    NetworkDesign_type_def NetworkDesign_DeepCopyInto_def)

end
