(* ===== verification/CopyDevice.thy ===== *)
theory CopyDevice
  imports CopyDesign
begin

text \<open>
  The types of \<open>networkdevice_type.go\<close> and their deep copies.
\<close>

definition NetworkDeviceInterfaceSubInterfaceIPv4_type :: gotype where
  "NetworkDeviceInterfaceSubInterfaceIPv4_type = TStruct [(''Addresses'', TSlice TScalar)]"

definition NetworkDeviceInterfaceSubInterfaceIPv4_DeepCopyInto :: copier where
  "NetworkDeviceInterfaceSubInterfaceIPv4_DeepCopyInto = copyStruct [(''Addresses'', copySlice assign)]"

definition NetworkDeviceInterfaceSubInterfaceIPv4_DeepCopy :: copier where
  "NetworkDeviceInterfaceSubInterfaceIPv4_DeepCopy = DeepCopy NetworkDeviceInterfaceSubInterfaceIPv4_DeepCopyInto"

definition NetworkDeviceInterfaceSubInterfaceIPv6_type :: gotype where
  "NetworkDeviceInterfaceSubInterfaceIPv6_type = TStruct [(''Addresses'', TSlice TScalar)]"

definition NetworkDeviceInterfaceSubInterfaceIPv6_DeepCopyInto :: copier where
  "NetworkDeviceInterfaceSubInterfaceIPv6_DeepCopyInto = copyStruct [(''Addresses'', copySlice assign)]"

definition NetworkDeviceInterfaceSubInterfaceIPv6_DeepCopy :: copier where
  "NetworkDeviceInterfaceSubInterfaceIPv6_DeepCopy = DeepCopy NetworkDeviceInterfaceSubInterfaceIPv6_DeepCopyInto"

definition NetworkDeviceNetworkInstanceInterface_type :: gotype where
  "NetworkDeviceNetworkInstanceInterface_type = TStruct [(''Name'', TScalar), (''ID'', TScalar)]"

definition NetworkDeviceNetworkInstanceInterface_DeepCopyInto :: copier where
  "NetworkDeviceNetworkInstanceInterface_DeepCopyInto = copyStruct []"

definition NetworkDeviceNetworkInstanceInterface_DeepCopy :: copier where
  "NetworkDeviceNetworkInstanceInterface_DeepCopy = DeepCopy NetworkDeviceNetworkInstanceInterface_DeepCopyInto"

definition NetworkDeviceNetworkInstanceProtocolBGPAddressFamily_type :: gotype where
  "NetworkDeviceNetworkInstanceProtocolBGPAddressFamily_type = TStruct [(''Name'', TScalar), (''RFC5549'', TScalar)]"

definition NetworkDeviceNetworkInstanceProtocolBGPAddressFamily_DeepCopyInto :: copier where
  "NetworkDeviceNetworkInstanceProtocolBGPAddressFamily_DeepCopyInto = copyStruct []"

definition NetworkDeviceNetworkInstanceProtocolBGPAddressFamily_DeepCopy :: copier where
  "NetworkDeviceNetworkInstanceProtocolBGPAddressFamily_DeepCopy = DeepCopy NetworkDeviceNetworkInstanceProtocolBGPAddressFamily_DeepCopyInto"

definition NetworkDeviceNetworkInstanceProtocolBGPEVPN_type :: gotype where
  "NetworkDeviceNetworkInstanceProtocolBGPEVPN_type =
    TStruct [(''EVI'', TScalar), (''ECMP'', TScalar), (''VXLANInterface'', TScalar)]"

definition NetworkDeviceNetworkInstanceProtocolBGPEVPN_DeepCopyInto :: copier where
  "NetworkDeviceNetworkInstanceProtocolBGPEVPN_DeepCopyInto = copyStruct []"

definition NetworkDeviceNetworkInstanceProtocolBGPEVPN_DeepCopy :: copier where
  "NetworkDeviceNetworkInstanceProtocolBGPEVPN_DeepCopy = DeepCopy NetworkDeviceNetworkInstanceProtocolBGPEVPN_DeepCopyInto"

definition NetworkDeviceNetworkInstanceProtocolBGPNeighbor_type :: gotype where
  "NetworkDeviceNetworkInstanceProtocolBGPNeighbor_type =
    TStruct [(''PeerAddress'', TScalar), (''PeerAS'', TScalar), (''PeerGroup'', TScalar), (''LocalAS'', TScalar),
     (''LocalAddress'', TScalar), (''BFD'', TScalar)]"

definition NetworkDeviceNetworkInstanceProtocolBGPNeighbor_DeepCopyInto :: copier where
  "NetworkDeviceNetworkInstanceProtocolBGPNeighbor_DeepCopyInto = copyStruct []"

definition NetworkDeviceNetworkInstanceProtocolBGPNeighbor_DeepCopy :: copier where
  "NetworkDeviceNetworkInstanceProtocolBGPNeighbor_DeepCopy = DeepCopy NetworkDeviceNetworkInstanceProtocolBGPNeighbor_DeepCopyInto"

definition NetworkDeviceNetworkInstanceProtocolBGPPeerGroupRouteReflector_type :: gotype where
  "NetworkDeviceNetworkInstanceProtocolBGPPeerGroupRouteReflector_type = TStruct [(''ClusterID'', TScalar)]"

definition NetworkDeviceNetworkInstanceProtocolBGPPeerGroupRouteReflector_DeepCopyInto :: copier where
  "NetworkDeviceNetworkInstanceProtocolBGPPeerGroupRouteReflector_DeepCopyInto = copyStruct []"

definition NetworkDeviceNetworkInstanceProtocolBGPPeerGroupRouteReflector_DeepCopy :: copier where
  "NetworkDeviceNetworkInstanceProtocolBGPPeerGroupRouteReflector_DeepCopy = DeepCopy NetworkDeviceNetworkInstanceProtocolBGPPeerGroupRouteReflector_DeepCopyInto"

definition NetworkDeviceNetworkInstanceProtocolBGPVPN_type :: gotype where
  "NetworkDeviceNetworkInstanceProtocolBGPVPN_type =
    TStruct [(''ImportRouteTarget'', TScalar), (''ExportRouteTarget'', TScalar)]"

definition NetworkDeviceNetworkInstanceProtocolBGPVPN_DeepCopyInto :: copier where
  "NetworkDeviceNetworkInstanceProtocolBGPVPN_DeepCopyInto = copyStruct []"

definition NetworkDeviceNetworkInstanceProtocolBGPVPN_DeepCopy :: copier where
  "NetworkDeviceNetworkInstanceProtocolBGPVPN_DeepCopy = DeepCopy NetworkDeviceNetworkInstanceProtocolBGPVPN_DeepCopyInto"

definition NetworkDeviceNetworkInstanceProtocolISISInstanceInterfaceIPv4_type :: gotype where
  "NetworkDeviceNetworkInstanceProtocolISISInstanceInterfaceIPv4_type = TStruct [(''BFD'', TScalar)]"

definition NetworkDeviceNetworkInstanceProtocolISISInstanceInterfaceIPv4_DeepCopyInto :: copier where
  "NetworkDeviceNetworkInstanceProtocolISISInstanceInterfaceIPv4_DeepCopyInto = copyStruct []"

definition NetworkDeviceNetworkInstanceProtocolISISInstanceInterfaceIPv4_DeepCopy :: copier where
  "NetworkDeviceNetworkInstanceProtocolISISInstanceInterfaceIPv4_DeepCopy = DeepCopy NetworkDeviceNetworkInstanceProtocolISISInstanceInterfaceIPv4_DeepCopyInto"

definition NetworkDeviceNetworkInstanceProtocolISISInstanceInterfaceIPv6_type :: gotype where
  "NetworkDeviceNetworkInstanceProtocolISISInstanceInterfaceIPv6_type = TStruct [(''BFD'', TScalar)]"

definition NetworkDeviceNetworkInstanceProtocolISISInstanceInterfaceIPv6_DeepCopyInto :: copier where
  "NetworkDeviceNetworkInstanceProtocolISISInstanceInterfaceIPv6_DeepCopyInto = copyStruct []"

definition NetworkDeviceNetworkInstanceProtocolISISInstanceInterfaceIPv6_DeepCopy :: copier where
  "NetworkDeviceNetworkInstanceProtocolISISInstanceInterfaceIPv6_DeepCopy = DeepCopy NetworkDeviceNetworkInstanceProtocolISISInstanceInterfaceIPv6_DeepCopyInto"

definition NetworkDeviceNetworkInstanceProtocolISISInstanceInterfaceLevel_type :: gotype where
  "NetworkDeviceNetworkInstanceProtocolISISInstanceInterfaceLevel_type =
    TStruct [(''Metric'', TScalar), (''MetricIPv6Unicast'', TScalar), (''Disable'', TScalar)]"

definition NetworkDeviceNetworkInstanceProtocolISISInstanceInterfaceLevel_DeepCopyInto :: copier where
  "NetworkDeviceNetworkInstanceProtocolISISInstanceInterfaceLevel_DeepCopyInto = copyStruct []"

definition NetworkDeviceNetworkInstanceProtocolISISInstanceInterfaceLevel_DeepCopy :: copier where
  "NetworkDeviceNetworkInstanceProtocolISISInstanceInterfaceLevel_DeepCopy = DeepCopy NetworkDeviceNetworkInstanceProtocolISISInstanceInterfaceLevel_DeepCopyInto"

definition NetworkDeviceNetworkInstanceProtocolISISInstanceLevel_type :: gotype where
  "NetworkDeviceNetworkInstanceProtocolISISInstanceLevel_type = TStruct [(''MetricStyle'', TScalar)]"

definition NetworkDeviceNetworkInstanceProtocolISISInstanceLevel_DeepCopyInto :: copier where
  "NetworkDeviceNetworkInstanceProtocolISISInstanceLevel_DeepCopyInto = copyStruct []"

definition NetworkDeviceNetworkInstanceProtocolISISInstanceLevel_DeepCopy :: copier where
  "NetworkDeviceNetworkInstanceProtocolISISInstanceLevel_DeepCopy = DeepCopy NetworkDeviceNetworkInstanceProtocolISISInstanceLevel_DeepCopyInto"

definition NetworkDeviceNetworkInstanceProtocolOSPFInstanceAreaNSSA_type :: gotype where
  "NetworkDeviceNetworkInstanceProtocolOSPFInstanceAreaNSSA_type = TStruct []"

definition NetworkDeviceNetworkInstanceProtocolOSPFInstanceAreaNSSA_DeepCopyInto :: copier where
  "NetworkDeviceNetworkInstanceProtocolOSPFInstanceAreaNSSA_DeepCopyInto = copyStruct []"

definition NetworkDeviceNetworkInstanceProtocolOSPFInstanceAreaNSSA_DeepCopy :: copier where
  "NetworkDeviceNetworkInstanceProtocolOSPFInstanceAreaNSSA_DeepCopy = DeepCopy NetworkDeviceNetworkInstanceProtocolOSPFInstanceAreaNSSA_DeepCopyInto"

definition NetworkDeviceNetworkInstanceProtocolOSPFInstanceAreaStub_type :: gotype where
  "NetworkDeviceNetworkInstanceProtocolOSPFInstanceAreaStub_type = TStruct []"

definition NetworkDeviceNetworkInstanceProtocolOSPFInstanceAreaStub_DeepCopyInto :: copier where
  "NetworkDeviceNetworkInstanceProtocolOSPFInstanceAreaStub_DeepCopyInto = copyStruct []"

definition NetworkDeviceNetworkInstanceProtocolOSPFInstanceAreaStub_DeepCopy :: copier where
  "NetworkDeviceNetworkInstanceProtocolOSPFInstanceAreaStub_DeepCopy = DeepCopy NetworkDeviceNetworkInstanceProtocolOSPFInstanceAreaStub_DeepCopyInto"

definition NetworkDeviceRoutingPolicy_type :: gotype where
  "NetworkDeviceRoutingPolicy_type =
    TStruct [(''Name'', TScalar), (''IPv4Prefixes'', TSlice TScalar), (''IPv6Prefixes'', TSlice TScalar)]"

definition NetworkDeviceRoutingPolicy_DeepCopyInto :: copier where
  "NetworkDeviceRoutingPolicy_DeepCopyInto =
    copyStruct [(''IPv4Prefixes'', copySlice assign), (''IPv6Prefixes'', copySlice assign)]"

definition NetworkDeviceRoutingPolicy_DeepCopy :: copier where
  "NetworkDeviceRoutingPolicy_DeepCopy = DeepCopy NetworkDeviceRoutingPolicy_DeepCopyInto"

definition NetworkDeviceStatus_type :: "externals \<Rightarrow> gotype" where
  "NetworkDeviceStatus_type x =
    TStruct [(''ConditionedStatus'', extType x ''ConditionedStatus''), (''ProviderConfig'', TPtr (extType x ''RawExtension''))]"

definition NetworkDeviceStatus_DeepCopyInto :: "externals \<Rightarrow> copier" where
  "NetworkDeviceStatus_DeepCopyInto x =
    copyStruct [(''ConditionedStatus'', extDeepCopyInto x ''ConditionedStatus''),
     (''ProviderConfig'', copyPtr (extDeepCopyInto x ''RawExtension''))]"

definition NetworkDeviceStatus_DeepCopy :: "externals \<Rightarrow> copier" where
  "NetworkDeviceStatus_DeepCopy x = DeepCopy (NetworkDeviceStatus_DeepCopyInto x)"

definition NetworkDeviceSystemProtocolsBGPEVPN_type :: gotype where
  "NetworkDeviceSystemProtocolsBGPEVPN_type = TStruct []"

definition NetworkDeviceSystemProtocolsBGPEVPN_DeepCopyInto :: copier where
  "NetworkDeviceSystemProtocolsBGPEVPN_DeepCopyInto = copyStruct []"

definition NetworkDeviceSystemProtocolsBGPEVPN_DeepCopy :: copier where
  "NetworkDeviceSystemProtocolsBGPEVPN_DeepCopy = DeepCopy NetworkDeviceSystemProtocolsBGPEVPN_DeepCopyInto"

definition NetworkDeviceSystemProtocolsBGPVPN_type :: gotype where
  "NetworkDeviceSystemProtocolsBGPVPN_type = TStruct []"

definition NetworkDeviceSystemProtocolsBGPVPN_DeepCopyInto :: copier where
  "NetworkDeviceSystemProtocolsBGPVPN_DeepCopyInto = copyStruct []"

definition NetworkDeviceSystemProtocolsBGPVPN_DeepCopy :: copier where
  "NetworkDeviceSystemProtocolsBGPVPN_DeepCopy = DeepCopy NetworkDeviceSystemProtocolsBGPVPN_DeepCopyInto"

definition NetworkDeviceTunnelInterfaceSubInterface_type :: gotype where
  "NetworkDeviceTunnelInterfaceSubInterface_type = TStruct [(''ID'', TScalar), (''Type'', TScalar)]"

definition NetworkDeviceTunnelInterfaceSubInterface_DeepCopyInto :: copier where
  "NetworkDeviceTunnelInterfaceSubInterface_DeepCopyInto = copyStruct []"

definition NetworkDeviceTunnelInterfaceSubInterface_DeepCopy :: copier where
  "NetworkDeviceTunnelInterfaceSubInterface_DeepCopy = DeepCopy NetworkDeviceTunnelInterfaceSubInterface_DeepCopyInto"

lemma flat_CopyDevice_1 [simp]:
  "flat NetworkDeviceNetworkInstanceInterface_type"
  "flat NetworkDeviceNetworkInstanceProtocolBGPAddressFamily_type"
  "flat NetworkDeviceNetworkInstanceProtocolBGPEVPN_type"
  "flat NetworkDeviceNetworkInstanceProtocolBGPNeighbor_type"
  "flat NetworkDeviceNetworkInstanceProtocolBGPPeerGroupRouteReflector_type"
  "flat NetworkDeviceNetworkInstanceProtocolBGPVPN_type"
  "flat NetworkDeviceNetworkInstanceProtocolISISInstanceInterfaceIPv4_type"
  "flat NetworkDeviceNetworkInstanceProtocolISISInstanceInterfaceIPv6_type"
  "flat NetworkDeviceNetworkInstanceProtocolISISInstanceInterfaceLevel_type"
  "flat NetworkDeviceNetworkInstanceProtocolISISInstanceLevel_type"
  "flat NetworkDeviceNetworkInstanceProtocolOSPFInstanceAreaNSSA_type"
  "flat NetworkDeviceNetworkInstanceProtocolOSPFInstanceAreaStub_type"
  "flat NetworkDeviceSystemProtocolsBGPEVPN_type"
  "flat NetworkDeviceSystemProtocolsBGPVPN_type"
  "flat NetworkDeviceTunnelInterfaceSubInterface_type"
  by (simp_all add: NetworkDeviceNetworkInstanceInterface_type_def NetworkDeviceNetworkInstanceProtocolBGPAddressFamily_type_def
    NetworkDeviceNetworkInstanceProtocolBGPEVPN_type_def NetworkDeviceNetworkInstanceProtocolBGPNeighbor_type_def
    NetworkDeviceNetworkInstanceProtocolBGPPeerGroupRouteReflector_type_def
    NetworkDeviceNetworkInstanceProtocolBGPVPN_type_def
    NetworkDeviceNetworkInstanceProtocolISISInstanceInterfaceIPv4_type_def
    NetworkDeviceNetworkInstanceProtocolISISInstanceInterfaceIPv6_type_def
    NetworkDeviceNetworkInstanceProtocolISISInstanceInterfaceLevel_type_def
    NetworkDeviceNetworkInstanceProtocolISISInstanceLevel_type_def
    NetworkDeviceNetworkInstanceProtocolOSPFInstanceAreaNSSA_type_def
    NetworkDeviceNetworkInstanceProtocolOSPFInstanceAreaStub_type_def NetworkDeviceSystemProtocolsBGPEVPN_type_def
    NetworkDeviceSystemProtocolsBGPVPN_type_def NetworkDeviceTunnelInterfaceSubInterface_type_def)

lemma isolates_CopyDevice_1 [simp]:
  "isolates NetworkDeviceInterfaceSubInterfaceIPv4_type NetworkDeviceInterfaceSubInterfaceIPv4_DeepCopyInto"
  "isolates NetworkDeviceInterfaceSubInterfaceIPv6_type NetworkDeviceInterfaceSubInterfaceIPv6_DeepCopyInto"
  "isolates NetworkDeviceNetworkInstanceInterface_type NetworkDeviceNetworkInstanceInterface_DeepCopyInto"
  "isolates NetworkDeviceNetworkInstanceProtocolBGPAddressFamily_type NetworkDeviceNetworkInstanceProtocolBGPAddressFamily_DeepCopyInto"
  "isolates NetworkDeviceNetworkInstanceProtocolBGPEVPN_type NetworkDeviceNetworkInstanceProtocolBGPEVPN_DeepCopyInto"
  "isolates NetworkDeviceNetworkInstanceProtocolBGPNeighbor_type NetworkDeviceNetworkInstanceProtocolBGPNeighbor_DeepCopyInto"
  "isolates NetworkDeviceNetworkInstanceProtocolBGPPeerGroupRouteReflector_type NetworkDeviceNetworkInstanceProtocolBGPPeerGroupRouteReflector_DeepCopyInto"
  "isolates NetworkDeviceNetworkInstanceProtocolBGPVPN_type NetworkDeviceNetworkInstanceProtocolBGPVPN_DeepCopyInto"
  "isolates NetworkDeviceNetworkInstanceProtocolISISInstanceInterfaceIPv4_type NetworkDeviceNetworkInstanceProtocolISISInstanceInterfaceIPv4_DeepCopyInto"
  "isolates NetworkDeviceNetworkInstanceProtocolISISInstanceInterfaceIPv6_type NetworkDeviceNetworkInstanceProtocolISISInstanceInterfaceIPv6_DeepCopyInto"
  "isolates NetworkDeviceNetworkInstanceProtocolISISInstanceInterfaceLevel_type NetworkDeviceNetworkInstanceProtocolISISInstanceInterfaceLevel_DeepCopyInto"
  "isolates NetworkDeviceNetworkInstanceProtocolISISInstanceLevel_type NetworkDeviceNetworkInstanceProtocolISISInstanceLevel_DeepCopyInto"
  "isolates NetworkDeviceNetworkInstanceProtocolOSPFInstanceAreaNSSA_type NetworkDeviceNetworkInstanceProtocolOSPFInstanceAreaNSSA_DeepCopyInto"
  "isolates NetworkDeviceNetworkInstanceProtocolOSPFInstanceAreaStub_type NetworkDeviceNetworkInstanceProtocolOSPFInstanceAreaStub_DeepCopyInto"
  "isolates NetworkDeviceRoutingPolicy_type NetworkDeviceRoutingPolicy_DeepCopyInto"
  "externals_ok x \<Longrightarrow> isolates (NetworkDeviceStatus_type x) (NetworkDeviceStatus_DeepCopyInto x)"
  "isolates NetworkDeviceSystemProtocolsBGPEVPN_type NetworkDeviceSystemProtocolsBGPEVPN_DeepCopyInto"
  "isolates NetworkDeviceSystemProtocolsBGPVPN_type NetworkDeviceSystemProtocolsBGPVPN_DeepCopyInto"
  "isolates NetworkDeviceTunnelInterfaceSubInterface_type NetworkDeviceTunnelInterfaceSubInterface_DeepCopyInto"
  by (simp_all add: copy_struct
    NetworkDeviceInterfaceSubInterfaceIPv4_type_def NetworkDeviceInterfaceSubInterfaceIPv4_DeepCopyInto_def
    NetworkDeviceInterfaceSubInterfaceIPv6_type_def NetworkDeviceInterfaceSubInterfaceIPv6_DeepCopyInto_def
    NetworkDeviceNetworkInstanceInterface_type_def NetworkDeviceNetworkInstanceInterface_DeepCopyInto_def
    NetworkDeviceNetworkInstanceProtocolBGPAddressFamily_type_def
    NetworkDeviceNetworkInstanceProtocolBGPAddressFamily_DeepCopyInto_def
    NetworkDeviceNetworkInstanceProtocolBGPEVPN_type_def NetworkDeviceNetworkInstanceProtocolBGPEVPN_DeepCopyInto_def
    NetworkDeviceNetworkInstanceProtocolBGPNeighbor_type_def
    NetworkDeviceNetworkInstanceProtocolBGPNeighbor_DeepCopyInto_def
    NetworkDeviceNetworkInstanceProtocolBGPPeerGroupRouteReflector_type_def
    NetworkDeviceNetworkInstanceProtocolBGPPeerGroupRouteReflector_DeepCopyInto_def
    NetworkDeviceNetworkInstanceProtocolBGPVPN_type_def NetworkDeviceNetworkInstanceProtocolBGPVPN_DeepCopyInto_def
    NetworkDeviceNetworkInstanceProtocolISISInstanceInterfaceIPv4_type_def
    NetworkDeviceNetworkInstanceProtocolISISInstanceInterfaceIPv4_DeepCopyInto_def
    NetworkDeviceNetworkInstanceProtocolISISInstanceInterfaceIPv6_type_def
    NetworkDeviceNetworkInstanceProtocolISISInstanceInterfaceIPv6_DeepCopyInto_def
    NetworkDeviceNetworkInstanceProtocolISISInstanceInterfaceLevel_type_def
    NetworkDeviceNetworkInstanceProtocolISISInstanceInterfaceLevel_DeepCopyInto_def
    NetworkDeviceNetworkInstanceProtocolISISInstanceLevel_type_def
    NetworkDeviceNetworkInstanceProtocolISISInstanceLevel_DeepCopyInto_def
    NetworkDeviceNetworkInstanceProtocolOSPFInstanceAreaNSSA_type_def
    NetworkDeviceNetworkInstanceProtocolOSPFInstanceAreaNSSA_DeepCopyInto_def
    NetworkDeviceNetworkInstanceProtocolOSPFInstanceAreaStub_type_def
    NetworkDeviceNetworkInstanceProtocolOSPFInstanceAreaStub_DeepCopyInto_def NetworkDeviceRoutingPolicy_type_def
    NetworkDeviceRoutingPolicy_DeepCopyInto_def NetworkDeviceStatus_type_def NetworkDeviceStatus_DeepCopyInto_def
    NetworkDeviceSystemProtocolsBGPEVPN_type_def NetworkDeviceSystemProtocolsBGPEVPN_DeepCopyInto_def
    NetworkDeviceSystemProtocolsBGPVPN_type_def NetworkDeviceSystemProtocolsBGPVPN_DeepCopyInto_def
    NetworkDeviceTunnelInterfaceSubInterface_type_def NetworkDeviceTunnelInterfaceSubInterface_DeepCopyInto_def)

definition NetworkDeviceBFDInterface_type :: "externals \<Rightarrow> gotype" where
  "NetworkDeviceBFDInterface_type x =
    TStruct [(''SubInterfaceName'', NetworkDeviceNetworkInstanceInterface_type),
     (''BFDLinkParameters'', extType x ''BFDLinkParameters'')]"

definition NetworkDeviceBFDInterface_DeepCopyInto :: "externals \<Rightarrow> copier" where
  "NetworkDeviceBFDInterface_DeepCopyInto x =
    copyStruct [(''SubInterfaceName'', assign), (''BFDLinkParameters'', extDeepCopyInto x ''BFDLinkParameters'')]"

definition NetworkDeviceBFDInterface_DeepCopy :: "externals \<Rightarrow> copier" where
  "NetworkDeviceBFDInterface_DeepCopy x = DeepCopy (NetworkDeviceBFDInterface_DeepCopyInto x)"

definition NetworkDeviceInterfaceSubInterface_type :: gotype where
  "NetworkDeviceInterfaceSubInterface_type =
    TStruct [(''PeerName'', TScalar), (''ID'', TScalar), (''Type'', TScalar), (''VLAN'', TPtr TScalar),
     (''IPv4'', TPtr NetworkDeviceInterfaceSubInterfaceIPv4_type),
     (''IPv6'', TPtr NetworkDeviceInterfaceSubInterfaceIPv6_type)]"

definition NetworkDeviceInterfaceSubInterface_DeepCopyInto :: copier where
  "NetworkDeviceInterfaceSubInterface_DeepCopyInto =
    copyStruct [(''VLAN'', copyPtr assign), (''IPv4'', copyPtr NetworkDeviceInterfaceSubInterfaceIPv4_DeepCopyInto),
     (''IPv6'', copyPtr NetworkDeviceInterfaceSubInterfaceIPv6_DeepCopyInto)]"

definition NetworkDeviceInterfaceSubInterface_DeepCopy :: copier where
  "NetworkDeviceInterfaceSubInterface_DeepCopy = DeepCopy NetworkDeviceInterfaceSubInterface_DeepCopyInto"

definition NetworkDeviceNetworkInstanceProtocolBGPDynamicNeighborsInterface_type :: gotype where
  "NetworkDeviceNetworkInstanceProtocolBGPDynamicNeighborsInterface_type =
    TStruct [(''SubInterfaceName'', NetworkDeviceNetworkInstanceInterface_type), (''PeerAS'', TScalar),
     (''PeerGroup'', TScalar)]"

definition NetworkDeviceNetworkInstanceProtocolBGPDynamicNeighborsInterface_DeepCopyInto :: copier where
  "NetworkDeviceNetworkInstanceProtocolBGPDynamicNeighborsInterface_DeepCopyInto = copyStruct [(''SubInterfaceName'', assign)]"

definition NetworkDeviceNetworkInstanceProtocolBGPDynamicNeighborsInterface_DeepCopy :: copier where
  "NetworkDeviceNetworkInstanceProtocolBGPDynamicNeighborsInterface_DeepCopy = DeepCopy NetworkDeviceNetworkInstanceProtocolBGPDynamicNeighborsInterface_DeepCopyInto"

definition NetworkDeviceNetworkInstanceProtocolBGPPeerGroup_type :: gotype where
  "NetworkDeviceNetworkInstanceProtocolBGPPeerGroup_type =
    TStruct [(''Name'', TScalar),
     (''AddressFamilies'', TSlice (TPtr NetworkDeviceNetworkInstanceProtocolBGPAddressFamily_type)),
     (''RouteReflector'', TPtr NetworkDeviceNetworkInstanceProtocolBGPPeerGroupRouteReflector_type),
     (''BFD'', TScalar)]"

definition NetworkDeviceNetworkInstanceProtocolBGPPeerGroup_DeepCopyInto :: copier where
  "NetworkDeviceNetworkInstanceProtocolBGPPeerGroup_DeepCopyInto =
    copyStruct [(''AddressFamilies'', copySlice (copyPtr assign)), (''RouteReflector'', copyPtr assign)]"

definition NetworkDeviceNetworkInstanceProtocolBGPPeerGroup_DeepCopy :: copier where
  "NetworkDeviceNetworkInstanceProtocolBGPPeerGroup_DeepCopy = DeepCopy NetworkDeviceNetworkInstanceProtocolBGPPeerGroup_DeepCopyInto"

definition NetworkDeviceNetworkInstanceProtocolISISInstanceInterface_type :: gotype where
  "NetworkDeviceNetworkInstanceProtocolISISInstanceInterface_type =
    TStruct [(''SubInterfaceName'', NetworkDeviceNetworkInstanceInterface_type), (''NetworkType'', TScalar),
     (''Level1'', TPtr NetworkDeviceNetworkInstanceProtocolISISInstanceInterfaceLevel_type),
     (''Level2'', TPtr NetworkDeviceNetworkInstanceProtocolISISInstanceInterfaceLevel_type),
     (''IPv4'', TPtr NetworkDeviceNetworkInstanceProtocolISISInstanceInterfaceIPv4_type),
     (''IPv6'', TPtr NetworkDeviceNetworkInstanceProtocolISISInstanceInterfaceIPv6_type), (''Passive'', TScalar)]"

definition NetworkDeviceNetworkInstanceProtocolISISInstanceInterface_DeepCopyInto :: copier where
  "NetworkDeviceNetworkInstanceProtocolISISInstanceInterface_DeepCopyInto =
    copyStruct [(''SubInterfaceName'', assign), (''Level1'', copyPtr assign), (''Level2'', copyPtr assign),
     (''IPv4'', copyPtr assign), (''IPv6'', copyPtr assign)]"

definition NetworkDeviceNetworkInstanceProtocolISISInstanceInterface_DeepCopy :: copier where
  "NetworkDeviceNetworkInstanceProtocolISISInstanceInterface_DeepCopy = DeepCopy NetworkDeviceNetworkInstanceProtocolISISInstanceInterface_DeepCopyInto"

definition NetworkDeviceNetworkInstanceProtocolOSPFInstanceAreaInterface_type :: gotype where
  "NetworkDeviceNetworkInstanceProtocolOSPFInstanceAreaInterface_type =
    TStruct [(''SubInterfaceName'', NetworkDeviceNetworkInstanceInterface_type), (''NetworkType'', TScalar),
     (''Passive'', TScalar), (''BFD'', TScalar)]"

definition NetworkDeviceNetworkInstanceProtocolOSPFInstanceAreaInterface_DeepCopyInto :: copier where
  "NetworkDeviceNetworkInstanceProtocolOSPFInstanceAreaInterface_DeepCopyInto = copyStruct [(''SubInterfaceName'', assign)]"

definition NetworkDeviceNetworkInstanceProtocolOSPFInstanceAreaInterface_DeepCopy :: copier where
  "NetworkDeviceNetworkInstanceProtocolOSPFInstanceAreaInterface_DeepCopy = DeepCopy NetworkDeviceNetworkInstanceProtocolOSPFInstanceAreaInterface_DeepCopyInto"

definition NetworkDeviceSystemProtocols_type :: gotype where
  "NetworkDeviceSystemProtocols_type =
    TStruct [(''BGPVPN'', TPtr NetworkDeviceSystemProtocolsBGPVPN_type),
     (''BGPEVPN'', TPtr NetworkDeviceSystemProtocolsBGPEVPN_type)]"

definition NetworkDeviceSystemProtocols_DeepCopyInto :: copier where
  "NetworkDeviceSystemProtocols_DeepCopyInto =
    copyStruct [(''BGPVPN'', copyPtr assign), (''BGPEVPN'', copyPtr assign)]"

definition NetworkDeviceSystemProtocols_DeepCopy :: copier where
  "NetworkDeviceSystemProtocols_DeepCopy = DeepCopy NetworkDeviceSystemProtocols_DeepCopyInto"

definition NetworkDeviceTunnelInterface_type :: gotype where
  "NetworkDeviceTunnelInterface_type =
    TStruct [(''Name'', TScalar), (''SubInterfaces'', TSlice (TPtr NetworkDeviceTunnelInterfaceSubInterface_type))]"

definition NetworkDeviceTunnelInterface_DeepCopyInto :: copier where
  "NetworkDeviceTunnelInterface_DeepCopyInto = copyStruct [(''SubInterfaces'', copySlice (copyPtr assign))]"

definition NetworkDeviceTunnelInterface_DeepCopy :: copier where
  "NetworkDeviceTunnelInterface_DeepCopy = DeepCopy NetworkDeviceTunnelInterface_DeepCopyInto"

lemma flat_CopyDevice_2 [simp]:
  "flat NetworkDeviceNetworkInstanceProtocolBGPDynamicNeighborsInterface_type"
  "flat NetworkDeviceNetworkInstanceProtocolOSPFInstanceAreaInterface_type"
  by (simp_all add: NetworkDeviceNetworkInstanceProtocolBGPDynamicNeighborsInterface_type_def
    NetworkDeviceNetworkInstanceProtocolOSPFInstanceAreaInterface_type_def)

lemma isolates_CopyDevice_2 [simp]:
  "externals_ok x \<Longrightarrow> isolates (NetworkDeviceBFDInterface_type x) (NetworkDeviceBFDInterface_DeepCopyInto x)"
  "isolates NetworkDeviceInterfaceSubInterface_type NetworkDeviceInterfaceSubInterface_DeepCopyInto"
  "isolates NetworkDeviceNetworkInstanceProtocolBGPDynamicNeighborsInterface_type NetworkDeviceNetworkInstanceProtocolBGPDynamicNeighborsInterface_DeepCopyInto"
  "isolates NetworkDeviceNetworkInstanceProtocolBGPPeerGroup_type NetworkDeviceNetworkInstanceProtocolBGPPeerGroup_DeepCopyInto"
  "isolates NetworkDeviceNetworkInstanceProtocolISISInstanceInterface_type NetworkDeviceNetworkInstanceProtocolISISInstanceInterface_DeepCopyInto"
  "isolates NetworkDeviceNetworkInstanceProtocolOSPFInstanceAreaInterface_type NetworkDeviceNetworkInstanceProtocolOSPFInstanceAreaInterface_DeepCopyInto"
  "isolates NetworkDeviceSystemProtocols_type NetworkDeviceSystemProtocols_DeepCopyInto"
  "isolates NetworkDeviceTunnelInterface_type NetworkDeviceTunnelInterface_DeepCopyInto"
  by (simp_all add: copy_struct
    NetworkDeviceBFDInterface_type_def NetworkDeviceBFDInterface_DeepCopyInto_def
    NetworkDeviceInterfaceSubInterface_type_def NetworkDeviceInterfaceSubInterface_DeepCopyInto_def
    NetworkDeviceNetworkInstanceProtocolBGPDynamicNeighborsInterface_type_def
    NetworkDeviceNetworkInstanceProtocolBGPDynamicNeighborsInterface_DeepCopyInto_def
    NetworkDeviceNetworkInstanceProtocolBGPPeerGroup_type_def
    NetworkDeviceNetworkInstanceProtocolBGPPeerGroup_DeepCopyInto_def
    NetworkDeviceNetworkInstanceProtocolISISInstanceInterface_type_def
    NetworkDeviceNetworkInstanceProtocolISISInstanceInterface_DeepCopyInto_def
    NetworkDeviceNetworkInstanceProtocolOSPFInstanceAreaInterface_type_def
    NetworkDeviceNetworkInstanceProtocolOSPFInstanceAreaInterface_DeepCopyInto_def
    NetworkDeviceSystemProtocols_type_def NetworkDeviceSystemProtocols_DeepCopyInto_def
    NetworkDeviceTunnelInterface_type_def NetworkDeviceTunnelInterface_DeepCopyInto_def)

definition NetworkDeviceBFD_type :: "externals \<Rightarrow> gotype" where
  "NetworkDeviceBFD_type x =
    TStruct [(''Interfaces'', TSlice (TPtr (NetworkDeviceBFDInterface_type x)))]"

definition NetworkDeviceBFD_DeepCopyInto :: "externals \<Rightarrow> copier" where
  "NetworkDeviceBFD_DeepCopyInto x =
    copyStruct [(''Interfaces'', copySlice (copyPtr (NetworkDeviceBFDInterface_DeepCopyInto x)))]"

definition NetworkDeviceBFD_DeepCopy :: "externals \<Rightarrow> copier" where
  "NetworkDeviceBFD_DeepCopy x = DeepCopy (NetworkDeviceBFD_DeepCopyInto x)"

definition NetworkDeviceInterface_type :: gotype where
  "NetworkDeviceInterface_type =
    TStruct [(''Name'', TScalar), (''SubInterfaces'', TSlice (TPtr NetworkDeviceInterfaceSubInterface_type)),
     (''VLANTagging'', TScalar), (''Speed'', TScalar), (''LAGMember'', TScalar)]"

definition NetworkDeviceInterface_DeepCopyInto :: copier where
  "NetworkDeviceInterface_DeepCopyInto =
    copyStruct [(''SubInterfaces'', copySlice (copyPtr NetworkDeviceInterfaceSubInterface_DeepCopyInto))]"

definition NetworkDeviceInterface_DeepCopy :: copier where
  "NetworkDeviceInterface_DeepCopy = DeepCopy NetworkDeviceInterface_DeepCopyInto"

definition NetworkDeviceNetworkInstanceProtocolBGPDynamicNeighbors_type :: gotype where
  "NetworkDeviceNetworkInstanceProtocolBGPDynamicNeighbors_type =
    TStruct [(''Prefixes'', TSlice TScalar),
     (''Interfaces'', TSlice (TPtr NetworkDeviceNetworkInstanceProtocolBGPDynamicNeighborsInterface_type))]"

definition NetworkDeviceNetworkInstanceProtocolBGPDynamicNeighbors_DeepCopyInto :: copier where
  "NetworkDeviceNetworkInstanceProtocolBGPDynamicNeighbors_DeepCopyInto =
    copyStruct [(''Prefixes'', copySlice assign), (''Interfaces'', copySlice (copyPtr assign))]"

definition NetworkDeviceNetworkInstanceProtocolBGPDynamicNeighbors_DeepCopy :: copier where
  "NetworkDeviceNetworkInstanceProtocolBGPDynamicNeighbors_DeepCopy = DeepCopy NetworkDeviceNetworkInstanceProtocolBGPDynamicNeighbors_DeepCopyInto"

definition NetworkDeviceNetworkInstanceProtocolISISInstance_type :: gotype where
  "NetworkDeviceNetworkInstanceProtocolISISInstance_type =
    TStruct [(''Name'', TScalar), (''Net'', TSlice TScalar), (''LevelCapability'', TScalar),
     (''Level1'', TPtr NetworkDeviceNetworkInstanceProtocolISISInstanceLevel_type),
     (''Level2'', TPtr NetworkDeviceNetworkInstanceProtocolISISInstanceLevel_type),
     (''Interfaces'', TSlice (TPtr NetworkDeviceNetworkInstanceProtocolISISInstanceInterface_type)),
     (''MaxECMPPaths'', TScalar), (''AddressFamilies'', TSlice TScalar)]"

definition NetworkDeviceNetworkInstanceProtocolISISInstance_DeepCopyInto :: copier where
  "NetworkDeviceNetworkInstanceProtocolISISInstance_DeepCopyInto =
    copyStruct [(''Net'', copySlice assign), (''Level1'', copyPtr assign), (''Level2'', copyPtr assign),
     (''Interfaces'', copySlice (copyPtr NetworkDeviceNetworkInstanceProtocolISISInstanceInterface_DeepCopyInto)),
     (''AddressFamilies'', copySlice assign)]"

definition NetworkDeviceNetworkInstanceProtocolISISInstance_DeepCopy :: copier where
  "NetworkDeviceNetworkInstanceProtocolISISInstance_DeepCopy = DeepCopy NetworkDeviceNetworkInstanceProtocolISISInstance_DeepCopyInto"

definition NetworkDeviceNetworkInstanceProtocolOSPFInstanceArea_type :: gotype where
  "NetworkDeviceNetworkInstanceProtocolOSPFInstanceArea_type =
    TStruct [(''Name'', TScalar),
     (''Interfaces'', TSlice (TPtr NetworkDeviceNetworkInstanceProtocolOSPFInstanceAreaInterface_type)),
     (''NSSA'', TPtr NetworkDeviceNetworkInstanceProtocolOSPFInstanceAreaNSSA_type),
     (''Stub'', TPtr NetworkDeviceNetworkInstanceProtocolOSPFInstanceAreaStub_type)]"

definition NetworkDeviceNetworkInstanceProtocolOSPFInstanceArea_DeepCopyInto :: copier where
  "NetworkDeviceNetworkInstanceProtocolOSPFInstanceArea_DeepCopyInto =
    copyStruct [(''Interfaces'', copySlice (copyPtr assign)), (''NSSA'', copyPtr assign), (''Stub'', copyPtr assign)]"

definition NetworkDeviceNetworkInstanceProtocolOSPFInstanceArea_DeepCopy :: copier where
  "NetworkDeviceNetworkInstanceProtocolOSPFInstanceArea_DeepCopy = DeepCopy NetworkDeviceNetworkInstanceProtocolOSPFInstanceArea_DeepCopyInto"

definition NetworkDeviceSystem_type :: gotype where
  "NetworkDeviceSystem_type = TStruct [(''Protocols'', TPtr NetworkDeviceSystemProtocols_type)]"

definition NetworkDeviceSystem_DeepCopyInto :: copier where
  "NetworkDeviceSystem_DeepCopyInto =
    copyStruct [(''Protocols'', copyPtr NetworkDeviceSystemProtocols_DeepCopyInto)]"

definition NetworkDeviceSystem_DeepCopy :: copier where
  "NetworkDeviceSystem_DeepCopy = DeepCopy NetworkDeviceSystem_DeepCopyInto"

lemma isolates_CopyDevice_3 [simp]:
  "externals_ok x \<Longrightarrow> isolates (NetworkDeviceBFD_type x) (NetworkDeviceBFD_DeepCopyInto x)"
  "isolates NetworkDeviceInterface_type NetworkDeviceInterface_DeepCopyInto"
  "isolates NetworkDeviceNetworkInstanceProtocolBGPDynamicNeighbors_type NetworkDeviceNetworkInstanceProtocolBGPDynamicNeighbors_DeepCopyInto"
  "isolates NetworkDeviceNetworkInstanceProtocolISISInstance_type NetworkDeviceNetworkInstanceProtocolISISInstance_DeepCopyInto"
  "isolates NetworkDeviceNetworkInstanceProtocolOSPFInstanceArea_type NetworkDeviceNetworkInstanceProtocolOSPFInstanceArea_DeepCopyInto"
  "isolates NetworkDeviceSystem_type NetworkDeviceSystem_DeepCopyInto"
  by (simp_all add: copy_struct
    NetworkDeviceBFD_type_def NetworkDeviceBFD_DeepCopyInto_def NetworkDeviceInterface_type_def
    NetworkDeviceInterface_DeepCopyInto_def NetworkDeviceNetworkInstanceProtocolBGPDynamicNeighbors_type_def
    NetworkDeviceNetworkInstanceProtocolBGPDynamicNeighbors_DeepCopyInto_def
    NetworkDeviceNetworkInstanceProtocolISISInstance_type_def
    NetworkDeviceNetworkInstanceProtocolISISInstance_DeepCopyInto_def
    NetworkDeviceNetworkInstanceProtocolOSPFInstanceArea_type_def
    NetworkDeviceNetworkInstanceProtocolOSPFInstanceArea_DeepCopyInto_def NetworkDeviceSystem_type_def
    NetworkDeviceSystem_DeepCopyInto_def)

definition NetworkDeviceNetworkInstanceProtocolBGP_type :: gotype where
  "NetworkDeviceNetworkInstanceProtocolBGP_type =
    TStruct [(''AS'', TScalar), (''RouterID'', TScalar),
     (''PeerGroups'', TSlice (TPtr NetworkDeviceNetworkInstanceProtocolBGPPeerGroup_type)),
     (''Neighbors'', TSlice (TPtr NetworkDeviceNetworkInstanceProtocolBGPNeighbor_type)),
     (''DynamicNeighbors'', TPtr NetworkDeviceNetworkInstanceProtocolBGPDynamicNeighbors_type),
     (''AddressFamilies'', TSlice (TPtr NetworkDeviceNetworkInstanceProtocolBGPAddressFamily_type))]"

definition NetworkDeviceNetworkInstanceProtocolBGP_DeepCopyInto :: copier where
  "NetworkDeviceNetworkInstanceProtocolBGP_DeepCopyInto =
    copyStruct [(''PeerGroups'', copySlice (copyPtr NetworkDeviceNetworkInstanceProtocolBGPPeerGroup_DeepCopyInto)),
     (''Neighbors'', copySlice (copyPtr assign)),
     (''DynamicNeighbors'', copyPtr NetworkDeviceNetworkInstanceProtocolBGPDynamicNeighbors_DeepCopyInto),
     (''AddressFamilies'', copySlice (copyPtr assign))]"

definition NetworkDeviceNetworkInstanceProtocolBGP_DeepCopy :: copier where
  "NetworkDeviceNetworkInstanceProtocolBGP_DeepCopy = DeepCopy NetworkDeviceNetworkInstanceProtocolBGP_DeepCopyInto"

definition NetworkDeviceNetworkInstanceProtocolISIS_type :: gotype where
  "NetworkDeviceNetworkInstanceProtocolISIS_type =
    TStruct [(''Instances'', TSlice (TPtr NetworkDeviceNetworkInstanceProtocolISISInstance_type))]"

definition NetworkDeviceNetworkInstanceProtocolISIS_DeepCopyInto :: copier where
  "NetworkDeviceNetworkInstanceProtocolISIS_DeepCopyInto =
    copyStruct [(''Instances'', copySlice (copyPtr NetworkDeviceNetworkInstanceProtocolISISInstance_DeepCopyInto))]"

definition NetworkDeviceNetworkInstanceProtocolISIS_DeepCopy :: copier where
  "NetworkDeviceNetworkInstanceProtocolISIS_DeepCopy = DeepCopy NetworkDeviceNetworkInstanceProtocolISIS_DeepCopyInto"

definition NetworkDeviceNetworkInstanceProtocolOSPFInstance_type :: gotype where
  "NetworkDeviceNetworkInstanceProtocolOSPFInstance_type =
    TStruct [(''Name'', TScalar), (''Version'', TScalar), (''RouterID'', TScalar),
     (''Areas'', TSlice (TPtr NetworkDeviceNetworkInstanceProtocolOSPFInstanceArea_type)), (''MaxECMPPaths'', TScalar),
     (''ASBR'', TScalar)]"

definition NetworkDeviceNetworkInstanceProtocolOSPFInstance_DeepCopyInto :: copier where
  "NetworkDeviceNetworkInstanceProtocolOSPFInstance_DeepCopyInto =
    copyStruct [(''Areas'', copySlice (copyPtr NetworkDeviceNetworkInstanceProtocolOSPFInstanceArea_DeepCopyInto))]"

definition NetworkDeviceNetworkInstanceProtocolOSPFInstance_DeepCopy :: copier where
  "NetworkDeviceNetworkInstanceProtocolOSPFInstance_DeepCopy = DeepCopy NetworkDeviceNetworkInstanceProtocolOSPFInstance_DeepCopyInto"

lemma isolates_CopyDevice_4 [simp]:
  "isolates NetworkDeviceNetworkInstanceProtocolBGP_type NetworkDeviceNetworkInstanceProtocolBGP_DeepCopyInto"
  "isolates NetworkDeviceNetworkInstanceProtocolISIS_type NetworkDeviceNetworkInstanceProtocolISIS_DeepCopyInto"
  "isolates NetworkDeviceNetworkInstanceProtocolOSPFInstance_type NetworkDeviceNetworkInstanceProtocolOSPFInstance_DeepCopyInto"
  by (simp_all add: copy_struct
    NetworkDeviceNetworkInstanceProtocolBGP_type_def NetworkDeviceNetworkInstanceProtocolBGP_DeepCopyInto_def
    NetworkDeviceNetworkInstanceProtocolISIS_type_def NetworkDeviceNetworkInstanceProtocolISIS_DeepCopyInto_def
    NetworkDeviceNetworkInstanceProtocolOSPFInstance_type_def
    NetworkDeviceNetworkInstanceProtocolOSPFInstance_DeepCopyInto_def)

definition NetworkDeviceNetworkInstanceProtocolOSPF_type :: gotype where
  "NetworkDeviceNetworkInstanceProtocolOSPF_type =
    TStruct [(''Instances'', TSlice (TPtr NetworkDeviceNetworkInstanceProtocolOSPFInstance_type))]"

definition NetworkDeviceNetworkInstanceProtocolOSPF_DeepCopyInto :: copier where
  "NetworkDeviceNetworkInstanceProtocolOSPF_DeepCopyInto =
    copyStruct [(''Instances'', copySlice (copyPtr NetworkDeviceNetworkInstanceProtocolOSPFInstance_DeepCopyInto))]"

definition NetworkDeviceNetworkInstanceProtocolOSPF_DeepCopy :: copier where
  "NetworkDeviceNetworkInstanceProtocolOSPF_DeepCopy = DeepCopy NetworkDeviceNetworkInstanceProtocolOSPF_DeepCopyInto"

lemma isolates_CopyDevice_5 [simp]:
  "isolates NetworkDeviceNetworkInstanceProtocolOSPF_type NetworkDeviceNetworkInstanceProtocolOSPF_DeepCopyInto"
  by (simp_all add: copy_struct
    NetworkDeviceNetworkInstanceProtocolOSPF_type_def NetworkDeviceNetworkInstanceProtocolOSPF_DeepCopyInto_def)

definition NetworkDeviceNetworkInstanceProtocols_type :: gotype where
  "NetworkDeviceNetworkInstanceProtocols_type =
    TStruct [(''BGP'', TPtr NetworkDeviceNetworkInstanceProtocolBGP_type),
     (''BGPEVPN'', TPtr NetworkDeviceNetworkInstanceProtocolBGPEVPN_type),
     (''BGPVPN'', TPtr NetworkDeviceNetworkInstanceProtocolBGPVPN_type),
     (''ISIS'', TPtr NetworkDeviceNetworkInstanceProtocolISIS_type),
     (''OSPF'', TPtr NetworkDeviceNetworkInstanceProtocolOSPF_type)]"

definition NetworkDeviceNetworkInstanceProtocols_DeepCopyInto :: copier where
  "NetworkDeviceNetworkInstanceProtocols_DeepCopyInto =
    copyStruct [(''BGP'', copyPtr NetworkDeviceNetworkInstanceProtocolBGP_DeepCopyInto), (''BGPEVPN'', copyPtr assign),
     (''BGPVPN'', copyPtr assign), (''ISIS'', copyPtr NetworkDeviceNetworkInstanceProtocolISIS_DeepCopyInto),
     (''OSPF'', copyPtr NetworkDeviceNetworkInstanceProtocolOSPF_DeepCopyInto)]"

definition NetworkDeviceNetworkInstanceProtocols_DeepCopy :: copier where
  "NetworkDeviceNetworkInstanceProtocols_DeepCopy = DeepCopy NetworkDeviceNetworkInstanceProtocols_DeepCopyInto"

lemma isolates_CopyDevice_6 [simp]:
  "isolates NetworkDeviceNetworkInstanceProtocols_type NetworkDeviceNetworkInstanceProtocols_DeepCopyInto"
  by (simp_all add: copy_struct
    NetworkDeviceNetworkInstanceProtocols_type_def NetworkDeviceNetworkInstanceProtocols_DeepCopyInto_def)

definition NetworkDeviceNetworkInstance_type :: gotype where
  "NetworkDeviceNetworkInstance_type =
    TStruct [(''Name'', TScalar), (''Type'', TScalar), (''Protocols'', TPtr NetworkDeviceNetworkInstanceProtocols_type),
     (''Interfaces'', TSlice (TPtr NetworkDeviceNetworkInstanceInterface_type)),
     (''VXLANInterface'', TPtr NetworkDeviceNetworkInstanceInterface_type)]"

definition NetworkDeviceNetworkInstance_DeepCopyInto :: copier where
  "NetworkDeviceNetworkInstance_DeepCopyInto =
    copyStruct [(''Protocols'', copyPtr NetworkDeviceNetworkInstanceProtocols_DeepCopyInto),
     (''Interfaces'', copySlice (copyPtr assign)), (''VXLANInterface'', copyPtr assign)]"

definition NetworkDeviceNetworkInstance_DeepCopy :: copier where
  "NetworkDeviceNetworkInstance_DeepCopy = DeepCopy NetworkDeviceNetworkInstance_DeepCopyInto"

lemma isolates_CopyDevice_7 [simp]:
  "isolates NetworkDeviceNetworkInstance_type NetworkDeviceNetworkInstance_DeepCopyInto"
  by (simp_all add: copy_struct
    NetworkDeviceNetworkInstance_type_def NetworkDeviceNetworkInstance_DeepCopyInto_def)

definition NetworkDeviceSpec_type :: "externals \<Rightarrow> gotype" where
  "NetworkDeviceSpec_type x =
    TStruct [(''Topology'', TScalar), (''Provider'', TScalar), (''Interfaces'', TSlice (TPtr NetworkDeviceInterface_type)),
     (''NetworkInstances'', TSlice (TPtr NetworkDeviceNetworkInstance_type)),
     (''TunnelInterfaces'', TSlice (TPtr NetworkDeviceTunnelInterface_type)),
     (''RoutingPolicies'', TSlice (TPtr NetworkDeviceRoutingPolicy_type)), (''System'', TPtr NetworkDeviceSystem_type),
     (''BFD'', TPtr (NetworkDeviceBFD_type x))]"

definition NetworkDeviceSpec_DeepCopyInto :: "externals \<Rightarrow> copier" where
  "NetworkDeviceSpec_DeepCopyInto x =
    copyStruct [(''Interfaces'', copySlice (copyPtr NetworkDeviceInterface_DeepCopyInto)),
     (''NetworkInstances'', copySlice (copyPtr NetworkDeviceNetworkInstance_DeepCopyInto)),
     (''TunnelInterfaces'', copySlice (copyPtr NetworkDeviceTunnelInterface_DeepCopyInto)),
     (''RoutingPolicies'', copySlice (copyPtr NetworkDeviceRoutingPolicy_DeepCopyInto)),
     (''System'', copyPtr NetworkDeviceSystem_DeepCopyInto), (''BFD'', copyPtr (NetworkDeviceBFD_DeepCopyInto x))]"

definition NetworkDeviceSpec_DeepCopy :: "externals \<Rightarrow> copier" where
  "NetworkDeviceSpec_DeepCopy x = DeepCopy (NetworkDeviceSpec_DeepCopyInto x)"

lemma isolates_CopyDevice_8 [simp]:
  "externals_ok x \<Longrightarrow> isolates (NetworkDeviceSpec_type x) (NetworkDeviceSpec_DeepCopyInto x)"
  by (simp_all add: copy_struct
    NetworkDeviceSpec_type_def NetworkDeviceSpec_DeepCopyInto_def)

definition NetworkDevice_type :: "externals \<Rightarrow> gotype" where
  "NetworkDevice_type x =
    TStruct [(''TypeMeta'', extType x ''TypeMeta''), (''ObjectMeta'', extType x ''ObjectMeta''),
     (''Spec'', NetworkDeviceSpec_type x), (''Status'', NetworkDeviceStatus_type x)]"

definition NetworkDevice_DeepCopyInto :: "externals \<Rightarrow> copier" where
  "NetworkDevice_DeepCopyInto x =
    copyStruct [(''TypeMeta'', assign), (''ObjectMeta'', extDeepCopyInto x ''ObjectMeta''),
     (''Spec'', NetworkDeviceSpec_DeepCopyInto x), (''Status'', NetworkDeviceStatus_DeepCopyInto x)]"

definition NetworkDevice_DeepCopy :: "externals \<Rightarrow> copier" where
  "NetworkDevice_DeepCopy x = DeepCopy (NetworkDevice_DeepCopyInto x)"

definition NetworkDevice_DeepCopyObject :: "externals \<Rightarrow> goval \<Rightarrow> gomem \<Rightarrow> goval option \<times> gomem" where
  "NetworkDevice_DeepCopyObject x = DeepCopyObject (NetworkDevice_DeepCopy x)"

lemma isolates_CopyDevice_9 [simp]:
  "externals_ok x \<Longrightarrow> isolates (NetworkDevice_type x) (NetworkDevice_DeepCopyInto x)"
  by (simp_all add: copy_struct
    NetworkDevice_type_def NetworkDevice_DeepCopyInto_def)

end
