(* ===== verification/CopyNetwork.thy ===== *)
theory CopyNetwork
  imports CopyDevice
begin

text \<open>
  The types of \<open>network_types.go\<close> and \<open>topology_types.go\<close>, the lists and \<open>Device\<close>, and their deep copies.
\<close>

definition Device_type :: "externals \<Rightarrow> gotype" where
  "Device_type x = TStruct [(''nd'', TPtr (NetworkDevice_type x))]"

definition Device_DeepCopyInto :: "externals \<Rightarrow> copier" where
  "Device_DeepCopyInto x = copyStruct [(''nd'', copyPtr (NetworkDevice_DeepCopyInto x))]"

definition Device_DeepCopy :: "externals \<Rightarrow> copier" where
  "Device_DeepCopy x = DeepCopy (Device_DeepCopyInto x)"

definition NetworkConfigProtocolsBGP_type :: gotype where
  "NetworkConfigProtocolsBGP_type = TStruct [(''LocalAS'', TScalar), (''PeerAS'', TScalar)]"

definition NetworkConfigProtocolsBGP_DeepCopyInto :: copier where
  "NetworkConfigProtocolsBGP_DeepCopyInto = copyStruct []"

definition NetworkConfigProtocolsBGP_DeepCopy :: copier where
  "NetworkConfigProtocolsBGP_DeepCopy = DeepCopy NetworkConfigProtocolsBGP_DeepCopyInto"

definition NetworkDesignList_type :: "externals \<Rightarrow> gotype" where
  "NetworkDesignList_type x =
    TStruct [(''TypeMeta'', extType x ''TypeMeta''), (''ListMeta'', extType x ''ListMeta''),
     (''Items'', TSlice (NetworkDesign_type x))]"

definition NetworkDesignList_DeepCopyInto :: "externals \<Rightarrow> copier" where
  "NetworkDesignList_DeepCopyInto x =
    copyStruct [(''TypeMeta'', assign), (''ListMeta'', extDeepCopyInto x ''ListMeta''),
     (''Items'', copySlice (NetworkDesign_DeepCopyInto x))]"

definition NetworkDesignList_DeepCopy :: "externals \<Rightarrow> copier" where
  "NetworkDesignList_DeepCopy x = DeepCopy (NetworkDesignList_DeepCopyInto x)"

definition NetworkDesignList_DeepCopyObject :: "externals \<Rightarrow> goval \<Rightarrow> gomem \<Rightarrow> goval option \<times> gomem" where
  "NetworkDesignList_DeepCopyObject x = DeepCopyObject (NetworkDesignList_DeepCopy x)"

definition NetworkDeviceList_type :: "externals \<Rightarrow> gotype" where
  "NetworkDeviceList_type x =
    TStruct [(''TypeMeta'', extType x ''TypeMeta''), (''ListMeta'', extType x ''ListMeta''),
     (''Items'', TSlice (NetworkDevice_type x))]"

definition NetworkDeviceList_DeepCopyInto :: "externals \<Rightarrow> copier" where
  "NetworkDeviceList_DeepCopyInto x =
    copyStruct [(''TypeMeta'', assign), (''ListMeta'', extDeepCopyInto x ''ListMeta''),
     (''Items'', copySlice (NetworkDevice_DeepCopyInto x))]"

definition NetworkDeviceList_DeepCopy :: "externals \<Rightarrow> copier" where
  "NetworkDeviceList_DeepCopy x = DeepCopy (NetworkDeviceList_DeepCopyInto x)"

definition NetworkDeviceList_DeepCopyObject :: "externals \<Rightarrow> goval \<Rightarrow> gomem \<Rightarrow> goval option \<times> gomem" where
  "NetworkDeviceList_DeepCopyObject x = DeepCopyObject (NetworkDeviceList_DeepCopy x)"

definition NetworkInterfaceAddress_type :: gotype where
  "NetworkInterfaceAddress_type = TStruct [(''Address'', TScalar), (''Attribute'', TPtr TScalar)]"

definition NetworkInterfaceAddress_DeepCopyInto :: copier where
  "NetworkInterfaceAddress_DeepCopyInto = copyStruct [(''Attribute'', copyPtr assign)]"

definition NetworkInterfaceAddress_DeepCopy :: copier where
  "NetworkInterfaceAddress_DeepCopy = DeepCopy NetworkInterfaceAddress_DeepCopyInto"

definition NetworkStatusDeviceStatus_type :: gotype where
  "NetworkStatusDeviceStatus_type =
    TStruct [(''Node'', TScalar), (''Ready'', TScalar), (''Reason'', TPtr TScalar)]"

definition NetworkStatusDeviceStatus_DeepCopyInto :: copier where
  "NetworkStatusDeviceStatus_DeepCopyInto = copyStruct [(''Reason'', copyPtr assign)]"

definition NetworkStatusDeviceStatus_DeepCopy :: copier where
  "NetworkStatusDeviceStatus_DeepCopy = DeepCopy NetworkStatusDeviceStatus_DeepCopyInto"

definition NetworkStatusUsedReferences_type :: gotype where
  "NetworkStatusUsedReferences_type =
    TStruct [(''NetworkSpecHash'', TScalar), (''NetworkDesignResourceVersion'', TScalar)]"

definition NetworkStatusUsedReferences_DeepCopyInto :: copier where
  "NetworkStatusUsedReferences_DeepCopyInto = copyStruct []"

definition NetworkStatusUsedReferences_DeepCopy :: copier where
  "NetworkStatusUsedReferences_DeepCopy = DeepCopy NetworkStatusUsedReferences_DeepCopyInto"

definition TopologySpec_type :: "externals \<Rightarrow> gotype" where
  "TopologySpec_type x =
    TStruct [(''Region'', TPtr TScalar), (''Site'', TPtr TScalar), (''Location'', TPtr (extType x ''Location'')),
     (''ContainerLab'', TPtr TScalar)]"

definition TopologySpec_DeepCopyInto :: "externals \<Rightarrow> copier" where
  "TopologySpec_DeepCopyInto x =
    copyStruct [(''Region'', copyPtr assign), (''Site'', copyPtr assign), (''Location'', copyPtr assign),
     (''ContainerLab'', copyPtr assign)]"

definition TopologySpec_DeepCopy :: "externals \<Rightarrow> copier" where
  "TopologySpec_DeepCopy x = DeepCopy (TopologySpec_DeepCopyInto x)"

definition TopologyStatus_type :: "externals \<Rightarrow> gotype" where
  "TopologyStatus_type x = TStruct [(''ConditionedStatus'', extType x ''ConditionedStatus'')]"

definition TopologyStatus_DeepCopyInto :: "externals \<Rightarrow> copier" where
  "TopologyStatus_DeepCopyInto x =
    copyStruct [(''ConditionedStatus'', extDeepCopyInto x ''ConditionedStatus'')]"

definition TopologyStatus_DeepCopy :: "externals \<Rightarrow> copier" where
  "TopologyStatus_DeepCopy x = DeepCopy (TopologyStatus_DeepCopyInto x)"

lemma flat_CopyNetwork_1 [simp]:
  "flat NetworkConfigProtocolsBGP_type"
  "flat NetworkStatusUsedReferences_type"
  by (simp_all add: NetworkConfigProtocolsBGP_type_def NetworkStatusUsedReferences_type_def)

lemma isolates_CopyNetwork_1 [simp]:
  "externals_ok x \<Longrightarrow> isolates (Device_type x) (Device_DeepCopyInto x)"
  "isolates NetworkConfigProtocolsBGP_type NetworkConfigProtocolsBGP_DeepCopyInto"
  "externals_ok x \<Longrightarrow> isolates (NetworkDesignList_type x) (NetworkDesignList_DeepCopyInto x)"
  "externals_ok x \<Longrightarrow> isolates (NetworkDeviceList_type x) (NetworkDeviceList_DeepCopyInto x)"
  "isolates NetworkInterfaceAddress_type NetworkInterfaceAddress_DeepCopyInto"
  "isolates NetworkStatusDeviceStatus_type NetworkStatusDeviceStatus_DeepCopyInto"
  "isolates NetworkStatusUsedReferences_type NetworkStatusUsedReferences_DeepCopyInto"
  "externals_ok x \<Longrightarrow> isolates (TopologySpec_type x) (TopologySpec_DeepCopyInto x)"
  "externals_ok x \<Longrightarrow> isolates (TopologyStatus_type x) (TopologyStatus_DeepCopyInto x)"
  by (simp_all add: copy_struct
    Device_type_def Device_DeepCopyInto_def NetworkConfigProtocolsBGP_type_def
    NetworkConfigProtocolsBGP_DeepCopyInto_def NetworkDesignList_type_def NetworkDesignList_DeepCopyInto_def
    NetworkDeviceList_type_def NetworkDeviceList_DeepCopyInto_def NetworkInterfaceAddress_type_def
    NetworkInterfaceAddress_DeepCopyInto_def NetworkStatusDeviceStatus_type_def
    NetworkStatusDeviceStatus_DeepCopyInto_def NetworkStatusUsedReferences_type_def
    NetworkStatusUsedReferences_DeepCopyInto_def TopologySpec_type_def TopologySpec_DeepCopyInto_def
    TopologyStatus_type_def TopologyStatus_DeepCopyInto_def)

definition NetworkInterfaceProtocols_type :: gotype where
  "NetworkInterfaceProtocols_type = TStruct [(''BGP'', TPtr NetworkConfigProtocolsBGP_type)]"

definition NetworkInterfaceProtocols_DeepCopyInto :: copier where
  "NetworkInterfaceProtocols_DeepCopyInto = copyStruct [(''BGP'', copyPtr assign)]"

definition NetworkInterfaceProtocols_DeepCopy :: copier where
  "NetworkInterfaceProtocols_DeepCopy = DeepCopy NetworkInterfaceProtocols_DeepCopyInto"

definition NetworkStatus_type :: "externals \<Rightarrow> gotype" where
  "NetworkStatus_type x =
    TStruct [(''ConditionedStatus'', extType x ''ConditionedStatus''),
     (''DevicesConfigStatus'', TSlice (TPtr NetworkStatusDeviceStatus_type)),
     (''DevicesDeployStatus'', TSlice (TPtr NetworkStatusDeviceStatus_type)),
     (''UsedReferences'', TPtr NetworkStatusUsedReferences_type)]"

definition NetworkStatus_DeepCopyInto :: "externals \<Rightarrow> copier" where
  "NetworkStatus_DeepCopyInto x =
    copyStruct [(''ConditionedStatus'', extDeepCopyInto x ''ConditionedStatus''),
     (''DevicesConfigStatus'', copySlice (copyPtr NetworkStatusDeviceStatus_DeepCopyInto)),
     (''DevicesDeployStatus'', copySlice (copyPtr NetworkStatusDeviceStatus_DeepCopyInto)),
     (''UsedReferences'', copyPtr assign)]"

definition NetworkStatus_DeepCopy :: "externals \<Rightarrow> copier" where
  "NetworkStatus_DeepCopy x = DeepCopy (NetworkStatus_DeepCopyInto x)"

definition Topology_type :: "externals \<Rightarrow> gotype" where
  "Topology_type x =
    TStruct [(''TypeMeta'', extType x ''TypeMeta''), (''ObjectMeta'', extType x ''ObjectMeta''),
     (''Spec'', TopologySpec_type x), (''Status'', TopologyStatus_type x)]"

definition Topology_DeepCopyInto :: "externals \<Rightarrow> copier" where
  "Topology_DeepCopyInto x =
    copyStruct [(''TypeMeta'', assign), (''ObjectMeta'', extDeepCopyInto x ''ObjectMeta''),
     (''Spec'', TopologySpec_DeepCopyInto x), (''Status'', TopologyStatus_DeepCopyInto x)]"

definition Topology_DeepCopy :: "externals \<Rightarrow> copier" where
  "Topology_DeepCopy x = DeepCopy (Topology_DeepCopyInto x)"

definition Topology_DeepCopyObject :: "externals \<Rightarrow> goval \<Rightarrow> gomem \<Rightarrow> goval option \<times> gomem" where
  "Topology_DeepCopyObject x = DeepCopyObject (Topology_DeepCopy x)"

lemma isolates_CopyNetwork_2 [simp]:
  "isolates NetworkInterfaceProtocols_type NetworkInterfaceProtocols_DeepCopyInto"
  "externals_ok x \<Longrightarrow> isolates (NetworkStatus_type x) (NetworkStatus_DeepCopyInto x)"
  "externals_ok x \<Longrightarrow> isolates (Topology_type x) (Topology_DeepCopyInto x)"
  by (simp_all add: copy_struct
    NetworkInterfaceProtocols_type_def NetworkInterfaceProtocols_DeepCopyInto_def NetworkStatus_type_def
    NetworkStatus_DeepCopyInto_def Topology_type_def Topology_DeepCopyInto_def)

definition NetworkInterface_type :: "externals \<Rightarrow> gotype" where
  "NetworkInterface_type x =
    TStruct [(''Bridge'', TPtr TScalar), (''EndPoint'', TPtr TScalar), (''NodeID'', TPtr (extType x ''NodeID'')),
     (''Addresses'', TSlice (TPtr NetworkInterfaceAddress_type)), (''VLANID'', TPtr TScalar),
     (''Selector'', TPtr (extType x ''LabelSelector'')), (''VLANTagging'', TScalar),
     (''Protocols'', TPtr NetworkInterfaceProtocols_type)]"

definition NetworkInterface_DeepCopyInto :: "externals \<Rightarrow> copier" where
  "NetworkInterface_DeepCopyInto x =
    copyStruct [(''Bridge'', copyPtr assign), (''EndPoint'', copyPtr assign), (''NodeID'', copyPtr assign),
     (''Addresses'', copySlice (copyPtr NetworkInterfaceAddress_DeepCopyInto)), (''VLANID'', copyPtr assign),
     (''Selector'', copyPtr (extDeepCopyInto x ''LabelSelector'')),
     (''Protocols'', copyPtr NetworkInterfaceProtocols_DeepCopyInto)]"

definition NetworkInterface_DeepCopy :: "externals \<Rightarrow> copier" where
  "NetworkInterface_DeepCopy x = DeepCopy (NetworkInterface_DeepCopyInto x)"

definition TopologyList_type :: "externals \<Rightarrow> gotype" where
  "TopologyList_type x =
    TStruct [(''TypeMeta'', extType x ''TypeMeta''), (''ListMeta'', extType x ''ListMeta''),
     (''Items'', TSlice (Topology_type x))]"

definition TopologyList_DeepCopyInto :: "externals \<Rightarrow> copier" where
  "TopologyList_DeepCopyInto x =
    copyStruct [(''TypeMeta'', assign), (''ListMeta'', extDeepCopyInto x ''ListMeta''),
     (''Items'', copySlice (Topology_DeepCopyInto x))]"

definition TopologyList_DeepCopy :: "externals \<Rightarrow> copier" where
  "TopologyList_DeepCopy x = DeepCopy (TopologyList_DeepCopyInto x)"

definition TopologyList_DeepCopyObject :: "externals \<Rightarrow> goval \<Rightarrow> gomem \<Rightarrow> goval option \<times> gomem" where
  "TopologyList_DeepCopyObject x = DeepCopyObject (TopologyList_DeepCopy x)"

lemma isolates_CopyNetwork_3 [simp]:
  "externals_ok x \<Longrightarrow> isolates (NetworkInterface_type x) (NetworkInterface_DeepCopyInto x)"
  "externals_ok x \<Longrightarrow> isolates (TopologyList_type x) (TopologyList_DeepCopyInto x)"
  by (simp_all add: copy_struct
    NetworkInterface_type_def NetworkInterface_DeepCopyInto_def TopologyList_type_def TopologyList_DeepCopyInto_def)

definition NetworkBridge_type :: "externals \<Rightarrow> gotype" where
  "NetworkBridge_type x =
    TStruct [(''Name'', TScalar), (''NetworkID'', TScalar), (''Interfaces'', TSlice (TPtr (NetworkInterface_type x)))]"

definition NetworkBridge_DeepCopyInto :: "externals \<Rightarrow> copier" where
  "NetworkBridge_DeepCopyInto x =
    copyStruct [(''Interfaces'', copySlice (copyPtr (NetworkInterface_DeepCopyInto x)))]"

definition NetworkBridge_DeepCopy :: "externals \<Rightarrow> copier" where
  "NetworkBridge_DeepCopy x = DeepCopy (NetworkBridge_DeepCopyInto x)"

definition NetworkRouter_type :: "externals \<Rightarrow> gotype" where
  "NetworkRouter_type x =
    TStruct [(''Name'', TScalar), (''NetworkID'', TScalar), (''Interfaces'', TSlice (TPtr (NetworkInterface_type x)))]"

definition NetworkRouter_DeepCopyInto :: "externals \<Rightarrow> copier" where
  "NetworkRouter_DeepCopyInto x =
    copyStruct [(''Interfaces'', copySlice (copyPtr (NetworkInterface_DeepCopyInto x)))]"

definition NetworkRouter_DeepCopy :: "externals \<Rightarrow> copier" where
  "NetworkRouter_DeepCopy x = DeepCopy (NetworkRouter_DeepCopyInto x)"

lemma isolates_CopyNetwork_4 [simp]:
  "externals_ok x \<Longrightarrow> isolates (NetworkBridge_type x) (NetworkBridge_DeepCopyInto x)"
  "externals_ok x \<Longrightarrow> isolates (NetworkRouter_type x) (NetworkRouter_DeepCopyInto x)"
  by (simp_all add: copy_struct
    NetworkBridge_type_def NetworkBridge_DeepCopyInto_def NetworkRouter_type_def NetworkRouter_DeepCopyInto_def)

definition NetworkSpec_type :: "externals \<Rightarrow> gotype" where
  "NetworkSpec_type x =
    TStruct [(''Topology'', TScalar), (''Bridges'', TSlice (TPtr (NetworkBridge_type x))),
     (''Routers'', TSlice (TPtr (NetworkRouter_type x)))]"

definition NetworkSpec_DeepCopyInto :: "externals \<Rightarrow> copier" where
  "NetworkSpec_DeepCopyInto x =
    copyStruct [(''Bridges'', copySlice (copyPtr (NetworkBridge_DeepCopyInto x))),
     (''Routers'', copySlice (copyPtr (NetworkRouter_DeepCopyInto x)))]"

definition NetworkSpec_DeepCopy :: "externals \<Rightarrow> copier" where
  "NetworkSpec_DeepCopy x = DeepCopy (NetworkSpec_DeepCopyInto x)"

lemma isolates_CopyNetwork_5 [simp]:
  "externals_ok x \<Longrightarrow> isolates (NetworkSpec_type x) (NetworkSpec_DeepCopyInto x)"
  by (simp_all add: copy_struct
    NetworkSpec_type_def NetworkSpec_DeepCopyInto_def)

definition Network_type :: "externals \<Rightarrow> gotype" where
  "Network_type x =
    TStruct [(''TypeMeta'', extType x ''TypeMeta''), (''ObjectMeta'', extType x ''ObjectMeta''),
     (''Spec'', NetworkSpec_type x), (''Status'', NetworkStatus_type x)]"

definition Network_DeepCopyInto :: "externals \<Rightarrow> copier" where
  "Network_DeepCopyInto x =
    copyStruct [(''TypeMeta'', assign), (''ObjectMeta'', extDeepCopyInto x ''ObjectMeta''),
     (''Spec'', NetworkSpec_DeepCopyInto x), (''Status'', NetworkStatus_DeepCopyInto x)]"

definition Network_DeepCopy :: "externals \<Rightarrow> copier" where
  "Network_DeepCopy x = DeepCopy (Network_DeepCopyInto x)"

definition Network_DeepCopyObject :: "externals \<Rightarrow> goval \<Rightarrow> gomem \<Rightarrow> goval option \<times> gomem" where
  "Network_DeepCopyObject x = DeepCopyObject (Network_DeepCopy x)"

lemma isolates_CopyNetwork_6 [simp]:
  "externals_ok x \<Longrightarrow> isolates (Network_type x) (Network_DeepCopyInto x)"
  by (simp_all add: copy_struct
    Network_type_def Network_DeepCopyInto_def)

definition NetworkList_type :: "externals \<Rightarrow> gotype" where
  "NetworkList_type x =
    TStruct [(''TypeMeta'', extType x ''TypeMeta''), (''ListMeta'', extType x ''ListMeta''),
     (''Items'', TSlice (Network_type x))]"

definition NetworkList_DeepCopyInto :: "externals \<Rightarrow> copier" where
  "NetworkList_DeepCopyInto x =
    copyStruct [(''TypeMeta'', assign), (''ListMeta'', extDeepCopyInto x ''ListMeta''),
     (''Items'', copySlice (Network_DeepCopyInto x))]"

definition NetworkList_DeepCopy :: "externals \<Rightarrow> copier" where
  "NetworkList_DeepCopy x = DeepCopy (NetworkList_DeepCopyInto x)"

definition NetworkList_DeepCopyObject :: "externals \<Rightarrow> goval \<Rightarrow> gomem \<Rightarrow> goval option \<times> gomem" where
  "NetworkList_DeepCopyObject x = DeepCopyObject (NetworkList_DeepCopy x)"

lemma isolates_CopyNetwork_7 [simp]:
  "externals_ok x \<Longrightarrow> isolates (NetworkList_type x) (NetworkList_DeepCopyInto x)"
  by (simp_all add: copy_struct
    NetworkList_type_def NetworkList_DeepCopyInto_def)

end
