(* ===== verification/DeepCopies.thy ===== *)
theory DeepCopies
  imports CopyNetwork
begin

text \<open>
  The scheme in which the two packages register their objects (\<open>register.go\<close>), and what a caller of
  \<open>DeepCopyObject\<close> can rely on. It is what lets the reconcilers, which work on \<open>cr.DeepCopy()\<close>, be modelled
  on records: no write of theirs reaches the object that was read.
\<close>

section \<open>The scheme\<close>

text \<open>
  The scheme of the process knows an object by its group, version and kind: its type and its \<open>DeepCopyObject\<close>. The
  types of the framework that \<open>AddToGroupVersion\<close> adds to every group are left out.
\<close>

record GroupVersionKind =
  gvk_Group :: string
  gvk_Version :: string
  gvk_Kind :: string

type_synonym objectCopier = "goval \<Rightarrow> gomem \<Rightarrow> goval option \<times> gomem"
type_synonym goScheme = "GroupVersionKind \<rightharpoonup> gotype \<times> objectCopier"

definition AddKnownTypes :: "string \<times> string \<Rightarrow> (string \<times> gotype \<times> objectCopier) list \<Rightarrow> goScheme \<Rightarrow> goScheme" where
  "AddKnownTypes gv types scheme = fold (\<lambda>(kind, obj) s.
     s(\<lparr>gvk_Group = fst gv, gvk_Version = snd gv, gvk_Kind = kind\<rparr> \<mapsto> obj)) types scheme"

definition network_SchemeGroupVersion :: "string \<times> string" where
  "network_SchemeGroupVersion = (''network.app.kuid.dev'', ''v1alpha1'')"

definition topo_SchemeGroupVersion :: "string \<times> string" where
  "topo_SchemeGroupVersion = (''topo.app.kuid.dev'', ''v1alpha1'')"

definition network_addKnownTypes :: "externals \<Rightarrow> goScheme \<Rightarrow> goScheme" where
  "network_addKnownTypes x = AddKnownTypes network_SchemeGroupVersion
     [(''Network'', Network_type x, Network_DeepCopyObject x),
      (''NetworkList'', NetworkList_type x, NetworkList_DeepCopyObject x),
      (''NetworkDesign'', NetworkDesign_type x, NetworkDesign_DeepCopyObject x),
      (''NetworkDesignList'', NetworkDesignList_type x, NetworkDesignList_DeepCopyObject x),
      (''NetworkDevice'', NetworkDevice_type x, NetworkDevice_DeepCopyObject x),
      (''NetworkDeviceList'', NetworkDeviceList_type x, NetworkDeviceList_DeepCopyObject x)]"

definition topo_addKnownTypes :: "externals \<Rightarrow> goScheme \<Rightarrow> goScheme" where
  "topo_addKnownTypes x = AddKnownTypes topo_SchemeGroupVersion
     [(''Topology'', Topology_type x, Topology_DeepCopyObject x),
      (''TopologyList'', TopologyList_type x, TopologyList_DeepCopyObject x)]"

text \<open>Of the groups that \<open>main\<close> adds to its scheme, the two of this repository.\<close>

definition runScheme :: "externals \<Rightarrow> goScheme" where
  "runScheme x = network_addKnownTypes x (topo_addKnownTypes x Map.empty)"

lemmas runScheme_defs = runScheme_def network_addKnownTypes_def topo_addKnownTypes_def AddKnownTypes_def
  network_SchemeGroupVersion_def topo_SchemeGroupVersion_def

lemmas DeepCopyObject_defs = Network_DeepCopyObject_def Network_DeepCopy_def NetworkList_DeepCopyObject_def
  NetworkList_DeepCopy_def NetworkDesign_DeepCopyObject_def NetworkDesign_DeepCopy_def NetworkDesignList_DeepCopyObject_def
  NetworkDesignList_DeepCopy_def NetworkDevice_DeepCopyObject_def NetworkDevice_DeepCopy_def
  NetworkDeviceList_DeepCopyObject_def NetworkDeviceList_DeepCopy_def Topology_DeepCopyObject_def Topology_DeepCopy_def
  TopologyList_DeepCopyObject_def TopologyList_DeepCopy_def

lemma runScheme_object:
  assumes "externals_ok x" and "runScheme x gvk = Some (t, copy)"
  obtains c where "copy = DeepCopyObject (DeepCopy c)" "isolates t c"
proof -
  have some: "isolates t c \<Longrightarrow> \<exists>c'. DeepCopyObject (DeepCopy c) = DeepCopyObject (DeepCopy c') \<and> isolates t c'" for t c
    by blast
  have "\<exists>c. copy = DeepCopyObject (DeepCopy c) \<and> isolates t c"
    using assms by (auto simp: runScheme_defs DeepCopyObject_defs split: if_splits intro!: some)
  then show thesis using that by blast
qed

section \<open>Properties\<close>

text \<open>
  C10. A deep copy shares nothing with its original. For every object of the scheme and every value of its type, at
  any sharing inside the value, \<open>DeepCopyObject\<close> gives nil for nil and otherwise an object with the same contents
  that reaches no location of the original; whatever is then written through the copy, the original keeps its
  contents.
\<close>

theorem deep_copies_share_nothing:
  assumes x: "externals_ok x" and s: "runScheme x gvk = Some (t, copy)"
    and v: "shape (TPtr t) m v d L" and c: "copy v m = (r, m')"
  shows "(r = None \<longleftrightarrow> v = Ptr None) \<and> shape (TPtr t) m' v d L \<and>
    (\<forall>o'. r = Some o' \<longrightarrow> (\<exists>L'. shape (TPtr t) m' o' d L' \<and> L \<inter> L' = {} \<and>
       (\<forall>l vs. l \<in> L' \<longrightarrow> shape (TPtr t) (setCells l vs m') v d L)))"
proof -
  obtain into where into: "copy = DeepCopyObject (DeepCopy into)" "isolates t into" using runScheme_object [OF x s] .
  obtain w where w: "DeepCopy into v m = (w, m')" "r = (if w \<noteq> Ptr None then Some w else None)"
    using c by (auto simp: into(1) DeepCopyObject_def split: prod.splits)
  from DeepCopy_separate [OF into(2) v w(1)] obtain L' where
    sep: "shape (TPtr t) m' w d L'" "L \<inter> L' = {}" "shape (TPtr t) m' v d L" by metis
  have "w = Ptr None \<longleftrightarrow> v = Ptr None"
    using shape_Ptr_nil [OF v] shape_Ptr_nil [OF sep(1)] by simp
  moreover have "shape (TPtr t) (setCells l vs m') v d L" if "l \<in> L'" for l vs
    using sep that by (intro shape_store) auto
  ultimately show ?thesis using sep w(2) by auto
qed

text \<open>A topology with a region, and an \<open>ObjectMeta\<close> with a slice, in a memory of three locations.\<close>

definition exExternals :: externals where
  "exExternals n = (if n \<in> {''TypeMeta'', ''NodeID'', ''Location''} then (TStruct [(''Name'', TScalar)], assign)
     else (TStruct [(''Name'', TScalar), (''Values'', TSlice TScalar)], copyStruct [(''Values'', copySlice assign)]))"

definition exTopologyValue :: goval where
  "exTopologyValue = Struct
     [(''TypeMeta'', Struct [(''Name'', Scalar ''Topology'')]),
      (''ObjectMeta'', Struct [(''Name'', Scalar ''topo''), (''Values'', Slice (Some (1, 1)))]),
      (''Spec'', Struct [(''Region'', Ptr (Some 2)), (''Site'', Ptr None), (''Location'', Ptr None), (''ContainerLab'', Ptr None)]),
      (''Status'', Struct [(''ConditionedStatus'', Struct [(''Name'', Scalar ''''), (''Values'', Slice None)])])]"

definition exMemory :: gomem where
  "exMemory = \<lparr>mem_cells = (\<lambda>_. [])(0 := [exTopologyValue], 1 := [Scalar ''finalizer''], 2 := [Scalar ''region1'']), mem_next = 3\<rparr>"

lemma exExternals_ok: "externals_ok exExternals"
  by (simp add: externals_ok_def extType_def extDeepCopyInto_def exExternals_def copy_struct)

lemma exTopology_shape: "\<exists>d L. shape (TPtr (Topology_type exExternals)) exMemory (Ptr (Some 0)) d L"
proof -
  note fields = fields_Cons [OF _ fields_Cons [OF _ fields_Nil]]
  let ?meta = "TStruct [(''Name'', TScalar), (''Values'', TSlice TScalar)]"
  have region: "shape (TPtr TScalar) exMemory (Ptr (Some 2)) (Elems [Leaf ''region1'']) {2}"
    by (rule ptr [OF _ _ scalar]) (simp_all add: exMemory_def)
  have slice1: "shape (TSlice TScalar) exMemory (Slice (Some (1, 1))) (Elems [Leaf ''finalizer'']) {1}"
    using shapes_Cons [OF scalar shapes_Nil] by (intro slice [of _ _ _ _ _ "{}"]) (simp_all add: exMemory_def)
  have m: "\<exists>d L. shape ?meta exMemory (Struct [(''Name'', Scalar ''topo''), (''Values'', Slice (Some (1, 1)))]) d L"
    by (intro exI, rule struct, rule fields [OF scalar slice1])
  have st: "\<exists>d L. shape ?meta exMemory (Struct [(''Name'', Scalar ''''), (''Values'', Slice None)]) d L"
    by (intro exI, rule struct, rule fields [OF scalar slice_nil])
  obtain d1 L1 d2 L2 where m': "shape ?meta exMemory (Struct [(''Name'', Scalar ''topo''), (''Values'', Slice (Some (1, 1)))]) d1 L1"
    and st': "shape ?meta exMemory (Struct [(''Name'', Scalar ''''), (''Values'', Slice None)]) d2 L2" using m st by blast
  have spec: "\<exists>d L. shape (TopologySpec_type exExternals) exMemory (Struct [(''Region'', Ptr (Some 2)), (''Site'', Ptr None),
      (''Location'', Ptr None), (''ContainerLab'', Ptr None)]) d L"
    unfolding TopologySpec_type_def
    by (intro exI, rule struct, rule fields_Cons [OF region fields_Cons [OF ptr_nil fields_Cons [OF ptr_nil fields_Cons [OF ptr_nil fields_Nil]]]])
  then obtain d3 L3 where spec': "shape (TopologySpec_type exExternals) exMemory (Struct [(''Region'', Ptr (Some 2)), (''Site'', Ptr None),
      (''Location'', Ptr None), (''ContainerLab'', Ptr None)]) d3 L3" by blast
  have ty: "extType exExternals ''TypeMeta'' = TStruct [(''Name'', TScalar)]" "extType exExternals ''ObjectMeta'' = ?meta"
    "extType exExternals ''ConditionedStatus'' = ?meta"
    by (simp_all add: extType_def exExternals_def)
  have "\<exists>d L. shape (Topology_type exExternals) exMemory exTopologyValue d L"
    unfolding Topology_type_def TopologyStatus_type_def exTopologyValue_def ty
    by (intro exI, rule struct, rule fields_Cons [OF struct [OF fields_Cons [OF scalar fields_Nil]]
      fields_Cons [OF m' fields_Cons [OF spec' fields_Cons [OF struct [OF fields_Cons [OF st' fields_Nil]] fields_Nil]]]])
  then obtain d L where "shape (Topology_type exExternals) exMemory exTopologyValue d L" by blast
  then have "shape (TPtr (Topology_type exExternals)) exMemory (Ptr (Some 0)) (Elems [d]) (insert 0 L)"
    by (rule ptr [rotated 2]) (simp_all add: exMemory_def)
  then show ?thesis by blast
qed

theorem deep_copies_share_nothing_witness:
  "\<exists>o' m' d L L'. Topology_DeepCopyObject exExternals (Ptr (Some 0)) exMemory = (Some o', m') \<and>
     shape (TPtr (Topology_type exExternals)) exMemory (Ptr (Some 0)) d L \<and>
     shape (TPtr (Topology_type exExternals)) m' o' d L' \<and> L \<inter> L' = {}"
proof -
  obtain d L where v: "shape (TPtr (Topology_type exExternals)) exMemory (Ptr (Some 0)) d L" using exTopology_shape by blast
  obtain r m' where r: "Topology_DeepCopyObject exExternals (Ptr (Some 0)) exMemory = (r, m')"
    by (cases "Topology_DeepCopyObject exExternals (Ptr (Some 0)) exMemory")
  have "runScheme exExternals \<lparr>gvk_Group = ''topo.app.kuid.dev'', gvk_Version = ''v1alpha1'', gvk_Kind = ''Topology''\<rparr> =
      Some (Topology_type exExternals, Topology_DeepCopyObject exExternals)"
    by (simp add: runScheme_defs)
  from deep_copies_share_nothing [OF exExternals_ok this v r] have
    "r \<noteq> None" "\<And>o'. r = Some o' \<Longrightarrow> \<exists>L'. shape (TPtr (Topology_type exExternals)) m' o' d L' \<and> L \<inter> L' = {}" by auto
  with r v show ?thesis by (cases r) blast+
qed

end
