(* ===== verification/Spec2Isabelle.thy ===== *)
theory Spec2Isabelle
  imports Example ControllersExample PackageExample LinkController LoopExample DeepCopies
begin

text \<open>
  Verification development for kuidapps, the controllers that turn a network design and an inventory
  into device configurations (Go, under \<open>src/\<close>).

  The program. A \<open>NetworkDesign\<close> resource says how a topology is addressed and routed; a \<open>Network\<close>
  resource is the default (underlay) network of a topology or an overlay of bridges and routers. Three
  controllers work on a network and meet through the conditions of its status: the parameters controller
  claims addresses and AS numbers; the device controller runs the device builder (\<open>pkg/devbuilder\<close>), which
  reads links, nodes, endpoints and the claims from the API server and makes one \<open>NetworkDevice\<close> per node;
  the network controller deploys the configurations once both are done, and starts over when the network or
  its design changes. A package controller does the last step for networks that come in a package, and writes
  the configurations back to it. Other controllers claim the pools of a design, turn a containerlab file into nodes and
  links, and claim the two endpoints of a link. Event handlers wake them.

  Theories and the code they model.

    \<^item> \<open>Prelude\<close>: results (an error or a panic, or a value), loops that stop at the first error
      (\<open>forE\<close>), and the keyed slices (\<open>getOrCreate\<close>, locales \<open>keyed_slice\<close> and \<open>name_slice\<close>) that every
      find-or-create method of \<open>device.go\<close> is an instance of.
    \<^item> \<open>GoStrings\<close>, \<open>External\<close>: the functions of \<open>strings\<close> and \<open>strconv\<close> the code calls, and the interface
      to code that is not under \<open>src/\<close>: the API server (\<open>client\<close>), and \<open>iputil\<close> and the printers of ids
      (\<open>env\<close>). They are parameters of the model.
    \<^item> \<open>DeviceTypes\<close>, \<open>Device\<close>, \<open>DeviceProtocols\<close>: \<open>networkdevice_type.go\<close> and \<open>device.go\<close>. A method that
      returns a pointer into the device takes what its caller writes through that pointer.
    \<^item> \<open>DeviceInvariant\<close>: every slice at every depth is in strict order of its sort key
      (\<open>device_wf\<close>), one preservation lemma per method.
    \<^item> \<open>DevicesStore\<close>: \<open>devices.go\<close>, the map of devices by node; its operations as the steps of
      \<open>devices_step\<close>; the locale \<open>devices_invariant\<close>, interpreted for three invariants.
    \<^item> \<open>Readback\<close>: a device as nested finite maps; the operations are pointwise updates of these maps.
    \<^item> \<open>NetworkDesign\<close>: \<open>networkdesign_types.go\<close> and the predicates, address families and protocol
      parameters of \<open>networkdesign_interfaces.go\<close>.
    \<^item> \<open>Network\<close>: \<open>network_types.go\<close>, \<open>network_interfaces.go\<close>, \<open>condition.go\<close>.
    \<^item> \<open>Link\<close>: \<open>link.go\<close>. The BFD numbers are pointers shared with the design, and the code writes
      through them, so they live in a heap (\<open>db_heap\<close> of the builder).
    \<^item> \<open>BuilderGather\<close>, \<open>BuilderUnderlay\<close>, \<open>BuilderOverlay\<close>: \<open>api.go\<close>, \<open>node.go\<close>, \<open>rr.go\<close> and \<open>builder.go\<close>.
    \<^item> \<open>BuildRuns\<close>, \<open>BuildResults\<close>: every function of the builder is a run of device steps on its nodes;
      what a successful build has gathered; the nodes of its devices.
    \<^item> \<open>References\<close>, \<open>NamesResolve\<close>: every name in a built device resolves (\<open>device_refs\<close>): the functions of
      the builder, in the order they write, keep it.
    \<^item> \<open>Sessions\<close>, \<open>OverlayResults\<close>: the eBGP sessions of a link, the addresses the route reflectors
      learn, and what an overlay reads back as.
    \<^item> \<open>Claims\<close>: the claims of a design, its nodes and its links (\<open>networkdesign_interfaces.go\<close>).
    \<^item> \<open>Reconcile\<close>: one call of a controller as the calls it makes, in order, its result and its error; the
      locales \<open>finalized\<close> and \<open>controller\<close> are the discipline of the finalizer, which the controllers'
      theories interpret on their \<open>Reconcile\<close>.
    \<^item> \<open>NetworkParams\<close>, \<open>DeviceController\<close>, \<open>NetworkController\<close>, \<open>Readiness\<close>: the reconcilers of a network
      (\<open>reconcilers/networkparams\<close>, \<open>networkdevice\<close>, \<open>network\<close>); that the claims made are the claims the
      builder reads; what is applied and when; what the status says of it.
    \<^item> \<open>NetworkCluster\<close>: runs of the three on one network in any order; they bring it up.
    \<^item> \<open>Wiring\<close>: \<open>main.go\<close>, \<open>reconcilers.go\<close>, \<open>all.go\<close> and every \<open>SetupWithManager\<close>: the controllers a process
      starts, and the requests an event gives each of them.
    \<^item> \<open>EventLoop\<close>: the three controllers of a network run on their requests (\<open>loop_step\<close>): they come to rest
      with the network ready, redeploy after a change of the design, and spin when devices are refused.
    \<^item> \<open>ConcurrentLoop\<close>: the three at the same time, on a cache that lags behind the server and with status
      updates that meet conflicts (\<open>server_step\<close>): every such execution is one of \<open>EventLoop\<close>,
      and in a healthy cluster it can come to rest from every state.
    \<^item> \<open>DesignController\<close>, \<open>LinkController\<close>: the reconcilers of designs and links.
    \<^item> \<open>Clab\<close>, \<open>TopologyController\<close>: \<open>clabkuid.go\<close>, \<open>topology_interfaces.go\<close> and the reconciler of topologies.
    \<^item> \<open>EventHandlers\<close>: the seven handlers of \<open>reconcilers/eventhandler\<close>.
    \<^item> \<open>Lease\<close>: \<open>lease.go\<close>, and any number of concurrent attempts on one server.
    \<^item> \<open>PackageController\<close>: the reconciler of package revisions (\<open>reconcilers/networkpackage\<close>), and what it
      means for the other controllers.
    \<^item> \<open>GoHeap\<close>, \<open>CopyDesign\<close>, \<open>CopyDevice\<close>, \<open>CopyNetwork\<close>: both \<open>zz_generated.deepcopy.go\<close>, on a memory of Go
      values with pointers and slices (\<open>gomem\<close>). For each type \<open>T\<close> of the API there are its fields (\<open>T_type\<close>), its
      copier (\<open>T_DeepCopyInto\<close>, \<open>T_DeepCopy\<close>, \<open>T_DeepCopyObject\<close>), and a lemma that the copier separates (\<open>isolates\<close>).
    \<^item> \<open>DeepCopies\<close>: the two \<open>register.go\<close> and the scheme of \<open>main.go\<close>; what a deep copy of an object of the
      scheme promises.
    \<^item> \<open>Example\<close>, \<open>ControllersExample\<close>, \<open>LoopExample\<close>, \<open>PackageExample\<close>: a concrete inventory, design,
      networks and API server on which the properties are exercised.

  Choices. Go's map iterations have no order: the build takes a \<open>schedule\<close> that lists the keys each
  iteration visits, and the theorems hold for every schedule or say what they need of it. A nil dereference
  or an index out of range is the result \<open>Panic\<close>; the devices a failing build has already written are
  not returned, as the caller drops the builder. Integers are words of their width. There is no fuel: all
  recursion is structural. Mutexes are left out, since each operation holds its own from start to end.

  A controller meets the cluster as a record of answers, one per call it can make (\<open>api\<close> and the records
  that extend its theory), and the theorems hold for all answers or say what they assume; the calls of one
  run are a list, and runs compose by writing their statuses back. The link controller works on a store of
  endpoints, and the lease on a server whose updates compare resource versions.

  In the event loop a controller has one request for the network or none, as the queue of the framework keeps one
  per key; a run reads the network as the last run left it and takes the request away; it asks for itself again
  when it returns an error or a requeue, and wakes every controller whose set-up selects the change it wrote. The
  delay of a request that is asked for later is not modelled: a waiting controller may run at any time. The bound
  of 43 runs is a weight of the status (at most 10) for each of which four runs are enough, and one run for
  each of the three requests.

  With the controllers at the same time the server keeps every version of the network, the cache has one of them,
  and a call has read the one that was in the cache when it began. What the framework does is taken as documented:
  one worker per key and controller, an event after the cache has the version, and a conflict for an update of
  anything but the last version. Spec and design stay the same in one execution.

  The other theories have values where Go has pointers: the reconcilers work on \<open>cr.DeepCopy()\<close>, and
  \<open>deep_copies_share_nothing\<close> is why what they write there is theirs alone. Only the BFD numbers, which
  the builder shares with the design it was given, are kept in a heap.

  Not modelled: logging; JSON, YAML and SHA-1 (\<open>CalculateHash\<close>, the containerlab loader), which are
  parameters; the other modules, whose types and copiers are parameters too (\<open>externals\<close>); the helpers of the
  tests; code that is commented out.
\<close>

section \<open>The build\<close>

text \<open>
  C1. A successful build has a device for exactly the nodes of its network (the ends of the infra links
  for the default network, the nodes of the static interfaces of bridges and routers otherwise), each
  with all its slices in strict order, named after network and node, and with an empty status.
\<close>

theorem build_devices:
  assumes "Build inp sch (NewBuilder inp h) = Inr b"
  shows "dom (dvs_devices (db_devices b)) = buildNodes inp \<and>
    (\<forall>n d. dvs_devices (db_devices b) n = Some d \<longrightarrow>
       device_wf d \<and> device_named (GetNamespacedName (inp_network inp)) n d)"
  using Build_run(2) [OF assms] dvs_wf.run_from_new [OF Build_run(1) [OF assms]]
    dvs_named.run_from_new [OF Build_run(1) [OF assms]] by blast

theorem build_devices_witness:
  "\<exists>b :: DeviceBuilder. dom (dvs_devices (db_devices b)) = {''n0''} \<and>
     (\<forall>n d. dvs_devices (db_devices b) n = Some d \<longrightarrow>
       device_wf d \<and> device_named (GetNamespacedName exOverlay) n d)"
proof -
  obtain b where "Build exOverlayInputs exSchedule (NewBuilder exOverlayInputs (\<lambda>_. 0)) = Inr b"
    using ex_Build_overlay by blast
  from build_devices [OF this] show ?thesis
    unfolding ex_buildNodes_overlay by (intro exI [of _ b]) (simp add: exOverlayInputs_def)
qed

text \<open>
  C17. No device of a build carries a level of an ISIS interface, whatever metric, level and network type
  the links ask for: the builder computes them, and the device drops them.
\<close>

theorem isis_interface_levels_dropped:
  assumes "Build inp sch (NewBuilder inp h) = Inr b" and "dvs_devices (db_devices b) n = Some d"
  shows "device_bare d"
  using Build_run(1) [OF assms(1)] assms(2) by (rule dvs_bare.run_from_new)

theorem isis_interface_levels_dropped_witness:
  "\<exists>(b :: DeviceBuilder) d. dvs_devices (db_devices b) ''n0'' = Some d \<and> device_bare d"
proof -
  obtain b where b: "Build exInputs exSchedule exNew = Inr b" using ex_Build by blast
  have "''n0'' \<in> dom (dvs_devices (db_devices b))" by (simp only: Build_run(2) [OF b] ex_buildNodes) simp
  then obtain d where d: "dvs_devices (db_devices b) ''n0'' = Some d" unfolding dom_def mem_Collect_eq by blast
  from isis_interface_levels_dropped [OF b d] d show ?thesis by blast
qed

text \<open>
  C12. The two ends of an eBGP link configure one session: each end finds, under the address of the other,
  a neighbor whose local and peer addresses and AS numbers are those of the other end exchanged, and these
  are what the claims of the two ends say.
\<close>

theorem ebgp_sessions_mirror:
  assumes build: "buildLink inp il b = Inr b'" and b: "nodes_ok inp b"
    and ebgp: "IsEBGPEnabled (inp_design inp)" and v4: "IsUnderlayIPv4Numbered (inp_design inp)"
    and nodes: "linkNode il 0 \<noteq> linkNode il 1"
    and nonempty: "\<forall>s pi. env_iputil_New (inp_env inp) s = Some pi \<longrightarrow> ipi_Address pi \<noteq> ''''"
    and families: "IsUnderlayIPv6Numbered (inp_design inp) \<longrightarrow>
      endAddress inp il 0 ''ipv6'' \<noteq> endAddress inp il 0 ''ipv4'' \<and>
      endAddress inp il 1 ''ipv6'' \<noteq> endAddress inp il 1 ''ipv4''"
  shows "\<exists>x y. neighborOf (deviceOf (db_devices b') (linkNode il 0)) (networkName inp) (nb_PeerAddress x) = Some x \<and>
    neighborOf (deviceOf (db_devices b') (linkNode il 1)) (networkName inp) (nb_PeerAddress y) = Some y \<and>
    nb_LocalAddress x = nb_PeerAddress y \<and> nb_PeerAddress x = nb_LocalAddress y \<and>
    nb_LocalAS x = nb_PeerAS y \<and> nb_PeerAS x = nb_LocalAS y \<and>
    endAddress inp il 0 ''ipv4'' = Inr (nb_LocalAddress x) \<and> endAddress inp il 1 ''ipv4'' = Inr (nb_LocalAddress y) \<and>
    getASClaim inp (claim2 inp (linkNode il 0)) = Inr (nb_LocalAS x) \<and>
    getASClaim inp (claim2 inp (linkNode il 1)) = Inr (nb_LocalAS y)"
proof -
  from build obtain l b1 b2 b3 where
    g: "gatherLinkAndNodeInfo inp il b = Inr (l, b1)" and
    e0: "updateUnderlayInterfaceEnd inp l 0 b2 = Inr b3" and
    e1: "updateUnderlayInterfaceEnd inp l 1 b3 = Inr b'"
    by (auto simp: buildLink_def updateUnderlayInterfaceDeviceConfig_def bindR_Inr_iff)
  note r = gatherLinkAndNodeInfo_result [OF g b]
  have names: "getNodeName 0 l = linkNode il 0" "getNodeName 1 l = linkNode il 1"
    and as: "getASClaim inp (claim2 inp (linkNode il 0)) = Inr (getAS 0 l)"
      "getASClaim inp (claim2 inp (linkNode il 1)) = Inr (getAS 1 l)"
    using r(1,2) ebgp by (simp_all add: gathered_def)
  note addresses = gathered_endAddress [OF r(1)] gathered_endAddress [OF r(2)]
  obtain x where x: "ebgpNeighbor inp getIpv4 l 0 = Inr x"
    "neighborOf (deviceOf (db_devices b3) (linkNode il 0)) (networkName inp) (nb_PeerAddress x) = Some x"
    using ebgp_link_end [OF e0 ebgp v4 nonempty] families addresses v4 by (auto simp: names names(2) [unfolded One_nat_def])
  obtain y where y: "ebgpNeighbor inp getIpv4 l 1 = Inr y"
    "neighborOf (deviceOf (db_devices b') (linkNode il 1)) (networkName inp) (nb_PeerAddress y) = Some y"
    using ebgp_link_end [OF e1 ebgp v4 nonempty] families addresses v4 by (auto simp: names names(2) [unfolded One_nat_def])
  have "devices_run {linkNode il 1} (db_devices b3) (db_devices b')"
    by (rule run_updateUnderlayInterfaceEnd [OF e1 devices_run_refl]) (simp add: names(2) [unfolded One_nat_def])
  with nodes have "deviceOf (db_devices b') (linkNode il 0) = deviceOf (db_devices b3) (linkNode il 0)"
    by (intro devices_run_deviceOf) auto
  with x(2) y(2) ebgpNeighbor_fields(1-4) [OF x(1)] ebgpNeighbor_fields(1-4) [OF y(1)] addresses v4 as
  show ?thesis by (intro exI [of _ x] exI [of _ y]) simp
qed

theorem ebgp_sessions_mirror_witness:
  "\<exists>(b :: DeviceBuilder) x y. neighborOf (deviceOf (db_devices b) ''n0'') ''default'' (nb_PeerAddress x) = Some x \<and>
    neighborOf (deviceOf (db_devices b) ''n1'') ''default'' (nb_PeerAddress y) = Some y \<and>
    nb_LocalAddress x = nb_PeerAddress y \<and> nb_LocalAS x = 65000 \<and> nb_PeerAS x = 65001"
proof -
  obtain b where b: "buildLink exInputs exLink exNew = Inr b" using ex_buildLink by blast
  have "linkEP exLink 0 = ''e1-1''" "linkEP exLink (Suc 0) = ''e1-1''"
    by (simp_all add: linkEP_def exEndpoint_def)
  then have "IsUnderlayIPv6Numbered (inp_design exInputs) \<longrightarrow>
      endAddress exInputs exLink 0 ''ipv6'' \<noteq> endAddress exInputs exLink 0 ''ipv4'' \<and>
      endAddress exInputs exLink 1 ''ipv6'' \<noteq> endAddress exInputs exLink 1 ''ipv4''"
    by (simp add: endAddress_def)
  moreover have "\<forall>s pi. env_iputil_New (inp_env exInputs) s = Some pi \<longrightarrow> ipi_Address pi \<noteq> ''''"
    by (simp add: exEnv_def)
  moreover have "IsEBGPEnabled (inp_design exInputs)" "IsUnderlayIPv4Numbered (inp_design exInputs)"
    "linkNode exLink 0 \<noteq> linkNode exLink 1" by simp_all
  ultimately obtain x y where
    "neighborOf (deviceOf (db_devices b) (linkNode exLink 0)) (networkName exInputs) (nb_PeerAddress x) = Some x"
    "neighborOf (deviceOf (db_devices b) (linkNode exLink 1)) (networkName exInputs) (nb_PeerAddress y) = Some y"
    "nb_LocalAddress x = nb_PeerAddress y" "nb_PeerAS x = nb_LocalAS y"
    "getASClaim exInputs (claim2 exInputs (linkNode exLink 0)) = Inr (nb_LocalAS x)"
    "getASClaim exInputs (claim2 exInputs (linkNode exLink 1)) = Inr (nb_LocalAS y)"
    using ebgp_sessions_mirror [OF b ex_nodes_ok] by blast
  then show ?thesis by (intro exI [of _ b] exI [of _ x] exI [of _ y]) simp
qed

text \<open>
  C15. A link to a node without a device type label stops the build with a nil dereference, after all its
  claims were found: the node is read but not added.
\<close>

theorem unlabelled_node_panics:
  assumes "gatherLinkAndNodeInfo inp il b = Inr (l, b1)" and "nodes_ok inp b"
    and "lookupNode inp (linkNodeID il 0) = Inr m"
    and "in_Labels m (env_KuidINVNetworkDeviceType (inp_env inp)) = None"
    and "linkNode il 1 \<noteq> linkNode il 0"
    and "db_nodes b (linkNode il 0) = None" and "linkNode il 0 \<notin> db_nodeSet b"
  shows "buildLink inp il b = Inl nilDereference"
proof -
  note r = gatherLinkAndNodeInfo_result [OF assms(1,2)]
  from assms(1) obtain l0 b0 where
    g0: "gatherEnd inp il 0 (newLink il, b) = Inr (l0, b0)" and
    g1: "gatherEnd inp il 1 (l0, b0) = Inr (l, b1)"
    by (auto simp: gatherLinkAndNodeInfo_def bindR_Inr_iff)
  have "db_nodes b1 (linkNode il 0) = None"
    using gatherEnd_unlabelled [OF g0 assms(3,4,6)] gatherEnd_other [OF g1] assms(5) by simp
  moreover have "getNodeName 0 l = linkNode il 0" "linkNode il 0 \<notin> db_nodeSet b1"
    using r(1,6) assms(7) by (simp_all add: gathered_def)
  ultimately show ?thesis
    by (simp add: buildLink_def assms(1) updateBaseDeviceConfig_def updateBaseEnd_def nodes_Get_def)
qed

theorem unlabelled_node_panics_witness:
  "buildLink exUnlabelled exLink exNew = Inl nilDereference"
proof -
  obtain l b where g: "gatherLinkAndNodeInfo exUnlabelled exLink exNew = Inr (l, b)"
    using ex_unlabelled_gather by blast
  obtain m where m: "lookupNode exUnlabelled (linkNodeID exLink 0) = Inr m" "in_Labels m = Map.empty"
    using ex_unlabelled_lookup by blast
  show ?thesis
    by (rule unlabelled_node_panics [OF g _ m(1)]) (simp_all add: m(2) NewBuilder_def nodes_ok_def)
qed

text \<open>
  C21. Every node of a default network is in the map of nodes of a successful build, with the provider and
  the system id of the inventory, and the AS, the loopback addresses and the router id of its claims.
\<close>

theorem build_nodes_gathered:
  assumes "Build inp sch (NewBuilder inp h) = Inr b" and "IsDefaultNetwork (inp_network inp)"
    and "k \<in> buildNodes inp"
  shows "\<exists>n. db_nodes b k = Some n \<and> node_gathered inp k n"
proof -
  have "BuildUnderlay inp sch (NewBuilder inp h) = Inr b" using assms(1,2) by (simp add: Build_def)
  then show ?thesis
  proof (rule BuildUnderlay_result)
    fix links
    assume "GetLinks inp = Inr links" "underlay_inv inp (underlayNodes links) b"
      "underlayNodes links \<subseteq> dom (db_nodes b)"
    with assms(2,3) show ?thesis
      by (fastforce simp: buildNodes_def underlay_inv_def nodes_ok_def)
  qed
qed

theorem build_nodes_gathered_witness:
  "\<exists>(b :: DeviceBuilder) n. db_nodes b ''n0'' = Some n \<and> node_gathered exInputs ''n0'' n"
proof -
  obtain b where "Build exInputs exSchedule exNew = Inr b" using ex_Build by blast
  from build_nodes_gathered [OF this, of "''n0''"] show ?thesis by (auto simp: ex_buildNodes)
qed

text \<open>
  C18. When the listing of the reflectors is complete, each route reflector learns of the edge nodes: one
  address per edge node, in the order of the nodes, of the family of the reflector.
\<close>

theorem reflectors_learn_edge_nodes:
  assumes "edgePhase inp sch b (ds, \<lambda>_. []) = Inr (ds', ips)" and "db_rrs b name = Some x"
    and "\<forall>n. name \<in> set (sch_edgeRRs sch n) \<and> distinct (sch_edgeRRs sch n)"
  shows "map Inr (ips name) =
    map (\<lambda>n. rrLocalAddress inp n x) (filter nn_edge (nodes_List (sch_edgeNodes sch) (db_nodes b)))"
  using edge_nodes_ips [OF assms(1) [unfolded edgePhase_def] assms(2)] assms(3) by simp

theorem reflectors_learn_edge_nodes_witness:
  "\<exists>ds ips. edgePhase exInputs exSchedule exMesh (db_devices exMesh, \<lambda>_. []) = Inr (ds, ips) \<and>
     ips ''topo.default.n0.ipv4'' = [''1.0.0.0'', ''1.0.0.1'']"
proof -
  obtain ds ips where e: "edgePhase exInputs exSchedule exMesh (db_devices exMesh, \<lambda>_. []) = Inr (ds, ips)"
    using ex_edgePhase by blast
  have "db_rrs exMesh ''topo.default.n0.ipv4'' = Some \<lparr>rr_ip = ''1.0.0.0'', rr_ipv4 = True\<rparr>"
    by (simp add: exMesh_def)
  from reflectors_learn_edge_nodes [OF e this]
  have "map Inr (ips ''topo.default.n0.ipv4'') = (map Inr [''1.0.0.0'', ''1.0.0.1''] :: string res list)"
    by (simp add: exSchedule_def exMesh_def nodes_List_def List.map_filter_simps exNodes_def exNodeInfo_def
        rrLocalAddress_def)
  then have "ips ''topo.default.n0.ipv4'' = [''1.0.0.0'', ''1.0.0.1'']"
    by (simp only: inj_map_eq_map inj_Inr)
  with e show ?thesis by blast
qed

text \<open>
  C29. A bridge interface that is configured gives its node the sub interface of the bridge id with the
  VLAN of the interface (or the id), a network instance of type mac-vrf, and the EVI and route targets of
  the id.
\<close>

theorem bridge_config_result:
  "let d = deviceOf (bridgeConfig inp bd i itfce n ep ds) n in
    subInterfaceOf d (ie_Endpoint ep) i =
      Some ((fresh_SubInterface i)\<lparr>si_PeerName := ''customer'', si_Type := SubInterfaceType_Bridged,
        si_VLAN := Some (interfaceVLAN i itfce)\<rparr>) \<and>
    niTypeOf d bd = Some NetworkInstanceType_MACVRF \<and>
    evpnOf d bd = Some \<lparr>evpn_EVI = i, evpn_ECMP = 2, evpn_VXLANInterface = VXLANInterfaceName\<rparr> \<and>
    vpnOf d bd = Some \<lparr>vpn_ImportRouteTarget = routeTarget inp i, vpn_ExportRouteTarget = routeTarget inp i\<rparr>"
proof -
  let ?ds' = "bridgeConfig inp bd i itfce n ep ds"
  let ?x = "(fresh_SubInterface i)\<lparr>si_PeerName := ''customer'', si_Type := SubInterfaceType_Bridged,
        si_VLAN := Some (interfaceVLAN i itfce)\<rparr>"
  have "si_ID ?x = i" by (simp add: fresh_SubInterface_def)
  then have "subInterfaceOf (deviceOf ?ds' n) (ie_Endpoint ep) i = Some ?x"
    using AddSubInterface_found [of n "ie_Endpoint ep" ?x]
    by (simp add: bridgeConfig_def Let_def subInterfaceOf_def)
  moreover have "niTypeOf (deviceOf ?ds' n) bd = Some NetworkInstanceType_MACVRF"
    unfolding bridgeConfig_def Let_def
    by (intro niTypeOf_keep) (simp add: niTypeOf_def AddNetworkInstance_def read fresh_NetworkInstance_def)
  ultimately show ?thesis
    by (simp add: bridgeConfig_def Let_def addVPN_read)
qed

end
